(* ===== verification/Prelude.thy ===== *)
theory Prelude
  imports Main "HOL-Library.AList" "HOL-Library.Char_ord" "HOL-Library.List_Lexorder"
    "HOL-Library.Sublist" "HOL-Library.Multiset"
begin

text \<open>
  What every component shares: the string functions of Go's standard library the code
  uses, on byte strings; association lists for Go maps; and the collections the component
  theories feed their simplification rules into.

  A Go string is a byte sequence, so \<^typ>\<open>string\<close> (a list of 8-bit characters)
  is its model and \<^const>\<open>length\<close> is Go's \<open>len\<close>. The case and white-space
  tables cover ASCII: \<open>strings.ToLower\<close> and \<open>strings.TrimSpace\<close> leave every
  byte outside ASCII alone here, while Go also maps the letters and spaces of Unicode.
  A Go map is an association list whose keys are distinct where an operation ranges over
  it (the order of the list stands for the unspecified iteration order), and a
  \<^typ>\<open>'k \<rightharpoonup> 'v\<close> where it only looks keys up.
\<close>

named_theorems accessors \<open>field equations of updated states\<close>
named_theorems errs \<open>sentinels of the errors an operation answers\<close>

section \<open>Strings\<close>

definition is_space :: "char \<Rightarrow> bool" where
  "is_space c \<longleftrightarrow>
     List.member [CHR '' '', CHR 0x09, CHR 0x0A, CHR 0x0B, CHR 0x0C, CHR 0x0D] c"

definition trim_space :: "string \<Rightarrow> string" where
  "trim_space s = rev (dropWhile is_space (rev (dropWhile is_space s)))"

definition trim_right :: "char \<Rightarrow> string \<Rightarrow> string" where
  "trim_right c s = rev (dropWhile (\<lambda>x. x = c) (rev s))"

definition trim_prefix :: "string \<Rightarrow> string \<Rightarrow> string" where
  "trim_prefix p s = (if prefix p s then drop (length p) s else s)"

definition is_digit :: "char \<Rightarrow> bool" where
  "is_digit c \<longleftrightarrow> CHR ''0'' \<le> c \<and> c \<le> CHR ''9''"

definition is_lower :: "char \<Rightarrow> bool" where
  "is_lower c \<longleftrightarrow> CHR ''a'' \<le> c \<and> c \<le> CHR ''z''"

definition is_upper :: "char \<Rightarrow> bool" where
  "is_upper c \<longleftrightarrow> CHR ''A'' \<le> c \<and> c \<le> CHR ''Z''"

definition lower_char :: "char \<Rightarrow> char" where
  "lower_char c = (if is_upper c then char_of (of_char c + 32 :: nat) else c)"

definition to_lower :: "string \<Rightarrow> string" where
  "to_lower s = map lower_char s"

text \<open>\<open>strings.Cut\<close> at a one-byte separator: before, after, found.\<close>

fun cut :: "char \<Rightarrow> string \<Rightarrow> string \<times> string \<times> bool" where
  "cut c [] = ([], [], False)"
| "cut c (x # xs) =
     (if x = c then ([], xs, True)
      else case cut c xs of (b, a, f) \<Rightarrow> (x # b, if f then a else [], f))"

text \<open>\<open>strings.Join\<close>.\<close>

fun join :: "string \<Rightarrow> string list \<Rightarrow> string" where
  "join sep [] = []"
| "join sep [x] = x"
| "join sep (x # y # ys) = x @ sep @ join sep (y # ys)"

text \<open>\<open>strings.Contains\<close>.\<close>

fun contains_str :: "string \<Rightarrow> string \<Rightarrow> bool" where
  "contains_str sub [] = (sub = [])"
| "contains_str sub (x # xs) = (prefix sub (x # xs) \<or> contains_str sub xs)"

text \<open>Decimal numbers: \<open>%d\<close> and \<open>strconv.Atoi\<close> on 64-bit integers.\<close>

definition digit_char :: "nat \<Rightarrow> char" where
  "digit_char d = char_of (48 + d)"

fun show_nat :: "nat \<Rightarrow> string" where
  "show_nat n = (if n < 10 then [digit_char n] else show_nat (n div 10) @ [digit_char (n mod 10)])"

declare show_nat.simps [simp del]

definition show_int :: "int \<Rightarrow> string" where
  "show_int i = (if i < 0 then CHR ''-'' # show_nat (nat (- i)) else show_nat (nat i))"

definition digit_value :: "char \<Rightarrow> nat" where
  "digit_value c = of_char c - 48"

definition digits_value :: "string \<Rightarrow> nat" where
  "digits_value s = foldl (\<lambda>n c. 10 * n + digit_value c) 0 s"

definition parse_int64 :: "string \<Rightarrow> int option" where
  "parse_int64 s =
     (let (neg, ds) =
        (case s of [] \<Rightarrow> (False, [])
         | c # cs \<Rightarrow> if c = CHR ''-'' then (True, cs)
                    else if c = CHR ''+'' then (False, cs) else (False, s));
        v = (if neg then - int (digits_value ds) else int (digits_value ds))
      in if ds = [] \<or> \<not> list_all is_digit ds then None
         else if - (2 ^ 63) \<le> v \<and> v < 2 ^ 63 then Some v else None)"

text \<open>\<open>%q\<close> on a string without characters Go would escape.\<close>

definition quoted :: "string \<Rightarrow> string" where
  "quoted s = CHR 0x22 # s @ [CHR 0x22]"

text \<open>The bytes of the em dash the messages use.\<close>

definition em_dash :: string where
  "em_dash = [CHR 0xE2, CHR 0x80, CHR 0x94]"

lemma trim_space_Nil [simp]: "trim_space [] = []"
  by (simp add: trim_space_def)

lemma dropWhile_fixed: "xs = [] \<or> \<not> P (hd xs) \<Longrightarrow> dropWhile P xs = xs"
  by (cases xs) auto

lemma hd_dropWhile_rev:
  assumes "ys \<noteq> []" "\<not> P (hd ys)"
  shows "dropWhile P (rev ys) \<noteq> [] \<and> \<not> P (last (dropWhile P (rev ys)))"
proof -
  obtain z zs where ys: "ys = z # zs" "\<not> P z" using assms by (cases ys) auto
  have "dropWhile P (ws @ [z]) \<noteq> [] \<and> last (dropWhile P (ws @ [z])) = z" for ws
    using ys(2) by (induction ws) auto
  with ys show ?thesis by simp
qed

lemma trim_space_ends:
  "trim_space s = [] \<or> \<not> is_space (hd (trim_space s)) \<and> \<not> is_space (last (trim_space s))"
proof -
  let ?t = "dropWhile is_space s"
  show ?thesis
  proof (cases "?t = []")
    case True
    then show ?thesis unfolding trim_space_def by (simp only: rev.simps dropWhile.simps) simp
  next
    case False
    then have "\<not> is_space (hd ?t)" by (rule hd_dropWhile)
    with False have ne: "dropWhile is_space (rev ?t) \<noteq> []"
      and l: "\<not> is_space (last (dropWhile is_space (rev ?t)))"
      using hd_dropWhile_rev by blast+
    from ne have "\<not> is_space (hd (dropWhile is_space (rev ?t)))" by (rule hd_dropWhile)
    with ne l show ?thesis by (simp add: trim_space_def hd_rev last_rev)
  qed
qed

lemma trim_space_fixed:
  assumes "s = [] \<or> \<not> is_space (hd s) \<and> \<not> is_space (last s)"
  shows "trim_space s = s"
proof -
  have "dropWhile is_space s = s" using assms by (intro dropWhile_fixed) auto
  moreover have "dropWhile is_space (rev s) = rev s"
    using assms by (intro dropWhile_fixed) (auto simp: hd_rev)
  ultimately show ?thesis by (simp add: trim_space_def)
qed

lemma trim_space_idem [simp]: "trim_space (trim_space s) = trim_space s"
  by (rule trim_space_fixed) (rule trim_space_ends)

lemma cut_not_found: "cut c s = (b, a, False) \<Longrightarrow> b = s \<and> a = [] \<and> c \<notin> set s"
  by (induction s arbitrary: b a) (auto split: if_splits prod.splits)

lemma cut_found: "cut c s = (b, a, True) \<Longrightarrow> s = b @ c # a \<and> c \<notin> set b"
  by (induction s arbitrary: b a) (auto split: if_splits prod.splits)

lemma length_trim_right: "length (trim_right c s) \<le> length s"
  by (simp add: trim_right_def) (metis length_dropWhile_le length_rev)

lemma set_trim_right: "set (trim_right c s) \<subseteq> set s"
  by (auto simp: trim_right_def dest: set_dropWhileD)

lemma trim_right_prefix: "\<exists>t. s = trim_right c s @ t"
proof -
  have "rev s = takeWhile (\<lambda>x. x = c) (rev s) @ dropWhile (\<lambda>x. x = c) (rev s)" by simp
  then have "s = rev (dropWhile (\<lambda>x. x = c) (rev s)) @ rev (takeWhile (\<lambda>x. x = c) (rev s))"
    by (metis rev_append rev_rev_ident)
  then show ?thesis unfolding trim_right_def by blast
qed

lemma last_trim_right: "trim_right c s \<noteq> [] \<Longrightarrow> last (trim_right c s) \<noteq> c"
  using hd_dropWhile [of "\<lambda>x. x = c" "rev s"] by (simp add: trim_right_def last_rev)

lemma hd_trim_right: "s \<noteq> [] \<Longrightarrow> hd s \<noteq> c \<Longrightarrow> trim_right c s \<noteq> [] \<and> hd (trim_right c s) = hd s"
proof -
  assume s: "s \<noteq> []" "hd s \<noteq> c"
  then obtain x xs where x: "s = x # xs" "x \<noteq> c" by (cases s) auto
  then have ne: "dropWhile (\<lambda>y. y = c) (rev s) \<noteq> []"
    by (auto simp: dropWhile_eq_Nil_conv)
  obtain t where t: "s = trim_right c s @ t" using trim_right_prefix by blast
  from ne have "trim_right c s \<noteq> []" by (simp add: trim_right_def)
  with t show ?thesis by (metis hd_append2)
qed

section \<open>Maps and lists\<close>

text \<open>A Go map literal read by key: the zero value \<open>""\<close> for a missing key.\<close>

definition get_label :: "(string \<rightharpoonup> string) \<Rightarrow> string \<Rightarrow> string" where
  "get_label m k = (case m k of None \<Rightarrow> [] | Some v \<Rightarrow> v)"

lemma get_label_upd [simp]: "get_label (m(k \<mapsto> v)) j = (if j = k then v else get_label m j)"
  by (simp add: get_label_def)

lemma get_label_empty [simp]: "get_label Map.empty k = []"
  by (simp add: get_label_def)

text \<open>The first element that satisfies a predicate, as a loop with an early return finds it.\<close>

lemma find_Some: "find P xs = Some x \<Longrightarrow> x \<in> set xs \<and> P x"
  by (induction xs) (auto split: if_splits)

lemma find_None: "find P xs = None \<longleftrightarrow> (\<forall>x\<in>set xs. \<not> P x)"
  by (induction xs) auto

text \<open>A predicate that holds of at most one element is found whatever the order.\<close>

lemma find_unique:
  assumes "x \<in> set xs" "P x" "\<And>y. y \<in> set xs \<Longrightarrow> P y \<Longrightarrow> y = x"
  shows "find P xs = Some x"
proof (cases "find P xs")
  case None
  with assms(1,2) show ?thesis by (simp add: find_None)
next
  case (Some y)
  then have "y \<in> set xs" "P y" by (simp_all add: find_Some)
  then have "y = x" by (rule assms(3))
  with Some show ?thesis by simp
qed

lemma find_order_irrelevant:
  assumes "set xs = set ys"
    and "\<And>x y. x \<in> set xs \<Longrightarrow> y \<in> set xs \<Longrightarrow> P x \<Longrightarrow> P y \<Longrightarrow> x = y"
  shows "find P xs = find P ys"
proof (cases "find P xs")
  case None
  with assms(1) have "find P ys = None" by (simp add: find_None)
  with None show ?thesis by simp
next
  case (Some x)
  then have x: "x \<in> set xs" "P x" by (auto dest: find_Some)
  have "find P ys = Some x"
  proof (rule find_unique)
    show "x \<in> set ys" "P x" using x assms(1) by simp_all
    show "y = x" if "y \<in> set ys" "P y" for y
      using that x assms(1) by (intro assms(2)) simp_all
  qed
  with Some show ?thesis by simp
qed

text \<open>A list sorted strictly by a key is determined by its elements.\<close>

lemma sorted_key_unique:
  assumes "sorted (map f xs)" "distinct (map f xs)" "sorted (map f ys)" "distinct (map f ys)"
    and "set xs = set ys"
  shows "xs = ys"
proof -
  have "map f xs = map f ys"
    using assms by (metis list.set_map sorted_distinct_set_unique)
  moreover have "inj_on f (set xs)" using assms(2) by (simp add: distinct_map)
  ultimately show ?thesis
    using assms(5) by (metis map_inj_on Un_absorb)
qed

text \<open>Association lists with distinct keys: filtering, and updating one entry.\<close>

lemma map_of_filter_distinct:
  "distinct (map fst t) \<Longrightarrow>
     map_of (filter (\<lambda>(i, e). P i e) t) i =
       (case map_of t i of Some e \<Rightarrow> if P i e then Some e else None | None \<Rightarrow> None)"
proof (induction t)
  case Nil
  then show ?case by simp
next
  case (Cons x t)
  obtain j e where x: "x = (j, e)" by (cases x)
  with Cons.prems have "j \<notin> fst ` set t" by simp
  then have "map_of t j = None" by (simp add: map_of_eq_None_iff)
  with Cons x show ?case by (auto split: option.splits)
qed

lemma distinct_keys_filter: "distinct (map fst t) \<Longrightarrow> distinct (map fst (filter P t))"
  by (simp add: distinct_map_filter)

lemma in_set_map_of: "distinct (map fst t) \<Longrightarrow> (i, e) \<in> set t \<longleftrightarrow> map_of t i = Some e"
  by simp

lemma append_sep_unique:
  "a @ c # x = b @ c # y \<Longrightarrow> c \<notin> set a \<Longrightarrow> c \<notin> set b \<Longrightarrow> a = b \<and> x = y"
proof (induction a arbitrary: b)
  case Nil
  then show ?case by (cases b) auto
next
  case (Cons h a)
  then show ?case by (cases b) auto
qed

section \<open>Numbers read back\<close>

lemma digit_char_digit: "d < 10 \<Longrightarrow> is_digit (digit_char d) \<and> digit_value (digit_char d) = d"
proof -
  have "list_all (\<lambda>d. is_digit (digit_char d) \<and> digit_value (digit_char d) = d) [0..<10]"
    by code_simp
  then show "d < 10 \<Longrightarrow> is_digit (digit_char d) \<and> digit_value (digit_char d) = d"
    by (simp add: list_all_iff)
qed

lemma show_nat_digits: "show_nat n \<noteq> [] \<and> list_all is_digit (show_nat n) \<and> digits_value (show_nat n) = n"
proof (induction n rule: show_nat.induct)
  case (1 n)
  show ?case
  proof (cases "n < 10")
    case True
    then show ?thesis using digit_char_digit by (simp add: show_nat.simps digits_value_def)
  next
    case False
    have "digits_value (a @ [digit_char d]) = 10 * digits_value a + d" if "d < 10" for a d
      using digit_char_digit [OF that] by (simp add: digits_value_def)
    with 1 [OF False] False digit_char_digit [of "n mod 10"] show ?thesis
      by (subst (1 2 3) show_nat.simps) simp
  qed
qed

lemma digit_not_sign: "is_digit c \<Longrightarrow> c \<noteq> CHR ''-'' \<and> c \<noteq> CHR ''+''"
  by (auto simp: is_digit_def less_eq_char_def)

lemma parse_show_int:
  assumes "0 \<le> i" "i < 2 ^ 63"
  shows "parse_int64 (show_int i) = Some i"
proof -
  have d: "show_nat (nat i) \<noteq> []" "list_all is_digit (show_nat (nat i))"
    "digits_value (show_nat (nat i)) = nat i"
    using show_nat_digits [of "nat i"] by auto
  then obtain c cs where cs: "show_nat (nat i) = c # cs" by (cases "show_nat (nat i)") auto
  with d have "is_digit c" by simp
  with cs d assms digit_not_sign [of c] show ?thesis
    by (auto simp: parse_int64_def show_int_def)
qed

end
