(* ===== verification/Backend.thy ===== *)
theory Backend
  imports Prelude
begin

text \<open>
  The vocabulary of \<open>internal/backend\<close>: backend names and kinds, the errors the layers
  hand each other, the capability flags, a model, a loaded model, the requests, and the
  endpoint agents reach a model at (\<open>AgentEndpoint\<close>: fitted to a model by \<open>fit_to\<close>,
  overlaid with a caller's API-key shape by \<open>apply_opts\<close>, checked by \<open>ep_validate\<close>).
\<close>

section \<open>Names\<close>

type_synonym name = string

definition name_ollama :: name where "name_ollama = ''ollama''"
definition name_kserve :: name where "name_kserve = ''kserve''"
definition name_lemonade :: name where "name_lemonade = ''lemonade''"
definition name_lmstudio :: name where "name_lmstudio = ''lmstudio''"

definition known_kinds :: "name list" where
  "known_kinds = [name_kserve, name_lemonade, name_lmstudio, name_ollama]"

lemmas name_defs = name_ollama_def name_kserve_def name_lemonade_def name_lmstudio_def
  known_kinds_def

definition kind_of :: "name \<Rightarrow> name" where
  "kind_of n =
     (case find (\<lambda>k. n = k \<or> prefix (k @ ''-'') n) known_kinds of
        Some k \<Rightarrow> k
      | None \<Rightarrow> n)"

section \<open>Errors\<close>

text \<open>
  An error is what its callers can ask of it: the sentinels of its \<open>%w\<close> chain, which
  \<open>errors.Is\<close> looks for, and its message. A \<open>NotOwnedError\<close> is its own type
  (\<open>errors.As\<close>), carries its fields and unwraps to \<open>ErrConflict\<close>.
\<close>

record not_owned =
  no_namespace :: string
  no_name :: string
  no_created_by :: string
  no_referenced_by :: "string list"
  no_message :: string

datatype sentinel =
    ErrNotFound | ErrUnsupported | ErrConflict | ErrInvalid | ErrUnfit | ErrUnavailable
  | ErrGitOpsOwned | ErrNoBackend | ErrStaticBackend | ErrJobNotFound | ErrVersionNotServed
  | ErrCanceled | ApiNotFound | ApiForbidden | ApiAlreadyExists | NotOwned not_owned | GoPanic

datatype err = Err (err_kinds: "sentinel list") (err_msg: string)

definition err_is :: "err \<Rightarrow> sentinel \<Rightarrow> bool" where
  "err_is e k \<longleftrightarrow> List.member (err_kinds e) k"

fun not_owned_in :: "sentinel list \<Rightarrow> not_owned option" where
  "not_owned_in [] = None"
| "not_owned_in (k # ks) = (case k of NotOwned n \<Rightarrow> Some n | _ \<Rightarrow> not_owned_in ks)"

definition err_as_not_owned :: "err \<Rightarrow> not_owned option" where
  "err_as_not_owned e = not_owned_in (err_kinds e)"

fun sentinel_text :: "sentinel \<Rightarrow> string" where
  "sentinel_text ErrNotFound = ''model not found''"
| "sentinel_text ErrUnsupported = ''operation not supported''"
| "sentinel_text ErrConflict = ''conflict''"
| "sentinel_text ErrInvalid = ''invalid request''"
| "sentinel_text ErrUnfit = ''model does not fit''"
| "sentinel_text ErrUnavailable = ''backend unavailable''"
| "sentinel_text ErrGitOpsOwned = ''owned by GitOps''"
| "sentinel_text ErrNoBackend = ''no backend registered''"
| "sentinel_text ErrStaticBackend =
     ''configured statically by --backends; remove it from the chart values to register it at runtime''"
| "sentinel_text ErrJobNotFound = ''job not found''"
| "sentinel_text ErrVersionNotServed = ''version not served''"
| "sentinel_text ErrCanceled = ''context canceled''"
| "sentinel_text _ = []"

text \<open>\<open>fmt.Errorf("%w: \<dots>", sentinel, \<dots>)\<close> and a prefix around an error.\<close>

definition errw :: "sentinel \<Rightarrow> string \<Rightarrow> err" where
  "errw k m = Err [k] (sentinel_text k @ '': '' @ m)"

definition err_sentinel :: "sentinel \<Rightarrow> err" where
  "err_sentinel k = Err [k] (sentinel_text k)"

definition wrap_err :: "string \<Rightarrow> err \<Rightarrow> string \<Rightarrow> err" where
  "wrap_err pre e post = Err (err_kinds e) (pre @ err_msg e @ post)"

definition not_owned_err :: "not_owned \<Rightarrow> err" where
  "not_owned_err n = Err [NotOwned n, ErrConflict] (no_message n)"

lemma err_is_errw [simp]: "err_is (errw k m) k' \<longleftrightarrow> k = k'"
  by (auto simp: err_is_def errw_def)

lemma err_is_sentinel [simp]: "err_is (err_sentinel k) k' \<longleftrightarrow> k = k'"
  by (auto simp: err_is_def err_sentinel_def)

lemma err_is_wrap [simp]: "err_is (wrap_err p e q) k \<longleftrightarrow> err_is e k"
  by (simp add: err_is_def wrap_err_def)

lemma err_is_not_owned [simp]:
  "err_is (not_owned_err n) k \<longleftrightarrow> k = NotOwned n \<or> k = ErrConflict"
  by (auto simp: err_is_def not_owned_err_def)

lemma err_as_not_owned_err [simp]: "err_as_not_owned (not_owned_err n) = Some n"
  by (simp add: err_as_not_owned_def not_owned_err_def)

lemma err_as_not_owned_wrap [simp]: "err_as_not_owned (wrap_err p e q) = err_as_not_owned e"
  by (simp add: err_as_not_owned_def wrap_err_def)

text \<open>A call: its error, or its answer.\<close>

type_synonym 'a res = "err + 'a"

section \<open>Capabilities, models, requests\<close>

record capabilities =
  cap_pull :: bool
  cap_pull_progress :: bool
  cap_delete :: bool
  cap_load :: bool
  cap_unload :: bool
  cap_loaded_models :: bool
  cap_wire :: bool
  cap_presets :: bool
  cap_fit_check :: bool
  cap_node_inventory :: bool
  cap_search :: bool
  cap_commit :: bool

record target =
  t_cluster :: string
  t_organization :: string
  t_api_server :: string
  t_ca_bundle :: string
  t_serving_namespace :: string

record model =
  m_name :: string
  m_digest :: string
  m_size_bytes :: int
  m_modified_at :: int
  m_backend :: name
  m_target :: "target option"
  m_format :: string
  m_family :: string
  m_parameter_size :: string
  m_quantization :: string
  m_context_length :: int
  m_runtime :: string
  m_capabilities :: "string list"
  m_node :: string
  m_downloaded :: "bool option"
  m_path :: string
  m_preset :: string

text \<open>The zero value of the struct, which \<open>endpointFor\<close> starts from.\<close>

definition zero_model :: model where
  "zero_model =
     \<lparr>m_name = [], m_digest = [], m_size_bytes = 0, m_modified_at = 0, m_backend = [],
      m_target = None, m_format = [], m_family = [], m_parameter_size = [],
      m_quantization = [], m_context_length = 0, m_runtime = [], m_capabilities = [],
      m_node = [], m_downloaded = None, m_path = [], m_preset = []\<rparr>"

text \<open>
  A loaded model: the fields the service reads or writes and the scalar fields beside
  them. The serve steps, the runtime and the interfaces of the struct are carried through
  unread and left out.
\<close>

record loaded_model =
  l_name :: string
  l_backend :: name
  l_digest :: string
  l_size_bytes :: int
  l_vram_bytes :: int
  l_context_length :: int
  l_endpoint :: string
  l_node :: string
  l_placement :: string
  l_nodes :: "string list"
  l_status :: string
  l_reason :: string
  l_message :: string
  l_resource :: string
  l_kind :: string
  l_preset :: string
  l_gpus :: int
  l_managed_by :: string
  l_phase :: string

definition zero_loaded :: loaded_model where
  "zero_loaded =
     \<lparr>l_name = [], l_backend = [], l_digest = [], l_size_bytes = 0, l_vram_bytes = 0,
      l_context_length = 0, l_endpoint = [], l_node = [], l_placement = [], l_nodes = [],
      l_status = [], l_reason = [], l_message = [], l_resource = [], l_kind = [],
      l_preset = [], l_gpus = 0, l_managed_by = [], l_phase = []\<rparr>"

definition phase_terminating :: string where "phase_terminating = ''terminating''"

record progress =
  p_status :: string
  p_bytes_completed :: int
  p_bytes_total :: int
  p_node :: string
  p_preset :: string

record pull_request =
  pr_ref :: string
  pr_preset :: string
  pr_node :: string

record load_request =
  lr_name :: string
  lr_keep_alive :: string
  lr_preset :: string
  lr_node :: string
  lr_placement :: string
  lr_nodes :: "string list"
  lr_context_length :: int
  lr_tracing :: bool
  lr_dry_run :: bool

section \<open>The endpoint agents reach a model at\<close>

record agent_endpoint =
  ep_provider :: string
  ep_backend :: name
  ep_host :: string
  ep_base_url :: string
  ep_model :: string
  ep_placeholder_key :: bool
  ep_passthrough :: bool
  ep_secret :: string
  ep_secret_key :: string
  ep_name :: string
  ep_context_length :: int
  ep_think :: "bool option"

definition capability_thinking :: string where "capability_thinking = ''thinking''"

definition fit_to :: "agent_endpoint \<Rightarrow> model \<Rightarrow> agent_endpoint" where
  "fit_to ep m =
     (let ep = (if m_context_length m > 0 \<and> ep_context_length ep > m_context_length m
                then ep\<lparr>ep_context_length := m_context_length m\<rparr> else ep)
      in if \<not> List.member (m_capabilities m) capability_thinking then ep\<lparr>ep_think := None\<rparr>
         else ep)"

definition ep_validate :: "agent_endpoint \<Rightarrow> err option" where
  "ep_validate ep =
     (if ep_passthrough ep \<and> ep_secret ep \<noteq> []
      then Some (errw ErrInvalid (''apiKeyPassthrough and apiKeySecret are mutually exclusive '' @
             em_dash @ '' the ModelConfig forwards the caller's Bearer token or reads a static key from the Secret, not both''))
      else if ep_secret_key ep \<noteq> [] \<and> ep_secret ep = []
      then Some (errw ErrInvalid ''apiKeySecretKey names a key within apiKeySecret, which is not set'')
      else None)"

record wire_options =
  wo_passthrough :: bool
  wo_secret :: string
  wo_secret_key :: string

definition no_wire_options :: wire_options where
  "no_wire_options = \<lparr>wo_passthrough = False, wo_secret = [], wo_secret_key = []\<rparr>"

definition apply_opts :: "wire_options \<Rightarrow> agent_endpoint \<Rightarrow> agent_endpoint" where
  "apply_opts opts ep =
     (let ep = (if wo_passthrough opts then ep\<lparr>ep_passthrough := True\<rparr> else ep)
      in if wo_secret opts \<noteq> []
         then ep\<lparr>ep_secret := wo_secret opts, ep_secret_key := wo_secret_key opts\<rparr>
         else ep)"

section \<open>What holds of them\<close>

lemma fit_to_keeps [simp]:
  "ep_provider (fit_to ep m) = ep_provider ep" "ep_backend (fit_to ep m) = ep_backend ep"
  "ep_host (fit_to ep m) = ep_host ep" "ep_base_url (fit_to ep m) = ep_base_url ep"
  "ep_model (fit_to ep m) = ep_model ep" "ep_passthrough (fit_to ep m) = ep_passthrough ep"
  "ep_secret (fit_to ep m) = ep_secret ep" "ep_secret_key (fit_to ep m) = ep_secret_key ep"
  "ep_placeholder_key (fit_to ep m) = ep_placeholder_key ep" "ep_name (fit_to ep m) = ep_name ep"
  by (simp_all add: fit_to_def Let_def)

lemma ep_context_length_fit_to:
  "ep_context_length (fit_to ep m) =
     (if m_context_length m > 0 then min (ep_context_length ep) (m_context_length m)
      else ep_context_length ep)"
  by (auto simp: fit_to_def Let_def)

lemma ep_think_fit_to:
  "ep_think (fit_to ep m) =
     (if List.member (m_capabilities m) capability_thinking then ep_think ep else None)"
  by (auto simp: fit_to_def Let_def)

lemma fit_to_idem: "fit_to (fit_to ep m) m = fit_to ep m"
  by (rule agent_endpoint.equality) (auto simp: ep_context_length_fit_to ep_think_fit_to)

lemma ep_validate_fit_to [simp]: "ep_validate (fit_to ep m) = ep_validate ep"
  by (simp add: ep_validate_def)

lemma apply_no_options [simp]: "apply_opts no_wire_options ep = ep"
  by (simp add: apply_opts_def no_wire_options_def)

lemma ep_validate_None:
  "ep_validate ep = None \<longleftrightarrow>
     \<not> (ep_passthrough ep \<and> ep_secret ep \<noteq> []) \<and> (ep_secret ep = [] \<longrightarrow> ep_secret_key ep = [])"
  by (auto simp: ep_validate_def)

lemma ep_validate_Some: "ep_validate ep = Some e \<Longrightarrow> err_is e ErrInvalid"
  by (auto simp: ep_validate_def split: if_splits)

lemma kind_of_known: "k \<in> set known_kinds \<Longrightarrow> kind_of k = k"
proof -
  have "list_all (\<lambda>k. kind_of k = k) known_kinds" by code_simp
  then show "k \<in> set known_kinds \<Longrightarrow> kind_of k = k" by (simp add: list_all_iff)
qed

lemma known_kinds_dashless: "k \<in> set known_kinds \<Longrightarrow> k \<noteq> [] \<and> CHR ''-'' \<notin> set k"
proof -
  have "list_all (\<lambda>k. k \<noteq> [] \<and> list_all (\<lambda>c. c \<noteq> CHR ''-'') k) known_kinds" by code_simp
  then show "k \<in> set known_kinds \<Longrightarrow> k \<noteq> [] \<and> CHR ''-'' \<notin> set k"
    by (fastforce simp: list_all_iff)
qed

lemma kind_of_suffixed:
  assumes k: "k \<in> set known_kinds"
  shows "kind_of (k @ ''-'' @ s) = k"
proof -
  have "k' = k" if k': "k' \<in> set known_kinds"
    and m: "k @ ''-'' @ s = k' \<or> prefix (k' @ ''-'') (k @ ''-'' @ s)" for k'
  proof -
    obtain t where t: "k @ ''-'' @ s = k' @ ''-'' @ t"
    proof (cases "prefix (k' @ ''-'') (k @ ''-'' @ s)")
      case True
      then show thesis by (elim prefixE) (simp add: that)
    next
      case False
      with m have "k @ ''-'' @ s = k'" by simp
      with known_kinds_dashless [OF k'] show thesis by (metis in_set_conv_decomp append_Cons)
    qed
    have "takeWhile (\<lambda>c. c \<noteq> CHR ''-'') (k @ ''-'' @ s) = k"
      using known_kinds_dashless [OF k] by (subst takeWhile_append2) auto
    moreover have "takeWhile (\<lambda>c. c \<noteq> CHR ''-'') (k' @ ''-'' @ t) = k'"
      using known_kinds_dashless [OF k'] by (subst takeWhile_append2) auto
    ultimately show ?thesis using t by simp
  qed
  moreover have "prefix (k @ ''-'') (k @ ''-'' @ s)" by simp
  ultimately have "find (\<lambda>k'. k @ ''-'' @ s = k' \<or> prefix (k' @ ''-'') (k @ ''-'' @ s)) known_kinds = Some k"
    using k by (intro find_unique) simp_all
  then show ?thesis by (simp add: kind_of_def)
qed

lemma kind_of_idem: "kind_of (kind_of n) = kind_of n"
proof (cases "find (\<lambda>k. n = k \<or> prefix (k @ ''-'') n) known_kinds")
  case None
  then show ?thesis by (simp add: kind_of_def)
next
  case (Some k)
  then have "k \<in> set known_kinds" using find_Some by metis
  with Some show ?thesis using kind_of_known by (simp add: kind_of_def)
qed

end
