(* ===== verification/Jobs.thy ===== *)
theory Jobs
  imports Backend "HOL-Library.Product_Lexorder" Complex_Main
begin

text \<open>
  The job manager (\<open>internal/jobs/manager.go\<close>): a table of pulls and loads that run in
  the background. The table is an association list from job ids, in some order: Go ranges
  over the map in an unspecified one. Every method holds the mutex from start to end, so a
  method is one function on the table; a job's goroutine (\<open>run\<close>) takes the mutex once per
  update, so it is the sequence \<open>job_begin\<close>, any number of \<open>job_report\<close>,
  \<open>job_finish\<close>, interleaved with everything else (\<open>mgr_step\<close>). The clock and the
  id generator are arguments. \<open>Percent\<close> is an exact rational where the code has a
  \<open>float64\<close>; the cap on finished jobs is a natural number.
\<close>

section \<open>Jobs\<close>

datatype phase = Pending | Running | Succeeded | Failed | Cancelled

datatype job_type = TypePull | TypeLoad

record 'r job =
  j_id :: string
  j_type :: job_type
  j_backend :: name
  j_model :: string
  j_phase :: phase
  j_status :: string
  j_bytes_completed :: int
  j_bytes_total :: int
  j_percent :: rat
  j_error :: string
  j_created_at :: int
  j_started_at :: "int option"
  j_finished_at :: "int option"
  j_wire :: bool
  j_node :: string
  j_preset :: string
  j_resource :: string
  j_requested_by :: string
  j_result :: "'r option"

definition job_done :: "'r job \<Rightarrow> bool" where
  "job_done j \<longleftrightarrow> j_phase j = Succeeded \<or> j_phase j = Failed \<or> j_phase j = Cancelled"

text \<open>
  A table entry: the job, whether its context was cancelled (\<open>cancel\<close> called) and whether
  its \<open>done\<close> channel is closed.
\<close>

record 'r entry =
  e_job :: "'r job"
  e_cancelled :: bool
  e_closed :: bool

type_synonym 'r table = "(string \<times> 'r entry) list"

record 'r manager =
  mgr_jobs :: "'r table"
  mgr_retention :: int
  mgr_max_jobs :: nat

definition new_manager :: "int \<Rightarrow> nat \<Rightarrow> 'r manager" where
  "new_manager retention cap = \<lparr>mgr_jobs = [], mgr_retention = retention, mgr_max_jobs = cap\<rparr>"

record start_request =
  sr_type :: job_type
  sr_backend :: name
  sr_model :: string
  sr_wire :: bool
  sr_node :: string
  sr_preset :: string
  sr_resource :: string

section \<open>Pruning\<close>

text \<open>
  \<open>pruneLocked\<close>: finished jobs beyond the retention window go; of the others the
  oldest-finished ones beyond the cap go. A finished job always has its finish time
  (\<open>job_ok\<close> below); the code skips one without.
\<close>

definition prunable :: "'r entry \<Rightarrow> bool" where
  "prunable e \<longleftrightarrow> job_done (e_job e) \<and> j_finished_at (e_job e) \<noteq> None"

definition finished_time :: "'r entry \<Rightarrow> int" where
  "finished_time e = (case j_finished_at (e_job e) of Some t \<Rightarrow> t | None \<Rightarrow> 0)"

definition expired :: "int \<Rightarrow> 'r entry \<Rightarrow> bool" where
  "expired cutoff e \<longleftrightarrow> prunable e \<and> finished_time e < cutoff"

definition over_cap :: "nat \<Rightarrow> 'r table \<Rightarrow> string list" where
  "over_cap cap t =
     (let finished = sort_key finished_time (filter prunable (map snd t))
      in map (j_id \<circ> e_job) (take (length finished - cap) finished))"

definition prune :: "int \<Rightarrow> 'r manager \<Rightarrow> 'r manager" where
  "prune now m =
     (let cutoff = now - mgr_retention m;
          kept = filter (\<lambda>(_, e). \<not> expired cutoff e) (mgr_jobs m);
          dropped = over_cap (mgr_max_jobs m) kept
      in m\<lparr>mgr_jobs := filter (\<lambda>(i, _). \<not> List.member dropped i) kept\<rparr>)"

section \<open>Starting\<close>

definition same_work :: "start_request \<Rightarrow> 'r job \<Rightarrow> bool" where
  "same_work req j \<longleftrightarrow>
     j_type j = sr_type req \<and> j_backend j = sr_backend req \<and> j_model j = sr_model req
     \<and> \<not> job_done j"

definition fresh_job :: "int \<Rightarrow> string \<Rightarrow> string \<Rightarrow> start_request \<Rightarrow> 'r job" where
  "fresh_job now new_id caller req =
     \<lparr>j_id = new_id, j_type = sr_type req, j_backend = sr_backend req, j_model = sr_model req,
      j_phase = Pending, j_status = [], j_bytes_completed = 0, j_bytes_total = 0,
      j_percent = 0, j_error = [], j_created_at = now, j_started_at = None,
      j_finished_at = None, j_wire = sr_wire req, j_node = sr_node req,
      j_preset = sr_preset req, j_resource = sr_resource req, j_requested_by = caller,
      j_result = None\<rparr>"

definition start_job ::
    "int \<Rightarrow> string \<Rightarrow> string \<Rightarrow> start_request \<Rightarrow> 'r manager \<Rightarrow> 'r job \<times> bool \<times> 'r manager" where
  "start_job now new_id caller req m =
     (let m = prune now m
      in case find (\<lambda>(_, e). same_work req (e_job e)) (mgr_jobs m) of
           Some (_, e) \<Rightarrow> (e_job e, False, m)
         | None \<Rightarrow>
             (let j = fresh_job now new_id caller req
              in (j, True,
                  m\<lparr>mgr_jobs := AList.update new_id
                       \<lparr>e_job = j, e_cancelled = False, e_closed = False\<rparr> (mgr_jobs m)\<rparr>)))"

section \<open>The job's goroutine\<close>

definition update_job :: "string \<Rightarrow> ('r job \<Rightarrow> 'r job) \<Rightarrow> 'r manager \<Rightarrow> 'r manager" where
  "update_job i f m =
     (case map_of (mgr_jobs m) i of
        Some e \<Rightarrow> m\<lparr>mgr_jobs := AList.update i (e\<lparr>e_job := f (e_job e)\<rparr>) (mgr_jobs m)\<rparr>
      | None \<Rightarrow> m)"

definition begin_job :: "int \<Rightarrow> 'r job \<Rightarrow> 'r job" where
  "begin_job now j = j\<lparr>j_phase := Running, j_started_at := Some now\<rparr>"

definition report_job :: "progress \<Rightarrow> 'r job \<Rightarrow> 'r job" where
  "report_job p j =
     (let j = (if p_status p \<noteq> [] then j\<lparr>j_status := p_status p\<rparr> else j);
          j = (if p_bytes_total p > 0 then j\<lparr>j_bytes_total := p_bytes_total p\<rparr> else j);
          j = (if p_bytes_completed p > j_bytes_completed j
               then j\<lparr>j_bytes_completed := p_bytes_completed p\<rparr> else j);
          j = (if p_node p \<noteq> [] then j\<lparr>j_node := p_node p\<rparr> else j);
          j = (if p_preset p \<noteq> [] then j\<lparr>j_preset := p_preset p\<rparr> else j)
      in if j_bytes_total j > 0
         then let pc = of_int (j_bytes_completed j) / of_int (j_bytes_total j) * 100
              in j\<lparr>j_percent := if pc > 100 then 100 else pc\<rparr>
         else j)"

definition finish_job :: "int \<Rightarrow> bool \<Rightarrow> 'r option res \<Rightarrow> 'r job \<Rightarrow> 'r job" where
  "finish_job now ctx_ended outcome j =
     (let j = j\<lparr>j_finished_at := Some now\<rparr>
      in case outcome of
           Inl err \<Rightarrow>
             if err_is err ErrCanceled \<and> ctx_ended
             then j\<lparr>j_phase := Cancelled, j_error := ''cancelled''\<rparr>
             else j\<lparr>j_phase := Failed, j_error := err_msg err\<rparr>
         | Inr result \<Rightarrow>
             let j = j\<lparr>j_phase := Succeeded, j_result := result\<rparr>;
                 j = (if j_bytes_total j > 0 then j\<lparr>j_bytes_completed := j_bytes_total j\<rparr> else j)
             in j\<lparr>j_percent := 100\<rparr>)"

text \<open>
  The end of \<open>run\<close>: the final update and the deferred \<open>close(done)\<close>. The context of
  the job is only ended by its own \<open>cancel\<close> (\<open>context.WithoutCancel\<close>).
\<close>

definition end_job :: "int \<Rightarrow> 'r option res \<Rightarrow> string \<Rightarrow> 'r manager \<Rightarrow> 'r manager" where
  "end_job now outcome i m =
     (case map_of (mgr_jobs m) i of
        Some e \<Rightarrow>
          m\<lparr>mgr_jobs := AList.update i
              (e\<lparr>e_job := finish_job now (e_cancelled e) outcome (e_job e), e_closed := True\<rparr>)
              (mgr_jobs m)\<rparr>
      | None \<Rightarrow> m)"

section \<open>Reading and cancelling\<close>

definition get_job :: "string \<Rightarrow> 'r manager \<Rightarrow> 'r job res" where
  "get_job i m =
     (case map_of (mgr_jobs m) i of
        Some e \<Rightarrow> Inr (e_job e)
      | None \<Rightarrow> Inl (err_sentinel ErrJobNotFound))"

definition newest_first :: "'r job \<Rightarrow> int \<times> string" where
  "newest_first j = (- j_created_at j, j_id j)"

definition list_jobs :: "int \<Rightarrow> 'r manager \<Rightarrow> 'r job list \<times> 'r manager" where
  "list_jobs now m =
     (let m = prune now m
      in (sort_key newest_first (map (e_job \<circ> snd) (mgr_jobs m)), m))"

definition cancel_job :: "string \<Rightarrow> 'r manager \<Rightarrow> 'r job res \<times> 'r manager" where
  "cancel_job i m =
     (case map_of (mgr_jobs m) i of
        None \<Rightarrow> (Inl (err_sentinel ErrJobNotFound), m)
      | Some e \<Rightarrow>
          let m = (if \<not> job_done (e_job e)
                   then m\<lparr>mgr_jobs := AList.update i (e\<lparr>e_cancelled := True\<rparr>) (mgr_jobs m)\<rparr>
                   else m)
          in (get_job i m, m))"

text \<open>
  \<open>Await\<close> returns once the done channel is closed: \<open>None\<close> while it blocks. The caller's
  own context ending is the \<open>Some (Inl ctx_err)\<close> of the \<open>select\<close>.
\<close>

definition await_job :: "err option \<Rightarrow> string \<Rightarrow> 'r manager \<Rightarrow> 'r job res option" where
  "await_job ctx_err i m =
     (case map_of (mgr_jobs m) i of
        None \<Rightarrow> Some (Inl (err_sentinel ErrJobNotFound))
      | Some e \<Rightarrow>
          if e_closed e then Some (get_job i m)
          else (case ctx_err of Some err \<Rightarrow> Some (Inl err) | None \<Rightarrow> None))"

section \<open>The manager as a state machine\<close>

text \<open>
  One step: a method call, or one critical section of a job's goroutine. The phase is the
  goroutine's program counter: its first update finds the job pending, reports and the
  final update find it running. A new id is one the table does not hold (eight random
  bytes).
\<close>

inductive mgr_step :: "'r manager \<Rightarrow> 'r manager \<Rightarrow> bool" where
  step_start: "new_id \<notin> fst ` set (mgr_jobs m) \<Longrightarrow>
     mgr_step m (snd (snd (start_job now new_id caller req m)))"
| step_begin: "map_of (mgr_jobs m) i = Some e \<Longrightarrow> j_phase (e_job e) = Pending \<Longrightarrow>
     mgr_step m (update_job i (begin_job now) m)"
| step_report: "map_of (mgr_jobs m) i = Some e \<Longrightarrow> j_phase (e_job e) = Running \<Longrightarrow>
     mgr_step m (update_job i (report_job p) m)"
| step_end: "map_of (mgr_jobs m) i = Some e \<Longrightarrow> j_phase (e_job e) = Running \<Longrightarrow>
     mgr_step m (end_job now outcome i m)"
| step_list: "mgr_step m (snd (list_jobs now m))"
| step_cancel: "mgr_step m (snd (cancel_job i m))"

inductive mgr_reach :: "'r manager \<Rightarrow> bool" where
  reach_new: "mgr_reach (new_manager retention cap)"
| reach_step: "mgr_reach m \<Longrightarrow> mgr_step m m' \<Longrightarrow> mgr_reach m'"

end
