(* ===== verification/Jobs_Correct.thy ===== *)
theory Jobs_Correct
  imports Jobs
begin

text \<open>
  What holds of the job manager: the invariant of every reachable table (\<open>mgr_inv\<close>: ids,
  phases and times agree, progress stays within bounds, one unfinished job per piece of
  work), kept by every step; finished jobs never change again; starting joins the
  unfinished job of the same work whatever order the map is ranged over; pruning and
  listing; and that an unfinished job can always be brought to its end.
\<close>

section \<open>The invariant\<close>

definition job_ok :: "'r job \<Rightarrow> bool" where
  "job_ok j \<longleftrightarrow>
     (j_started_at j = None \<longleftrightarrow> j_phase j = Pending) \<and>
     (j_finished_at j \<noteq> None \<longleftrightarrow> job_done j) \<and>
     0 \<le> j_percent j \<and> j_percent j \<le> 100 \<and> 0 \<le> j_bytes_completed j \<and> 0 \<le> j_bytes_total j \<and>
     (j_phase j = Succeeded \<longrightarrow> j_percent j = 100) \<and>
     (j_phase j = Cancelled \<longrightarrow> j_error j = ''cancelled'') \<and>
     (j_result j \<noteq> None \<longrightarrow> j_phase j = Succeeded)"

definition entry_ok :: "'r entry \<Rightarrow> bool" where
  "entry_ok e \<longleftrightarrow> job_ok (e_job e) \<and> (e_closed e \<longleftrightarrow> job_done (e_job e)) \<and>
     (j_phase (e_job e) = Cancelled \<longrightarrow> e_cancelled e)"

definition work_of :: "'r job \<Rightarrow> job_type \<times> name \<times> string" where
  "work_of j = (j_type j, j_backend j, j_model j)"

definition mgr_inv :: "'r manager \<Rightarrow> bool" where
  "mgr_inv m \<longleftrightarrow>
     distinct (map fst (mgr_jobs m)) \<and>
     (\<forall>i e. map_of (mgr_jobs m) i = Some e \<longrightarrow> j_id (e_job e) = i \<and> entry_ok e) \<and>
     (\<forall>i e i' e'. map_of (mgr_jobs m) i = Some e \<longrightarrow> map_of (mgr_jobs m) i' = Some e' \<longrightarrow>
        \<not> job_done (e_job e) \<longrightarrow> \<not> job_done (e_job e') \<longrightarrow>
        work_of (e_job e) = work_of (e_job e') \<longrightarrow> i = i')"

lemma mgr_invD:
  assumes "mgr_inv m"
  shows "distinct (map fst (mgr_jobs m))"
    and "map_of (mgr_jobs m) i = Some e \<Longrightarrow> j_id (e_job e) = i"
    and "map_of (mgr_jobs m) i = Some e \<Longrightarrow> entry_ok e"
    and "map_of (mgr_jobs m) i = Some e \<Longrightarrow> map_of (mgr_jobs m) i' = Some e' \<Longrightarrow>
      \<not> job_done (e_job e) \<Longrightarrow> \<not> job_done (e_job e') \<Longrightarrow>
      work_of (e_job e) = work_of (e_job e') \<Longrightarrow> i = i'"
  using assms unfolding mgr_inv_def by blast+

lemma mgr_invI:
  assumes "distinct (map fst (mgr_jobs m))"
    and "\<And>i e. map_of (mgr_jobs m) i = Some e \<Longrightarrow> j_id (e_job e) = i \<and> entry_ok e"
    and "\<And>i e i' e'. map_of (mgr_jobs m) i = Some e \<Longrightarrow> map_of (mgr_jobs m) i' = Some e' \<Longrightarrow>
      \<not> job_done (e_job e) \<Longrightarrow> \<not> job_done (e_job e') \<Longrightarrow>
      work_of (e_job e) = work_of (e_job e') \<Longrightarrow> i = i'"
  shows "mgr_inv m"
  using assms unfolding mgr_inv_def by meson

lemma mgr_invI_update:
  assumes inv: "mgr_inv m" and e': "entry_ok e'" "j_id (e_job e') = i"
    and uniq: "\<And>a b x y. ((map_of (mgr_jobs m))(i \<mapsto> e')) a = Some x \<Longrightarrow>
      ((map_of (mgr_jobs m))(i \<mapsto> e')) b = Some y \<Longrightarrow> \<not> job_done (e_job x) \<Longrightarrow>
      \<not> job_done (e_job y) \<Longrightarrow> work_of (e_job x) = work_of (e_job y) \<Longrightarrow> a = b"
  shows "mgr_inv (m\<lparr>mgr_jobs := AList.update i e' (mgr_jobs m)\<rparr>)"
proof -
  let ?m = "m\<lparr>mgr_jobs := AList.update i e' (mgr_jobs m)\<rparr>"
  have mo: "map_of (mgr_jobs ?m) = (map_of (mgr_jobs m))(i \<mapsto> e')" by (simp add: update_conv')
  show ?thesis
  proof (rule mgr_invI, unfold mo)
    show "distinct (map fst (mgr_jobs ?m))" using mgr_invD(1) [OF inv] by (simp add: distinct_update)
    show "j_id (e_job x) = k \<and> entry_ok x" if "((map_of (mgr_jobs m))(i \<mapsto> e')) k = Some x" for k x
      using that e' mgr_invD(2,3) [OF inv] by (metis fun_upd_apply option.sel)
  qed (rule uniq)
qed

lemma job_done_phase [simp]: "j_phase j = Pending \<Longrightarrow> \<not> job_done j" "j_phase j = Running \<Longrightarrow> \<not> job_done j"
  by (simp_all add: job_done_def)

lemma same_work_iff: "same_work req j \<longleftrightarrow> work_of j = (sr_type req, sr_backend req, sr_model req) \<and> \<not> job_done j"
  by (auto simp: same_work_def work_of_def)

section \<open>The updates of a job\<close>

lemma begin_job_ok: "job_ok j \<Longrightarrow> j_phase j = Pending \<Longrightarrow> job_ok (begin_job now j)"
  by (auto simp: job_ok_def begin_job_def job_done_def)

lemma report_job_fields [simp]:
  "j_id (report_job p j) = j_id j" "j_type (report_job p j) = j_type j"
  "j_backend (report_job p j) = j_backend j" "j_model (report_job p j) = j_model j"
  "j_phase (report_job p j) = j_phase j" "j_error (report_job p j) = j_error j"
  "j_started_at (report_job p j) = j_started_at j" "j_result (report_job p j) = j_result j"
  "j_finished_at (report_job p j) = j_finished_at j"
  by (simp_all add: report_job_def Let_def)

lemma report_job_bytes:
  "j_bytes_total (report_job p j) = (if p_bytes_total p > 0 then p_bytes_total p else j_bytes_total j)"
  "j_bytes_completed (report_job p j) = max (j_bytes_completed j) (p_bytes_completed p)"
  by (simp_all add: report_job_def Let_def)

lemma report_job_percent:
  "j_percent (report_job p j) =
     (if j_bytes_total (report_job p j) > 0
      then min 100 (of_int (j_bytes_completed (report_job p j)) / of_int (j_bytes_total (report_job p j)) * 100)
      else j_percent j)"
  by (simp add: report_job_def Let_def min_def)

lemma report_job_ok:
  assumes "job_ok j" "j_phase j = Running"
  shows "job_ok (report_job p j)"
proof -
  have "0 \<le> j_bytes_completed (report_job p j)" "0 \<le> j_bytes_total (report_job p j)"
    using assms(1) by (auto simp: report_job_bytes job_ok_def)
  then show ?thesis
    using assms by (auto simp: job_ok_def report_job_percent job_done_def)
qed

lemma finish_job_fields [simp]:
  "j_id (finish_job now c out j) = j_id j" "j_type (finish_job now c out j) = j_type j"
  "j_backend (finish_job now c out j) = j_backend j" "j_model (finish_job now c out j) = j_model j"
  "j_finished_at (finish_job now c out j) = Some now"
  "j_started_at (finish_job now c out j) = j_started_at j"
  by (auto simp: finish_job_def Let_def split: sum.splits)

lemma finish_job_phase:
  "j_phase (finish_job now c out j) =
     (case out of Inl err \<Rightarrow> if err_is err ErrCanceled \<and> c then Cancelled else Failed
      | Inr _ \<Rightarrow> Succeeded)"
  by (auto simp: finish_job_def Let_def split: sum.splits)

lemma finish_job_done [simp]: "job_done (finish_job now c out j)"
  by (auto simp: job_done_def finish_job_phase split: sum.splits)

lemma finish_job_ok: "job_ok j \<Longrightarrow> j_phase j = Running \<Longrightarrow> job_ok (finish_job now c out j)"
  by (auto simp: job_ok_def job_done_def finish_job_def Let_def split: sum.splits)

section \<open>Every step keeps the invariant\<close>

lemma map_of_prune:
  assumes "distinct (map fst (mgr_jobs m))"
  shows "map_of (mgr_jobs (prune now m)) i =
     (case map_of (mgr_jobs m) i of None \<Rightarrow> None
      | Some e \<Rightarrow> if expired (now - mgr_retention m) e \<or>
            i \<in> set (over_cap (mgr_max_jobs m)
                  (filter (\<lambda>(_, e). \<not> expired (now - mgr_retention m) e) (mgr_jobs m)))
          then None else Some e)"
  using assms
  by (simp add: prune_def Let_def map_of_filter_distinct distinct_keys_filter
      del: filter_filter split: option.splits)

lemma prune_keys: "distinct (map fst (mgr_jobs m)) \<Longrightarrow> distinct (map fst (mgr_jobs (prune now m)))"
  by (simp add: prune_def Let_def distinct_keys_filter)

lemma prune_fields [simp]:
  "mgr_retention (prune now m) = mgr_retention m" "mgr_max_jobs (prune now m) = mgr_max_jobs m"
  by (simp_all add: prune_def Let_def)

lemma prune_submap:
  "distinct (map fst (mgr_jobs m)) \<Longrightarrow> map_of (mgr_jobs (prune now m)) i = Some e \<Longrightarrow>
     map_of (mgr_jobs m) i = Some e"
  by (auto simp: map_of_prune split: option.splits if_splits)

lemma over_cap_prunable:
  assumes "i \<in> set (over_cap cap t)"
  obtains k e where "(k, e) \<in> set t" "prunable e" "j_id (e_job e) = i"
proof -
  from assms obtain e where "e \<in> set (sort_key finished_time (filter prunable (map snd t)))"
    and i: "i = j_id (e_job e)"
    by (auto simp: over_cap_def Let_def dest!: in_set_takeD)
  then have "e \<in> set (filter prunable (map snd t))" by simp
  then obtain k where "(k, e) \<in> set t" "prunable e" by auto
  with i that show thesis by blast
qed

lemma prune_keeps_unfinished:
  assumes inv: "mgr_inv m" and e: "map_of (mgr_jobs m) i = Some e" "\<not> job_done (e_job e)"
  shows "map_of (mgr_jobs (prune now m)) i = Some e"
proof -
  let ?t = "filter (\<lambda>(_, e). \<not> expired (now - mgr_retention m) e) (mgr_jobs m)"
  note d = mgr_invD(1) [OF inv]
  have "i \<notin> set (over_cap (mgr_max_jobs m) ?t)"
  proof
    assume "i \<in> set (over_cap (mgr_max_jobs m) ?t)"
    then obtain k e' where e': "(k, e') \<in> set ?t" "prunable e'" "j_id (e_job e') = i"
      by (rule over_cap_prunable)
    then have k: "map_of (mgr_jobs m) k = Some e'" using d by auto
    then have "k = i" using mgr_invD(2) [OF inv k] e'(3) by simp
    with k e e'(2) show False by (simp add: prunable_def)
  qed
  moreover have "\<not> expired (now - mgr_retention m) e" using e(2) by (simp add: expired_def prunable_def)
  ultimately show ?thesis using e(1) d by (simp add: map_of_prune)
qed

lemma mgr_inv_submap:
  assumes inv: "mgr_inv m" and d: "distinct (map fst (mgr_jobs m'))"
    and sub: "\<And>i e. map_of (mgr_jobs m') i = Some e \<Longrightarrow> map_of (mgr_jobs m) i = Some e"
  shows "mgr_inv m'"
  unfolding mgr_inv_def using d mgr_invD [OF inv] sub by meson

lemma mgr_inv_prune: "mgr_inv m \<Longrightarrow> mgr_inv (prune now m)"
  by (rule mgr_inv_submap [of m]) (auto intro: prune_keys prune_submap dest: mgr_invD(1))

lemma mgr_inv_set_entry:
  assumes inv: "mgr_inv m" and e: "map_of (mgr_jobs m) i = Some e"
    and e': "entry_ok e'" "j_id (e_job e') = i" "work_of (e_job e') = work_of (e_job e)"
      "job_done (e_job e) \<Longrightarrow> job_done (e_job e')"
  shows "mgr_inv (m\<lparr>mgr_jobs := AList.update i e' (mgr_jobs m)\<rparr>)"
proof -
  note D = mgr_invD [OF inv]
  have "a = b" if ab: "((map_of (mgr_jobs m))(i \<mapsto> e')) a = Some x"
    "((map_of (mgr_jobs m))(i \<mapsto> e')) b = Some y"
    "\<not> job_done (e_job x)" "\<not> job_done (e_job y)" "work_of (e_job x) = work_of (e_job y)" for a b x y
  proof (rule D(4))
    show "map_of (mgr_jobs m) a = Some (if a = i then e else x)"
      "map_of (mgr_jobs m) b = Some (if b = i then e else y)" using ab e by (auto split: if_splits)
    show "\<not> job_done (e_job (if a = i then e else x))" "\<not> job_done (e_job (if b = i then e else y))"
      using ab e' by (auto split: if_splits)
    show "work_of (e_job (if a = i then e else x)) = work_of (e_job (if b = i then e else y))"
      using ab e'(3) by (simp split: if_splits)
  qed
  then show ?thesis using inv e' by (intro mgr_invI_update)
qed

lemma mgr_inv_new_entry:
  assumes inv: "mgr_inv m" and e': "entry_ok e'" "j_id (e_job e') = i"
    and no: "\<And>k e. map_of (mgr_jobs m) k = Some e \<Longrightarrow> work_of (e_job e) = work_of (e_job e') \<Longrightarrow>
      job_done (e_job e)"
  shows "mgr_inv (m\<lparr>mgr_jobs := AList.update i e' (mgr_jobs m)\<rparr>)"
proof -
  note D = mgr_invD [OF inv]
  have "a = b" if ab: "((map_of (mgr_jobs m))(i \<mapsto> e')) a = Some x"
    "((map_of (mgr_jobs m))(i \<mapsto> e')) b = Some y"
    "\<not> job_done (e_job x)" "\<not> job_done (e_job y)" "work_of (e_job x) = work_of (e_job y)" for a b x y
  proof (cases "a = i"; cases "b = i")
    assume "a \<noteq> i" "b \<noteq> i"
    with ab show ?thesis by (intro D(4) [of a x b y]) simp_all
  next
    assume "a = i" "b \<noteq> i"
    with ab have "map_of (mgr_jobs m) b = Some y" "x = e'" by simp_all
    with no [of b y] ab show ?thesis by simp
  next
    assume "a \<noteq> i" "b = i"
    with ab have "map_of (mgr_jobs m) a = Some x" "y = e'" by simp_all
    with no [of a x] ab show ?thesis by simp
  qed simp
  then show ?thesis using inv e' by (intro mgr_invI_update)
qed

lemma mgr_inv_update_job:
  assumes "mgr_inv m" "\<And>e. map_of (mgr_jobs m) i = Some e \<Longrightarrow>
      entry_ok (e\<lparr>e_job := f (e_job e)\<rparr>) \<and> j_id (f (e_job e)) = j_id (e_job e)
      \<and> work_of (f (e_job e)) = work_of (e_job e) \<and> (job_done (e_job e) \<longrightarrow> job_done (f (e_job e)))"
  shows "mgr_inv (update_job i f m)"
proof (cases "map_of (mgr_jobs m) i")
  case None
  with assms(1) show ?thesis by (simp add: update_job_def)
next
  case (Some e)
  with assms mgr_invD(2) [OF assms(1) Some] show ?thesis
    by (auto simp: update_job_def intro!: mgr_inv_set_entry)
qed

lemma mgr_inv_start:
  assumes inv: "mgr_inv m" and fresh: "new_id \<notin> fst ` set (mgr_jobs m)"
  shows "mgr_inv (snd (snd (start_job now new_id caller req m)))"
proof -
  let ?m = "prune now m"
  have p: "mgr_inv ?m" using inv by (rule mgr_inv_prune)
  show ?thesis
  proof (cases "find (\<lambda>(_, e). same_work req (e_job e)) (mgr_jobs ?m)")
    case (Some a)
    with p show ?thesis by (simp add: start_job_def Let_def split_beta)
  next
    case None
    let ?e = "\<lparr>e_job = fresh_job now new_id caller req, e_cancelled = False, e_closed = False\<rparr>"
    note D = mgr_invD [OF p]
    have ok: "entry_ok ?e" by (simp add: entry_ok_def job_ok_def fresh_job_def job_done_def)
    have no: "\<not> same_work req (e_job e)" if "map_of (mgr_jobs ?m) i = Some e" for i e
      using None that D(1) by (fastforce simp: find_None dest: map_of_SomeD)
    have w: "work_of (fresh_job now new_id caller req) = (sr_type req, sr_backend req, sr_model req)"
      by (simp add: work_of_def fresh_job_def)
    have i: "j_id (fresh_job now new_id caller req) = new_id" by (simp add: fresh_job_def)
    have "mgr_inv (?m\<lparr>mgr_jobs := AList.update new_id ?e (mgr_jobs ?m)\<rparr>)"
      by (rule mgr_inv_new_entry [OF p ok]) (simp add: i, metis no w same_work_iff entry.select_convs(1))
    then show ?thesis using None by (simp add: start_job_def Let_def)
  qed
qed

lemma mgr_inv_step:
  assumes "mgr_step m m'" "mgr_inv m"
  shows "mgr_inv m'"
  using assms
proof (cases rule: mgr_step.cases)
  case (step_start new_id now caller req)
  with assms(2) show ?thesis by (simp add: mgr_inv_start)
next
  case (step_begin i e now)
  with assms(2) show ?thesis
    by (auto intro!: mgr_inv_update_job begin_job_ok dest: mgr_invD(3)
        simp: entry_ok_def work_of_def begin_job_def job_done_def job_ok_def)
next
  case (step_report i e p)
  with assms(2) show ?thesis
    by (auto intro!: mgr_inv_update_job report_job_ok dest: mgr_invD(3)
        simp: entry_ok_def work_of_def job_done_def)
next
  case (step_end i e now outcome)
  with mgr_invD(2,3) [OF assms(2)] have "entry_ok e" "j_id (e_job e) = i" by blast+
  with step_end assms(2) show ?thesis
    by (auto intro!: mgr_inv_set_entry finish_job_ok
        simp: end_job_def entry_ok_def work_of_def finish_job_phase split: sum.splits if_splits)
next
  case (step_list now)
  with assms(2) show ?thesis by (simp add: list_jobs_def Let_def mgr_inv_prune)
next
  case (step_cancel i)
  with assms(2) show ?thesis
    by (auto simp: cancel_job_def Let_def entry_ok_def split: option.splits
        intro!: mgr_inv_set_entry dest: mgr_invD(2,3))
qed

lemma mgr_reach_inv: "mgr_reach m \<Longrightarrow> mgr_inv m"
proof (induction rule: mgr_reach.induct)
  case (reach_new retention cap)
  show ?case by (simp add: new_manager_def mgr_inv_def)
next
  case (reach_step m m')
  then show ?case by (blast intro: mgr_inv_step)
qed

section \<open>How one step changes a job\<close>

fun phase_rank :: "phase \<Rightarrow> nat" where
  "phase_rank Pending = 0"
| "phase_rank Running = 1"
| "phase_rank _ = 2"

text \<open>A table whose entry changed at most at one id, and then only in the ways given.\<close>

lemma mgr_step_entry:
  assumes inv: "mgr_inv m" and st: "mgr_step m m'" and e: "map_of (mgr_jobs m) i = Some e"
  shows "map_of (mgr_jobs m') i = None \<and> job_done (e_job e) \<or>
     (\<exists>e'. map_of (mgr_jobs m') i = Some e' \<and>
        (e' = e \<or> e' = e\<lparr>e_cancelled := True\<rparr> \<and> \<not> job_done (e_job e) \<or>
         j_phase (e_job e) = Pending \<and> (\<exists>now. e' = e\<lparr>e_job := begin_job now (e_job e)\<rparr>) \<or>
         j_phase (e_job e) = Running \<and>
           ((\<exists>p. e' = e\<lparr>e_job := report_job p (e_job e)\<rparr>) \<or>
            (\<exists>now out. e' = e\<lparr>e_job := finish_job now (e_cancelled e) out (e_job e), e_closed := True\<rparr>))))"
    (is "?gone \<or> ?kept")
proof -
  have pr: "map_of (mgr_jobs (prune now m)) i = Some e \<or>
      map_of (mgr_jobs (prune now m)) i = None \<and> job_done (e_job e)" for now
  proof (cases "job_done (e_job e)")
    case True
    with e prune_submap [OF mgr_invD(1) [OF inv], of now i] show ?thesis
      by (metis not_None_eq option.inject)
  next
    case False
    with inv e show ?thesis by (simp add: prune_keeps_unfinished)
  qed
  from st show ?thesis
  proof (cases rule: mgr_step.cases)
    case (step_start new_id now caller req)
    with e have "i \<noteq> new_id" by (metis domI dom_map_of_conv_image_fst)
    with step_start pr [of now] show ?thesis
      by (auto simp: start_job_def Let_def update_conv' split: option.splits)
  next
    case (step_begin k e0 now)
    with e show ?thesis by (cases "k = i") (auto simp: update_job_def update_conv')
  next
    case (step_report k e0 p)
    with e show ?thesis by (cases "k = i") (auto simp: update_job_def update_conv')
  next
    case (step_end k e0 now out)
    with e show ?thesis by (cases "k = i") (auto simp: end_job_def update_conv')
  next
    case (step_list now)
    with pr [of now] show ?thesis by (auto simp: list_jobs_def Let_def)
  next
    case (step_cancel k)
    with e show ?thesis
      by (cases "k = i") (auto simp: cancel_job_def Let_def update_conv' split: option.splits)
  qed
qed

section \<open>Properties\<close>

text \<open>
  C31. A finished job never changes again. Whatever the manager does next (another start, a
  list, a cancel, the goroutine of another job), the job stays in the table exactly as it
  ended, or it is pruned.
\<close>

theorem finished_job_frozen:
  assumes "mgr_reach m" "mgr_step m m'" "map_of (mgr_jobs m) i = Some e" "job_done (e_job e)"
  shows "map_of (mgr_jobs m') i = Some e \<or> map_of (mgr_jobs m') i = None"
proof -
  have "j_phase (e_job e) \<noteq> Pending" "j_phase (e_job e) \<noteq> Running"
    using assms(4) by (auto simp: job_done_def)
  with mgr_step_entry [OF mgr_reach_inv [OF assms(1)] assms(2,3)] assms(4) show ?thesis by auto
qed

text \<open>
  An unfinished job is never lost, keeps its identity and only moves forward: whatever
  step the manager takes, the job is still in the table, with the same id, type, backend,
  model and caller, its phase is the same or a later one and its downloaded bytes never
  shrink while it stays unfinished.
\<close>

theorem unfinished_job_advances:
  assumes "mgr_reach m" "mgr_step m m'" "map_of (mgr_jobs m) i = Some e" "\<not> job_done (e_job e)"
  shows "\<exists>e'. map_of (mgr_jobs m') i = Some e' \<and> j_id (e_job e') = i \<and>
     work_of (e_job e') = work_of (e_job e) \<and> j_requested_by (e_job e') = j_requested_by (e_job e) \<and>
     phase_rank (j_phase (e_job e)) \<le> phase_rank (j_phase (e_job e')) \<and>
     (\<not> job_done (e_job e') \<longrightarrow> j_bytes_completed (e_job e) \<le> j_bytes_completed (e_job e'))"
proof -
  have inv: "mgr_inv m" using assms(1) by (rule mgr_reach_inv)
  have "j_id (e_job e) = i" using mgr_invD(2) [OF inv assms(3)] .
  moreover have "j_requested_by (report_job p j) = j_requested_by j"
    "j_requested_by (finish_job now c out j) = j_requested_by j" for p now c and out :: "'a option res" and j :: "'a job"
    by (auto simp: report_job_def finish_job_def Let_def split: sum.splits)
  ultimately show ?thesis
    using mgr_step_entry [OF inv assms(2,3)] assms(4)
    by (auto simp: begin_job_def work_of_def report_job_bytes finish_job_phase
        split: sum.splits if_splits)
qed

text \<open>
  C32. Every job a client can read is consistent: the finish time is set exactly on a finished
  job and the start time exactly on one that began; the percentage lies between 0 and 100
  and is 100 on a job that succeeded; a result is only ever on a job that succeeded; and a
  job is reported cancelled only if \<open>Cancel\<close> was called on it while it ran.
\<close>

theorem reachable_jobs_consistent:
  assumes "mgr_reach m" "map_of (mgr_jobs m) i = Some e"
  shows "j_id (e_job e) = i \<and> (j_finished_at (e_job e) \<noteq> None \<longleftrightarrow> job_done (e_job e)) \<and>
     (j_started_at (e_job e) = None \<longleftrightarrow> j_phase (e_job e) = Pending) \<and>
     0 \<le> j_percent (e_job e) \<and> j_percent (e_job e) \<le> 100 \<and>
     (j_phase (e_job e) = Succeeded \<longrightarrow> j_percent (e_job e) = 100) \<and>
     (j_result (e_job e) \<noteq> None \<longrightarrow> j_phase (e_job e) = Succeeded) \<and>
     (j_phase (e_job e) = Cancelled \<longrightarrow> e_cancelled e \<and> j_error (e_job e) = ''cancelled'')"
  using mgr_invD(2) [OF mgr_reach_inv [OF assms(1)] assms(2)]
    mgr_invD(3) [OF mgr_reach_inv [OF assms(1)] assms(2)]
  unfolding entry_ok_def job_ok_def by blast

lemma same_work_unique:
  assumes "mgr_inv m" "(i, e) \<in> set (mgr_jobs m)" "same_work req (e_job e)"
    and "(k, e') \<in> set (mgr_jobs m)" "same_work req (e_job e')"
  shows "(k, e') = (i, e)"
proof -
  from assms mgr_invD(1) [OF assms(1)]
  have m: "map_of (mgr_jobs m) i = Some e" "map_of (mgr_jobs m) k = Some e'" by simp_all
  with assms mgr_invD(4) [OF assms(1) m] have "i = k" by (simp add: same_work_iff)
  with m show ?thesis by simp
qed

lemma start_job_joins:
  assumes inv: "mgr_inv m" and e: "map_of (mgr_jobs m) i = Some e" "same_work req (e_job e)"
  shows "start_job now new_id caller req m = (e_job e, False, prune now m)"
proof -
  let ?m = "prune now m"
  have p: "mgr_inv ?m" using inv by (rule mgr_inv_prune)
  have "map_of (mgr_jobs ?m) i = Some e"
    using inv e by (simp add: prune_keeps_unfinished same_work_iff)
  then have i: "(i, e) \<in> set (mgr_jobs ?m)" by (rule map_of_SomeD)
  have "find (\<lambda>(_, e). same_work req (e_job e)) (mgr_jobs ?m) = Some (i, e)"
  proof (rule find_unique)
    show "(i, e) \<in> set (mgr_jobs ?m)" by (rule i)
    show "case (i, e) of (_, e) \<Rightarrow> same_work req (e_job e)" using e(2) by simp
    show "y = (i, e)" if "y \<in> set (mgr_jobs ?m)" "case y of (_, e) \<Rightarrow> same_work req (e_job e)" for y
      using that same_work_unique [OF p i e(2), of "fst y" "snd y"] by (simp add: split_beta)
  qed
  then show ?thesis by (simp add: start_job_def Let_def)
qed

lemma start_job_creates:
  assumes inv: "mgr_inv m"
    and no: "\<And>i e. map_of (mgr_jobs m) i = Some e \<Longrightarrow> \<not> same_work req (e_job e)"
  shows "start_job now new_id caller req m =
     (fresh_job now new_id caller req, True,
      (prune now m)\<lparr>mgr_jobs := AList.update new_id
         \<lparr>e_job = fresh_job now new_id caller req, e_cancelled = False, e_closed = False\<rparr>
         (mgr_jobs (prune now m))\<rparr>)"
proof -
  have "\<not> same_work req (e_job e)" if "(i, e) \<in> set (mgr_jobs (prune now m))" for i e
  proof -
    have "map_of (mgr_jobs (prune now m)) i = Some e"
      using that by (rule map_of_is_SomeI [OF mgr_invD(1) [OF mgr_inv_prune [OF inv]]])
    then have "map_of (mgr_jobs m) i = Some e" by (rule prune_submap [OF mgr_invD(1) [OF inv]])
    then show ?thesis by (rule no)
  qed
  then have "find (\<lambda>(_, e). same_work req (e_job e)) (mgr_jobs (prune now m)) = None"
    by (simp add: find_None split_beta) (metis prod.collapse)
  then show ?thesis by (simp add: start_job_def Let_def)
qed


text \<open>
  Which job a start answers does not depend on the order Go ranges over the map: over any
  other order of the same table it answers the same job, created or joined alike.
\<close>

theorem start_job_order_irrelevant:
  assumes "mgr_reach m" "distinct (map fst t)" "set t = set (mgr_jobs m)"
  shows "fst (start_job now new_id caller req (m\<lparr>mgr_jobs := t\<rparr>)) = fst (start_job now new_id caller req m) \<and>
     fst (snd (start_job now new_id caller req (m\<lparr>mgr_jobs := t\<rparr>))) = fst (snd (start_job now new_id caller req m))"
proof -
  let ?m = "m\<lparr>mgr_jobs := t\<rparr>"
  have inv: "mgr_inv m" using assms(1) by (rule mgr_reach_inv)
  have same: "map_of t = map_of (mgr_jobs m)"
    using assms(2,3) mgr_invD(1) [OF inv] by (intro map_of_inject_set [THEN iffD2])
  have inv': "mgr_inv ?m"
    by (rule mgr_inv_submap [OF inv]) (simp_all add: assms(2) same)
  show ?thesis
  proof (cases "\<exists>i e. map_of (mgr_jobs m) i = Some e \<and> same_work req (e_job e)")
    case True
    then obtain i e where e: "map_of (mgr_jobs m) i = Some e" "same_work req (e_job e)" by blast
    moreover have "map_of (mgr_jobs ?m) i = Some e" using e(1) same by simp
    ultimately show ?thesis by (simp add: start_job_joins [OF inv] start_job_joins [OF inv'])
  next
    case False
    then have no: "\<not> same_work req (e_job e)" if "map_of (mgr_jobs m) i = Some e" for i e
      using that by blast
    have no': "\<not> same_work req (e_job e)" if "map_of (mgr_jobs ?m) i = Some e" for i e
      using that same by (intro no [of i]) simp
    have "fst (start_job now new_id caller req x) = fresh_job now new_id caller req \<and>
        fst (snd (start_job now new_id caller req x))" if "x = m \<or> x = ?m" for x
      using that
    proof
      assume "x = m"
      show ?thesis unfolding \<open>x = m\<close> by (subst start_job_creates, rule inv, erule no)+ simp
    next
      assume "x = ?m"
      show ?thesis unfolding \<open>x = ?m\<close> by (subst start_job_creates, rule inv', erule no')+ simp
    qed
    then show ?thesis by simp
  qed
qed

section \<open>Pruning and listing\<close>

lemma filter_swap: "filter P (filter Q xs) = filter Q (filter P xs)"
  by (induction xs) auto

lemma filter_not_taken:
  "distinct (map f xs) \<Longrightarrow> filter (\<lambda>x. f x \<notin> set (map f (take d xs))) xs = drop d xs"
proof -
  assume d: "distinct (map f xs)"
  let ?P = "\<lambda>x. f x \<notin> set (map f (take d xs))"
  have "distinct (map f (take d xs) @ map f (drop d xs))"
    using d by (metis append_take_drop_id map_append)
  then have "filter ?P (drop d xs) = drop d xs" "filter ?P (take d xs) = []"
    by (auto simp: filter_id_conv filter_empty_conv)
  then show ?thesis by (metis append_take_drop_id filter_append append_Nil)
qed

text \<open>What pruning leaves of the finished jobs: the newest of those within retention.\<close>

lemma prune_finished:
  fixes m :: "'r manager"
  assumes inv: "mgr_inv m"
  obtains S :: "'r entry list" and d where "sorted (map finished_time S)"
    "set S = {e. \<exists>i. map_of (mgr_jobs m) i = Some e \<and> prunable e \<and> \<not> expired (now - mgr_retention m) e}"
    "mset (filter prunable (map snd (mgr_jobs (prune now m)))) = mset (drop d S)"
    "length (drop d S) \<le> mgr_max_jobs m"
    "over_cap (mgr_max_jobs m) (filter (\<lambda>(_, e). \<not> expired (now - mgr_retention m) e) (mgr_jobs m))
       = map (j_id \<circ> e_job) (take d S)"
proof -
  let ?K = "filter (\<lambda>(_, e). \<not> expired (now - mgr_retention m) e) (mgr_jobs m)"
  let ?F = "filter prunable (map snd ?K)"
  let ?S = "sort_key finished_time ?F"
  let ?d = "length ?S - mgr_max_jobs m"
  let ?id = "j_id \<circ> e_job"
  note dk = mgr_invD(1) [OF inv]
  have idK: "?id (snd x) = fst x" if "x \<in> set ?K" for x
  proof -
    from that have "(fst x, snd x) \<in> set (mgr_jobs m)" by simp
    then have "map_of (mgr_jobs m) (fst x) = Some (snd x)" by (rule map_of_is_SomeI [OF dk])
    then show ?thesis using mgr_invD(2) [OF inv] by simp
  qed
  have ids: "map ?id (map snd ?K) = map fst ?K"
    unfolding map_map by (rule map_cong [OF refl]) (simp only: o_apply idK [unfolded o_apply])
  have "distinct (map fst ?K)" using dk by (rule distinct_keys_filter)
  then have "distinct (map ?id (map snd ?K))" unfolding ids .
  then have "distinct (map ?id ?F)" by (rule distinct_map_filter)
  then have dS: "distinct (map ?id ?S)"
    by (simp only: distinct_map distinct_sort set_sort)
  have over: "over_cap (mgr_max_jobs m) ?K = map ?id (take ?d ?S)" by (simp add: over_cap_def Let_def)
  let ?P = "\<lambda>e. ?id e \<notin> set (map ?id (take ?d ?S))"
  have "map snd (mgr_jobs (prune now m)) = map snd (filter (\<lambda>x. ?P (snd x)) ?K)"
  proof -
    have "filter (\<lambda>(i, _). \<not> List.member (over_cap (mgr_max_jobs m) ?K) i) ?K
        = filter (\<lambda>x. ?P (snd x)) ?K"
      unfolding over by (rule filter_cong [OF refl]) (simp add: idK [unfolded o_apply] split_beta)
    then show ?thesis by (simp add: prune_def Let_def del: filter_filter)
  qed
  also have "\<dots> = filter ?P (map snd ?K)" by (simp add: filter_map o_def)
  finally have "filter prunable (map snd (mgr_jobs (prune now m))) = filter ?P ?F"
    by (simp only: filter_swap [of prunable])
  then have "mset (filter prunable (map snd (mgr_jobs (prune now m)))) = mset (filter ?P ?S)"
    by (simp only: mset_filter mset_sort)
  also have "filter ?P ?S = drop ?d ?S" using dS by (rule filter_not_taken)
  finally have "mset (filter prunable (map snd (mgr_jobs (prune now m)))) = mset (drop ?d ?S)" .
  moreover have "set ?S = {e. \<exists>i. map_of (mgr_jobs m) i = Some e \<and> prunable e \<and>
      \<not> expired (now - mgr_retention m) e}"
  proof (rule set_eqI)
    fix e
    have "e \<in> set ?S \<longleftrightarrow> (\<exists>i. (i, e) \<in> set (mgr_jobs m)) \<and> prunable e \<and> \<not> expired (now - mgr_retention m) e"
      by force
    then show "e \<in> set ?S \<longleftrightarrow> e \<in> {e. \<exists>i. map_of (mgr_jobs m) i = Some e \<and> prunable e \<and>
        \<not> expired (now - mgr_retention m) e}"
      by (simp only: in_set_map_of [OF dk] mem_Collect_eq) blast
  qed
  ultimately show thesis using over by (intro that [of ?S ?d]) simp_all
qed

text \<open>
  Pruning keeps every unfinished job; of the finished ones it keeps at most the configured
  number, none that finished before the retention window, and never drops one while keeping
  an older-finished one.
\<close>

theorem prune_keeps_newest:
  assumes "mgr_reach m"
  shows "(\<forall>i e. map_of (mgr_jobs m) i = Some e \<longrightarrow> \<not> job_done (e_job e) \<longrightarrow>
            map_of (mgr_jobs (prune now m)) i = Some e) \<and>
     length (filter prunable (map snd (mgr_jobs (prune now m)))) \<le> mgr_max_jobs m \<and>
     (\<forall>i e. map_of (mgr_jobs (prune now m)) i = Some e \<longrightarrow> job_done (e_job e) \<longrightarrow>
        now - mgr_retention m \<le> finished_time e) \<and>
     (\<forall>i e k d. map_of (mgr_jobs (prune now m)) i = Some e \<longrightarrow> job_done (e_job e) \<longrightarrow>
        map_of (mgr_jobs m) k = Some d \<longrightarrow> map_of (mgr_jobs (prune now m)) k = None \<longrightarrow>
        finished_time d \<le> finished_time e)"
proof -
  have inv: "mgr_inv m" using assms by (rule mgr_reach_inv)
  note D = mgr_invD [OF inv]
  obtain S d where sorted: "sorted (map finished_time S)"
    and S: "set S = {e. \<exists>i. map_of (mgr_jobs m) i = Some e \<and> prunable e \<and> \<not> expired (now - mgr_retention m) e}"
    and left: "mset (filter prunable (map snd (mgr_jobs (prune now m)))) = mset (drop d S)"
    and cap: "length (drop d S) \<le> mgr_max_jobs m"
    and over: "over_cap (mgr_max_jobs m) (filter (\<lambda>(_, e). \<not> expired (now - mgr_retention m) e) (mgr_jobs m))
       = map (j_id \<circ> e_job) (take d S)"
    using prune_finished [OF inv, of now] by blast
  have fin: "prunable e" if "map_of (mgr_jobs m) i = Some e" "job_done (e_job e)" for i e
    using D(3) [OF that(1)] that(2) by (simp add: entry_ok_def job_ok_def prunable_def)
  have kept: "e \<in> set (drop d S) \<and> \<not> expired (now - mgr_retention m) e \<and> prunable e"
    if e: "map_of (mgr_jobs (prune now m)) i = Some e" "job_done (e_job e)" for i e
  proof -
    have "map_of (mgr_jobs m) i = Some e" using prune_submap [OF D(1) e(1)] .
    then have pr: "prunable e" using e(2) by (rule fin)
    have "e \<in> set (map snd (mgr_jobs (prune now m)))" using map_of_SomeD [OF e(1)] by force
    with pr have "e \<in># mset (filter prunable (map snd (mgr_jobs (prune now m))))" by simp
    then have "e \<in> set (drop d S)" unfolding left by simp
    moreover from this have "e \<in> set S" by (rule in_set_dropD)
    ultimately show ?thesis using S by blast
  qed
  have older: "finished_time x \<le> finished_time e"
    if e: "map_of (mgr_jobs (prune now m)) i = Some e" "job_done (e_job e)"
      and x: "map_of (mgr_jobs m) k = Some x" "map_of (mgr_jobs (prune now m)) k = None" for i e k x
  proof (cases "expired (now - mgr_retention m) x")
    case True
    with kept [OF e] show ?thesis by (auto simp: expired_def)
  next
    case False
    with x D(1) over have "k \<in> set (map (j_id \<circ> e_job) (take d S))"
      by (simp add: map_of_prune del: set_map split: if_splits)
    then obtain y where y: "y \<in> set (take d S)" "j_id (e_job y) = k" by auto
    then have "y \<in> set S" by (auto dest: in_set_takeD)
    then obtain j where "map_of (mgr_jobs m) j = Some y" using S by blast
    with D(2) [OF this] y(2) x(1) have "y = x" by simp
    with y have "x \<in> set (take d S)" by simp
    moreover have "sorted (map finished_time (take d S) @ map finished_time (drop d S))"
      using sorted by (metis append_take_drop_id map_append)
    ultimately show ?thesis using kept [OF e] by (auto simp: sorted_append)
  qed
  have "length (filter prunable (map snd (mgr_jobs (prune now m)))) \<le> mgr_max_jobs m"
    using left cap by (metis size_mset)
  moreover have "now - mgr_retention m \<le> finished_time e"
    if "map_of (mgr_jobs (prune now m)) i = Some e" "job_done (e_job e)" for i e
    using kept [OF that] by (auto simp: expired_def)
  ultimately show ?thesis
    using prune_keeps_unfinished [OF inv] older by blast
qed

text \<open>
  The job list is the pruned table, every job once, newest first, and by id among jobs
  created at the same time.
\<close>

theorem list_jobs_newest_first:
  assumes "mgr_reach m" "fst (list_jobs now m) = js"
  shows "mset js = mset (map (e_job \<circ> snd) (mgr_jobs (prune now m))) \<and>
     sorted_wrt (\<lambda>a b. j_created_at b < j_created_at a \<or>
        j_created_at a = j_created_at b \<and> j_id a < j_id b) js"
proof -
  let ?m = "prune now m"
  let ?f = "newest_first :: 'a job \<Rightarrow> _"
  have inv: "mgr_inv ?m" using mgr_inv_prune [OF mgr_reach_inv [OF assms(1)]] .
  have js: "js = sort_key ?f (map (e_job \<circ> snd) (mgr_jobs ?m))"
    using assms(2) by (simp add: list_jobs_def Let_def)
  have "map j_id (map (e_job \<circ> snd) (mgr_jobs ?m)) = map fst (mgr_jobs ?m)"
    unfolding map_map
  proof (rule map_cong [OF refl])
    fix x assume "x \<in> set (mgr_jobs ?m)"
    then have "map_of (mgr_jobs ?m) (fst x) = Some (snd x)"
      by (intro map_of_is_SomeI [OF mgr_invD(1) [OF inv]]) simp
    then show "(j_id \<circ> (e_job \<circ> snd)) x = fst x" using mgr_invD(2) [OF inv] by simp
  qed
  then have "distinct (map j_id (map (e_job \<circ> snd) (mgr_jobs ?m)))"
    using mgr_invD(1) [OF inv] by (simp only:)
  then have "distinct (map j_id js)" unfolding js by (simp only: distinct_map distinct_sort set_sort)
  then have d: "sorted_wrt (\<lambda>a b. j_id a \<noteq> j_id b) js" by (simp add: distinct_conv_nth sorted_wrt_iff_nth_less)
  have "sorted (map ?f js)" unfolding js by simp
  then have s: "sorted_wrt (\<lambda>a b. ?f a \<le> ?f b) js" by (simp add: sorted_map)
  have "sorted_wrt (\<lambda>a b. j_created_at b < j_created_at a \<or>
        j_created_at a = j_created_at b \<and> j_id a < j_id b) js"
    unfolding sorted_wrt_iff_nth_less
  proof (intro allI impI)
    fix i k assume ik: "i < k" "k < length js"
    with s d have "?f (js ! i) \<le> ?f (js ! k)" "j_id (js ! i) \<noteq> j_id (js ! k)"
      by (simp_all add: sorted_wrt_iff_nth_less)
    then show "j_created_at (js ! k) < j_created_at (js ! i) \<or>
        j_created_at (js ! i) = j_created_at (js ! k) \<and> j_id (js ! i) < j_id (js ! k)"
      by (auto simp: newest_first_def less_eq_prod_def)
  qed
  then show ?thesis unfolding js by simp
qed

section \<open>Progress\<close>

lemma goroutine_end:
  assumes e: "map_of (mgr_jobs m) i = Some e" "j_phase (e_job e) = Running"
  shows "\<exists>m'. mgr_step m m' \<and> map_of (mgr_jobs m') i = Some
     (e\<lparr>e_job := finish_job now (e_cancelled e) outcome (e_job e), e_closed := True\<rparr>)"
  using e by (intro exI [of _ "end_job now outcome i m"] conjI mgr_step.step_end)
    (auto simp: end_job_def update_conv')

text \<open>
  C34. No job is stuck. Whatever the state, an unfinished job's goroutine can run to its end,
  for every outcome its operation may have; the job then is succeeded, failed or cancelled as
  the outcome and a cancellation say, and everyone awaiting it gets that job.
\<close>

theorem unfinished_job_can_end:
  fixes m :: "'r manager"
  assumes "mgr_reach m" "map_of (mgr_jobs m) i = Some e" "\<not> job_done (e_job e)"
  shows "\<exists>m' j. mgr_step\<^sup>*\<^sup>* m m' \<and> await_job None i m' = Some (Inr j) \<and> j_id j = i \<and>
     j_phase j = (case outcome of Inl err \<Rightarrow> if err_is err ErrCanceled \<and> e_cancelled e then Cancelled else Failed
                  | Inr (_ :: 'r option) \<Rightarrow> Succeeded)"
proof -
  have id: "j_id (e_job e) = i" using mgr_invD(2) [OF mgr_reach_inv [OF assms(1)] assms(2)] .
  obtain m1 e1 where m1: "mgr_step\<^sup>*\<^sup>* m m1" "map_of (mgr_jobs m1) i = Some e1"
    "j_phase (e_job e1) = Running" "j_id (e_job e1) = i" "e_cancelled e1 = e_cancelled e"
  proof (cases "j_phase (e_job e) = Pending")
    case True
    with assms(2) have "mgr_step m (update_job i (begin_job 0) m)" by (rule mgr_step.step_begin)
    with assms(2) id that [of "update_job i (begin_job 0) m" "e\<lparr>e_job := begin_job 0 (e_job e)\<rparr>"]
    show thesis by (auto simp: update_job_def update_conv' begin_job_def)
  next
    case False
    with assms(3) have "j_phase (e_job e) = Running"
      by (cases "j_phase (e_job e)") (simp_all add: job_done_def)
    with assms(2) id that [of m e] show thesis by simp
  qed
  obtain m2 where m2: "mgr_step m1 m2" and e2: "map_of (mgr_jobs m2) i = Some
      (e1\<lparr>e_job := finish_job 0 (e_cancelled e1) outcome (e_job e1), e_closed := True\<rparr>)"
    using goroutine_end [OF m1(2,3), of 0 outcome] by blast
  from m1(1) m2 have "mgr_step\<^sup>*\<^sup>* m m2" by simp
  with e2 m1(4,5) show ?thesis
    by (intro exI [of _ m2] exI [of _ "finish_job 0 (e_cancelled e1) outcome (e_job e1)"])
      (simp add: await_job_def get_job_def finish_job_phase)
qed

section \<open>Witnesses\<close>

text \<open>A manager with a finished pull and a running load, reached step by step.\<close>

definition w_req :: "job_type \<Rightarrow> start_request" where
  "w_req t = \<lparr>sr_type = t, sr_backend = ''ollama'', sr_model = ''smollm2:135m'', sr_wire = True,
     sr_node = [], sr_preset = [], sr_resource = []\<rparr>"

definition w_job :: "unit job" where
  "w_job = fresh_job 10 ''a1'' ''jo@example.org'' (w_req TypePull)"

definition w_entry :: "unit job \<Rightarrow> bool \<Rightarrow> unit entry" where
  "w_entry j ended = \<lparr>e_job = j, e_cancelled = False, e_closed = ended\<rparr>"

definition w_started :: "unit manager" where
  "w_started = \<lparr>mgr_jobs = [(''a1'', w_entry w_job False)], mgr_retention = 100, mgr_max_jobs = 1\<rparr>"

definition w_done :: "unit job" where
  "w_done = finish_job 20 False (Inr None) (begin_job 11 w_job)"

definition w_finished :: "unit manager" where
  "w_finished = \<lparr>mgr_jobs = [(''a1'', w_entry w_done True)], mgr_retention = 100, mgr_max_jobs = 1\<rparr>"

lemmas w_defs = w_req_def w_job_def w_entry_def w_started_def w_done_def w_finished_def

lemma w_started_reach: "mgr_reach w_started"
proof -
  have "start_job 10 ''a1'' ''jo@example.org'' (w_req TypePull) (new_manager 100 1 :: unit manager) =
      (w_job, True, w_started)"
    by (simp add: start_job_def new_manager_def prune_def over_cap_def w_defs Let_def)
  moreover have "''a1'' \<notin> fst ` set (mgr_jobs (new_manager 100 1 :: unit manager))"
    by (simp add: new_manager_def)
  ultimately show ?thesis
    using mgr_step.step_start [of "''a1''" "new_manager 100 1 :: unit manager" 10 "''jo@example.org''" "w_req TypePull"]
    by (metis mgr_reach.intros snd_conv)
qed

lemma w_finished_reach: "mgr_reach w_finished"
proof -
  let ?b = "update_job ''a1'' (begin_job 11) w_started"
  have "mgr_step w_started ?b"
    by (rule mgr_step.step_begin [of _ _ "w_entry w_job False"]) (simp_all add: w_defs fresh_job_def)
  with w_started_reach have b: "mgr_reach ?b" by (rule mgr_reach.reach_step)
  have "mgr_step ?b (end_job 20 (Inr None) ''a1'' ?b)"
    by (rule mgr_step.step_end [of _ _ "w_entry (begin_job 11 w_job) False"])
      (simp_all add: update_job_def w_defs begin_job_def fresh_job_def)
  moreover have "end_job 20 (Inr None) ''a1'' ?b = w_finished"
    by (simp add: end_job_def update_job_def w_defs)
  ultimately show ?thesis using b by (metis mgr_reach.reach_step)
qed

lemma w_done_done: "job_done w_done"
  by (simp add: w_done_def)

lemma w_lookups:
  "map_of (mgr_jobs w_started) ''a1'' = Some (w_entry w_job False)"
  "map_of (mgr_jobs w_finished) ''a1'' = Some (w_entry w_done True)"
  "\<not> job_done (e_job (w_entry w_job False))" "job_done (e_job (w_entry w_done True))"
  using w_done_done by (simp_all add: w_started_def w_finished_def w_entry_def w_job_def fresh_job_def job_done_def)

theorem finished_job_frozen_witness:
  "map_of (mgr_jobs (snd (cancel_job ''a1'' w_finished))) ''a1'' = Some (w_entry w_done True) \<or>
   map_of (mgr_jobs (snd (cancel_job ''a1'' w_finished))) ''a1'' = None"
  by (rule finished_job_frozen [OF w_finished_reach mgr_step.step_cancel w_lookups(2,4)])

theorem unfinished_job_advances_witness:
  "\<exists>e'. map_of (mgr_jobs (snd (list_jobs 50 w_started))) ''a1'' = Some e' \<and> j_id (e_job e') = ''a1''"
  using unfinished_job_advances [OF w_started_reach mgr_step.step_list [of _ 50] w_lookups(1,3)] by blast

theorem reachable_jobs_consistent_witness:
  "j_finished_at (e_job (w_entry w_done True)) \<noteq> None \<and> j_percent (e_job (w_entry w_done True)) \<le> 100"
  using reachable_jobs_consistent [OF w_finished_reach w_lookups(2)] w_lookups(4) by blast


theorem start_job_order_irrelevant_witness:
  "fst (start_job 30 ''b2'' [] (w_req TypeLoad) (w_started\<lparr>mgr_jobs := mgr_jobs w_started\<rparr>)) =
   fst (start_job 30 ''b2'' [] (w_req TypeLoad) w_started)"
proof -
  have "distinct (map fst (mgr_jobs w_started))" by (simp add: w_started_def)
  with start_job_order_irrelevant [OF w_started_reach this refl, where now = 30 and new_id = "''b2''" and caller = "[]" and req = "w_req TypeLoad"]
  show ?thesis by blast
qed

theorem prune_keeps_newest_witness:
  "map_of (mgr_jobs (prune 1000 w_started)) ''a1'' = Some (w_entry w_job False) \<and>
   length (filter prunable (map snd (mgr_jobs (prune 1000 w_finished)))) \<le> 1"
proof -
  have "mgr_max_jobs w_finished = 1" by (simp add: w_finished_def)
  with prune_keeps_newest [OF w_started_reach, of 1000] prune_keeps_newest [OF w_finished_reach, of 1000]
    w_lookups(1,3) show ?thesis by metis
qed

theorem list_jobs_newest_first_witness: "fst (list_jobs 50 w_started) = [w_job]"
proof -
  have "prune 50 w_started = w_started"
    by (simp add: prune_def over_cap_def w_defs expired_def prunable_def fresh_job_def job_done_def)
  with list_jobs_newest_first [OF w_started_reach refl, of 50]
  have "mset (fst (list_jobs 50 w_started)) = {#w_job#}" by (simp add: w_started_def w_entry_def)
  then show ?thesis by simp
qed

theorem unfinished_job_can_end_witness:
  "\<exists>m' j. mgr_step\<^sup>*\<^sup>* w_started m' \<and> await_job None ''a1'' m' = Some (Inr j) \<and> j_phase j = Failed"
  using unfinished_job_can_end [OF w_started_reach w_lookups(1,3), of "Inl (err_sentinel ErrCanceled)"]
  by (auto simp: w_entry_def)

end
