(* ===== verification/Naming.thy ===== *)
theory Naming
  imports Backend "HOL-Library.Word"
begin

unbundle bit_operations_syntax

text \<open>
  The names of \<open>internal/wiring/kagent.go\<close>: the DNS-1123 label derived from a model
  reference (\<open>ModelConfigName\<close>), the label a model-manager instance is known by
  (\<open>InstanceName\<close>), a name with its backend appended (\<open>suffixed\<close>) and the name of
  a ModelConfig's placeholder Secret. Slices that Go refuses (a negative bound) are \<open>None\<close>.
\<close>

section \<open>The names\<close>

definition max_name_length :: nat where "max_name_length = 63"

text \<open>FNV-1a of \<open>hash/fnv\<close> on 32 bits, and \<open>%08x\<close> of its sum.\<close>

definition fnv32a :: "string \<Rightarrow> 32 word" where
  "fnv32a s = foldl (\<lambda>h c. (h XOR of_char c) * 16777619) 2166136261 s"

definition hex_digit :: "nat \<Rightarrow> char" where
  "hex_digit d = (if d < 10 then char_of (48 + d) else char_of (87 + d))"

definition hex8 :: "32 word \<Rightarrow> string" where
  "hex8 w = map (\<lambda>i. hex_digit (unat (drop_bit (4 * i) w AND 15))) [7, 6, 5, 4, 3, 2, 1, 0]"

text \<open>The rune loop; \<open>last_dash\<close> is its \<open>lastDash\<close>.\<close>

fun dashed :: "bool \<Rightarrow> string \<Rightarrow> string" where
  "dashed last_dash [] = []"
| "dashed last_dash (r # rs) =
     (if is_lower r \<or> is_digit r then r # dashed False rs
      else if \<not> last_dash then CHR ''-'' # dashed True rs
      else dashed True rs)"

definition ModelConfigName :: "string \<Rightarrow> string \<Rightarrow> string" where
  "ModelConfigName pre model =
     (let raw = to_lower (trim_space model);
          name = trim_right (CHR ''-'') (dashed True raw);
          name = (if name = [] then ''model'' else name);
          name = (if is_digit (hd name) then ''m-'' @ name else name);
          name = (if pre \<noteq> [] then trim_right (CHR ''-'') pre @ ''-'' @ name else name)
      in if length name > max_name_length
         then (let sfx = ''-'' @ hex8 (fnv32a raw)
               in trim_right (CHR ''-'') (take (max_name_length - length sfx) name) @ sfx)
         else name)"

definition InstanceName :: "string \<Rightarrow> string" where
  "InstanceName name = ModelConfigName [] name"

definition suffixed :: "string \<Rightarrow> name \<Rightarrow> string option" where
  "suffixed name b =
     (let sfx = ''-'' @ b
      in if length name + length sfx > max_name_length
         then (if length sfx > max_name_length then None
               else Some (trim_right (CHR ''-'') (take (max_name_length - length sfx) name) @ sfx))
         else Some (trim_right (CHR ''-'') name @ sfx))"

definition placeholder_suffix :: string where "placeholder_suffix = ''-api-key''"

definition placeholderSecretName :: "string \<Rightarrow> string" where
  "placeholderSecretName mc_name =
     (let mc_name = (if length mc_name + length placeholder_suffix > max_name_length
                     then take (max_name_length - length placeholder_suffix) mc_name else mc_name)
      in trim_right (CHR ''-'') mc_name @ placeholder_suffix)"

section \<open>Labels\<close>

text \<open>The characters of a DNS-1123 label, and a label: what Kubernetes admits as a name.\<close>

definition label_char :: "char \<Rightarrow> bool" where
  "label_char c \<longleftrightarrow> is_lower c \<or> is_digit c \<or> c = CHR ''-''"

definition alnum :: "char \<Rightarrow> bool" where
  "alnum c \<longleftrightarrow> is_lower c \<or> is_digit c"

definition dns_label :: "string \<Rightarrow> bool" where
  "dns_label s \<longleftrightarrow> s \<noteq> [] \<and> length s \<le> max_name_length \<and> list_all label_char s
     \<and> alnum (hd s) \<and> alnum (last s)"

text \<open>No two adjacent dashes.\<close>

fun single_dashes :: "string \<Rightarrow> bool" where
  "single_dashes (a # b # s) \<longleftrightarrow> \<not> (a = CHR ''-'' \<and> b = CHR ''-'') \<and> single_dashes (b # s)"
| "single_dashes _ \<longleftrightarrow> True"

lemma alnum_not_dash [simp]: "alnum c \<Longrightarrow> c \<noteq> CHR ''-''"
  by (auto simp: alnum_def is_lower_def is_digit_def less_eq_char_def)

lemma dash_not_alnum [simp]: "\<not> alnum (CHR ''-'')"
  using alnum_not_dash by blast

lemma label_char_alnum [simp]: "alnum c \<Longrightarrow> label_char c"
  by (auto simp: label_char_def alnum_def)

lemma label_char_cases: "label_char c \<longleftrightarrow> alnum c \<or> c = CHR ''-''"
  by (auto simp: label_char_def alnum_def)

lemma hex_digit_alnum: "d < 16 \<Longrightarrow> alnum (hex_digit d)"
proof -
  have "list_all (\<lambda>d. alnum (hex_digit d)) [0..<16]" by code_simp
  then show "d < 16 \<Longrightarrow> alnum (hex_digit d)" by (simp add: list_all_iff)
qed

lemma hex8_alnum: "list_all alnum (hex8 w)"
proof -
  have "unat (x AND 15) < 16" for x :: "32 word"
  proof -
    have "x AND 15 = take_bit 4 x" by (simp add: take_bit_eq_mask mask_numeral)
    then show ?thesis using take_bit_nat_less_exp [of 4 "unat x"] by (simp add: unsigned_take_bit_eq)
  qed
  then show ?thesis by (simp add: hex8_def hex_digit_alnum)
qed

lemma length_hex8 [simp]: "length (hex8 w) = 8"
  by (simp add: hex8_def)

subsection \<open>The rune loop\<close>

lemma dashed_chars: "list_all label_char (dashed d s)"
  by (induction d s rule: dashed.induct) (auto simp: label_char_def)

lemma dashed_hd: "dashed True s \<noteq> [] \<Longrightarrow> alnum (hd (dashed True s))"
  by (induction s) (auto simp: alnum_def)

lemma single_dashes_Cons:
  "single_dashes (c # s) \<longleftrightarrow> single_dashes s \<and> (s = [] \<or> c \<noteq> CHR ''-'' \<or> hd s \<noteq> CHR ''-'')"
  by (cases s) auto

lemma dashed_single: "single_dashes (dashed d s)"
proof (induction d s rule: dashed.induct)
  case (2 d r rs)
  have "alnum r \<Longrightarrow> single_dashes (dashed False rs) \<Longrightarrow> single_dashes (r # dashed False rs)"
    by (auto simp: single_dashes_Cons)
  moreover have "single_dashes (dashed True rs) \<Longrightarrow> single_dashes (CHR ''-'' # dashed True rs)"
    using dashed_hd [of rs] by (auto simp: single_dashes_Cons)
  ultimately show ?case using 2 by (auto simp: alnum_def)
qed simp

lemma dashed_fixed:
  "list_all label_char s \<Longrightarrow> single_dashes s \<Longrightarrow> d \<longrightarrow> s = [] \<or> hd s \<noteq> CHR ''-'' \<Longrightarrow> dashed d s = s"
proof (induction s arbitrary: d)
  case (Cons r s)
  then show ?case
    by (auto simp: single_dashes_Cons label_char_def)
qed simp

lemma lower_char_label [simp]: "label_char c \<Longrightarrow> lower_char c = c"
  by (auto simp: lower_char_def label_char_def is_lower_def is_digit_def is_upper_def less_eq_char_def)

lemma to_lower_label: "list_all label_char s \<Longrightarrow> to_lower s = s"
  by (auto simp: to_lower_def list_all_iff intro: map_idI)

lemma label_char_not_space: "label_char c \<Longrightarrow> \<not> is_space c"
  by (auto simp: is_space_def label_char_def is_lower_def is_digit_def less_eq_char_def)

lemma trim_right_fixed: "s = [] \<or> last s \<noteq> c \<Longrightarrow> trim_right c s = s"
  using dropWhile_fixed [of "rev s" "\<lambda>x. x = c"] by (cases "s = []") (auto simp: trim_right_def hd_rev)

lemma single_dashes_append:
  "single_dashes (a @ b) \<longleftrightarrow> single_dashes a \<and> single_dashes b \<and>
     (a = [] \<or> b = [] \<or> last a \<noteq> CHR ''-'' \<or> hd b \<noteq> CHR ''-'')"
  by (induction a) (auto simp: single_dashes_Cons hd_append)

lemma single_dashes_prefix: "single_dashes (a @ b) \<Longrightarrow> single_dashes a"
  by (simp add: single_dashes_append)

lemma single_dashes_alnum: "list_all alnum s \<Longrightarrow> single_dashes s"
  by (induction s) (auto simp: single_dashes_Cons)

lemma single_dashes_trim_right: "single_dashes s \<Longrightarrow> single_dashes (trim_right c s)"
  using trim_right_prefix [of s c] single_dashes_prefix by metis

lemma list_all_trim_right: "list_all P s \<Longrightarrow> list_all P (trim_right c s)"
  using set_trim_right [of c s] by (auto simp: list_all_iff)

subsection \<open>The name before it is shortened\<close>

definition base_name :: "string \<Rightarrow> string" where
  "base_name model =
     (let name = trim_right (CHR ''-'') (dashed True (to_lower (trim_space model)));
          name = (if name = [] then ''model'' else name)
      in if is_digit (hd name) then ''m-'' @ name else name)"

text \<open>A label of any length that starts with a letter.\<close>

definition letter_label :: "string \<Rightarrow> bool" where
  "letter_label s \<longleftrightarrow> s \<noteq> [] \<and> list_all label_char s \<and> single_dashes s
     \<and> is_lower (hd s) \<and> alnum (last s)"

lemma letter_label_model: "letter_label ''model''"
  by code_simp

lemma letter_label_m: "s \<noteq> [] \<Longrightarrow> list_all label_char s \<Longrightarrow> single_dashes s \<Longrightarrow> is_digit (hd s) \<Longrightarrow>
    alnum (last s) \<Longrightarrow> letter_label (''m-'' @ s)"
  by (auto simp: letter_label_def single_dashes_Cons label_char_def is_lower_def is_digit_def
      less_eq_char_def hd_append)

lemma alnum_last:
  assumes "s \<noteq> []" "list_all label_char s" "last s \<noteq> CHR ''-''"
  shows "alnum (last s)"
  using assms by (metis label_char_cases last_in_set list_all_iff)

lemma base_name_label: "letter_label (base_name model)"
proof -
  let ?d = "dashed True (to_lower (trim_space model))"
  let ?t = "trim_right (CHR ''-'') ?d"
  show ?thesis
  proof (cases "?t = []")
    case True
    have "\<not> is_digit (hd ''model'')" by code_simp
    with True show ?thesis by (simp add: base_name_def letter_label_model)
  next
    case False
    then have d: "?d \<noteq> []" by (auto simp: trim_right_def)
    then have hd: "alnum (hd ?d)" by (rule dashed_hd)
    with d have "hd ?t = hd ?d" using hd_trim_right [OF d, of "CHR ''-''"] by simp
    with hd have hdt: "alnum (hd ?t)" by simp
    have chars: "list_all label_char ?t" by (simp add: list_all_trim_right dashed_chars)
    have single: "single_dashes ?t" by (simp add: single_dashes_trim_right dashed_single)
    have lst: "alnum (last ?t)"
      using alnum_last [OF False chars] last_trim_right [OF False] by blast
    show ?thesis
    proof (cases "is_digit (hd ?t)")
      case True
      with False show ?thesis
        using letter_label_m [OF False chars single True lst] by (simp add: base_name_def)
    next
      case nd: False
      with hdt have "is_lower (hd ?t)" by (simp add: alnum_def)
      with False nd chars single lst show ?thesis by (simp add: base_name_def letter_label_def)
    qed
  qed
qed

definition shorten :: "string \<Rightarrow> string \<Rightarrow> string" where
  "shorten raw name =
     (if length name > max_name_length
      then trim_right (CHR ''-'') (take 54 name) @ ''-'' @ hex8 (fnv32a raw) else name)"

lemma ModelConfigName_shorten:
  "ModelConfigName pre model =
     shorten (to_lower (trim_space model))
       (if pre = [] then base_name model
        else trim_right (CHR ''-'') pre @ ''-'' @ base_name model)"
  by (simp add: ModelConfigName_def base_name_def shorten_def max_name_length_def Let_def)

lemma shorten_label:
  assumes "s \<noteq> []" "list_all label_char s" "alnum (hd s)" "alnum (last s)"
  shows "dns_label (shorten raw s)"
proof (cases "length s > max_name_length")
  case False
  with assms show ?thesis by (simp add: shorten_def dns_label_def)
next
  case True
  let ?t = "trim_right (CHR ''-'') (take 54 s)"
  have ne: "take 54 s \<noteq> []" using assms(1) by simp
  moreover have hd54: "hd (take 54 s) = hd s" using assms(1) by (cases s) simp_all
  ultimately have t: "?t \<noteq> []" "hd ?t = hd s"
    using hd_trim_right [OF ne, of "CHR ''-''"] assms(3) by auto
  have len: "length ?t \<le> 54"
    using length_trim_right [of "CHR ''-''" "take 54 s"] by simp
  have "list_all label_char (take 54 s)"
    using assms(2) by (meson in_set_takeD list_all_iff)
  then have chars: "list_all label_char ?t" by (rule list_all_trim_right)
  have hexa: "list_all label_char (hex8 (fnv32a raw))"
    using hex8_alnum by (auto simp: list_all_iff)
  have hne: "hex8 (fnv32a raw) \<noteq> []" by (simp add: hex8_def)
  then have "alnum (last (hex8 (fnv32a raw)))"
    using hex8_alnum last_in_set by (metis list_all_iff)
  with True t len chars hexa assms(3) hne show ?thesis
    by (simp add: shorten_def dns_label_def max_name_length_def label_char_def)
qed

lemma shorten_letter_label:
  assumes "letter_label s"
  shows "letter_label (shorten raw s)"
proof (cases "length s > max_name_length")
  case False
  with assms show ?thesis by (simp add: shorten_def)
next
  case True
  let ?t = "trim_right (CHR ''-'') (take 54 s)"
  have s: "s \<noteq> []" "is_lower (hd s)" using assms by (simp_all add: letter_label_def)
  have ne: "take 54 s \<noteq> []" using s by simp
  have "hd (take 54 s) = hd s" using s by (cases s) simp_all
  moreover have "alnum (hd s)" using s by (simp add: alnum_def)
  ultimately have t: "?t \<noteq> []" "hd ?t = hd s"
    using hd_trim_right [OF ne, of "CHR ''-''"] by auto
  have "single_dashes (take 54 s)"
    using assms by (metis append_take_drop_id letter_label_def single_dashes_prefix)
  then have st: "single_dashes ?t" by (rule single_dashes_trim_right)
  have hx: "hex8 (fnv32a raw) \<noteq> []" by (simp add: hex8_def)
  then have hh: "alnum (hd (hex8 (fnv32a raw)))"
    using hex8_alnum hd_in_set by (metis list_all_iff)
  have "single_dashes (?t @ ''-'' @ hex8 (fnv32a raw))"
    using st t hh last_trim_right [OF t(1)] single_dashes_alnum [OF hex8_alnum]
    by (simp add: single_dashes_append single_dashes_Cons)
  moreover have "dns_label (shorten raw s)"
    using assms by (intro shorten_label) (auto simp: letter_label_def alnum_def)
  ultimately show ?thesis using True t s
    by (simp add: letter_label_def dns_label_def shorten_def)
qed

end
