(* ===== verification/Naming_Correct.thy ===== *)
theory Naming_Correct
  imports Naming
begin

text \<open>
  What the derived names promise: a Kubernetes label within the limit, an instance name that
  survives being derived again, and when two references share a name or two ModelConfigs a
  placeholder Secret.
\<close>

section \<open>Valid names\<close>

text \<open>C40. Every model reference gets a valid name: with no prefix, or one of label
  characters that starts with a letter or digit, \<open>ModelConfigName\<close> answers a DNS-1123 label
  (not empty, at most 63 characters of a-z, 0-9 and dash, starting and ending with a letter or
  digit), whatever the reference holds.\<close>

theorem ModelConfigName_label:
  assumes "pre = [] \<or> list_all label_char pre \<and> alnum (hd pre)"
  shows "dns_label (ModelConfigName pre model)"
proof -
  have b: "letter_label (base_name model)" by (rule base_name_label)
  show ?thesis
  proof (cases "pre = []")
    case True
    with b show ?thesis
      by (auto simp: ModelConfigName_shorten letter_label_def alnum_def intro!: shorten_label)
  next
    case False
    with assms have p: "list_all label_char pre" "alnum (hd pre)" by auto
    with False have "trim_right (CHR ''-'') pre \<noteq> []" "hd (trim_right (CHR ''-'') pre) = hd pre"
      using hd_trim_right [of pre "CHR ''-''"] by auto
    with False b p show ?thesis
      by (auto simp: ModelConfigName_shorten letter_label_def label_char_def list_all_trim_right
          intro!: shorten_label)
  qed
qed

lemma ModelConfigName_label_witness:
  "dns_label (ModelConfigName ''team-'' ''hf.co/org/Repo:Q4_K_M'')"
proof -
  have "list_all label_char ''team-'' \<and> alnum (hd ''team-'')" by code_simp
  then show ?thesis by (intro ModelConfigName_label) simp
qed

lemma ModelConfigName_fixed:
  assumes "letter_label s" "length s \<le> max_name_length"
  shows "ModelConfigName [] s = s"
proof -
  have s: "s \<noteq> []" "list_all label_char s" "single_dashes s" "is_lower (hd s)" "alnum (last s)"
    using assms by (auto simp: letter_label_def)
  have "\<not> is_space (hd s)" "\<not> is_space (last s)"
    using s by (metis label_char_not_space hd_in_set last_in_set list_all_iff)+
  then have "trim_space s = s" by (intro trim_space_fixed) simp
  moreover have "to_lower s = s" using s by (simp add: to_lower_label)
  moreover have "dashed True s = s" using s by (intro dashed_fixed) (auto simp: is_lower_def less_eq_char_def)
  moreover have "trim_right (CHR ''-'') s = s" using s by (intro trim_right_fixed) simp
  moreover have "\<not> is_digit (hd s)" using s by (auto simp: is_lower_def is_digit_def less_eq_char_def)
  ultimately show ?thesis
    using s assms by (simp add: ModelConfigName_shorten base_name_def shorten_def)
qed

text \<open>An instance name is stable: deriving the instance label from an instance label
  changes nothing, so a model-manager configured with the label another reports is that
  instance; and the label is a DNS-1123 label that starts with a letter.\<close>

theorem InstanceName_idem:
  "InstanceName (InstanceName n) = InstanceName n \<and> dns_label (InstanceName n)
     \<and> is_lower (hd (InstanceName n))"
proof -
  have l: "letter_label (InstanceName n)"
    by (simp add: InstanceName_def ModelConfigName_shorten shorten_letter_label base_name_label)
  have d: "dns_label (InstanceName n)"
    unfolding InstanceName_def by (rule ModelConfigName_label) simp
  have "InstanceName (InstanceName n) = InstanceName n"
    using ModelConfigName_fixed [OF l] d by (simp add: dns_label_def InstanceName_def)
  with d l show ?thesis by (simp add: letter_label_def)
qed

section \<open>Suffixes\<close>

text \<open>The name with its backend appended stays within the limit and keeps the backend
  whole; a backend name of 62 characters or less always has one, and one of 63 or more (which
  a registration document may use) makes the slice of \<open>suffixed\<close> panic.\<close>

theorem suffixed_bounds:
  "(suffixed n b = None \<longleftrightarrow> length b \<ge> 63) \<and>
   (case suffixed n b of None \<Rightarrow> True
    | Some s \<Rightarrow> length s \<le> 63 \<and> suffix (''-'' @ b) s)"
proof -
  have "length (trim_right (CHR ''-'') (take m n)) \<le> m" for m
    using length_trim_right [of "CHR ''-''" "take m n"] by simp
  then have "length (trim_right (CHR ''-'') (take (62 - length b) n)) \<le> 62 - length b" by blast
  moreover have "length (trim_right (CHR ''-'') n) \<le> length n" by (rule length_trim_right)
  ultimately show ?thesis
    by (auto simp: suffixed_def Let_def max_name_length_def suffix_def)
qed

section \<open>Shared names\<close>

text \<open>Distinct references may share a name: the name keeps the letters and digits of
  the reference and one dash for anything between them, and a short name carries no hash, so
  references that differ only in what separates their parts are named alike under every
  prefix short enough. (The comment says distinct models never collide.)\<close>

theorem ModelConfigName_collides:
  assumes "dashed True (to_lower (trim_space m)) = dashed True (to_lower (trim_space m'))"
    and "length pre + 1 + length (base_name m) \<le> max_name_length"
  shows "ModelConfigName pre m = ModelConfigName pre m'"
proof -
  have b: "base_name m = base_name m'" using assms(1) by (simp add: base_name_def)
  have "length (trim_right (CHR ''-'') pre) \<le> length pre" by (rule length_trim_right)
  with assms(2) b show ?thesis by (simp add: ModelConfigName_shorten shorten_def)
qed

lemma ModelConfigName_collides_witness:
  "ModelConfigName [] ''llama:8b'' = ModelConfigName [] ''llama-8b'' \<and> ''llama:8b'' \<noteq> ''llama-8b''"
proof -
  have "dashed True (to_lower (trim_space ''llama:8b'')) = dashed True (to_lower (trim_space ''llama-8b''))"
    "length [] + 1 + length (base_name ''llama:8b'') \<le> max_name_length"
    by code_simp+
  from ModelConfigName_collides [OF this] show ?thesis by simp
qed

text \<open>Long references share a placeholder Secret: two references whose unshortened names
  are longer than 63 characters and agree on their first 54 get one Secret name between them,
  even when the hash tells their ModelConfig names apart: the Secret's name keeps 55 characters
  of the ModelConfig's, which end before the hash. So unwiring the one deletes the Secret the
  other reads its key from.\<close>

theorem placeholder_secret_shared:
  assumes "length (base_name m) > max_name_length" "length (base_name m') > max_name_length"
    and "take 54 (base_name m) = take 54 (base_name m')"
    and "last (take 54 (base_name m)) \<noteq> CHR ''-''"
  shows "placeholderSecretName (ModelConfigName [] m) = placeholderSecretName (ModelConfigName [] m')"
proof -
  have "placeholderSecretName (ModelConfigName [] x) = take 54 (base_name x) @ placeholder_suffix"
    if "length (base_name x) > max_name_length" "last (take 54 (base_name x)) \<noteq> CHR ''-''" for x
  proof -
    have t: "trim_right (CHR ''-'') (take 54 (base_name x)) = take 54 (base_name x)"
      using that by (intro trim_right_fixed) simp
    have "trim_right (CHR ''-'') (take 54 (base_name x) @ ''-'') = take 54 (base_name x)"
      using t by (simp add: trim_right_def)
    with that t show ?thesis
      by (simp add: ModelConfigName_shorten shorten_def placeholderSecretName_def
          max_name_length_def placeholder_suffix_def)
  qed
  with assms show ?thesis by metis
qed

lemma placeholder_secret_shared_witness:
  "placeholderSecretName (ModelConfigName [] (replicate 70 (CHR ''x''))) =
   placeholderSecretName (ModelConfigName [] (replicate 71 (CHR ''x''))) \<and>
   ModelConfigName [] (replicate 70 (CHR ''x'')) \<noteq> ModelConfigName [] (replicate 71 (CHR ''x''))"
proof -
  have "length (base_name (replicate 70 (CHR ''x''))) > max_name_length"
    "length (base_name (replicate 71 (CHR ''x''))) > max_name_length"
    "take 54 (base_name (replicate 70 (CHR ''x''))) = take 54 (base_name (replicate 71 (CHR ''x'')))"
    "last (take 54 (base_name (replicate 70 (CHR ''x'')))) \<noteq> CHR ''-''"
    by code_simp+
  moreover have
    "ModelConfigName [] (replicate 70 (CHR ''x'')) \<noteq> ModelConfigName [] (replicate 71 (CHR ''x''))"
    by code_simp
  ultimately show ?thesis using placeholder_secret_shared by blast
qed

end
