(* ===== verification/Cluster.thy ===== *)
theory Cluster
  imports Backend
begin

text \<open>
  What the code reads and writes through the Kubernetes API server: kagent ModelConfigs (one
  store per API group, since a group's versions are views of the same objects), Secrets,
  Flux Kustomizations, the kagent objects that may reference a ModelConfig, and the OpenAPI v3
  document. The API server is not code of the repository: the calls below are its documented
  behaviour, and every call may fail instead. \<open>cl_fail\<close> says which calls fail and how; a
  call it lets through reads or writes the store (get of a missing object and any call at a
  version its group does not serve is not found; create stores a new object, update replaces
  the object at the resource version it read, delete removes it). Which calls fail, and the
  clock, stay as they are within one operation.
\<close>

section \<open>Objects\<close>

record kobj =
  o_group :: string
  o_version :: string
  o_kind :: string
  o_namespace :: string
  o_name :: string
  o_labels :: "string \<rightharpoonup> string"

text \<open>
  The part of a ModelConfig's spec model-manager writes and reads; an absent string is
  \<open>""\<close>, as \<open>NestedString\<close> reads it.
\<close>

record ollama_spec =
  ol_host :: string
  ol_num_ctx :: "string option"
  ol_think :: "bool option"

record mc_spec =
  sp_provider :: string
  sp_model :: string
  sp_ollama :: "ollama_spec option"
  sp_base_url :: "string option"
  sp_passthrough :: bool
  sp_secret :: string
  sp_secret_key :: string

record condition =
  co_type :: string
  co_status :: string
  co_message :: string

record mconfig = kobj +
  mc_annotations :: "string \<rightharpoonup> string"
  mc_spec :: mc_spec
  mc_status :: "condition list option"
  mc_uid :: nat
  mc_rv :: nat

record secret = kobj +
  se_data :: "(string \<times> string) list"

text \<open>
  A Kustomization: whether it prunes (\<open>spec.prune\<close>, false when absent) and the ids of
  its recorded inventory (\<open>status.inventory.entries\<close>), \<open>None\<close> while it has
  recorded none.
\<close>

record kustomization =
  ks_namespace :: string
  ks_name :: string
  ks_prune :: bool
  ks_inventory :: "string list option"

text \<open>The JSON value of an unstructured object's field.\<close>

datatype json =
    JNull
  | JBool bool
  | JNum int
  | JStr string
  | JList "json list"
  | JObj "(string \<times> json) list"

record referrer =
  rf_kind :: string
  rf_namespace :: string
  rf_name :: string
  rf_spec :: json

text \<open>A schema of the OpenAPI document: what it is of, and the fields of its \<open>spec.ollama\<close>.\<close>

record schema_node =
  sn_gvks :: "(string \<times> string \<times> string) list"
  sn_ollama :: "string list"

section \<open>The cluster\<close>

datatype api_call =
    ListMCs string string string
  | GetMC string string string string
  | CreateMC string string string string
  | UpdateMC string string string string
  | DeleteMC string string string string
  | GetSecret string string
  | CreateSecret string string
  | DeleteSecret string string
  | GetKs string string
  | ListRefs string string string string
  | OpenApiPaths
  | OpenApiSchema string

text \<open>
  \<open>cl_served\<close>: the versions a group serves ModelConfigs in. \<open>cl_refs\<close>: the objects of
  a kagent resource at a group and version, \<open>None\<close> when it is not served.
  \<open>cl_status_sub\<close>: whether the ModelConfig CRD has the status subresource (an update then
  leaves the stored status, and else replaces it). \<open>cl_rev\<close> is the store's revision.
\<close>

record cluster =
  cl_now :: int
  cl_rev :: nat
  cl_status_sub :: bool
  cl_served :: "string \<Rightarrow> string list"
  cl_mcs :: "string \<Rightarrow> mconfig list"
  cl_secrets :: "secret list"
  cl_kss :: "kustomization list"
  cl_refs :: "string \<Rightarrow> string \<Rightarrow> string \<Rightarrow> referrer list option"
  cl_openapi :: "string \<rightharpoonup> schema_node list"
  cl_fail :: "api_call \<Rightarrow> err option"

definition api_not_found :: err where
  "api_not_found = Err [ApiNotFound] ''not found''"

definition api_already_exists :: err where
  "api_already_exists = Err [ApiAlreadyExists] ''already exists''"

definition api_conflict :: err where
  "api_conflict = Err [] ''the object has been modified''"

definition is_not_found :: "err \<Rightarrow> bool" where "is_not_found e \<longleftrightarrow> err_is e ApiNotFound"

text \<open>\<open>apiVersion\<close> of a group and version; the object as a version of its group shows it.\<close>

definition gv_string :: "string \<Rightarrow> string \<Rightarrow> string" where
  "gv_string g v = (if g = [] then v else g @ ''/'' @ v)"

definition at_version :: "string \<Rightarrow> string \<Rightarrow> mconfig \<Rightarrow> mconfig" where
  "at_version g v m = m\<lparr>o_group := g, o_version := v\<rparr>"

text \<open>A call: refused as \<open>cl_fail\<close> says, else the store's answer.\<close>

definition api :: "cluster \<Rightarrow> api_call \<Rightarrow> 'a res \<Rightarrow> 'a res" where
  "api c call answer = (case cl_fail c call of Some e \<Rightarrow> Inl e | None \<Rightarrow> answer)"

definition keyed :: "string \<Rightarrow> string \<Rightarrow> 'a kobj_scheme \<Rightarrow> bool" where
  "keyed ns n x \<longleftrightarrow> o_namespace x = ns \<and> o_name x = n"

definition stored :: "cluster \<Rightarrow> string \<Rightarrow> string \<Rightarrow> string \<Rightarrow> mconfig option" where
  "stored c g ns n = find (keyed ns n) (cl_mcs c g)"

subsection \<open>ModelConfigs\<close>

definition api_list_mcs ::
  "cluster \<Rightarrow> string \<Rightarrow> string \<Rightarrow> string \<Rightarrow> ((string \<rightharpoonup> string) \<Rightarrow> bool) \<Rightarrow> mconfig list res" where
  "api_list_mcs c g v ns sel =
     api c (ListMCs g v ns)
       (if \<not> List.member (cl_served c g) v then Inl api_not_found
        else Inr (map (at_version g v)
                   (filter (\<lambda>m. o_namespace m = ns \<and> sel (o_labels m)) (cl_mcs c g))))"

definition api_get_mc :: "cluster \<Rightarrow> string \<Rightarrow> string \<Rightarrow> string \<Rightarrow> string \<Rightarrow> mconfig res" where
  "api_get_mc c g v ns n =
     api c (GetMC g v ns n)
       (if \<not> List.member (cl_served c g) v then Inl api_not_found
        else case stored c g ns n of
               None \<Rightarrow> Inl api_not_found
             | Some m \<Rightarrow> Inr (at_version g v m))"

definition api_create_mc ::
  "cluster \<Rightarrow> string \<Rightarrow> string \<Rightarrow> mconfig \<Rightarrow> mconfig res \<times> cluster" where
  "api_create_mc c g v m =
     (case api c (CreateMC g v (o_namespace m) (o_name m))
        (if \<not> List.member (cl_served c g) v then Inl api_not_found
         else if stored c g (o_namespace m) (o_name m) \<noteq> None then Inl api_already_exists
         else Inr (m\<lparr>mc_uid := Suc (cl_rev c), mc_rv := Suc (cl_rev c)\<rparr>)) of
        Inl e \<Rightarrow> (Inl e, c)
      | Inr m' \<Rightarrow> (Inr (at_version g v m'),
          c\<lparr>cl_rev := Suc (cl_rev c), cl_mcs := (cl_mcs c)(g := cl_mcs c g @ [m'])\<rparr>))"

definition put_mc :: "mconfig \<Rightarrow> mconfig list \<Rightarrow> mconfig list" where
  "put_mc m ms = map (\<lambda>x. if keyed (o_namespace m) (o_name m) x then m else x) ms"

definition api_update_mc ::
  "cluster \<Rightarrow> string \<Rightarrow> string \<Rightarrow> mconfig \<Rightarrow> mconfig res \<times> cluster" where
  "api_update_mc c g v m =
     (case api c (UpdateMC g v (o_namespace m) (o_name m))
        (if \<not> List.member (cl_served c g) v then Inl api_not_found
         else case stored c g (o_namespace m) (o_name m) of
           None \<Rightarrow> Inl api_not_found
         | Some old \<Rightarrow>
             if mc_rv m \<noteq> mc_rv old then Inl api_conflict
             else Inr (m\<lparr>mc_uid := mc_uid old, mc_rv := Suc (cl_rev c),
                         mc_status := (if cl_status_sub c then mc_status old else mc_status m)\<rparr>)) of
        Inl e \<Rightarrow> (Inl e, c)
      | Inr m' \<Rightarrow> (Inr (at_version g v m'),
          c\<lparr>cl_rev := Suc (cl_rev c), cl_mcs := (cl_mcs c)(g := put_mc m' (cl_mcs c g))\<rparr>))"

definition api_delete_mc ::
  "cluster \<Rightarrow> string \<Rightarrow> string \<Rightarrow> string \<Rightarrow> string \<Rightarrow> unit res \<times> cluster" where
  "api_delete_mc c g v ns n =
     (case api c (DeleteMC g v ns n)
        (if \<not> List.member (cl_served c g) v \<or> stored c g ns n = None then Inl api_not_found
         else Inr ()) of
        Inl e \<Rightarrow> (Inl e, c)
      | Inr u \<Rightarrow> (Inr u,
          c\<lparr>cl_mcs := (cl_mcs c)(g := filter (\<lambda>m. \<not> keyed ns n m) (cl_mcs c g))\<rparr>))"

subsection \<open>Secrets, Kustomizations, referrers\<close>

definition api_get_secret :: "cluster \<Rightarrow> string \<Rightarrow> string \<Rightarrow> secret res" where
  "api_get_secret c ns n =
     api c (GetSecret ns n)
       (case find (keyed ns n) (cl_secrets c) of
          None \<Rightarrow> Inl api_not_found | Some s \<Rightarrow> Inr s)"

definition api_create_secret :: "cluster \<Rightarrow> secret \<Rightarrow> secret res \<times> cluster" where
  "api_create_secret c s =
     (case api c (CreateSecret (o_namespace s) (o_name s))
        (if find (keyed (o_namespace s) (o_name s)) (cl_secrets c) \<noteq> None
         then Inl api_already_exists else Inr s) of
        Inl e \<Rightarrow> (Inl e, c)
      | Inr s' \<Rightarrow> (Inr s', c\<lparr>cl_secrets := cl_secrets c @ [s']\<rparr>))"

definition api_delete_secret :: "cluster \<Rightarrow> string \<Rightarrow> string \<Rightarrow> unit res \<times> cluster" where
  "api_delete_secret c ns n =
     (case api c (DeleteSecret ns n)
        (if find (keyed ns n) (cl_secrets c) = None then Inl api_not_found else Inr ()) of
        Inl e \<Rightarrow> (Inl e, c)
      | Inr u \<Rightarrow> (Inr u, c\<lparr>cl_secrets := filter (\<lambda>s. \<not> keyed ns n s) (cl_secrets c)\<rparr>))"

definition api_get_ks :: "cluster \<Rightarrow> string \<Rightarrow> string \<Rightarrow> kustomization res" where
  "api_get_ks c ns n =
     api c (GetKs ns n)
       (case find (\<lambda>k. ks_namespace k = ns \<and> ks_name k = n) (cl_kss c) of
          None \<Rightarrow> Inl api_not_found | Some k \<Rightarrow> Inr k)"

definition api_list_refs ::
  "cluster \<Rightarrow> string \<Rightarrow> string \<Rightarrow> string \<Rightarrow> string \<Rightarrow> referrer list res" where
  "api_list_refs c g v r ns =
     api c (ListRefs g v r ns)
       (case cl_refs c g v r of
          None \<Rightarrow> Inl api_not_found
        | Some xs \<Rightarrow> Inr (filter (\<lambda>x. rf_namespace x = ns) xs))"

end
