(* ===== verification/GitOps.thy ===== *)
theory GitOps
  imports Cluster
begin

text \<open>
  The Flux provenance of an object (\<open>internal/gitops/owner.go\<close>, \<open>applying.go\<close>):
  which Flux object applies it from git now (\<open>applying\<close>), whether its Kustomization left
  it behind (\<open>kept_behind\<close>, \<open>Kept\<close> in the code), and the refusal of a live write
  on one Flux applies (\<open>refuse\<close>). The last section says what these decisions amount to,
  and when two objects share an inventory id.
\<close>

section \<open>Owners\<close>

record gitops_owner =
  go_kind :: string
  go_namespace :: string
  go_name :: string

definition owner_string :: "gitops_owner \<Rightarrow> string" where
  "owner_string ow = go_kind ow @ '' '' @ go_namespace ow @ ''/'' @ go_name ow"

section \<open>The owner the labels name\<close>

definition label_kustomize_name :: string where
  "label_kustomize_name = ''kustomize.toolkit.fluxcd.io/name''"
definition label_kustomize_namespace :: string where
  "label_kustomize_namespace = ''kustomize.toolkit.fluxcd.io/namespace''"
definition label_helm_name :: string where
  "label_helm_name = ''helm.toolkit.fluxcd.io/name''"
definition label_helm_namespace :: string where
  "label_helm_namespace = ''helm.toolkit.fluxcd.io/namespace''"

definition kind_kustomization :: string where "kind_kustomization = ''Kustomization''"
definition kind_helm_release :: string where "kind_helm_release = ''HelmRelease''"

definition owner_of :: "(string \<rightharpoonup> string) \<Rightarrow> gitops_owner option" where
  "owner_of labels =
     (if get_label labels label_kustomize_name \<noteq> []
      then Some \<lparr>go_kind = kind_kustomization,
                 go_namespace = get_label labels label_kustomize_namespace,
                 go_name = get_label labels label_kustomize_name\<rparr>
      else if get_label labels label_helm_name \<noteq> []
      then Some \<lparr>go_kind = kind_helm_release,
                 go_namespace = get_label labels label_helm_namespace,
                 go_name = get_label labels label_helm_name\<rparr>
      else None)"

definition refusal :: "string \<Rightarrow> string \<Rightarrow> string \<Rightarrow> gitops_owner \<Rightarrow> string" where
  "refusal kind ns nm ow =
     (if go_kind ow = kind_helm_release
      then kind @ '' '' @ ns @ ''/'' @ nm @ '' is rendered by '' @ owner_string ow @
           '': a live change would be reverted by Flux; change the release's values in git''
      else kind @ '' '' @ ns @ ''/'' @ nm @ '' is applied from git by '' @ owner_string ow @
           '': a live change would be reverted by Flux; use mode commit to change it in its repository'')"

section \<open>The inventory\<close>

definition inventory_id :: "'a kobj_scheme \<Rightarrow> string" where
  "inventory_id x = join ''_'' [o_namespace x, o_name x, o_group x, o_kind x]"

definition inventory_lists :: "string list \<Rightarrow> 'a kobj_scheme \<Rightarrow> bool" where
  "inventory_lists entries x \<longleftrightarrow> List.member entries (inventory_id x)"

text \<open>\<open>inventoried\<close>: whether the inventory lists the object, and whether one is recorded.\<close>

definition inventoried :: "kustomization \<Rightarrow> 'a kobj_scheme \<Rightarrow> bool \<times> bool" where
  "inventoried ks x =
     (case ks_inventory ks of
        None \<Rightarrow> (False, False)
      | Some entries \<Rightarrow> (inventory_lists entries x, True))"

text \<open>
  \<open>labelling\<close>: the Kustomization the labels name, \<open>None\<close> when it is gone.
\<close>

definition labelling :: "cluster \<Rightarrow> gitops_owner \<Rightarrow> 'a kobj_scheme \<Rightarrow> kustomization option res" where
  "labelling c ow x =
     (case api_get_ks c (go_namespace ow) (go_name ow) of
        Inr ks \<Rightarrow> Inr (Some ks)
      | Inl e \<Rightarrow>
          if is_not_found e then Inr None
          else Inl (wrap_err (''read '' @ owner_string ow @ '' for whether it still applies '' @
                 o_kind x @ '' '' @ o_namespace x @ ''/'' @ o_name x @ '': '') e []))"

definition applying :: "cluster \<Rightarrow> 'a kobj_scheme \<Rightarrow> gitops_owner option res" where
  "applying c x =
     (case owner_of (o_labels x) of
        None \<Rightarrow> Inr None
      | Some ow \<Rightarrow>
          if go_kind ow \<noteq> kind_kustomization then Inr (Some ow)
          else case labelling c ow x of
            Inl e \<Rightarrow> Inl e
          | Inr None \<Rightarrow> Inr None
          | Inr (Some ks) \<Rightarrow>
              (case inventoried ks x of (listed, recorded) \<Rightarrow>
                 if \<not> recorded \<or> listed then Inr (Some ow) else Inr None))"

definition kept_behind :: "cluster \<Rightarrow> 'a kobj_scheme \<Rightarrow> gitops_owner option res" where
  "kept_behind c x =
     (case owner_of (o_labels x) of
        None \<Rightarrow> Inr None
      | Some ow \<Rightarrow>
          if go_kind ow \<noteq> kind_kustomization then Inr None
          else case labelling c ow x of
            Inl e \<Rightarrow> Inl e
          | Inr None \<Rightarrow> Inr None
          | Inr (Some ks) \<Rightarrow>
              if ks_prune ks then Inr None
              else (case inventoried ks x of (listed, recorded) \<Rightarrow>
                 if \<not> recorded \<or> listed then Inr None else Inr (Some ow)))"

definition refuse :: "cluster \<Rightarrow> 'a kobj_scheme \<Rightarrow> unit res" where
  "refuse c x =
     (case applying c x of
        Inl e \<Rightarrow> Inl e
      | Inr None \<Rightarrow> Inr ()
      | Inr (Some ow) \<Rightarrow>
          Inl (errw ErrGitOpsOwned (refusal (o_kind x) (o_namespace x) (o_name x) ow)))"

section \<open>What the decisions amount to\<close>

lemma owner_of_kind:
  "owner_of ls = Some ow \<Longrightarrow> go_kind ow = kind_kustomization \<or> go_kind ow = kind_helm_release"
  by (auto simp: owner_of_def split: if_splits)

lemma owner_kinds_differ [simp]: "kind_helm_release \<noteq> kind_kustomization"
  by (simp add: kind_helm_release_def kind_kustomization_def)

lemma inventory_lists_iff: "inventory_lists es x \<longleftrightarrow> inventory_id x \<in> set es"
  by (simp add: inventory_lists_def)

lemma applying_no_owner [simp]: "owner_of (o_labels x) = None \<Longrightarrow> applying c x = Inr None"
  by (simp add: applying_def)

lemma refuse_ok_iff: "refuse c x = Inr () \<longleftrightarrow> applying c x = Inr None"
  by (auto simp: refuse_def split: sum.splits option.splits)

lemma refuse_Inr: "(refuse c x = Inr u) = (applying c x = Inr None)"
  by (cases u) (simp add: refuse_ok_iff)

lemma refuse_ok [simp]: "applying c x = Inr None \<Longrightarrow> refuse c x = Inr ()"
  by (simp add: refuse_ok_iff)

lemma refuse_applied: "applying c x = Inr (Some ow) \<Longrightarrow> \<exists>e. refuse c x = Inl e \<and> err_is e ErrGitOpsOwned"
  by (simp add: refuse_def)

lemma applying_helm:
  assumes "owner_of (o_labels x) = Some ow" "go_kind ow = kind_helm_release"
  shows "applying c x = Inr (Some ow)"
  using assms by (simp add: applying_def)

lemma applying_reads:
  assumes "owner_of (o_labels x) = Some ow" "go_kind ow = kind_kustomization"
    and "api_get_ks c (go_namespace ow) (go_name ow) = Inr ks"
  shows "applying c x =
      (case ks_inventory ks of None \<Rightarrow> Inr (Some ow)
       | Some es \<Rightarrow> if inventory_id x \<in> set es then Inr (Some ow) else Inr None)"
    and "kept_behind c x =
      (case ks_inventory ks of None \<Rightarrow> Inr None
       | Some es \<Rightarrow> if ks_prune ks \<or> inventory_id x \<in> set es then Inr None else Inr (Some ow))"
  using assms
  by (auto simp: applying_def kept_behind_def labelling_def inventoried_def inventory_lists_iff
      split: option.splits)

text \<open>The owner the labels name no longer applies the object: it is a Kustomization that
  is gone or has recorded an inventory without the object.\<close>

definition left_by_owner :: "cluster \<Rightarrow> 'a kobj_scheme \<Rightarrow> gitops_owner \<Rightarrow> bool" where
  "left_by_owner c x ow \<longleftrightarrow> go_kind ow = kind_kustomization \<and>
     (case api_get_ks c (go_namespace ow) (go_name ow) of
        Inl e \<Rightarrow> is_not_found e
      | Inr ks \<Rightarrow> (case ks_inventory ks of None \<Rightarrow> False | Some es \<Rightarrow> inventory_id x \<notin> set es))"

lemma applying_none:
  assumes "owner_of (o_labels x) = Some ow"
  shows "applying c x = Inr None \<longleftrightarrow> left_by_owner c x ow"
proof (cases "go_kind ow = kind_kustomization")
  case True
  then show ?thesis using assms
    by (auto simp: left_by_owner_def applying_reads(1) applying_def labelling_def split: sum.splits option.splits if_splits)
       (auto simp: inventoried_def inventory_lists_iff split: option.splits if_splits)
next
  case False
  with assms show ?thesis by (simp add: applying_def left_by_owner_def)
qed

lemma applying_some:
  assumes "owner_of (o_labels x) = Some ow"
  shows "applying c x = Inr (Some w) \<longleftrightarrow> w = ow \<and>
     (go_kind ow = kind_helm_release \<or>
      (\<exists>ks. api_get_ks c (go_namespace ow) (go_name ow) = Inr ks \<and>
            (case ks_inventory ks of None \<Rightarrow> True | Some es \<Rightarrow> inventory_id x \<in> set es)))"
proof -
  from assms consider "go_kind ow = kind_helm_release" | "go_kind ow = kind_kustomization"
    using owner_of_kind by blast
  then show ?thesis
  proof cases
    case 1
    then show ?thesis using applying_helm [OF assms, of c] by auto
  next
    case k: 2
    show ?thesis
    proof (cases "api_get_ks c (go_namespace ow) (go_name ow)")
      case (Inl e)
      with assms k show ?thesis by (auto simp: applying_def labelling_def owner_kinds_differ [symmetric])
    next
      case (Inr ks)
      with assms k show ?thesis
        by (auto simp: applying_reads(1) owner_kinds_differ [symmetric] split: option.splits)
    qed
  qed
qed

text \<open>C35. Who applies an object from git, read off its labels and the cluster. \<open>Applying\<close> answers an
  owner exactly when the labels name it and it is a HelmRelease, or a Kustomization that exists and either
  has recorded no inventory or lists the object in it. It answers that nothing applies the object exactly
  when the labels name no owner, or name a Kustomization the API server says is not there, or one whose
  recorded inventory does not list the object; and a live write is let through in exactly those cases.
  Any other failure to read the Kustomization is an error that refuses the write.\<close>

theorem applying_iff:
  "(applying c x = Inr (Some ow) \<longleftrightarrow>
     owner_of (o_labels x) = Some ow \<and>
     (go_kind ow = kind_helm_release \<or>
      (\<exists>ks. api_get_ks c (go_namespace ow) (go_name ow) = Inr ks \<and>
            (case ks_inventory ks of None \<Rightarrow> True | Some es \<Rightarrow> inventory_id x \<in> set es)))) \<and>
   (applying c x = Inr None \<longleftrightarrow>
     owner_of (o_labels x) = None \<or>
     (\<exists>w. owner_of (o_labels x) = Some w \<and> go_kind w = kind_kustomization \<and>
        ((\<exists>e. api_get_ks c (go_namespace w) (go_name w) = Inl e \<and> is_not_found e) \<or>
         (\<exists>ks es. api_get_ks c (go_namespace w) (go_name w) = Inr ks \<and>
                  ks_inventory ks = Some es \<and> inventory_id x \<notin> set es)))) \<and>
   (refuse c x = Inr () \<longleftrightarrow> applying c x = Inr None)"
proof (cases "owner_of (o_labels x)")
  case None
  then show ?thesis by (simp add: refuse_ok_iff)
next
  case (Some w)
  from applying_none [OF Some, of c] applying_some [OF Some, of c ow] Some show ?thesis
    by (auto simp: left_by_owner_def refuse_ok_iff split: sum.splits option.splits)
qed

text \<open>An object its Kustomization left behind may be written live: when \<open>Kept\<close>
  names a Kustomization, that Kustomization does not prune, its recorded inventory no longer
  lists the object, and \<open>Refuse\<close> refuses nothing.\<close>

theorem kept_behind_is_writable:
  assumes "kept_behind c x = Inr (Some ow)"
  shows "refuse c x = Inr () \<and>
    (\<exists>ks es. api_get_ks c (go_namespace ow) (go_name ow) = Inr ks \<and> \<not> ks_prune ks \<and>
            ks_inventory ks = Some es \<and> inventory_id x \<notin> set es)"
proof -
  have ow: "owner_of (o_labels x) = Some ow" "go_kind ow = kind_kustomization"
    using assms by (auto simp: kept_behind_def split: option.splits if_splits sum.splits prod.splits)
  then obtain ks where ks: "api_get_ks c (go_namespace ow) (go_name ow) = Inr ks"
    using assms
    by (cases "api_get_ks c (go_namespace ow) (go_name ow)")
       (auto simp: kept_behind_def labelling_def split: if_splits)
  with assms ow show ?thesis
    by (auto simp: applying_reads split: option.splits if_splits)
qed

text \<open>The inventory id identifies an object: two objects whose namespace, name, group
  and kind hold no underscore (as the names Kubernetes admits do) share an id only when they
  agree on all four, so an inventory entry is about one object.\<close>

theorem inventory_id_injective:
  assumes clean: "\<And>s. s \<in> {o_namespace x, o_name x, o_group x, o_namespace y, o_name y, o_group y}
      \<Longrightarrow> CHR ''_'' \<notin> set s"
    and id: "inventory_id x = inventory_id y"
  shows "o_namespace x = o_namespace y \<and> o_name x = o_name y \<and> o_group x = o_group y
     \<and> o_kind x = o_kind y"
proof -
  have "o_namespace x @ CHR ''_'' # (o_name x @ CHR ''_'' # (o_group x @ CHR ''_'' # o_kind x)) =
        o_namespace y @ CHR ''_'' # (o_name y @ CHR ''_'' # (o_group y @ CHR ''_'' # o_kind y))"
    using id by (simp add: inventory_id_def)
  with clean show ?thesis by (metis append_sep_unique insert_iff)
qed

section \<open>Concrete inputs\<close>

definition w_kobj :: "string \<Rightarrow> kobj" where
  "w_kobj n =
     \<lparr>o_group = ''api.kagent.dev'', o_version = ''v1alpha3'', o_kind = ''ModelConfig'',
      o_namespace = ''kagent'', o_name = n,
      o_labels = [label_kustomize_name \<mapsto> ''models'', label_kustomize_namespace \<mapsto> ''flux'']\<rparr>"

definition w_empty_cluster :: cluster where
  "w_empty_cluster =
     \<lparr>cl_now = 0, cl_rev = 0, cl_status_sub = True, cl_served = (\<lambda>g. [''v1alpha3'']),
      cl_mcs = (\<lambda>g. []), cl_secrets = [], cl_kss = [], cl_refs = (\<lambda>g v r. Some []),
      cl_openapi = Map.empty, cl_fail = (\<lambda>x. None)\<rparr>"

definition w_ks_cluster :: cluster where
  "w_ks_cluster = w_empty_cluster
     \<lparr>cl_kss := [\<lparr>ks_namespace = ''flux'', ks_name = ''models'', ks_prune = False,
                  ks_inventory = Some [''kagent_kept_api.kagent.dev_ModelConfig'']\<rparr>]\<rparr>"

lemma kept_behind_is_writable_witness:
  "refuse w_ks_cluster (w_kobj ''gone'') = Inr () \<and>
   (\<exists>ks es. api_get_ks w_ks_cluster ''flux'' ''models'' = Inr ks \<and> \<not> ks_prune ks \<and>
            ks_inventory ks = Some es \<and> inventory_id (w_kobj ''gone'') \<notin> set es)"
proof -
  have "kept_behind w_ks_cluster (w_kobj ''gone'') =
      Inr (Some \<lparr>go_kind = kind_kustomization, go_namespace = ''flux'', go_name = ''models''\<rparr>)"
    by code_simp
  from kept_behind_is_writable [OF this] show ?thesis by simp
qed

lemma inventory_id_injective_witness:
  "o_name (w_kobj ''kept'') = o_name ((w_kobj ''kept'')\<lparr>o_version := ''v1alpha2''\<rparr>)"
proof -
  let ?x = "w_kobj ''kept''" and ?y = "(w_kobj ''kept'')\<lparr>o_version := ''v1alpha2''\<rparr>"
  have "inventory_id ?x = inventory_id ?y" by code_simp
  moreover have "\<forall>s\<in>{o_namespace ?x, o_name ?x, o_group ?x, o_namespace ?y, o_name ?y, o_group ?y}.
      CHR ''_'' \<notin> set s" by code_simp
  ultimately show ?thesis using inventory_id_injective [of ?x ?y] by blast
qed

end
