(* ===== verification/Wiring.thy ===== *)
theory Wiring
  imports GitOps Naming
begin

text \<open>
  The kagent wirer (\<open>internal/wiring/kagent.go\<close>, \<open>schema.go\<close>): the ModelConfigs
  agents use a model through. Its state (\<open>wirer\<close>) is the API version in use, when it was
  discovered, and the cached ModelConfig schema; what it reads and writes is the \<open>cluster\<close>.
  An operation answers its error or its value together with the wirer and the cluster it
  leaves, also when it fails halfway.

  The order is the code's: versions, provenance, the plan of an \<open>Ensure\<close>, its writes,
  removals, reads. \<open>Ensure\<close>, \<open>Remove\<close>, \dots\ of the interface are \<open>wire_ensure\<close>,
  \<open>wire_remove\<close>, \dots\ here: the inner operation under \<open>retried\<close>.
\<close>

section \<open>Constants and state\<close>

definition ManagedByLabel :: string where "ManagedByLabel = ''app.kubernetes.io/managed-by''"
definition ManagedByValue :: string where "ManagedByValue = ''model-manager''"
definition BackendLabel :: string where "BackendLabel = ''model-manager.giantswarm.io/backend''"
definition ModelAnnotation :: string where "ModelAnnotation = ''model-manager.giantswarm.io/model''"
definition InstanceLabel :: string where "InstanceLabel = ''model-manager.giantswarm.io/instance''"
definition KagentGroup :: string where "KagentGroup = ''api.kagent.dev''"
definition LegacyKagentGroup :: string where "LegacyKagentGroup = ''kagent.dev''"
definition ModelConfigResource :: string where "ModelConfigResource = ''modelconfigs''"
definition DefaultAPIVersion :: string where "DefaultAPIVersion = ''api.kagent.dev/v1alpha3''"
definition discoveryTTL :: int where "discoveryTTL = 60"
definition schemaTTL :: int where "schemaTTL = 60"
definition placeholderSecretKey :: string where "placeholderSecretKey = ''OPENAI_API_KEY''"
definition acceptedCondition :: string where "acceptedCondition = ''Accepted''"
definition resolvedRefsCondition :: string where "resolvedRefsCondition = ''ResolvedRefs''"
definition ollamaThink :: string where "ollamaThink = ''think''"

text \<open>
  \<open>k_discover\<close> is the discovery the wirer follows (\<open>None\<close>: an explicit version);
  \<open>k_fields\<close> the cached fields of \<open>spec.ollama\<close> and when they were fetched. Times are
  in seconds.
\<close>

record wirer =
  k_namespace :: string
  k_prefix :: string
  k_instance :: string
  k_discover :: "(cluster \<Rightarrow> string res) option"
  k_group :: string
  k_version :: string
  k_discovered :: int
  k_fields :: "(string list \<times> int) option"

record mc_ref =
  r_name :: string
  r_namespace :: string
  r_api_version :: string
  r_provider :: string
  r_model :: string
  r_ready :: bool
  r_message :: string
  r_managed :: bool
  r_gitops :: "gitops_owner option"
  r_provider_model :: string
  r_endpoint :: string
  r_passthrough :: bool
  r_secret :: string
  r_created_by :: string
  r_backend :: name
  r_context_length :: int
  r_think :: "bool option"

definition carries :: "mc_ref \<Rightarrow> agent_endpoint \<Rightarrow> bool" where
  "carries r ep \<longleftrightarrow>
     r_context_length r = ep_context_length ep \<and>
     (r_think r = None) = (ep_think ep = None) \<and>
     (r_think r = None \<or> the (r_think r) = the (ep_think ep))"

datatype scope = CreatedHere | Unclaimed

section \<open>API versions\<close>

text \<open>\<open>schema.ParseGroupVersion\<close>: group and version around at most one slash.\<close>

definition parse_group_version :: "string \<Rightarrow> (string \<times> string) option" where
  "parse_group_version gv =
     (if gv = [] \<or> gv = ''/'' then Some ([], [])
      else case cut (CHR ''/'') gv of (a, b, found) \<Rightarrow>
        if \<not> found then Some ([], gv)
        else if List.member b (CHR ''/'') then None
        else Some (a, b))"

definition ParseAPIVersion :: "string \<Rightarrow> (string \<times> string) res" where
  "ParseAPIVersion s =
     (case parse_group_version s of
        None \<Rightarrow> Inl (Err [] (''kagent API version '' @ quoted s @ '': unexpected GroupVersion string: '' @ s))
      | Some (g, v) \<Rightarrow>
          if (g \<noteq> KagentGroup \<and> g \<noteq> LegacyKagentGroup) \<or> v = []
          then Inl (Err [] (''kagent API version '' @ quoted s @ '': want '' @ KagentGroup @
                 ''/<version> or '' @ LegacyKagentGroup @ ''/<version>''))
          else Inr (g, v))"

record version_setting =
  vs_pinned :: string
  vs_version :: string

text \<open>\<open>kubeVersion\<close>: \<open>^v[1-9][0-9]*((alpha|beta)[1-9][0-9]*)?$\<close>.\<close>

definition positive :: "string \<Rightarrow> bool" where
  "positive s \<longleftrightarrow> s \<noteq> [] \<and> list_all is_digit s \<and> hd s \<noteq> CHR ''0''"

definition kubeVersion :: "string \<Rightarrow> bool" where
  "kubeVersion s \<longleftrightarrow>
     (case s of [] \<Rightarrow> False
      | c # cs \<Rightarrow> c = CHR ''v'' \<and>
          (let n = takeWhile is_digit cs; rest = dropWhile is_digit cs
           in positive n \<and>
              (rest = [] \<or>
               (prefix ''alpha'' rest \<and> positive (drop 5 rest)) \<or>
               (prefix ''beta'' rest \<and> positive (drop 4 rest)))))"

definition ParseAPIVersionSetting :: "string \<Rightarrow> version_setting res" where
  "ParseAPIVersionSetting s =
     (if s = [] \<or> s = ''auto'' then Inr \<lparr>vs_pinned = [], vs_version = []\<rparr>
      else if List.member s (CHR ''/'')
      then (case ParseAPIVersion s of Inl e \<Rightarrow> Inl e
            | Inr _ \<Rightarrow> Inr \<lparr>vs_pinned = s, vs_version = []\<rparr>)
      else if \<not> kubeVersion s
      then Inl (Err [] (''kagent API version '' @ quoted s @
             '': want auto, a version such as v1alpha3, or '' @ KagentGroup @ ''/<version>''))
      else Inr \<lparr>vs_pinned = [], vs_version = s\<rparr>)"

definition version_fallback :: "version_setting \<Rightarrow> string" where
  "version_fallback s =
     (if vs_pinned s \<noteq> [] then vs_pinned s
      else if vs_version s \<noteq> [] then KagentGroup @ ''/'' @ vs_version s
      else DefaultAPIVersion)"

definition APIVersion :: "wirer \<Rightarrow> string" where
  "APIVersion k = gv_string (k_group k) (k_version k)"

text \<open>\<open>setVersion\<close>; the version is one \<open>ParseAPIVersion\<close> accepts, else it panics.\<close>

definition setVersion :: "wirer \<Rightarrow> string \<Rightarrow> wirer option" where
  "setVersion k s =
     (case ParseAPIVersion s of
        Inl e \<Rightarrow> None
      | Inr (g, v) \<Rightarrow> Some (k\<lparr>k_group := g, k_version := v, k_fields := None\<rparr>))"

definition NewKagent :: "string \<Rightarrow> string \<Rightarrow> string \<Rightarrow> string \<Rightarrow> wirer option" where
  "NewKagent ns api_version pre inst =
     setVersion \<lparr>k_namespace = ns, k_prefix = pre, k_instance = InstanceName inst,
                 k_discover = None, k_group = [], k_version = [], k_discovered = 0,
                 k_fields = None\<rparr>
       (if api_version = [] then DefaultAPIVersion else api_version)"

definition WithDiscovery :: "wirer \<Rightarrow> cluster \<Rightarrow> (cluster \<Rightarrow> string res) \<Rightarrow> wirer" where
  "WithDiscovery k c d = k\<lparr>k_discover := Some d, k_discovered := cl_now c\<rparr>"

subsection \<open>Discovery\<close>

text \<open>
  What discovery reads: an API group's preferred version and versions, and the resources of
  a group version (its own error when the read fails).
\<close>

record api_group =
  ag_name :: string
  ag_preferred :: string
  ag_versions :: "string list"

definition servedVersion :: "(string \<Rightarrow> string list res) \<Rightarrow> api_group \<Rightarrow> string \<Rightarrow> string" where
  "servedVersion resources g want =
     (let candidates = ag_preferred g # filter (\<lambda>v. v \<noteq> ag_preferred g) (ag_versions g);
          candidates = (if want \<noteq> [] then [want] else candidates)
      in case find (\<lambda>v. case resources (ag_name g @ ''/'' @ v) of
                         Inl e \<Rightarrow> False
                       | Inr names \<Rightarrow> List.member names ModelConfigResource) candidates of
           None \<Rightarrow> []
         | Some v \<Rightarrow> v)"

text \<open>The two nested loops, over the (kagent group, listed group) pairs they visit.\<close>

fun discover_in ::
  "(string \<Rightarrow> string list res) \<Rightarrow> string \<Rightarrow> (string \<times> api_group) list \<Rightarrow> string list
   \<Rightarrow> string list + string" where
  "discover_in resources want [] found = Inl found"
| "discover_in resources want ((nm, g) # gs) found =
     (if ag_name g \<noteq> nm then discover_in resources want gs found
      else (let v = servedVersion resources g want
            in if v \<noteq> [] then Inr (nm @ ''/'' @ v)
               else discover_in resources want gs (found @ [nm])))"

definition DiscoverAPIVersion ::
  "api_group list res \<Rightarrow> (string \<Rightarrow> string list res) \<Rightarrow> string \<Rightarrow> string res" where
  "DiscoverAPIVersion groups resources version =
     (case groups of
        Inl e \<Rightarrow> Inl (wrap_err ''discover API groups: '' e [])
      | Inr gs \<Rightarrow>
          (case discover_in resources version
                  (List.product [KagentGroup, LegacyKagentGroup] gs) [] of
             Inr gv \<Rightarrow> Inr gv
           | Inl found \<Rightarrow>
               if found \<noteq> [] \<and> version \<noteq> []
               then Inl (Err [] (''API group '' @ join '', '' found @ '' has no '' @
                      ModelConfigResource @ '' resource at '' @ version))
               else if found \<noteq> []
               then Inl (Err [] (''API group '' @ join '', '' found @ '' has no '' @
                      ModelConfigResource @ '' resource''))
               else Inl (Err [] (''API groups '' @ KagentGroup @ '' and '' @ LegacyKagentGroup @
                      '' not found (is kagent installed?)''))))"

subsection \<open>Following the served version\<close>

definition rediscover :: "wirer \<Rightarrow> cluster \<Rightarrow> bool \<times> wirer" where
  "rediscover k c =
     (case k_discover k of
        None \<Rightarrow> (False, k)
      | Some d \<Rightarrow>
          (case d c of
             Inl e \<Rightarrow> (False, k)
           | Inr v \<Rightarrow>
               if v = APIVersion k then (False, k)
               else (case setVersion k v of
                  None \<Rightarrow> (False, k)
                | Some k' \<Rightarrow> (True, k'))))"

definition rediscovered :: "err \<Rightarrow> wirer \<Rightarrow> cluster \<Rightarrow> bool \<times> wirer" where
  "rediscovered e k c =
     (let missed = is_not_found e \<or> err_is e ErrVersionNotServed
      in if k_discover k = None \<or> \<not> missed then (False, k)
         else rediscover (k\<lparr>k_discovered := cl_now c\<rparr>) c)"

definition refresh :: "wirer \<Rightarrow> cluster \<Rightarrow> wirer" where
  "refresh k c =
     (if k_discover k = None then k
      else if cl_now c - k_discovered k \<ge> discoveryTTL
      then snd (rediscover (k\<lparr>k_discovered := cl_now c\<rparr>) c)
      else k)"

type_synonym 'a op = "wirer \<Rightarrow> cluster \<Rightarrow> 'a res \<times> wirer \<times> cluster"

definition retried :: "'a op \<Rightarrow> 'a op" where
  "retried call k c =
     (case call (refresh k c) c of
        (Inr v, k1, c1) \<Rightarrow> (Inr v, k1, c1)
      | (Inl e, k1, c1) \<Rightarrow>
          (case rediscovered e k1 c1 of
             (True, k2) \<Rightarrow> call k2 c1
           | (False, k2) \<Rightarrow> (Inl e, k2, c1)))"

section \<open>The served schema\<close>

definition fetchOllamaFields :: "wirer \<Rightarrow> cluster \<Rightarrow> string list res" where
  "fetchOllamaFields k c =
     (let gv = APIVersion k
      in case api c OpenApiPaths (Inr (cl_openapi c)) of
           Inl e \<Rightarrow> Inl (wrap_err ''read the apiserver's OpenAPI v3 paths: '' e [])
         | Inr paths \<Rightarrow>
             (case paths gv of
                None \<Rightarrow> Inl (wrap_err (''the apiserver publishes no OpenAPI v3 schema for '' @ gv @
                         '' (is kagent installed?): '') (err_sentinel ErrVersionNotServed) [])
              | Some doc \<Rightarrow>
                  (case api c (OpenApiSchema gv) (Inr doc) of
                     Inl e \<Rightarrow> Inl (wrap_err (''read the OpenAPI v3 schema of '' @ gv @ '': '') e [])
                   | Inr schemas \<Rightarrow>
                       (case find (\<lambda>s. List.member (sn_gvks s) (k_group k, k_version k, ''ModelConfig'')) schemas of
                          None \<Rightarrow> Inl (Err [] (''the OpenAPI v3 schema of '' @ gv @ '' has no ModelConfig''))
                        | Some s \<Rightarrow> Inr (sn_ollama s)))))"

definition ollamaFields :: "wirer \<Rightarrow> cluster \<Rightarrow> string list res \<times> wirer" where
  "ollamaFields k c =
     (case k_fields k of
        Some (cached, fetched) \<Rightarrow>
          if cl_now c - fetched < schemaTTL then (Inr cached, k)
          else (case fetchOllamaFields k c of
             Inl e \<Rightarrow> (Inl e, k)
           | Inr fs \<Rightarrow> (Inr fs, k\<lparr>k_fields := Some (fs, cl_now c)\<rparr>))
      | None \<Rightarrow>
          (case fetchOllamaFields k c of
             Inl e \<Rightarrow> (Inl e, k)
           | Inr fs \<Rightarrow> (Inr fs, k\<lparr>k_fields := Some (fs, cl_now c)\<rparr>)))"

definition writable :: "agent_endpoint \<Rightarrow> wirer \<Rightarrow> cluster \<Rightarrow> agent_endpoint res \<times> wirer" where
  "writable ep k c =
     (if ep_provider ep \<noteq> ''Ollama'' \<or> ep_think ep = None then (Inr ep, k)
      else case ollamaFields k c of
        (Inl e, k) \<Rightarrow> (Inl (wrap_err ''read the served ModelConfig schema: '' e []), k)
      | (Inr served, k) \<Rightarrow>
          (Inr (if \<not> List.member served ollamaThink then ep\<lparr>ep_think := None\<rparr> else ep), k))"

section \<open>Whose a ModelConfig is\<close>

definition createdHere :: "wirer \<Rightarrow> 'a kobj_scheme \<Rightarrow> bool" where
  "createdHere k x \<longleftrightarrow>
     get_label (o_labels x) ManagedByLabel = ManagedByValue \<and>
     get_label (o_labels x) InstanceLabel = k_instance k"

definition leftInPlace :: string where
  "leftInPlace = ''it is left in place: model-manager only deletes the ModelConfigs it created; one without the instance label is removed by unwire_model once nothing references it''"

definition notWritten :: string where
  "notWritten = ''nothing was written: only the instance that created it writes it''"

definition notOwned :: "wirer \<Rightarrow> 'a kobj_scheme \<Rightarrow> string \<Rightarrow> not_owned" where
  "notOwned k x outcome =
     (let ns = (if o_namespace x = [] then k_namespace k else o_namespace x);
          by = get_label (o_labels x) InstanceLabel;
          who = (if by = []
                 then ''it carries no '' @ InstanceLabel @
                      '' label (written before model-manager recorded its creator, or by hand)''
                 else ''model-manager instance '' @ by @ '' created it'')
      in \<lparr>no_namespace = ns, no_name = o_name x, no_created_by = by, no_referenced_by = [],
          no_message = ''ModelConfig '' @ ns @ ''/'' @ o_name x @
            '' was not created by this model-manager (instance '' @ k_instance k @ ''): '' @ who @
            ''; '' @ outcome\<rparr>)"

definition backendMatches :: "'a kobj_scheme \<Rightarrow> name \<Rightarrow> bool" where
  "backendMatches x b \<longleftrightarrow>
     (let labelled = get_label (o_labels x) BackendLabel
      in b = [] \<or> labelled = [] \<or> labelled = b)"

definition ownedByOtherBackend :: "'a kobj_scheme \<Rightarrow> name \<Rightarrow> bool" where
  "ownedByOtherBackend x b \<longleftrightarrow>
     get_label (o_labels x) ManagedByLabel = ManagedByValue \<and>
     get_label (o_labels x) BackendLabel \<noteq> [] \<and> get_label (o_labels x) BackendLabel \<noteq> b"

subsection \<open>Finding the ModelConfig of a model\<close>

definition managed_selector :: "(string \<rightharpoonup> string) \<Rightarrow> bool" where
  "managed_selector ls \<longleftrightarrow> ls ManagedByLabel = Some ManagedByValue"

definition any_selector :: "(string \<rightharpoonup> string) \<Rightarrow> bool" where
  "any_selector ls \<longleftrightarrow> True"

definition match_mc :: "wirer \<Rightarrow> mconfig list \<Rightarrow> name \<Rightarrow> string \<Rightarrow> mconfig option" where
  "match_mc k items b model =
     (case find (\<lambda>m. get_label (mc_annotations m) ModelAnnotation = model \<and> backendMatches m b) items of
        Some m \<Rightarrow> Some m
      | None \<Rightarrow>
          find (\<lambda>m. o_name m = ModelConfigName (k_prefix k) model \<and> backendMatches m b) items)"

definition legacyGitOps ::
  "wirer \<Rightarrow> cluster \<Rightarrow> ((string \<rightharpoonup> string) \<Rightarrow> bool) \<Rightarrow> mconfig list res" where
  "legacyGitOps k c sel =
     (if k_group k \<noteq> KagentGroup then Inr []
      else case api_list_mcs c LegacyKagentGroup (k_version k) (k_namespace k) sel of
        Inl e \<Rightarrow>
          if is_not_found e \<or> err_is e ApiForbidden then Inr []
          else Inl (wrap_err (''list '' @ LegacyKagentGroup @ '' ModelConfigs in '' @ k_namespace k @ '': '') e [])
      | Inr items \<Rightarrow> Inr (filter (\<lambda>m. owner_of (o_labels m) \<noteq> None) items))"

definition withLegacyGitOps ::
  "wirer \<Rightarrow> cluster \<Rightarrow> mconfig list \<Rightarrow> ((string \<rightharpoonup> string) \<Rightarrow> bool) \<Rightarrow> mconfig list res" where
  "withLegacyGitOps k c items sel =
     (case legacyGitOps k c sel of
        Inl e \<Rightarrow> Inl e
      | Inr legacy \<Rightarrow>
          Inr (items @ filter (\<lambda>m. \<not> List.member (map o_name items) (o_name m)) legacy))"

definition list_error :: "wirer \<Rightarrow> err \<Rightarrow> err" where
  "list_error k e = wrap_err (''list ModelConfigs in '' @ k_namespace k @ '': '') e []"

definition find_mc :: "wirer \<Rightarrow> cluster \<Rightarrow> name \<Rightarrow> string \<Rightarrow> mconfig option res" where
  "find_mc k c b model =
     (case api_list_mcs c (k_group k) (k_version k) (k_namespace k) managed_selector of
        Inl e \<Rightarrow> Inl (list_error k e)
      | Inr items \<Rightarrow>
          (case match_mc k items b model of
             Some m \<Rightarrow> Inr (Some m)
           | None \<Rightarrow>
               (case legacyGitOps k c managed_selector of
                  Inl e \<Rightarrow> Inl e
                | Inr legacy \<Rightarrow> Inr (match_mc k legacy b model))))"

subsection \<open>Who references it\<close>

text \<open>
  \<open>references\<close> and its loops over a map's fields and a list's elements.
\<close>

definition names_model_config :: "string \<Rightarrow> json \<Rightarrow> string \<Rightarrow> string \<Rightarrow> bool" where
  "names_model_config key f ns n \<longleftrightarrow>
     (key = ''modelConfig'' \<or> key = ''modelConfigRef'') \<and>
     (case f of
        JObj kvs \<Rightarrow> map_of kvs ''name'' = Some (JStr n)
      | JStr s \<Rightarrow> s = n \<or> s = ns @ ''/'' @ n
      | _ \<Rightarrow> False)"

fun references :: "json \<Rightarrow> string \<Rightarrow> string \<Rightarrow> bool"
  and fields_reference :: "(string \<times> json) list \<Rightarrow> string \<Rightarrow> string \<Rightarrow> bool"
  and items_reference :: "json list \<Rightarrow> string \<Rightarrow> string \<Rightarrow> bool" where
  "references (JObj kvs) ns n = fields_reference kvs ns n"
| "references (JList xs) ns n = items_reference xs ns n"
| "references JNull ns n = False"
| "references (JBool b) ns n = False"
| "references (JNum i) ns n = False"
| "references (JStr s) ns n = False"
| "fields_reference [] ns n = False"
| "fields_reference ((key, f) # kvs) ns n =
     (names_model_config key f ns n \<or> references f ns n \<or> fields_reference kvs ns n)"
| "items_reference [] ns n = False"
| "items_reference (f # xs) ns n = (references f ns n \<or> items_reference xs ns n)"

definition referenceResources :: "string list" where
  "referenceResources = [''agents'', ''agenttemplates'', ''harnesses'']"

fun referrers_in ::
  "wirer \<Rightarrow> cluster \<Rightarrow> string \<Rightarrow> string \<Rightarrow> string list \<Rightarrow> string list \<Rightarrow> string list res" where
  "referrers_in k c ns n [] refs = Inr refs"
| "referrers_in k c ns n (r # rs) refs =
     (case api_list_refs c (k_group k) (k_version k) r ns of
        Inl e \<Rightarrow>
          if is_not_found e then referrers_in k c ns n rs refs
          else Inl (wrap_err (''list '' @ r @ '' in '' @ ns @ '': '') e [])
      | Inr items \<Rightarrow>
          referrers_in k c ns n rs
            (refs @ map (\<lambda>x. rf_kind x @ '' '' @ ns @ ''/'' @ rf_name x)
                        (filter (\<lambda>x. references (rf_spec x) ns n) items)))"

definition referrers :: "wirer \<Rightarrow> cluster \<Rightarrow> 'a kobj_scheme \<Rightarrow> string list res" where
  "referrers k c x =
     referrers_in k c (if o_namespace x = [] then k_namespace k else o_namespace x) (o_name x)
       referenceResources []"

definition kept :: "wirer \<Rightarrow> cluster \<Rightarrow> 'a kobj_scheme \<Rightarrow> scope \<Rightarrow> not_owned option res" where
  "kept k c x sc =
     (if createdHere k x then Inr None
      else if sc \<noteq> Unclaimed \<or> get_label (o_labels x) InstanceLabel \<noteq> []
      then Inr (Some (notOwned k x leftInPlace))
      else case referrers k c x of
        Inl e \<Rightarrow> Inl e
      | Inr refs \<Rightarrow>
          if refs = [] then Inr None
          else Inr (Some ((notOwned k x (''it is left in place: referenced by '' @ join '', '' refs @
                 ''; unwire it again once nothing references it''))\<lparr>no_referenced_by := refs\<rparr>)))"

section \<open>What a ModelConfig holds\<close>

definition placeholderNeeded :: "agent_endpoint \<Rightarrow> bool" where
  "placeholderNeeded ep \<longleftrightarrow> ep_placeholder_key ep \<and> \<not> ep_passthrough ep \<and> ep_secret ep = []"

definition build_spec :: "string \<Rightarrow> string \<Rightarrow> agent_endpoint \<Rightarrow> mc_spec" where
  "build_spec nm model ep =
     \<lparr>sp_provider = ep_provider ep,
      sp_model = (if ep_model ep = [] then model else ep_model ep),
      sp_ollama =
        (if ep_provider ep = ''Ollama''
         then Some \<lparr>ol_host = ep_host ep,
                    ol_num_ctx = (if ep_context_length ep > 0
                                  then Some (show_int (ep_context_length ep)) else None),
                    ol_think = ep_think ep\<rparr>
         else None),
      sp_base_url = (if ep_provider ep = ''OpenAI'' then Some (ep_base_url ep) else None),
      sp_passthrough = ep_passthrough ep,
      sp_secret =
        (if ep_passthrough ep then []
         else if ep_secret ep \<noteq> [] then ep_secret ep
         else if ep_placeholder_key ep then placeholderSecretName nm else []),
      sp_secret_key =
        (if ep_passthrough ep then []
         else if ep_secret ep \<noteq> []
         then (if ep_secret_key ep = [] then placeholderSecretKey else ep_secret_key ep)
         else if ep_placeholder_key ep then placeholderSecretKey else [])\<rparr>"

definition build :: "wirer \<Rightarrow> string \<Rightarrow> string \<Rightarrow> agent_endpoint \<Rightarrow> mconfig" where
  "build k nm model ep =
     \<lparr>o_group = k_group k, o_version = k_version k, o_kind = ''ModelConfig'',
      o_namespace = k_namespace k, o_name = nm,
      o_labels =
        (let ls = [ManagedByLabel \<mapsto> ManagedByValue, InstanceLabel \<mapsto> k_instance k]
         in if ep_backend ep \<noteq> [] then ls(BackendLabel \<mapsto> ep_backend ep) else ls),
      mc_annotations = [ModelAnnotation \<mapsto> model],
      mc_spec = build_spec nm model ep, mc_status = None, mc_uid = 0, mc_rv = 0\<rparr>"

definition placeholderSecret :: "wirer \<Rightarrow> string \<Rightarrow> secret" where
  "placeholderSecret k mc_name =
     \<lparr>o_group = [], o_version = ''v1'', o_kind = ''Secret'',
      o_namespace = k_namespace k, o_name = placeholderSecretName mc_name,
      o_labels = [ManagedByLabel \<mapsto> ManagedByValue],
      se_data = [(placeholderSecretKey, ''placeholder'')]\<rparr>"

text \<open>\<open>readiness\<close>: the loop keeps the last condition of each type.\<close>

fun readiness_loop ::
  "condition list \<Rightarrow> bool \<Rightarrow> string \<Rightarrow> bool \<Rightarrow> string \<Rightarrow> bool \<times> string" where
  "readiness_loop [] accepted accepted_msg unresolved unresolved_msg =
     (if \<not> accepted then (False, accepted_msg)
      else if unresolved then (False, unresolved_msg)
      else (True, accepted_msg))"
| "readiness_loop (x # xs) accepted accepted_msg unresolved unresolved_msg =
     (if co_type x = acceptedCondition
      then readiness_loop xs (co_status x = ''True'') (co_message x) unresolved unresolved_msg
      else if co_type x = resolvedRefsCondition
      then readiness_loop xs accepted accepted_msg (co_status x \<noteq> ''True'') (co_message x)
      else readiness_loop xs accepted accepted_msg unresolved unresolved_msg)"

definition readiness :: "condition list \<Rightarrow> bool \<times> string" where
  "readiness conds =
     (if conds = [] then (False, ''not yet reconciled'') else readiness_loop conds False [] False [])"

text \<open>
  \<open>strconv.ParseInt\<close> with its error dropped: its value is then 0 for a malformed number and
  the nearest bound for one out of range.
\<close>

definition parse_num :: "string \<Rightarrow> int" where
  "parse_num s =
     (case parse_int64 s of
        Some v \<Rightarrow> v
      | None \<Rightarrow>
          (let neg = (s \<noteq> [] \<and> hd s = CHR ''-'');
               ds = (if s \<noteq> [] \<and> (hd s = CHR ''-'' \<or> hd s = CHR ''+'') then tl s else s)
           in if ds = [] \<or> \<not> list_all is_digit ds then 0
              else if neg then - (2 ^ 63) else 2 ^ 63 - 1))"

definition toRef :: "mconfig \<Rightarrow> mc_ref" where
  "toRef m =
     (let sp = mc_spec m;
          annotated = get_label (mc_annotations m) ModelAnnotation;
          base_url = (case sp_base_url sp of None \<Rightarrow> [] | Some u \<Rightarrow> u);
          host = (case sp_ollama sp of None \<Rightarrow> [] | Some ol \<Rightarrow> ol_host ol);
          num_ctx = (case sp_ollama sp of None \<Rightarrow> []
                     | Some ol \<Rightarrow> (case ol_num_ctx ol of None \<Rightarrow> [] | Some n \<Rightarrow> n));
          conds = (case mc_status m of None \<Rightarrow> [] | Some cs \<Rightarrow> cs)
      in \<lparr>r_name = o_name m, r_namespace = o_namespace m,
          r_api_version = gv_string (o_group m) (o_version m),
          r_provider = sp_provider sp,
          r_model = (if annotated \<noteq> [] then annotated else sp_model sp),
          r_ready = fst (readiness conds), r_message = snd (readiness conds),
          r_managed = (get_label (o_labels m) ManagedByLabel = ManagedByValue),
          r_gitops = None,
          r_provider_model = sp_model sp,
          r_endpoint = (if base_url \<noteq> [] then base_url else host),
          r_passthrough = sp_passthrough sp,
          r_secret = sp_secret sp,
          r_created_by = get_label (o_labels m) InstanceLabel,
          r_backend = get_label (o_labels m) BackendLabel,
          r_context_length = parse_num num_ctx,
          r_think = (case sp_ollama sp of None \<Rightarrow> None | Some ol \<Rightarrow> ol_think ol)\<rparr>)"

definition ref :: "cluster \<Rightarrow> mconfig \<Rightarrow> mc_ref res" where
  "ref c m =
     (case applying c m of
        Inl e \<Rightarrow> Inl e
      | Inr ow \<Rightarrow> Inr ((toRef m)\<lparr>r_gitops := ow\<rparr>))"

section \<open>The plan of an Ensure\<close>

record wire_plan =
  wp_name :: string
  wp_desired :: mconfig
  wp_secret :: "secret option"
  wp_existing :: "mconfig option"
  wp_replaces :: "mconfig option"
  wp_legacy :: "mconfig option"

text \<open>
  An object of a \<open>Rendered\<close>. \<open>rn_left\<close> is the ModelConfig a removal leaves.
\<close>

datatype rendered_object = MCObject mconfig | SecretObject secret

record rendered =
  rn_name :: string
  rn_objects :: "rendered_object list"
  rn_gitops :: "gitops_owner option"
  rn_replaces :: string
  rn_left :: "not_owned option"

definition nothing_rendered :: rendered where
  "nothing_rendered =
     \<lparr>rn_name = [], rn_objects = [], rn_gitops = None, rn_replaces = [], rn_left = None\<rparr>"

definition rendered_model_config :: "rendered \<Rightarrow> mconfig option" where
  "rendered_model_config r =
     (case find (\<lambda>x. case x of MCObject m \<Rightarrow> True | SecretObject s \<Rightarrow> False) (rn_objects r) of
        Some (MCObject m) \<Rightarrow> Some m
      | _ \<Rightarrow> None)"

definition plan_rendered :: "wire_plan \<Rightarrow> rendered" where
  "plan_rendered p =
     \<lparr>rn_name = wp_name p,
      rn_objects = MCObject (wp_desired p) #
        (case wp_secret p of None \<Rightarrow> [] | Some sec \<Rightarrow> [SecretObject sec]),
      rn_gitops = None,
      rn_replaces = (case wp_replaces p of None \<Rightarrow> [] | Some m \<Rightarrow> o_name m),
      rn_left = None\<rparr>"

definition provenance :: "wire_plan \<Rightarrow> mconfig option" where
  "provenance p = (if wp_existing p \<noteq> None then wp_existing p else wp_legacy p)"

definition prefixed :: "wirer \<Rightarrow> string \<Rightarrow> string" where
  "prefixed k nm = (if k_prefix k = [] then nm else ModelConfigName (k_prefix k) nm)"

text \<open>The name the plan aims for: the derived or backend-chosen one, suffixed when a
  ModelConfig of another backend holds it. The slice of \<open>suffixed\<close> may panic.\<close>

definition plan_target :: "wirer \<Rightarrow> cluster \<Rightarrow> string \<Rightarrow> agent_endpoint \<Rightarrow> string res" where
  "plan_target k c model ep =
     (let target = (if ep_name ep \<noteq> [] then prefixed k (ep_name ep)
                    else ModelConfigName (k_prefix k) model)
      in case api_get_mc c (k_group k) (k_version k) (k_namespace k) target of
           Inl e \<Rightarrow> Inr target
         | Inr taken \<Rightarrow>
             if ownedByOtherBackend taken (ep_backend ep)
             then (case suffixed target (ep_backend ep) of
                     None \<Rightarrow> Inl (Err [GoPanic] ''slice bounds out of range'')
                   | Some n \<Rightarrow> Inr n)
             else Inr target)"

text \<open>The switch on the ModelConfig found: the name, and what it replaces or moves.\<close>

definition plan_name ::
  "wirer \<Rightarrow> agent_endpoint \<Rightarrow> string \<Rightarrow> mconfig option \<Rightarrow>
   string \<times> mconfig option \<times> mconfig option" where
  "plan_name k ep target found =
     (case found of
        None \<Rightarrow> (target, None, None)
      | Some old \<Rightarrow>
          if gv_string (o_group old) (o_version old) \<noteq> APIVersion k
          then (o_name old, None, Some old)
          else if ep_name ep \<noteq> [] \<and> o_name old \<noteq> target \<and> createdHere k old
          then (target, Some old, None)
          else (o_name old, None, None))"

definition plan_at ::
  "wirer \<Rightarrow> cluster \<Rightarrow> string \<Rightarrow> agent_endpoint \<Rightarrow> string \<times> mconfig option \<times> mconfig option
   \<Rightarrow> wire_plan res" where
  "plan_at k c model ep decided =
     (case decided of (nm, replaces, legacy) \<Rightarrow>
       (let p = \<lparr>wp_name = nm, wp_desired = build k nm model ep,
                 wp_secret = (if placeholderNeeded ep then Some (placeholderSecret k nm) else None),
                 wp_existing = None, wp_replaces = replaces, wp_legacy = legacy\<rparr>
        in case api_get_mc c (k_group k) (k_version k) (k_namespace k) nm of
             Inl e \<Rightarrow>
               if is_not_found e then Inr p
               else Inl (wrap_err (''get ModelConfig '' @ k_namespace k @ ''/'' @ nm @ '': '') e [])
           | Inr existing \<Rightarrow>
               if get_label (o_labels existing) ManagedByLabel \<noteq> ManagedByValue
               then Inl (errw ErrConflict (''ModelConfig '' @ k_namespace k @ ''/'' @ nm @
                      '' exists but is not managed by '' @ ManagedByValue))
               else if get_label (o_labels existing) InstanceLabel \<noteq> [] \<and>
                       get_label (o_labels existing) InstanceLabel \<noteq> k_instance k
               then Inl (not_owned_err (notOwned k existing notWritten))
               else Inr (p\<lparr>wp_existing := Some existing,
                           wp_desired := (if createdHere k existing then wp_desired p
                              else (wp_desired p)\<lparr>o_labels := (o_labels (wp_desired p))(InstanceLabel := None)\<rparr>)\<rparr>)))"

definition plan :: "string \<Rightarrow> agent_endpoint \<Rightarrow> wirer \<Rightarrow> cluster \<Rightarrow> wire_plan res \<times> wirer" where
  "plan model ep k c =
     (if trim_space model = [] then (Inl (errw ErrInvalid ''empty model name''), k)
      else case ep_validate ep of
        Some e \<Rightarrow> (Inl e, k)
      | None \<Rightarrow>
          (case writable ep k c of
             (Inl e, k) \<Rightarrow> (Inl e, k)
           | (Inr ep, k) \<Rightarrow>
               (case plan_target k c model ep of
                  Inl e \<Rightarrow> (Inl e, k)
                | Inr target \<Rightarrow>
                    (case find_mc k c (ep_backend ep) model of
                       Inl e \<Rightarrow> (Inl e, k)
                     | Inr found \<Rightarrow> (plan_at k c model ep (plan_name k ep target found), k)))))"

definition render :: "string \<Rightarrow> agent_endpoint \<Rightarrow> rendered op" where
  "render model ep k c =
     (case plan model ep k c of
        (Inl e, k) \<Rightarrow> (Inl e, k, c)
      | (Inr p, k) \<Rightarrow>
          (case provenance p of
             None \<Rightarrow> (Inr (plan_rendered p), k, c)
           | Some m \<Rightarrow>
               (case applying c m of
                  Inl e \<Rightarrow> (Inl e, k, c)
                | Inr ow \<Rightarrow> (Inr ((plan_rendered p)\<lparr>rn_gitops := ow\<rparr>), k, c))))"

section \<open>The writes\<close>

definition ensurePlaceholderSecret :: "wirer \<Rightarrow> string \<Rightarrow> cluster \<Rightarrow> unit res \<times> cluster" where
  "ensurePlaceholderSecret k mc_name c =
     (let sec = placeholderSecret k mc_name
      in case api_get_secret c (k_namespace k) (o_name sec) of
           Inr s \<Rightarrow> (Inr (), c)
         | Inl e \<Rightarrow>
             if \<not> is_not_found e
             then (Inl (wrap_err (''get Secret '' @ k_namespace k @ ''/'' @ o_name sec @ '': '') e []), c)
             else (case api_create_secret c sec of
                (Inl e, c) \<Rightarrow>
                  if err_is e ApiAlreadyExists then (Inr (), c)
                  else (Inl (wrap_err (''create Secret '' @ k_namespace k @ ''/'' @ o_name sec @ '': '') e []), c)
              | (Inr s, c) \<Rightarrow> (Inr (), c)))"

definition removePlaceholderSecret :: "wirer \<Rightarrow> string \<Rightarrow> cluster \<Rightarrow> unit res \<times> cluster" where
  "removePlaceholderSecret k mc_name c =
     (let nm = placeholderSecretName mc_name
      in case api_get_secret c (k_namespace k) nm of
           Inl e \<Rightarrow> (Inr (), c)
         | Inr sec \<Rightarrow>
             if get_label (o_labels sec) ManagedByLabel \<noteq> ManagedByValue then (Inr (), c)
             else (case applying c sec of
                Inl e \<Rightarrow> (Inl e, c)
              | Inr (Some ow) \<Rightarrow> (Inr (), c)
              | Inr None \<Rightarrow>
                  (case api_delete_secret c (k_namespace k) nm of
                     (Inl e, c) \<Rightarrow>
                       if is_not_found e then (Inr (), c)
                       else (Inl (wrap_err (''delete Secret '' @ k_namespace k @ ''/'' @ nm @ '': '') e []), c)
                   | (Inr u, c) \<Rightarrow> (Inr (), c))))"

definition removeObj :: "wirer \<Rightarrow> string \<Rightarrow> cluster \<Rightarrow> unit res \<times> cluster" where
  "removeObj k nm c =
     (case api_delete_mc c (k_group k) (k_version k) (k_namespace k) nm of
        (Inl e, c) \<Rightarrow>
          if is_not_found e then removePlaceholderSecret k nm c
          else (Inl (wrap_err (''delete ModelConfig '' @ k_namespace k @ ''/'' @ nm @ '': '') e []), c)
      | (Inr u, c) \<Rightarrow> removePlaceholderSecret k nm c)"

definition refuseGitOps :: "cluster \<Rightarrow> mconfig option \<Rightarrow> unit res" where
  "refuseGitOps c m = (case m of None \<Rightarrow> Inr () | Some m \<Rightarrow> refuse c m)"

fun refuse_all :: "cluster \<Rightarrow> mconfig option list \<Rightarrow> unit res" where
  "refuse_all c [] = Inr ()"
| "refuse_all c (m # ms) =
     (case refuseGitOps c m of Inl e \<Rightarrow> Inl e | Inr u \<Rightarrow> refuse_all c ms)"

text \<open>The create of a plan with no ModelConfig at its name.\<close>

definition ensure_create :: "wirer \<Rightarrow> wire_plan \<Rightarrow> cluster \<Rightarrow> mc_ref res \<times> cluster" where
  "ensure_create k p c =
     (case (case wp_secret p of None \<Rightarrow> (Inr (), c)
            | Some sec \<Rightarrow> ensurePlaceholderSecret k (wp_name p) c) of
        (Inl e, c) \<Rightarrow> (Inl e, c)
      | (Inr u, c) \<Rightarrow>
          (case api_create_mc c (k_group k) (k_version k) (wp_desired p) of
             (Inl e, c) \<Rightarrow>
               (Inl (wrap_err (''create ModelConfig '' @ k_namespace k @ ''/'' @ wp_name p @ '': '') e []), c)
           | (Inr created, c) \<Rightarrow> (ref c created, c)))"

text \<open>What an update sends: the desired object over the existing one's metadata.\<close>

definition merged :: "mconfig \<Rightarrow> mconfig \<Rightarrow> mconfig" where
  "merged existing desired =
     desired\<lparr>mc_rv := mc_rv existing, mc_uid := mc_uid existing,
             o_labels := o_labels existing ++ o_labels desired,
             mc_annotations := mc_annotations existing ++ mc_annotations desired\<rparr>"

definition ensure_update :: "wirer \<Rightarrow> wire_plan \<Rightarrow> mconfig \<Rightarrow> cluster \<Rightarrow> mc_ref res \<times> cluster" where
  "ensure_update k p existing c =
     (case (case wp_secret p of None \<Rightarrow> removePlaceholderSecret k (wp_name p) c
            | Some sec \<Rightarrow> ensurePlaceholderSecret k (wp_name p) c) of
        (Inl e, c) \<Rightarrow> (Inl e, c)
      | (Inr u, c) \<Rightarrow>
          (case api_update_mc c (k_group k) (k_version k) (merged existing (wp_desired p)) of
             (Inl e, c) \<Rightarrow>
               (Inl (wrap_err (''update ModelConfig '' @ k_namespace k @ ''/'' @ wp_name p @ '': '') e []), c)
           | (Inr updated, c) \<Rightarrow>
               (ref c (if mc_status existing \<noteq> None then updated\<lparr>mc_status := mc_status existing\<rparr>
                       else updated), c)))"

definition apply_plan :: "wirer \<Rightarrow> wire_plan \<Rightarrow> cluster \<Rightarrow> mc_ref res \<times> cluster" where
  "apply_plan k p c =
     (case refuse_all c [wp_existing p, wp_replaces p, wp_legacy p] of
        Inl e \<Rightarrow> (Inl e, c)
      | Inr u \<Rightarrow>
          (case (case wp_replaces p of None \<Rightarrow> (Inr (), c) | Some m \<Rightarrow> removeObj k (o_name m) c) of
             (Inl e, c) \<Rightarrow> (Inl e, c)
           | (Inr u, c) \<Rightarrow>
               (case wp_existing p of
                  None \<Rightarrow> ensure_create k p c
                | Some existing \<Rightarrow> ensure_update k p existing c)))"

definition ensure :: "string \<Rightarrow> agent_endpoint \<Rightarrow> mc_ref op" where
  "ensure model ep k c =
     (case plan model ep k c of
        (Inl e, k) \<Rightarrow> (Inl e, k, c)
      | (Inr p, k) \<Rightarrow> (case apply_plan k p c of (r, c) \<Rightarrow> (r, k, c)))"

section \<open>Removals\<close>

definition removal_objects :: "wirer \<Rightarrow> cluster \<Rightarrow> mconfig \<Rightarrow> gitops_owner option \<Rightarrow> rendered res" where
  "removal_objects k c m ow =
     (let r = \<lparr>rn_name = o_name m, rn_objects = [MCObject m], rn_gitops = ow, rn_replaces = [],
               rn_left = None\<rparr>;
          sn = placeholderSecretName (o_name m)
      in case api_get_secret c (k_namespace k) sn of
           Inr sec \<Rightarrow>
             if get_label (o_labels sec) ManagedByLabel = ManagedByValue
             then Inr (r\<lparr>rn_objects := rn_objects r @ [SecretObject sec]\<rparr>)
             else Inr r
         | Inl e \<Rightarrow>
             if \<not> is_not_found e
             then Inl (wrap_err (''get Secret '' @ k_namespace k @ ''/'' @ sn @ '': '') e [])
             else Inr r)"

definition removal_res :: "name \<Rightarrow> string \<Rightarrow> scope \<Rightarrow> wirer \<Rightarrow> cluster \<Rightarrow> rendered res" where
  "removal_res b model sc k c =
     (case find_mc k c b model of
        Inl e \<Rightarrow> Inl e
      | Inr None \<Rightarrow> Inr nothing_rendered
      | Inr (Some m) \<Rightarrow>
          (case applying c m of
             Inl e \<Rightarrow> Inl e
           | Inr (Some ow) \<Rightarrow> removal_objects k c m (Some ow)
           | Inr None \<Rightarrow>
               (case kept k c m sc of
                  Inl e \<Rightarrow> Inl e
                | Inr (Some left) \<Rightarrow>
                    Inr (nothing_rendered\<lparr>rn_name := o_name m, rn_left := Some left\<rparr>)
                | Inr None \<Rightarrow> removal_objects k c m None)))"

definition removal :: "name \<Rightarrow> string \<Rightarrow> scope \<Rightarrow> rendered op" where
  "removal b model sc k c = (removal_res b model sc k c, k, c)"

definition remove :: "name \<Rightarrow> string \<Rightarrow> scope \<Rightarrow> unit op" where
  "remove b model sc k c =
     (case find_mc k c b model of
        Inl e \<Rightarrow> (Inl e, k, c)
      | Inr None \<Rightarrow> (Inr (), k, c)
      | Inr (Some m) \<Rightarrow>
          (case refuseGitOps c (Some m) of
             Inl e \<Rightarrow> (Inl e, k, c)
           | Inr u \<Rightarrow>
               (case kept k c m sc of
                  Inl e \<Rightarrow> (Inl e, k, c)
                | Inr (Some left) \<Rightarrow> (Inl (not_owned_err left), k, c)
                | Inr None \<Rightarrow> (case removeObj k (o_name m) c of (r, c) \<Rightarrow> (r, k, c)))))"

section \<open>Reads\<close>

definition lookup :: "name \<Rightarrow> string \<Rightarrow> mc_ref option op" where
  "lookup b model k c =
     (case find_mc k c b model of
        Inl e \<Rightarrow> (Inl e, k, c)
      | Inr None \<Rightarrow> (Inr None, k, c)
      | Inr (Some m) \<Rightarrow>
          (case ref c m of Inl e \<Rightarrow> (Inl e, k, c) | Inr r \<Rightarrow> (Inr (Some r), k, c)))"

fun refs_of :: "cluster \<Rightarrow> mconfig list \<Rightarrow> mc_ref list res" where
  "refs_of c [] = Inr []"
| "refs_of c (m # ms) =
     (case ref c m of
        Inl e \<Rightarrow> Inl e
      | Inr r \<Rightarrow> (case refs_of c ms of Inl e \<Rightarrow> Inl e | Inr rs \<Rightarrow> Inr (r # rs)))"

definition listed_refs :: "((string \<rightharpoonup> string) \<Rightarrow> bool) \<Rightarrow> wirer \<Rightarrow> cluster \<Rightarrow> mc_ref list res" where
  "listed_refs sel k c =
     (case api_list_mcs c (k_group k) (k_version k) (k_namespace k) sel of
        Inl e \<Rightarrow> Inl (list_error k e)
      | Inr items \<Rightarrow>
          (case withLegacyGitOps k c items sel of
             Inl e \<Rightarrow> Inl e
           | Inr items \<Rightarrow> refs_of c items))"

definition list_mcs :: "mc_ref list op" where
  "list_mcs k c =
     (case listed_refs managed_selector k c of
        Inl e \<Rightarrow> (Inl e, k, c)
      | Inr rs \<Rightarrow> (Inr (filter (\<lambda>r. r_model r \<noteq> []) rs), k, c))"

definition list_all_mcs :: "mc_ref list op" where
  "list_all_mcs k c = (listed_refs any_selector k c, k, c)"

section \<open>The interface\<close>

definition wire_ensure :: "string \<Rightarrow> agent_endpoint \<Rightarrow> mc_ref op" where
  "wire_ensure model ep = retried (ensure model ep)"

definition wire_remove :: "name \<Rightarrow> string \<Rightarrow> scope \<Rightarrow> unit op" where
  "wire_remove b model sc = retried (remove b model sc)"

definition wire_lookup :: "name \<Rightarrow> string \<Rightarrow> mc_ref option op" where
  "wire_lookup b model = retried (lookup b model)"

definition wire_list :: "mc_ref list op" where
  "wire_list = retried list_mcs"

definition wire_list_all :: "mc_ref list op" where
  "wire_list_all = retried list_all_mcs"

definition wire_render :: "string \<Rightarrow> agent_endpoint \<Rightarrow> rendered op" where
  "wire_render model ep = retried (render model ep)"

definition wire_removal :: "name \<Rightarrow> string \<Rightarrow> scope \<Rightarrow> rendered op" where
  "wire_removal b model sc = retried (removal b model sc)"

definition wire_writable :: "agent_endpoint \<Rightarrow> agent_endpoint op" where
  "wire_writable ep = retried (\<lambda>k c. case writable ep k c of (r, k) \<Rightarrow> (r, k, c))"

end
