(* ===== verification/Service.thy ===== *)
theory Service
  imports Jobs Wiring "HOL-Library.AList"
begin

text \<open>
  The orchestration layer (\<open>internal/service/service.go\<close>): the backend set, the choice of
  the backend a call addresses, and the model views. A backend and the wirer are what their
  Go interfaces say (\<open>backend.Backend\<close> with the optional interfaces a driver may
  implement, \<open>wiring.Wirer\<close>): records of functions over a world \<open>'w\<close>, the state of
  everything outside the service. A call answers its result with the world it leaves. Reads of
  a backend leave the world as it is. Logging is left out.
\<close>

section \<open>The interfaces\<close>

text \<open>A fit check; of its verdict the fields the service sets, the rest (\<open>fr_more\<close>) it
  passes on unread, as it does an inventory report.\<close>

record fit_request =
  fq_model :: string
  fq_preset :: string
  fq_node :: string
  fq_placement :: string
  fq_nodes :: "string list"

record fit_result =
  fr_backend :: name
  fr_fits :: bool
  fr_reason :: string
  fr_verdict :: string
  fr_more :: json

record load_result =
  lo_fit :: "fit_result option"
  lo_already :: bool
  lo_nodes :: "string list"
  lo_manifests :: "kobj list"

definition empty_load_result :: load_result where
  "empty_load_result = \<lparr>lo_fit = None, lo_already = False, lo_nodes = [], lo_manifests = []\<rparr>"

record unload_result =
  ur_model :: string
  ur_inventory :: json

record stop_plan =
  st_model :: string
  st_objects :: "kobj list"
  st_refusal :: "err option"

record 'w backend =
  b_name :: name
  b_caps :: capabilities
  b_list_models :: "'w \<Rightarrow> model list res"
  b_get_model :: "string \<Rightarrow> 'w \<Rightarrow> model res"
  b_list_loaded :: "'w \<Rightarrow> loaded_model list res"
  b_pull :: "pull_request \<Rightarrow> 'w \<Rightarrow> unit res \<times> 'w"
  b_delete :: "string \<Rightarrow> 'w \<Rightarrow> unit res \<times> 'w"
  b_load :: "load_request \<Rightarrow> 'w \<Rightarrow> unit res \<times> 'w"
  b_unload :: "string \<Rightarrow> 'w \<Rightarrow> unit res \<times> 'w"
  b_endpoint :: "string \<Rightarrow> 'w \<Rightarrow> agent_endpoint"
  b_wait_ready :: "(string \<Rightarrow> 'w \<Rightarrow> unit res \<times> 'w) option"
  b_serve :: "(load_request \<Rightarrow> 'w \<Rightarrow> load_result option res \<times> 'w) option"
  b_stop :: "(string \<Rightarrow> 'w \<Rightarrow> unload_result res \<times> 'w) option"
  b_stop_plan :: "(string \<Rightarrow> 'w \<Rightarrow> stop_plan res) option"
  b_running_pulls :: "('w \<Rightarrow> pull_request list res) option"
  b_fit_check :: "(fit_request \<Rightarrow> 'w \<Rightarrow> fit_result res) option"
  b_target :: "target option"
  b_target_client :: bool

text \<open>\<open>serveLifecycle\<close>: whether the backend implements \<open>ServeLifecycle\<close>.\<close>

definition serveLifecycle :: "'w backend \<Rightarrow> bool" where
  "serveLifecycle b \<longleftrightarrow> b_wait_ready b \<noteq> None"

record 'w wirer_ops =
  w_ensure :: "string \<Rightarrow> agent_endpoint \<Rightarrow> 'w \<Rightarrow> mc_ref res \<times> 'w"
  w_remove :: "name \<Rightarrow> string \<Rightarrow> scope \<Rightarrow> 'w \<Rightarrow> unit res \<times> 'w"
  w_lookup :: "name \<Rightarrow> string \<Rightarrow> 'w \<Rightarrow> mc_ref option res \<times> 'w"
  w_list :: "'w \<Rightarrow> mc_ref list res \<times> 'w"
  w_list_all :: "'w \<Rightarrow> mc_ref list res \<times> 'w"
  w_render :: "string \<Rightarrow> agent_endpoint \<Rightarrow> 'w \<Rightarrow> rendered res \<times> 'w"
  w_removal :: "name \<Rightarrow> string \<Rightarrow> scope \<Rightarrow> 'w \<Rightarrow> rendered res \<times> 'w"
  w_writable :: "agent_endpoint \<Rightarrow> 'w \<Rightarrow> agent_endpoint res \<times> 'w"

text \<open>A commit: the files a pull request writes or removes, and what opening it answered (of
  which the service adds to the live steps). \<open>Committer.Commit\<close> is a function of it.\<close>

record commit_part =
  cp_namespace :: string
  cp_write :: "kobj list"
  cp_remove :: "kobj list"
  cp_owner :: "gitops_owner option"

record commit_target =
  ct_repository :: string
  ct_branch :: string
  ct_path :: string

record commit_request =
  cq_part :: commit_part
  cq_cluster :: "string option"
  cq_target :: commit_target
  cq_also :: "commit_part list"
  cq_verb :: string
  cq_subject :: string
  cq_summary :: string
  cq_tool :: string
  cq_dry_run :: bool

record commit_result =
  cr_live_steps :: "string list"
  cr_more :: json

type_synonym 'w committer = "commit_request \<Rightarrow> 'w \<Rightarrow> commit_result res \<times> 'w"

section \<open>The service\<close>

record config =
  cf_auto_wire :: bool
  cf_keep_alive :: string
  cf_instance :: string
  cf_version :: string
  cf_namespace :: string

text \<open>
  \<open>byName\<close>, \<open>sources\<close> and \<open>problems\<close> are Go maps: association lists, in the order a
  range over them visits. \<open>sv_instance\<close> is \<open>wiring.Instance\<close> (\<open>None\<close>: no wiring
  info), \<open>sv_wire_namespace\<close> its namespace.
\<close>

record 'w service =
  sv_backends :: "'w backend list"
  sv_by_name :: "(name \<times> 'w backend) list"
  sv_sources :: "(name \<times> string) list"
  sv_problems :: "(string \<times> string) list"
  sv_static :: nat
  sv_wirer :: "'w wirer_ops option"
  sv_commit :: "'w committer option"
  sv_catalog :: "(fit_request \<Rightarrow> 'w \<Rightarrow> fit_result res) option"
  sv_instance :: "string option"
  sv_wire_namespace :: string
  sv_cfg :: config

definition source_static :: string where "source_static = ''static''"

subsection \<open>The backend set\<close>

text \<open>\<open>New\<close>: its loop over the static backends panics on a name configured twice.\<close>

fun add_static :: "'w backend list \<Rightarrow> 'w service \<Rightarrow> 'w service option" where
  "add_static [] s = Some s"
| "add_static (b # bs) s =
     (if map_of (sv_by_name s) (b_name b) \<noteq> None then None
      else add_static bs
        (s\<lparr>sv_backends := sv_backends s @ [b],
           sv_by_name := AList.update (b_name b) b (sv_by_name s),
           sv_sources := AList.update (b_name b) source_static (sv_sources s)\<rparr>))"

definition new_service ::
  "'w backend list \<Rightarrow> 'w wirer_ops option \<Rightarrow> string option \<Rightarrow> string \<Rightarrow> config \<Rightarrow> 'w service option" where
  "new_service bs wirer inst wire_ns cfg =
     (case add_static bs
         \<lparr>sv_backends = [], sv_by_name = [], sv_sources = [], sv_problems = [], sv_static = 0,
          sv_wirer = wirer, sv_commit = None, sv_catalog = None, sv_instance = inst,
          sv_wire_namespace = wire_ns, sv_cfg = cfg\<rparr> of
        None \<Rightarrow> None
      | Some s \<Rightarrow> Some (s\<lparr>sv_static := length (sv_backends s)\<rparr>))"

definition WithCatalog :: "(fit_request \<Rightarrow> 'w \<Rightarrow> fit_result res) option \<Rightarrow> 'w service \<Rightarrow> 'w service" where
  "WithCatalog c s = s\<lparr>sv_catalog := c\<rparr>"

definition WithCommitter :: "'w committer option \<Rightarrow> 'w service \<Rightarrow> 'w service" where
  "WithCommitter c s = s\<lparr>sv_commit := c\<rparr>"

definition source_of :: "'w service \<Rightarrow> name \<Rightarrow> string" where
  "source_of s n = (case map_of (sv_sources s) n of None \<Rightarrow> [] | Some src \<Rightarrow> src)"

definition rebuildLocked :: "'w service \<Rightarrow> 'w service" where
  "rebuildLocked s =
     (let static = take (sv_static s) (sv_backends s);
          registered = map snd (filter (\<lambda>(n, b). source_of s n \<noteq> source_static) (sv_by_name s))
      in s\<lparr>sv_backends := static @ sort_key b_name registered\<rparr>)"

definition RegisterDocument ::
  "'w backend \<Rightarrow> string \<Rightarrow> string \<Rightarrow> 'w service \<Rightarrow> unit res \<times> 'w service" where
  "RegisterDocument b source config_map s =
     (let n = b_name b
      in if source_of s n = source_static
         then (Inl (Err [ErrConflict, ErrStaticBackend]
                 (sentinel_text ErrConflict @ '': backend '' @ n @ '' is '' @ sentinel_text ErrStaticBackend)), s)
         else (let s = s\<lparr>sv_by_name := AList.update n b (sv_by_name s),
                        sv_sources := AList.update n source (sv_sources s)\<rparr>;
                   s = rebuildLocked s
               in (Inr (), s\<lparr>sv_problems := AList.delete config_map (sv_problems s)\<rparr>)))"

definition DeregisterDocument ::
  "name \<Rightarrow> string \<Rightarrow> string \<Rightarrow> 'w service \<Rightarrow> bool \<times> 'w service" where
  "DeregisterDocument n config_map problem s =
     (let s = (if problem = [] then s\<lparr>sv_problems := AList.delete config_map (sv_problems s)\<rparr>
               else s\<lparr>sv_problems := AList.update config_map problem (sv_problems s)\<rparr>)
      in case map_of (sv_sources s) n of
           None \<Rightarrow> (False, s)
         | Some src \<Rightarrow>
             if src = source_static then (False, s)
             else (True, rebuildLocked
                    (s\<lparr>sv_by_name := AList.delete n (sv_by_name s),
                       sv_sources := AList.delete n (sv_sources s)\<rparr>)))"

definition invalid_documents :: "'w service \<Rightarrow> (string \<times> string) list" where
  "invalid_documents s = sort_key fst (sv_problems s)"

definition lookup_backend :: "'w service \<Rightarrow> name \<Rightarrow> 'w backend option" where
  "lookup_backend s n = map_of (sv_by_name s) n"

definition has_backend :: "'w service \<Rightarrow> name \<Rightarrow> string \<times> bool" where
  "has_backend s n =
     (case map_of (sv_sources s) n of None \<Rightarrow> ([], False) | Some src \<Rightarrow> (src, True))"

definition names :: "'w service \<Rightarrow> name list" where
  "names s = map b_name (sv_backends s)"

definition default_backend :: "'w service \<Rightarrow> 'w backend option" where
  "default_backend s = (case sv_backends s of [] \<Rightarrow> None | b # _ \<Rightarrow> Some b)"

definition document_selector :: string where
  "document_selector = ''agent-platform.giantswarm.io/model-backend=true''"

text \<open>\<open>NoBackendError\<close>.\<close>

definition no_backend_text :: "string \<Rightarrow> string \<Rightarrow> string \<Rightarrow> nat \<Rightarrow> string" where
  "no_backend_text inst version ns invalid =
     sentinel_text ErrNoBackend @
     (if inst \<noteq> [] \<or> version \<noteq> [] then '' on model-manager '' @ trim_space (inst @ '' '' @ version) else []) @
     (if ns = [] then '': runtime registration is off (--namespace is empty); configure --backends''
      else '': 0 valid backend documents in namespace '' @ ns @ '' (ConfigMaps labelled '' @ document_selector @ '')'' @
        (if invalid > 0 then '', '' @ show_nat invalid @ '' invalid (list_backends names the problem)'' else []) @
        ''; register one with add_backend kind=kserve servingNamespace=<namespace> '' @
        ''(cluster-manager registers model-backend-kserve-<cluster> with the first GPU node pool it creates on a cluster, one per serving cluster) '' @
        ''or add_backend kind=ollama|lmstudio|lemonade endpoint=<url>, or configure --backends'')"

definition noBackend :: "'w service \<Rightarrow> err" where
  "noBackend s =
     Err [ErrNoBackend]
       (no_backend_text (cf_instance (sv_cfg s)) (cf_version (sv_cfg s)) (cf_namespace (sv_cfg s))
          (length (sv_problems s)))"

definition joinNames :: "name list \<Rightarrow> string" where
  "joinNames ns = join '', '' ns"

definition named :: "'w service \<Rightarrow> string \<Rightarrow> 'w backend res" where
  "named s n =
     (let n = trim_space n
      in if n = []
         then (case default_backend s of Some b \<Rightarrow> Inr b | None \<Rightarrow> Inl (noBackend s))
         else case lookup_backend s n of
                Some b \<Rightarrow> Inr b
              | None \<Rightarrow>
                  if sv_backends s = [] then Inl (noBackend s)
                  else Inl (errw ErrInvalid (''unknown backend '' @ quoted n @ '' (configured: '' @
                         joinNames (names s) @ '')'')))"

definition targets :: "'w service \<Rightarrow> string \<Rightarrow> 'w backend list res" where
  "targets s n =
     (if trim_space n = []
      then (if sv_backends s = [] then Inl (noBackend s) else Inr (sv_backends s))
      else (case named s n of Inl e \<Rightarrow> Inl e | Inr b \<Rightarrow> Inr [b]))"

definition targetsWith ::
  "'w service \<Rightarrow> string \<Rightarrow> (capabilities \<Rightarrow> bool) \<Rightarrow> string \<Rightarrow> 'w backend list res" where
  "targetsWith s n has op =
     (case targets s n of
        Inl e \<Rightarrow> Inl e
      | Inr ts \<Rightarrow>
          (let out = filter (\<lambda>b. has (b_caps b)) ts
           in if out = [] then Inl (errw ErrUnsupported op) else Inr out))"

definition effective_capabilities :: "'w service \<Rightarrow> 'w backend \<Rightarrow> capabilities" where
  "effective_capabilities s b =
     (b_caps b)\<lparr>cap_wire := (sv_wirer s \<noteq> None), cap_commit := (sv_wirer s \<noteq> None \<and> sv_commit s \<noteq> None)\<rparr>"

subsection \<open>Reads across backends\<close>

text \<open>
  \<open>aggregate\<close>: the loop over the targets, threading the world through the fetches, then
  its three outcomes. \<open>Errors\<close> is the list of a backend's name and its error's text.
\<close>

fun fetch_all ::
  "('w backend \<Rightarrow> 'w \<Rightarrow> 'a list res \<times> 'w) \<Rightarrow> 'w backend list \<Rightarrow> 'w \<Rightarrow> 'a list \<Rightarrow> (name \<times> err) list
   \<Rightarrow> ('a list \<times> (name \<times> err) list) \<times> 'w" where
  "fetch_all fetch [] w out errs = ((out, errs), w)"
| "fetch_all fetch (b # bs) w out errs =
     (case fetch b w of
        (Inl e, w) \<Rightarrow> fetch_all fetch bs w out (errs @ [(b_name b, e)])
      | (Inr items, w) \<Rightarrow> fetch_all fetch bs w (out @ items) errs)"

definition aggregate ::
  "'w backend list \<Rightarrow> ('w backend \<Rightarrow> 'w \<Rightarrow> 'a list res \<times> 'w) \<Rightarrow> 'w
   \<Rightarrow> ('a list \<times> (name \<times> string) list) res \<times> 'w" where
  "aggregate ts fetch w =
     (case fetch_all fetch ts w [] [] of
        ((out, errs), w) \<Rightarrow>
          if ts \<noteq> [] \<and> length errs = length ts
          then (if length ts = 1 then (Inl (snd (hd errs)), w)
                else (Inl (Err (err_kinds (snd (hd errs))) (''every backend failed: '' @
                        join ''; '' (map (\<lambda>(n, e). n @ '': '' @ err_msg e) errs))), w))
          else (Inr (out, map (\<lambda>(n, e). (n, err_msg e)) errs), w))"

text \<open>\<open>resolve\<close>: the loop over the backends with its hits and first failure.\<close>

fun resolve_loop ::
  "string \<Rightarrow> 'w \<Rightarrow> 'w backend list \<Rightarrow> ('w backend \<times> model) list \<Rightarrow> err option
   \<Rightarrow> (('w backend \<times> model) list \<times> err option) res" where
  "resolve_loop mref w [] hits failure = Inr (hits, failure)"
| "resolve_loop mref w (b # bs) hits failure =
     (case b_get_model b mref w of
        Inr m \<Rightarrow> resolve_loop mref w bs (hits @ [(b, m)]) failure
      | Inl e \<Rightarrow>
          if err_is e ErrNotFound then resolve_loop mref w bs hits failure
          else if err_is e ErrInvalid then Inl e
          else resolve_loop mref w bs hits
                 (case failure of
                    None \<Rightarrow> Some (wrap_err (b_name b @ '': '') e [])
                  | Some f \<Rightarrow> Some f))"

definition resolve :: "'w service \<Rightarrow> string \<Rightarrow> string \<Rightarrow> 'w \<Rightarrow> ('w backend \<times> model) res" where
  "resolve s n mref w =
     (let mref = trim_space mref
      in if mref = [] then Inl (errw ErrInvalid ''model reference is required'')
         else if trim_space n \<noteq> [] \<or> length (sv_backends s) = 1
         then (case named s n of
                 Inl e \<Rightarrow> Inl e
               | Inr b \<Rightarrow>
                   (case b_get_model b mref w of Inl e \<Rightarrow> Inl e | Inr m \<Rightarrow> Inr (b, m)))
         else case resolve_loop mref w (sv_backends s) [] None of
                Inl e \<Rightarrow> Inl e
              | Inr (hits, failure) \<Rightarrow>
                  (case hits of
                     [h] \<Rightarrow> Inr h
                   | [] \<Rightarrow>
                       (case failure of
                          Some e \<Rightarrow> Inl e
                        | None \<Rightarrow> Inl (errw ErrNotFound (mref @ '' is on none of the backends ('' @
                                   joinNames (names s) @ '')'')))
                   | _ \<Rightarrow> Inl (errw ErrConflict (mref @ '' exists on '' @
                                joinNames (map (b_name \<circ> fst) hits) @ ''; name the backend''))))"

end
