(* ===== verification/GoUrl.thy ===== *)
theory GoUrl
  imports Prelude
begin

text \<open>
  What the code uses of Go's \<open>net/url\<close>: \<open>url.Parse\<close> as far as the scheme, the host and
  whether it fails, and \<open>Hostname\<close> (also \<open>User\<close>, \<open>RawQuery\<close>, \<open>Fragment\<close> and
  the path, which a backend document's endpoint is checked for). Strings are byte strings.
\<close>

section \<open>Pieces\<close>

definition is_letter :: "char \<Rightarrow> bool" where
  "is_letter c \<longleftrightarrow> is_lower c \<or> is_upper c"

definition is_hex :: "char \<Rightarrow> bool" where
  "is_hex c \<longleftrightarrow> is_digit c \<or> (CHR ''a'' \<le> c \<and> c \<le> CHR ''f'') \<or> (CHR ''A'' \<le> c \<and> c \<le> CHR ''F'')"

definition hex_value :: "char \<Rightarrow> nat" where
  "hex_value c =
     (if is_digit c then of_char c - 48
      else if CHR ''a'' \<le> c then of_char c - 87 else of_char c - 55)"

definition is_ctl :: "char \<Rightarrow> bool" where
  "is_ctl c \<longleftrightarrow> (of_char c :: nat) < 32 \<or> c = CHR 0x7F"

text \<open>The parts around the last occurrence of a byte.\<close>

definition cut_last :: "char \<Rightarrow> string \<Rightarrow> (string \<times> string) option" where
  "cut_last c s =
     (if List.member s c
      then Some (rev (tl (dropWhile (\<lambda>x. x \<noteq> c) (rev s))), rev (takeWhile (\<lambda>x. x \<noteq> c) (rev s)))
      else None)"

datatype escape_mode = EncodeHost | EncodeZone | EncodeOther

definition host_char :: "char \<Rightarrow> bool" where
  "host_char c \<longleftrightarrow>
     is_letter c \<or> is_digit c \<or> List.member (''!$&'' @ [CHR 0x27] @ ''()*+,;=:[]<>'' @ [CHR 0x22] @ ''-_.~'') c"

text \<open>\<open>unescape\<close>: \<open>None\<close> for an escape or host character it refuses.\<close>

fun unescape :: "escape_mode \<Rightarrow> string \<Rightarrow> string option" where
  "unescape mode [] = Some []"
| "unescape mode (c # s) =
     (if c = CHR ''%''
      then (case s of
              a # b # rest \<Rightarrow>
                (let v = char_of (16 * hex_value a + hex_value b) :: char
                 in if \<not> is_hex a \<or> \<not> is_hex b then None
                    else if mode = EncodeHost \<and> hex_value a < 8 \<and> \<not> (a = CHR ''2'' \<and> b = CHR ''5'') then None
                    else if mode = EncodeZone \<and> \<not> (a = CHR ''2'' \<and> b = CHR ''5'') \<and> v \<noteq> CHR '' '' \<and> \<not> host_char v
                    then None
                    else map_option (\<lambda>t. v # t) (unescape mode rest))
            | _ \<Rightarrow> None)
      else if mode \<noteq> EncodeOther \<and> (of_char c :: nat) < 128 \<and> \<not> host_char c then None
      else map_option (\<lambda>t. c # t) (unescape mode s))"

definition validOptionalPort :: "string \<Rightarrow> bool" where
  "validOptionalPort port \<longleftrightarrow>
     (case port of [] \<Rightarrow> True | c # cs \<Rightarrow> c = CHR '':'' \<and> list_all is_digit cs)"

section \<open>Parse\<close>

text \<open>\<open>getScheme\<close>: the scheme and the rest, or no scheme; \<open>None\<close> for a leading colon.\<close>

fun get_scheme :: "string \<Rightarrow> string \<Rightarrow> string \<Rightarrow> (string \<times> string) option" where
  "get_scheme raw seen [] = Some ([], raw)"
| "get_scheme raw seen (c # s) =
     (if is_letter c then get_scheme raw (seen @ [c]) s
      else if is_digit c \<or> c = CHR ''+'' \<or> c = CHR ''-'' \<or> c = CHR ''.''
      then (if seen = [] then Some ([], raw) else get_scheme raw (seen @ [c]) s)
      else if c = CHR '':'' then (if seen = [] then None else Some (seen, s))
      else Some ([], raw))"

text \<open>
  \<open>netip.ParseAddr\<close>, as far as it accepts an IPv6 address: eight groups of one to four hex
  digits, or fewer around one double colon, the last two possibly a dotted IPv4 address, and
  an optional zone.
\<close>

fun split_at :: "char \<Rightarrow> string \<Rightarrow> string \<Rightarrow> string list" where
  "split_at c seen [] = [seen]"
| "split_at c seen (x # xs) =
     (if x = c then seen # split_at c [] xs else split_at c (seen @ [x]) xs)"

definition ip4_field :: "string \<Rightarrow> bool" where
  "ip4_field s \<longleftrightarrow> s \<noteq> [] \<and> list_all is_digit s \<and> (length s = 1 \<or> hd s \<noteq> CHR ''0'')
     \<and> length s \<le> 3 \<and> digits_value s \<le> 255"

definition ip4 :: "string \<Rightarrow> bool" where
  "ip4 s \<longleftrightarrow> (let fs = split_at (CHR ''.'') [] s in length fs = 4 \<and> list_all ip4_field fs)"

definition ip6_group :: "string \<Rightarrow> bool" where
  "ip6_group s \<longleftrightarrow> s \<noteq> [] \<and> length s \<le> 4 \<and> list_all is_hex s"

text \<open>The number of groups a colon-separated part stands for; \<open>None\<close> when malformed.\<close>

definition ip6_count :: "bool \<Rightarrow> string \<Rightarrow> nat option" where
  "ip6_count v4_allowed s =
     (if s = [] then Some 0
      else let gs = split_at (CHR '':'') [] s
           in if list_all ip6_group gs then Some (length gs)
              else if v4_allowed \<and> list_all ip6_group (butlast gs) \<and> ip4 (last gs)
              then Some (length gs + 1) else None)"

fun cut_double :: "string \<Rightarrow> (string \<times> string) option" where
  "cut_double (a # b # s) =
     (if a = CHR '':'' \<and> b = CHR '':'' then Some ([], s)
      else map_option (\<lambda>(l, r). (a # l, r)) (cut_double (b # s)))"
| "cut_double _ = None"

definition valid_ip6 :: "string \<Rightarrow> bool" where
  "valid_ip6 s \<longleftrightarrow>
     (case cut (CHR ''%'') s of (addr, zone, zoned) \<Rightarrow>
        (zoned \<longrightarrow> zone \<noteq> []) \<and>
        (case cut_double addr of
           None \<Rightarrow> addr \<noteq> [] \<and> ip6_count True addr = Some 8
         | Some (l, r) \<Rightarrow>
             (case (ip6_count False l, ip6_count True r) of
                (Some m, Some n) \<Rightarrow> m + n < 8
              | _ \<Rightarrow> False)))"

text \<open>
  \<open>parseHost\<close> as Go 1.26 has it: brackets hold an IPv6 address and start the host, and a
  host without them has at most one colon.
\<close>

definition parseHost :: "string \<Rightarrow> string option" where
  "parseHost host =
     (if List.member host (CHR ''['')
      then (case cut_last (CHR '']'') host of
              None \<Rightarrow> None
            | Some (inner, port) \<Rightarrow>
                if hd host \<noteq> CHR ''['' \<or> List.member (tl host) (CHR ''['') \<or> \<not> validOptionalPort port then None
                else (let h = tl inner;
                          n = length (takeWhile (\<lambda>i. \<not> prefix ''%25'' (drop i h)) [0..<length h])
                      in case (unescape EncodeHost (take n h), unescape EncodeZone (drop n h)) of
                           (Some a, Some z) \<Rightarrow>
                             if valid_ip6 (a @ z) then Some (''['' @ a @ z @ '']'' @ port) else None
                         | _ \<Rightarrow> None))
      else (case cut (CHR '':'') host of (h, port, found) \<Rightarrow>
              if found \<and> (List.member port (CHR '':'') \<or> \<not> list_all is_digit port) then None
              else unescape EncodeHost host))"

definition userinfo_char :: "char \<Rightarrow> bool" where
  "userinfo_char c \<longleftrightarrow>
     is_letter c \<or> is_digit c \<or> List.member (''-._:~!$&'' @ [CHR 0x27] @ ''()*+,;=%@'') c"

text \<open>\<open>parseAuthority\<close>: whether there is user information, and the host.\<close>

definition parseAuthority :: "string \<Rightarrow> (bool \<times> string) option" where
  "parseAuthority a =
     (case cut_last (CHR ''@'') a of
        None \<Rightarrow> map_option (\<lambda>h. (False, h)) (parseHost a)
      | Some (user, h) \<Rightarrow>
          (case parseHost h of
             None \<Rightarrow> None
           | Some host \<Rightarrow>
               if \<not> list_all userinfo_char user \<or> unescape EncodeOther user = None then None
               else Some (True, host)))"

record url =
  u_scheme :: string
  u_opaque :: string
  u_user :: bool
  u_host :: string
  u_path :: string
  u_query :: string
  u_fragment :: string

definition has_ctl :: "string \<Rightarrow> bool" where
  "has_ctl s \<longleftrightarrow> list_ex is_ctl s"

definition url_parse :: "string \<Rightarrow> url option" where
  "url_parse raw_url =
     (case cut (CHR ''#'') raw_url of (u, frag, _) \<Rightarrow>
        if has_ctl u then None
        else if unescape EncodeOther frag = None then None
        else if u = ''*''
        then Some \<lparr>u_scheme = [], u_opaque = [], u_user = False, u_host = [], u_path = ''*'',
                  u_query = [], u_fragment = frag\<rparr>
        else (case get_scheme u [] u of
                None \<Rightarrow> None
              | Some (scheme, rest) \<Rightarrow>
                  (case cut (CHR ''?'') rest of (rest, query, _) \<Rightarrow>
                     let base = \<lparr>u_scheme = to_lower scheme, u_opaque = [], u_user = False, u_host = [],
                                 u_path = [], u_query = query, u_fragment = frag\<rparr>
                     in if \<not> prefix ''/'' rest \<and> scheme \<noteq> [] then Some (base\<lparr>u_opaque := rest\<rparr>)
                        else if \<not> prefix ''/'' rest \<and> List.member (takeWhile (\<lambda>c. c \<noteq> CHR ''/'') rest) (CHR '':'')
                        then None
                        else if (scheme \<noteq> [] \<or> \<not> prefix ''///'' rest) \<and> prefix ''//'' rest
                        then (let authority = takeWhile (\<lambda>c. c \<noteq> CHR ''/'') (drop 2 rest);
                                  path = dropWhile (\<lambda>c. c \<noteq> CHR ''/'') (drop 2 rest)
                              in case parseAuthority authority of
                                   None \<Rightarrow> None
                                 | Some (user, host) \<Rightarrow>
                                     map_option (\<lambda>p. base\<lparr>u_user := user, u_host := host, u_path := p\<rparr>)
                                       (unescape EncodeOther path))
                        else map_option (\<lambda>p. base\<lparr>u_path := p\<rparr>) (unescape EncodeOther rest))))"

definition Hostname :: "url \<Rightarrow> string" where
  "Hostname u =
     (let host = (case cut_last (CHR '':'') (u_host u) of
                    None \<Rightarrow> u_host u
                  | Some (h, port) \<Rightarrow> if list_all is_digit port then h else u_host u)
      in if prefix ''['' host \<and> suffix '']'' host then butlast (tl host) else host)"

section \<open>Plain hosts\<close>

text \<open>A host of letters, digits, dots and dashes.\<close>

definition plain_char :: "char \<Rightarrow> bool" where
  "plain_char c \<longleftrightarrow> is_letter c \<or> is_digit c \<or> c = CHR ''.'' \<or> c = CHR ''-''"

lemma cut_none: "c \<notin> set s \<Longrightarrow> cut c s = (s, [], False)"
  by (induction s) auto

lemma cut_last_none: "c \<notin> set s \<Longrightarrow> cut_last c s = None"
  by (simp add: cut_last_def)

lemma cut_last_at: "c \<notin> set b \<Longrightarrow> cut_last c (a @ c # b) = Some (a, b)"
proof -
  assume "c \<notin> set b"
  then have "takeWhile (\<lambda>x. x \<noteq> c) (rev b @ c # rev a) = rev b"
    "dropWhile (\<lambda>x. x \<noteq> c) (rev b @ c # rev a) = c # rev a"
    by (auto simp: takeWhile_append dropWhile_append)
  then show ?thesis by (simp add: cut_last_def)
qed

lemma unescape_plain:
  "list_all (\<lambda>c. c \<noteq> CHR ''%'' \<and> (mode = EncodeOther \<or> host_char c)) s \<Longrightarrow> unescape mode s = Some s"
  by (induction s) auto

end
