(* ===== verification/Service_Ops.thy ===== *)
theory Service_Ops
  imports Service GoUrl
begin

text \<open>
  The operations of the service on models (\<open>internal/service/service.go\<close>): the endpoint a
  wiring writes, wiring and unwiring, the model views, pull, load, unload and delete with the
  jobs they start, the reconciler's passes, and what removing a backend does to its
  ModelConfigs. The job manager's state and the world are threaded; the background work of a
  job is a function of its own (\<open>pull_job\<close>, \<open>load_job\<close>), run whenever the job's
  goroutine is.
\<close>

section \<open>Endpoints\<close>

definition endpointHost :: "string \<Rightarrow> string" where
  "endpointHost raw =
     (let raw = trim_space raw
      in if raw = [] then []
         else let raw = (if contains_str ''://'' raw then raw else ''http://'' @ raw)
              in case url_parse raw of
                   None \<Rightarrow> to_lower raw
                 | Some u \<Rightarrow> if Hostname u = [] then to_lower raw else to_lower (Hostname u))"

definition sameEndpoint :: "string \<Rightarrow> string \<Rightarrow> bool" where
  "sameEndpoint a b \<longleftrightarrow> endpointHost a \<noteq> [] \<and> endpointHost a = endpointHost b"

definition endpointKey :: "string \<Rightarrow> string \<Rightarrow> string" where
  "endpointKey endpoint provider_model = endpointHost endpoint @ ''|'' @ provider_model"

definition foreignForEndpoint ::
  "'w wirer_ops \<Rightarrow> agent_endpoint \<Rightarrow> 'w \<Rightarrow> mc_ref option \<times> 'w" where
  "foreignForEndpoint wr ep w =
     (case w_list_all wr w of
        (Inl e, w) \<Rightarrow> (None, w)
      | (Inr all, w) \<Rightarrow>
          (let target = (if ep_base_url ep = [] then ep_host ep else ep_base_url ep)
           in (find (\<lambda>r. \<not> r_managed r \<and> sameEndpoint (r_endpoint r) target \<and>
                         r_provider_model r = ep_model ep) all, w)))"

definition endpointFor ::
  "'w wirer_ops \<Rightarrow> 'w backend \<Rightarrow> string \<Rightarrow> wire_options \<Rightarrow> 'w
   \<Rightarrow> (string \<times> agent_endpoint \<times> mc_ref option) res \<times> 'w" where
  "endpointFor wr b model opts w =
     (let (name, fit, rf) =
        (case b_get_model b model w of
           Inr m \<Rightarrow> (m_name m, m, if m_preset m = [] then m_name m else model)
         | Inl e \<Rightarrow> (model, zero_model, model));
          ep = (fit_to (apply_opts opts (b_endpoint b rf w)) fit)\<lparr>ep_backend := b_name b\<rparr>
      in case ep_validate ep of
           Some e \<Rightarrow> (Inl e, w)
         | None \<Rightarrow>
             if serveLifecycle b
             then (case foreignForEndpoint wr ep w of (existing, w) \<Rightarrow> (Inr (name, ep, existing), w))
             else (Inr (name, ep, None), w))"

definition wireModel ::
  "'w wirer_ops \<Rightarrow> 'w backend \<Rightarrow> string \<Rightarrow> wire_options \<Rightarrow> 'w \<Rightarrow> mc_ref res \<times> 'w" where
  "wireModel wr b model opts w =
     (case endpointFor wr b model opts w of
        (Inl e, w) \<Rightarrow> (Inl e, w)
      | (Inr (name, ep, Some existing), w) \<Rightarrow> (Inr existing, w)
      | (Inr (name, ep, None), w) \<Rightarrow> w_ensure wr name ep w)"

definition servedRef :: "string \<Rightarrow> string \<Rightarrow> string" where
  "servedRef model preset = (if preset \<noteq> [] then preset else model)"

record wiring_result =
  wi_wired :: bool
  wi_reason :: string
  wi_model_config :: "mc_ref option"
  wi_error :: string

definition WiredOnLoad :: string where "WiredOnLoad = ''wired on load''"
definition WiredOnRead :: string where "WiredOnRead = ''wired on read''"
definition AlreadyWired :: string where "AlreadyWired = ''already wired''"
definition WiringFailed :: string where "WiringFailed = ''wiring failed''"

definition wire ::
  "'w wirer_ops \<Rightarrow> 'w backend \<Rightarrow> string \<Rightarrow> string \<Rightarrow> 'w \<Rightarrow> wiring_result \<times> 'w" where
  "wire wr b model reason w =
     (case wireModel wr b model no_wire_options w of
        (Inl e, w) \<Rightarrow>
          (\<lparr>wi_wired = False, wi_reason = WiringFailed, wi_model_config = None, wi_error = err_msg e\<rparr>, w)
      | (Inr r, w) \<Rightarrow>
          (\<lparr>wi_wired = True, wi_reason = (if r_managed r then reason else AlreadyWired),
            wi_model_config = Some r, wi_error = []\<rparr>, w))"

section \<open>Views\<close>

definition loadedIndex :: "'w backend \<Rightarrow> 'w \<Rightarrow> string \<rightharpoonup> loaded_model" where
  "loadedIndex b w =
     (if \<not> cap_loaded_models (b_caps b) then Map.empty
      else case b_list_loaded b w of
        Inl e \<Rightarrow> Map.empty
      | Inr loaded \<Rightarrow>
          foldl (\<lambda>idx l. let l = l\<lparr>l_backend := b_name b\<rparr>; idx = idx(l_name l \<mapsto> l)
                         in if l_resource l \<noteq> [] then idx(l_resource l \<mapsto> l) else idx)
            Map.empty loaded)"

record wired_view =
  wv_by_model :: "string \<rightharpoonup> mc_ref"
  wv_by_endpoint :: "(string \<rightharpoonup> mc_ref) option"

definition no_wired_view :: wired_view where
  "no_wired_view = \<lparr>wv_by_model = Map.empty, wv_by_endpoint = None\<rparr>"

definition wired_lookup :: "wired_view \<Rightarrow> string \<Rightarrow> loaded_model option \<Rightarrow> mc_ref option" where
  "wired_lookup v model l =
     (case wv_by_model v model of
        Some mc \<Rightarrow> Some mc
      | None \<Rightarrow>
          (case (l, wv_by_endpoint v) of
             (Some l, Some by_endpoint) \<Rightarrow>
               (case by_endpoint (endpointKey (l_endpoint l) (l_resource l)) of
                  Some mc \<Rightarrow> Some mc
                | None \<Rightarrow> by_endpoint (endpointKey (l_endpoint l) (l_name l)))
           | _ \<Rightarrow> None))"

definition index_by_model :: "name \<Rightarrow> mc_ref list \<Rightarrow> string \<rightharpoonup> mc_ref" where
  "index_by_model b refs =
     foldl (\<lambda>idx r. if r_backend r \<noteq> [] \<and> r_backend r \<noteq> b then idx else idx(r_model r \<mapsto> r))
       Map.empty refs"

definition index_by_endpoint :: "mc_ref list \<Rightarrow> string \<rightharpoonup> mc_ref" where
  "index_by_endpoint refs =
     foldl (\<lambda>idx r. if r_endpoint r \<noteq> [] \<and> r_provider_model r \<noteq> []
                    then idx(endpointKey (r_endpoint r) (r_provider_model r) \<mapsto> r) else idx)
       Map.empty refs"

definition wiredIndex :: "'w service \<Rightarrow> 'w backend \<Rightarrow> 'w \<Rightarrow> wired_view \<times> 'w" where
  "wiredIndex s b w =
     (case sv_wirer s of
        None \<Rightarrow> (no_wired_view, w)
      | Some wr \<Rightarrow>
          (case w_list wr w of
             (Inl e, w) \<Rightarrow> (no_wired_view, w)
           | (Inr refs, w) \<Rightarrow>
               (let v = \<lparr>wv_by_model = index_by_model (b_name b) refs, wv_by_endpoint = None\<rparr>
                in if \<not> serveLifecycle b then (v, w)
                   else case w_list_all wr w of
                     (Inl e, w) \<Rightarrow> (v, w)
                   | (Inr all, w) \<Rightarrow> (v\<lparr>wv_by_endpoint := Some (index_by_endpoint all)\<rparr>, w))))"

record model_view =
  v_model :: model
  v_loaded :: bool
  v_running :: "loaded_model option"
  v_model_config :: "mc_ref option"
  v_fit :: "fit_result option"
  v_already :: bool
  v_nodes :: "string list"
  v_wiring :: "wiring_result option"

definition bare_view :: "model \<Rightarrow> model_view" where
  "bare_view m =
     \<lparr>v_model = m, v_loaded = False, v_running = None, v_model_config = None, v_fit = None,
      v_already = False, v_nodes = [], v_wiring = None\<rparr>"

definition view ::
  "'w backend \<Rightarrow> model \<Rightarrow> (string \<rightharpoonup> loaded_model) \<Rightarrow> wired_view \<Rightarrow> model_view" where
  "view b m loaded wired =
     (let m = m\<lparr>m_backend := b_name b, m_target := b_target b\<rparr>;
          l = (case loaded (m_name m) of
                 Some l \<Rightarrow> Some l
               | None \<Rightarrow> if m_path m \<noteq> [] then loaded (m_path m) else None);
          running = map_option (\<lambda>l. l\<lparr>l_backend := b_name b\<rparr>) l
      in (bare_view m)\<lparr>v_loaded := (l \<noteq> None), v_running := running,
                       v_model_config := wired_lookup wired (m_name m) running\<rparr>)"

definition ListModels ::
  "'w service \<Rightarrow> string \<Rightarrow> 'w \<Rightarrow> (model_view list \<times> (name \<times> string) list) res \<times> 'w" where
  "ListModels s n w =
     (case targets s n of
        Inl e \<Rightarrow> (Inl e, w)
      | Inr ts \<Rightarrow>
          aggregate ts (\<lambda>b w.
            case b_list_models b w of
              Inl e \<Rightarrow> (Inl e, w)
            | Inr ms \<Rightarrow>
                (let loaded = loadedIndex b w
                 in case wiredIndex s b w of (wired, w) \<Rightarrow>
                      (Inr (map (\<lambda>m. view b m loaded wired) ms), w))) w)"

definition GetModel :: "'w service \<Rightarrow> string \<Rightarrow> string \<Rightarrow> 'w \<Rightarrow> model_view res \<times> 'w" where
  "GetModel s n rf w =
     (case resolve s n rf w of
        Inl e \<Rightarrow> (Inl e, w)
      | Inr (b, m) \<Rightarrow>
          (let loaded = loadedIndex b w
           in case wiredIndex s b w of (wired, w) \<Rightarrow> (Inr (view b m loaded wired), w)))"

record loaded_view =
  lv_loaded :: loaded_model
  lv_model_config :: "mc_ref option"
  lv_wiring :: "wiring_result option"

definition terminating :: "loaded_model \<Rightarrow> bool" where
  "terminating l \<longleftrightarrow> l_phase l = phase_terminating \<or> l_status l = ''Terminating''"

text \<open>The loop of \<open>loadedViews\<close>; \<open>joins\<close> is the wirer when the backend's models are
  joined with their ModelConfigs.\<close>

fun loaded_views_loop ::
  "'w service \<Rightarrow> 'w backend \<Rightarrow> 'w wirer_ops option \<Rightarrow> wired_view \<Rightarrow> loaded_model list \<Rightarrow> 'w
   \<Rightarrow> loaded_view list \<times> 'w" where
  "loaded_views_loop s b joins wired [] w = ([], w)"
| "loaded_views_loop s b joins wired (l # ls) w =
     (let l = l\<lparr>l_backend := b_name b\<rparr>;
          (v, w) =
            (case joins of
               None \<Rightarrow> (\<lparr>lv_loaded = l, lv_model_config = None, lv_wiring = None\<rparr>, w)
             | Some wr \<Rightarrow>
                 (case wired_lookup wired (l_name l) (Some l) of
                    Some mc \<Rightarrow> (\<lparr>lv_loaded = l, lv_model_config = Some mc, lv_wiring = None\<rparr>, w)
                  | None \<Rightarrow>
                      if cf_auto_wire (sv_cfg s) \<and> l_managed_by l = ManagedByValue \<and> \<not> terminating l
                      then (case wire wr b (servedRef (l_name l) (l_preset l)) WiredOnRead w of
                              (wi, w) \<Rightarrow> (\<lparr>lv_loaded = l, lv_model_config = wi_model_config wi,
                                         lv_wiring = Some wi\<rparr>, w))
                      else (\<lparr>lv_loaded = l, lv_model_config = None, lv_wiring = None\<rparr>, w)));
          (vs, w) = loaded_views_loop s b joins wired ls w
      in (v # vs, w))"

definition loadedViews ::
  "'w service \<Rightarrow> 'w backend \<Rightarrow> loaded_model list \<Rightarrow> 'w \<Rightarrow> loaded_view list \<times> 'w" where
  "loadedViews s b loaded w =
     (let joins = (if serveLifecycle b then sv_wirer s else None);
          (wired, w) = (if joins = None then (no_wired_view, w) else wiredIndex s b w)
      in loaded_views_loop s b joins wired loaded w)"

definition ListLoaded ::
  "'w service \<Rightarrow> string \<Rightarrow> 'w \<Rightarrow> (loaded_view list \<times> (name \<times> string) list) res \<times> 'w" where
  "ListLoaded s n w =
     (case targetsWith s n cap_loaded_models ''listing loaded models'' of
        Inl e \<Rightarrow> (Inl e, w)
      | Inr ts \<Rightarrow>
          aggregate ts (\<lambda>b w.
            case b_list_loaded b w of
              Inl e \<Rightarrow> (Inl e, w)
            | Inr loaded \<Rightarrow> (case loadedViews s b loaded w of (vs, w) \<Rightarrow> (Inr vs, w))) w)"

section \<open>Pulls\<close>

definition ErrWiringDisabled :: err where
  "ErrWiringDisabled = errw ErrUnsupported ''agent wiring is disabled (no Kubernetes access)''"

text \<open>What the job manager takes from outside: the clock, a fresh id, the caller's name.\<close>

record call_env =
  ce_now :: int
  ce_id :: string
  ce_caller :: string

record pull_options =
  po_backend :: string
  po_model :: string
  po_wire :: "bool option"
  po_preset :: string
  po_node :: string

text \<open>\<open>Pull\<close> up to the job: the backend, the request and whether the job wires.\<close>

definition pull_target :: "'w service \<Rightarrow> pull_options \<Rightarrow> ('w backend \<times> pull_request \<times> bool) res" where
  "pull_target s opts =
     (case named s (po_backend opts) of
        Inl e \<Rightarrow> Inl e
      | Inr b \<Rightarrow>
          if \<not> cap_pull (b_caps b) then Inl (errw ErrUnsupported (''pull on '' @ b_name b))
          else (let rf = trim_space (po_model opts)
                in if rf = [] then Inl (errw ErrInvalid ''model reference is required'')
                   else let do_wire = (case po_wire opts of
                          Some x \<Rightarrow> x
                        | None \<Rightarrow> cf_auto_wire (sv_cfg s) \<and> sv_wirer s \<noteq> None \<and> \<not> serveLifecycle b)
                        in if do_wire \<and> sv_wirer s = None then Inl ErrWiringDisabled
                           else if do_wire \<and> serveLifecycle b
                           then Inl (errw ErrInvalid (''models on '' @ b_name b @
                                  '' are wired when loaded (served), not when pulled''))
                           else Inr (b, \<lparr>pr_ref = rf, pr_preset = trim_space (po_preset opts),
                                        pr_node = trim_space (po_node opts)\<rparr>, do_wire)))"

text \<open>The job a pull starts: \<open>startPull\<close>'s request, and the function its goroutine runs.\<close>

definition pull_start :: "'w backend \<Rightarrow> pull_request \<Rightarrow> bool \<Rightarrow> start_request" where
  "pull_start b req do_wire =
     \<lparr>sr_type = TypePull, sr_backend = b_name b, sr_model = pr_ref req, sr_wire = do_wire,
      sr_node = pr_node req, sr_preset = pr_preset req, sr_resource = []\<rparr>"

definition pull_job ::
  "'w service \<Rightarrow> 'w backend \<Rightarrow> pull_request \<Rightarrow> bool \<Rightarrow> 'w \<Rightarrow> mc_ref option res \<times> 'w" where
  "pull_job s b req do_wire w =
     (case b_pull b req w of
        (Inl e, w) \<Rightarrow> (Inl e, w)
      | (Inr u, w) \<Rightarrow>
          (if \<not> do_wire then (Inr None, w)
           else case sv_wirer s of
             None \<Rightarrow> (Inl (Err [GoPanic] ''nil wirer''), w)
           | Some wr \<Rightarrow>
               (case wireModel wr b (pr_ref req) no_wire_options w of
                  (Inl e, w) \<Rightarrow> (Inl (wrap_err (''pulled '' @ pr_ref req @ '' but wiring failed: '') e []), w)
                | (Inr r, w) \<Rightarrow> (Inr (Some r), w))))"

definition Pull ::
  "'w service \<Rightarrow> pull_options \<Rightarrow> call_env \<Rightarrow> mc_ref manager \<Rightarrow> (mc_ref job \<times> bool) res \<times> mc_ref manager" where
  "Pull s opts env jm =
     (case pull_target s opts of
        Inl e \<Rightarrow> (Inl e, jm)
      | Inr (b, req, do_wire) \<Rightarrow>
          (case start_job (ce_now env) (ce_id env) (ce_caller env) (pull_start b req do_wire) jm of
             (j, created, jm) \<Rightarrow> (Inr (j, created), jm)))"

text \<open>\<open>adoptPulls\<close> of one backend, with one fresh id per pull.\<close>

fun adopt_loop ::
  "'w backend \<Rightarrow> pull_request list \<Rightarrow> string list \<Rightarrow> call_env \<Rightarrow> mc_ref manager \<Rightarrow> mc_ref manager" where
  "adopt_loop b (req # reqs) (i # ids) env jm =
     (case start_job (ce_now env) i (ce_caller env) (pull_start b req False) jm of
        (j, created, jm) \<Rightarrow> adopt_loop b reqs ids env jm)"
| "adopt_loop b _ _ env jm = jm"

definition adoptPulls ::
  "'w backend \<Rightarrow> string list \<Rightarrow> call_env \<Rightarrow> 'w \<Rightarrow> mc_ref manager \<Rightarrow> mc_ref manager" where
  "adoptPulls b ids env w jm =
     (case b_running_pulls b of
        None \<Rightarrow> jm
      | Some running \<Rightarrow>
          (case running w of Inl e \<Rightarrow> jm | Inr reqs \<Rightarrow> adopt_loop b reqs ids env jm))"

section \<open>Loads\<close>

record load_options =
  lop_backend :: string
  lop_model :: string
  lop_keep_alive :: string
  lop_preset :: string
  lop_node :: string
  lop_placement :: string
  lop_nodes :: "string list"
  lop_tracing :: bool

definition trimAll :: "string list \<Rightarrow> string list" where
  "trimAll xs = filter (\<lambda>v. v \<noteq> []) (map trim_space xs)"

definition load_unsupported :: "'w backend \<Rightarrow> err" where
  "load_unsupported b = errw ErrUnsupported (''load on '' @ b_name b)"

definition loadTarget ::
  "'w service \<Rightarrow> load_options \<Rightarrow> 'w \<Rightarrow> ('w backend \<times> model \<times> load_request) res" where
  "loadTarget s opts w =
     (case (if trim_space (lop_backend opts) = [] then Inr ()
            else case named s (lop_backend opts) of
              Inl e \<Rightarrow> Inl e
            | Inr b \<Rightarrow> if cap_load (b_caps b) then Inr () else Inl (load_unsupported b)) of
        Inl e \<Rightarrow> Inl e
      | Inr u \<Rightarrow>
          (let n = trim_space (lop_model opts);
               n = (if n = [] \<and> lop_preset opts \<noteq> [] then trim_space (lop_preset opts) else n)
           in case resolve s (lop_backend opts) n w of
                Inl e \<Rightarrow> Inl e
              | Inr (b, m) \<Rightarrow>
                  if \<not> cap_load (b_caps b) then Inl (load_unsupported b)
                  else (let preset = trim_space (lop_preset opts);
                            req = \<lparr>lr_name = m_name m,
                              lr_keep_alive = (if lop_keep_alive opts = [] then cf_keep_alive (sv_cfg s)
                                               else lop_keep_alive opts),
                              lr_preset = (if preset = [] \<and> m_preset m \<noteq> [] then m_preset m else preset),
                              lr_node = trim_space (lop_node opts),
                              lr_placement = trim_space (lop_placement opts),
                              lr_nodes = trimAll (lop_nodes opts),
                              lr_context_length =
                                ep_context_length (fit_to (b_endpoint b (m_name m) w) m),
                              lr_tracing = lop_tracing opts, lr_dry_run = False\<rparr>
                        in Inr (b, m, req))))"

definition loadedView :: "'w service \<Rightarrow> 'w backend \<Rightarrow> model \<Rightarrow> 'w \<Rightarrow> model_view \<times> 'w" where
  "loadedView s b m w =
     (case GetModel s (b_name b) (m_name m) w of
        (Inl e, w) \<Rightarrow> (bare_view m, w)
      | (Inr v, w) \<Rightarrow> (v, w))"

definition load_start :: "'w backend \<Rightarrow> string \<Rightarrow> loaded_model option \<Rightarrow> start_request" where
  "load_start b model running =
     \<lparr>sr_type = TypeLoad, sr_backend = b_name b, sr_model = model, sr_wire = True, sr_node = [],
      sr_preset = (case running of None \<Rightarrow> [] | Some l \<Rightarrow> l_preset l),
      sr_resource = (case running of None \<Rightarrow> [] | Some l \<Rightarrow> l_resource l)\<rparr>"

text \<open>What the load job's goroutine runs; \<open>ended\<close> says its context ended while it waited.\<close>

definition load_job ::
  "'w wirer_ops \<Rightarrow> 'w backend \<Rightarrow> (string \<Rightarrow> 'w \<Rightarrow> unit res \<times> 'w) \<Rightarrow> string \<Rightarrow> string \<Rightarrow> ('w \<Rightarrow> bool)
   \<Rightarrow> 'w \<Rightarrow> mc_ref option res \<times> 'w" where
  "load_job wr b wait_ready model rf ended w =
     (case wait_ready model w of
        (Inl e, w) \<Rightarrow> (Inl e, w)
      | (Inr u, w) \<Rightarrow>
          if ended w then (Inl (err_sentinel ErrCanceled), w)
          else (case wireModel wr b rf no_wire_options w of
             (Inl e, w) \<Rightarrow>
               (Inl (wrap_err (model @ '' is ready but refreshing its ModelConfig failed: '') e []), w)
           | (Inr r, w) \<Rightarrow> (Inr (Some r), w)))"

text \<open>The call of the backend: \<open>Serve\<close> of a \<open>Server\<close>, else \<open>Load\<close>.\<close>

definition call_load :: "'w backend \<Rightarrow> load_request \<Rightarrow> 'w \<Rightarrow> load_result res \<times> 'w" where
  "call_load b req w =
     (case b_serve b of
        Some serve \<Rightarrow>
          (case serve req w of
             (Inl e, w) \<Rightarrow> (Inl e, w)
           | (Inr None, w) \<Rightarrow> (Inr empty_load_result, w)
           | (Inr (Some r), w) \<Rightarrow> (Inr r, w))
      | None \<Rightarrow>
          (case b_load b req w of
             (Inl e, w) \<Rightarrow> (Inl e, w)
           | (Inr u, w) \<Rightarrow> (Inr empty_load_result, w)))"

definition Load ::
  "'w service \<Rightarrow> load_options \<Rightarrow> call_env \<Rightarrow> mc_ref manager \<Rightarrow> 'w
   \<Rightarrow> model_view res \<times> mc_ref manager \<times> 'w" where
  "Load s opts env jm w =
     (case loadTarget s opts w of
        Inl e \<Rightarrow> (Inl e, jm, w)
      | Inr (b, m, req) \<Rightarrow>
          (case call_load b req w of
             (Inl e, w) \<Rightarrow> (Inl e, jm, w)
           | (Inr r, w) \<Rightarrow>
               if lo_already r
               then (case loadedView s b m w of
                       (v, w) \<Rightarrow> (Inr (v\<lparr>v_fit := lo_fit r, v_already := True, v_nodes := lo_nodes r\<rparr>), jm, w))
               else (case (if cf_auto_wire (sv_cfg s) then sv_wirer s else None) of
                  None \<Rightarrow> (case loadedView s b m w of (v, w) \<Rightarrow> (Inr (v\<lparr>v_fit := lo_fit r\<rparr>), jm, w))
                | Some wr \<Rightarrow>
                    if serveLifecycle b
                    then (case loadedView s b m w of
                       (v, w) \<Rightarrow>
                         (case wire wr b (servedRef (m_name m) (lr_preset req)) WiredOnLoad w of
                            (wi, w) \<Rightarrow>
                              (let v = v\<lparr>v_fit := lo_fit r, v_wiring := Some wi,
                                         v_model_config := (if wi_model_config wi \<noteq> None
                                           then wi_model_config wi else v_model_config v)\<rparr>
                               in case start_job (ce_now env) (ce_id env) (ce_caller env)
                                         (load_start b (m_name m) (v_running v)) jm of
                                    (j, created, jm) \<Rightarrow> (Inr v, jm, w))))
                    else (case wireModel wr b (m_name m) no_wire_options w of
                       (u, w) \<Rightarrow>
                         (case loadedView s b m w of (v, w) \<Rightarrow> (Inr (v\<lparr>v_fit := lo_fit r\<rparr>), jm, w))))))"

section \<open>Unloads\<close>

definition unloadable :: "'w backend \<Rightarrow> unit res" where
  "unloadable b =
     (if cap_unload (b_caps b) then Inr () else Inl (errw ErrUnsupported (''unload on '' @ b_name b)))"

text \<open>\<open>stop\<close>: the Stopper the call addresses by reference, if it does.\<close>

definition stop_addressed :: "'w service \<Rightarrow> string \<Rightarrow>
    ('w backend \<times> (string \<Rightarrow> 'w \<Rightarrow> unload_result res \<times> 'w)) option res" where
  "stop_addressed s n =
     (if trim_space n \<noteq> [] \<or> length (sv_backends s) = 1
      then (case named s n of
              Inl e \<Rightarrow> Inl e
            | Inr b \<Rightarrow> Inr (map_option (\<lambda>st. (b, st)) (b_stop b)))
      else Inr None)"

definition stop_model ::
  "'w service \<Rightarrow> string \<Rightarrow> string \<Rightarrow> 'w \<Rightarrow> ('w backend \<times> string \<times> unload_result option) res \<times> 'w" where
  "stop_model s n rf w =
     (case stop_addressed s n of
        Inl e \<Rightarrow> (Inl e, w)
      | Inr (Some (b, st)) \<Rightarrow>
          (case unloadable b of
             Inl e \<Rightarrow> (Inl e, w)
           | Inr u \<Rightarrow>
               (case st rf w of
                  (Inl e, w) \<Rightarrow> (Inl e, w)
                | (Inr r, w) \<Rightarrow> (Inr (b, ur_model r, Some r), w)))
      | Inr None \<Rightarrow>
          (case resolve s n rf w of
             Inl e \<Rightarrow> (Inl e, w)
           | Inr (b, m) \<Rightarrow>
               (case unloadable b of
                  Inl e \<Rightarrow> (Inl e, w)
                | Inr u \<Rightarrow>
                    (case b_unload b (m_name m) w of
                       (Inl e, w) \<Rightarrow> (Inl e, w)
                     | (Inr u, w) \<Rightarrow> (Inr (b, m_name m, None), w)))))"

text \<open>
  \<open>endLoadJob\<close>: cancels the unfinished load jobs of the model, waiting for each.
  \<open>settle\<close> is what the other goroutines do to the job table while \<open>Await\<close> blocks.
\<close>

fun cancel_each :: "(string \<Rightarrow> 'r manager \<Rightarrow> 'r manager) \<Rightarrow> string list \<Rightarrow> 'r manager \<Rightarrow> 'r manager" where
  "cancel_each settle [] jm = jm"
| "cancel_each settle (i # ids) jm =
     (case cancel_job i jm of
        (Inl e, jm) \<Rightarrow> cancel_each settle ids jm
      | (Inr j, jm) \<Rightarrow> cancel_each settle ids (settle i jm))"

definition active_load :: "name \<Rightarrow> string \<Rightarrow> 'r job \<Rightarrow> bool" where
  "active_load b model j \<longleftrightarrow>
     j_type j = TypeLoad \<and> j_backend j = b \<and> j_model j = model \<and> \<not> job_done j"

definition endLoadJob ::
  "(string \<Rightarrow> 'r manager \<Rightarrow> 'r manager) \<Rightarrow> int \<Rightarrow> name \<Rightarrow> string \<Rightarrow> 'r manager \<Rightarrow> 'r manager" where
  "endLoadJob settle now b model jm =
     (case list_jobs now jm of
        (js, jm) \<Rightarrow> cancel_each settle (map j_id (filter (active_load b model) js)) jm)"

definition hasActiveJob :: "int \<Rightarrow> job_type \<Rightarrow> name \<Rightarrow> string \<Rightarrow> 'r manager \<Rightarrow> bool \<times> 'r manager" where
  "hasActiveJob now t b model jm =
     (case list_jobs now jm of
        (js, jm) \<Rightarrow>
          (list_ex (\<lambda>j. j_type j = t \<and> j_backend j = b \<and> j_model j = model \<and> \<not> job_done j) js, jm))"

record unload_view =
  uv_backend :: name
  uv_model :: string
  uv_inventory :: "json option"
  uv_left :: "not_owned option"

definition Unload ::
  "'w service \<Rightarrow> (string \<Rightarrow> mc_ref manager \<Rightarrow> mc_ref manager) \<Rightarrow> string \<Rightarrow> string \<Rightarrow> call_env
   \<Rightarrow> mc_ref manager \<Rightarrow> 'w \<Rightarrow> unload_view res \<times> mc_ref manager \<times> 'w" where
  "Unload s settle n rf env jm w =
     (case stop_model s n rf w of
        (Inl e, w) \<Rightarrow> (Inl e, jm, w)
      | (Inr (b, model, res), w) \<Rightarrow>
          (let v = \<lparr>uv_backend = b_name b, uv_model = trim_space rf,
                   uv_inventory = map_option ur_inventory res, uv_left = None\<rparr>
           in case (if serveLifecycle b then sv_wirer s else None) of
                None \<Rightarrow> (Inr v, jm, w)
              | Some wr \<Rightarrow>
                  (let jm = endLoadJob settle (ce_now env) (b_name b) model jm
                   in case w_remove wr (b_name b) model CreatedHere w of
                        (Inl e, w) \<Rightarrow> (Inr (v\<lparr>uv_left := err_as_not_owned e\<rparr>), jm, w)
                      | (Inr u, w) \<Rightarrow> (Inr v, jm, w))))"

section \<open>Deletes\<close>

text \<open>A nonempty backend name goes with the error of a delete that found its backend.\<close>

definition Delete ::
  "'w service \<Rightarrow> string \<Rightarrow> string \<Rightarrow> bool \<Rightarrow> 'w \<Rightarrow> (name \<times> err option) \<times> 'w" where
  "Delete s n rf unwire w =
     (case resolve s n rf w of
        Inl e \<Rightarrow> (([], Some e), w)
      | Inr (b, m) \<Rightarrow>
          if \<not> cap_delete (b_caps b)
          then ((b_name b, Some (errw ErrUnsupported (''delete on '' @ b_name b))), w)
          else (case (case (if unwire then sv_wirer s else None) of
                        None \<Rightarrow> (Inr (), w)
                      | Some wr \<Rightarrow> w_remove wr (b_name b) (m_name m) CreatedHere w) of
             (Inl e, w) \<Rightarrow>
               ((b_name b, Some (wrap_err (''unwire '' @ m_name m @ '': '') e
                  (if err_is e ErrGitOpsOwned
                   then ''; nothing was deleted '' @ em_dash @ '' remove the ModelConfig with unwire_model mode commit, or repeat with unwire=false to delete the weights alone''
                   else if err_as_not_owned e \<noteq> None
                   then ''; nothing was deleted '' @ em_dash @ '' repeat with unwire=false to delete the weights alone''
                   else []))), w)
           | (Inr u, w) \<Rightarrow>
               (case b_delete b (m_name m) w of
                  (Inl e, w) \<Rightarrow> ((b_name b, Some e), w)
                | (Inr u, w) \<Rightarrow> ((b_name b, None), w))))"

section \<open>Wiring by name\<close>

definition Wire ::
  "'w service \<Rightarrow> string \<Rightarrow> string \<Rightarrow> wire_options \<Rightarrow> 'w \<Rightarrow> mc_ref res \<times> 'w" where
  "Wire s n rf opts w =
     (case sv_wirer s of
        None \<Rightarrow> (Inl ErrWiringDisabled, w)
      | Some wr \<Rightarrow>
          (case resolve s n rf w of
             Inl e \<Rightarrow> (Inl e, w)
           | Inr (b, m) \<Rightarrow> wireModel wr b (m_name m) opts w))"

text \<open>The owner a managed ModelConfig counts for: its label, else the default backend.\<close>

definition owner_name :: "'w service \<Rightarrow> mc_ref \<Rightarrow> name" where
  "owner_name s r =
     (if r_backend r = []
      then (case default_backend s of None \<Rightarrow> [] | Some d \<Rightarrow> b_name d)
      else r_backend r)"

fun add_owners :: "'w service \<Rightarrow> string \<Rightarrow> mc_ref list \<Rightarrow> name list \<Rightarrow> name list" where
  "add_owners s rf [] out = out"
| "add_owners s rf (r # rs) out =
     (if r_model r \<noteq> rf then add_owners s rf rs out
      else if List.member out (owner_name s r) then add_owners s rf rs out
      else add_owners s rf rs (out @ [owner_name s r]))"

definition wiredBackends :: "'w service \<Rightarrow> 'w wirer_ops \<Rightarrow> string \<Rightarrow> 'w \<Rightarrow> name list res \<times> 'w" where
  "wiredBackends s wr rf w =
     (case w_list wr w of
        (Inl e, w) \<Rightarrow> (Inl e, w)
      | (Inr refs, w) \<Rightarrow> (Inr (add_owners s rf refs []), w))"

text \<open>The switch of \<open>unwireTarget\<close>: the target's name and its backend, when registered;
  \<open>None\<close> when nothing is wired or downloaded.\<close>

definition unwire_choice ::
  "'w service \<Rightarrow> string \<Rightarrow> string \<Rightarrow> name list \<Rightarrow> 'w \<Rightarrow> (name \<times> 'w backend option) option res" where
  "unwire_choice s n rf owners w =
     (if n \<noteq> []
      then (case named s n of
              Inr b \<Rightarrow> Inr (Some (n, Some b))
            | Inl e \<Rightarrow> if List.member owners n then Inr (Some (n, None)) else Inl e)
      else case owners of
        [t] \<Rightarrow> Inr (Some (t, lookup_backend s t))
      | _ # _ \<Rightarrow> Inl (errw ErrConflict (rf @ '' is wired on '' @ joinNames owners @ ''; name the backend''))
      | [] \<Rightarrow>
          (case resolve s [] rf w of
             Inr (b, m) \<Rightarrow> Inr (Some (b_name b, Some b))
           | Inl e \<Rightarrow> if err_is e ErrNotFound then Inr None else Inl e))"

definition unwireTarget ::
  "'w service \<Rightarrow> string \<Rightarrow> string \<Rightarrow> 'w \<Rightarrow> (name \<times> string) res \<times> 'w" where
  "unwireTarget s n rf w =
     (case sv_wirer s of
        None \<Rightarrow> (Inl ErrWiringDisabled, w)
      | Some wr \<Rightarrow>
          (let rf = trim_space rf
           in if rf = [] then (Inl (errw ErrInvalid ''model name is required''), w)
              else case wiredBackends s wr rf w of
                (Inl e, w) \<Rightarrow> (Inl e, w)
              | (Inr owners, w) \<Rightarrow>
                  (case unwire_choice s (trim_space n) rf owners w of
                     Inl e \<Rightarrow> (Inl e, w)
                   | Inr None \<Rightarrow> (Inr ([], []), w)
                   | Inr (Some (t, bo)) \<Rightarrow>
                       (Inr (t, case bo of
                          None \<Rightarrow> rf
                        | Some b \<Rightarrow> (case b_get_model b rf w of Inr m \<Rightarrow> m_name m | Inl e \<Rightarrow> rf)), w))))"

record unwired =
  ud_backend :: name
  ud_model_config :: "(string \<times> string) option"

definition Unwire :: "'w service \<Rightarrow> string \<Rightarrow> string \<Rightarrow> 'w \<Rightarrow> unwired res \<times> 'w" where
  "Unwire s n rf w =
     (case unwireTarget s n rf w of
        (Inl e, w) \<Rightarrow> (Inl e, w)
      | (Inr (b, rf), w) \<Rightarrow>
          if b = [] then (Inr \<lparr>ud_backend = [], ud_model_config = None\<rparr>, w)
          else case sv_wirer s of
            None \<Rightarrow> (Inl ErrWiringDisabled, w)
          | Some wr \<Rightarrow>
              (case w_lookup wr b rf w of
                 (Inl e, w) \<Rightarrow> (Inl e, w)
               | (Inr mc, w) \<Rightarrow>
                   (case w_remove wr b rf Unclaimed w of
                      (Inl e, w) \<Rightarrow> (Inl e, w)
                    | (Inr u, w) \<Rightarrow>
                        (Inr \<lparr>ud_backend = b,
                              ud_model_config = map_option (\<lambda>r. (r_name r, r_namespace r)) mc\<rparr>, w))))"

definition Jobs_of ::
  "'w service \<Rightarrow> string \<Rightarrow> int \<Rightarrow> 'r manager \<Rightarrow> 'r job list res \<times> 'r manager" where
  "Jobs_of s n now jm =
     (case list_jobs now jm of
        (all, jm) \<Rightarrow>
          if trim_space n = [] then (Inr all, jm)
          else (case named s n of
             Inl e \<Rightarrow> (Inl e, jm)
           | Inr b \<Rightarrow> (Inr (filter (\<lambda>j. j_backend j = b_name b) all), jm)))"

section \<open>The reconciler\<close>

text \<open>One pass of \<open>reconcileWiring\<close>: the loop over the served models.\<close>

fun reconcile_loop ::
  "'w wirer_ops \<Rightarrow> 'w backend \<Rightarrow> wired_view \<Rightarrow> int \<Rightarrow> loaded_model list \<Rightarrow> 'r manager \<Rightarrow> 'w
   \<Rightarrow> 'r manager \<times> 'w" where
  "reconcile_loop wr b wired now [] jm w = (jm, w)"
| "reconcile_loop wr b wired now (l # ls) jm w =
     (if l_status l \<noteq> ''Ready'' \<or> wired_lookup wired (l_name l) (Some l) \<noteq> None
      then reconcile_loop wr b wired now ls jm w
      else (case hasActiveJob now TypeLoad (b_name b) (l_name l) jm of
        (True, jm) \<Rightarrow> reconcile_loop wr b wired now ls jm w
      | (False, jm) \<Rightarrow>
          (case wireModel wr b (servedRef (l_name l) (l_preset l)) no_wire_options w of
             (r, w) \<Rightarrow> reconcile_loop wr b wired now ls jm w)))"

definition reconcileWiring ::
  "'w service \<Rightarrow> 'w wirer_ops \<Rightarrow> 'w backend \<Rightarrow> int \<Rightarrow> 'r manager \<Rightarrow> 'w \<Rightarrow> 'r manager \<times> 'w" where
  "reconcileWiring s wr b now jm w =
     (case b_list_loaded b w of
        Inl e \<Rightarrow> (jm, w)
      | Inr loaded \<Rightarrow>
          (case wiredIndex s b w of (wired, w) \<Rightarrow> reconcile_loop wr b wired now loaded jm w))"

text \<open>The ModelConfigs a pass of \<open>refreshModelConfigs\<close> passes over before it reads the model.\<close>

definition refresh_skips :: "'w service \<Rightarrow> 'w backend \<Rightarrow> 'w \<Rightarrow> mc_ref \<Rightarrow> bool" where
  "refresh_skips s b w r \<longleftrightarrow>
     (r_backend r \<noteq> [] \<and> r_backend r \<noteq> b_name b) \<or>
     r_gitops r \<noteq> None \<or>
     (sv_instance s \<noteq> None \<and> r_created_by r \<noteq> [] \<and> Some (r_created_by r) \<noteq> sv_instance s) \<or>
     (let ep = b_endpoint b (r_model r) w
      in ep_context_length ep = 0 \<and> ep_think ep = None \<and> r_context_length r = 0 \<and> r_think r = None)"

fun refresh_loop ::
  "'w service \<Rightarrow> 'w wirer_ops \<Rightarrow> 'w backend \<Rightarrow> mc_ref list \<Rightarrow> 'w \<Rightarrow> 'w" where
  "refresh_loop s wr b [] w = w"
| "refresh_loop s wr b (r # rs) w =
     (if refresh_skips s b w r then refresh_loop s wr b rs w
      else case b_get_model b (r_model r) w of
        Inl e \<Rightarrow> refresh_loop s wr b rs w
      | Inr m \<Rightarrow>
          (case w_writable wr (fit_to (b_endpoint b (m_name m) w) m) w of
             (Inl e, w) \<Rightarrow> w
           | (Inr want, w) \<Rightarrow>
               if carries r want then refresh_loop s wr b rs w
               else (case wireModel wr b (m_name m) no_wire_options w of
                  (u, w) \<Rightarrow> refresh_loop s wr b rs w)))"

definition refreshModelConfigs :: "'w service \<Rightarrow> 'w wirer_ops \<Rightarrow> 'w backend \<Rightarrow> 'w \<Rightarrow> 'w" where
  "refreshModelConfigs s wr b w =
     (case w_list wr w of
        (Inl e, w) \<Rightarrow> w
      | (Inr refs, w) \<Rightarrow> refresh_loop s wr b refs w)"

text \<open>One tick of \<open>Run\<close>, over the backends there are then.\<close>

fun run_tick ::
  "'w service \<Rightarrow> 'w wirer_ops \<Rightarrow> int \<Rightarrow> 'w backend list \<Rightarrow> 'r manager \<Rightarrow> 'w \<Rightarrow> 'r manager \<times> 'w" where
  "run_tick s wr now [] jm w = (jm, w)"
| "run_tick s wr now (b # bs) jm w =
     (if serveLifecycle b
      then (case reconcileWiring s wr b now jm w of (jm, w) \<Rightarrow> run_tick s wr now bs jm w)
      else run_tick s wr now bs jm (refreshModelConfigs s wr b w))"

section \<open>Removing a backend\<close>

fun unwire_loop ::
  "'w wirer_ops \<Rightarrow> name \<Rightarrow> mc_ref list \<Rightarrow> string list \<Rightarrow> 'w \<Rightarrow> (string list \<times> err option) \<times> 'w" where
  "unwire_loop wr n [] removed w = ((removed, None), w)"
| "unwire_loop wr n (r # rs) removed w =
     (if r_backend r \<noteq> n then unwire_loop wr n rs removed w
      else case w_remove wr n (r_model r) CreatedHere w of
        (Inl e, w) \<Rightarrow>
          if err_as_not_owned e \<noteq> None then unwire_loop wr n rs removed w
          else ((removed, Some (wrap_err (''unwire '' @ r_model r @ '' on '' @ n @ '': '') e [])), w)
      | (Inr u, w) \<Rightarrow> unwire_loop wr n rs (removed @ [r_model r]) w)"

definition UnwireBackend :: "'w service \<Rightarrow> name \<Rightarrow> 'w \<Rightarrow> (string list \<times> err option) \<times> 'w" where
  "UnwireBackend s n w =
     (case sv_wirer s of
        None \<Rightarrow> (([], None), w)
      | Some wr \<Rightarrow>
          (case w_list wr w of
             (Inl e, w) \<Rightarrow> (([], Some e), w)
           | (Inr refs, w) \<Rightarrow> unwire_loop wr n refs [] w))"

record blocking_mc =
  bl_model :: string
  bl_namespace :: string
  bl_name :: string
  bl_reason :: string

record backend_removal =
  br_unwires :: "string list"
  br_blocking :: "blocking_mc list"

text \<open>What one ModelConfig of the backend adds to the plan of its removal.\<close>

definition plan_one :: "mc_ref \<Rightarrow> rendered \<Rightarrow> backend_removal \<Rightarrow> backend_removal" where
  "plan_one r d out =
     (let blocking = \<lparr>bl_model = r_model r, bl_namespace = r_namespace r, bl_name = r_name r, bl_reason = []\<rparr>
      in case rn_left d of
           Some left \<Rightarrow>
             if no_created_by left \<noteq> [] then out
             else out\<lparr>br_blocking := br_blocking out @ [blocking\<lparr>bl_reason := ''it carries no '' @ InstanceLabel @
                    '' label, so only unwire_model removes it, once nothing references it; unwire it first''\<rparr>]\<rparr>
         | None \<Rightarrow>
             (case rn_gitops d of
                Some ow \<Rightarrow> out\<lparr>br_blocking := br_blocking out @ [blocking\<lparr>bl_reason := owner_string ow @
                    '' applies it from git; unwire it in mode commit first''\<rparr>]\<rparr>
              | None \<Rightarrow> out\<lparr>br_unwires := br_unwires out @ [r_model r]\<rparr>))"

fun plan_removal_loop ::
  "'w wirer_ops \<Rightarrow> name \<Rightarrow> mc_ref list \<Rightarrow> backend_removal \<Rightarrow> 'w \<Rightarrow> backend_removal res \<times> 'w" where
  "plan_removal_loop wr n [] out w = (Inr out, w)"
| "plan_removal_loop wr n (r # rs) out w =
     (if r_backend r \<noteq> n then plan_removal_loop wr n rs out w
      else case w_removal wr n (r_model r) CreatedHere w of
        (Inl e, w) \<Rightarrow> (Inl (wrap_err (''plan unwiring '' @ r_model r @ '' on '' @ n @ '': '') e []), w)
      | (Inr d, w) \<Rightarrow> plan_removal_loop wr n rs (plan_one r d out) w)"

definition no_removal :: backend_removal where
  "no_removal = \<lparr>br_unwires = [], br_blocking = []\<rparr>"

definition PlanBackendRemoval :: "'w service \<Rightarrow> name \<Rightarrow> 'w \<Rightarrow> backend_removal res \<times> 'w" where
  "PlanBackendRemoval s n w =
     (case sv_wirer s of
        None \<Rightarrow> (Inr no_removal, w)
      | Some wr \<Rightarrow>
          (case w_list wr w of
             (Inl e, w) \<Rightarrow> (Inl e, w)
           | (Inr refs, w) \<Rightarrow> plan_removal_loop wr n refs no_removal w))"

definition removal_err :: "name \<Rightarrow> backend_removal \<Rightarrow> err option" where
  "removal_err n r =
     (if br_blocking r = [] then None
      else Some (errw ErrConflict (''backend '' @ n @
             '' still has models wired that removing it would leave pointing at nothing: '' @
             join ''; '' (map (\<lambda>b. bl_model b @ '' (ModelConfig '' @ bl_namespace b @ ''/'' @ bl_name b @ '': '' @
                    bl_reason b @ '')'') (br_blocking r)) @ ''; nothing was removed'')))"

end
