(* ===== verification/Service_Plan.thy ===== *)
theory Service_Plan
  imports Service_Ops
begin

text \<open>
  Dry runs, fit checks and mode commit (\<open>internal/service/plan.go\<close>, \<open>write.go\<close>, and
  \<open>FitCheck\<close> of \<open>service.go\<close>): what a call would do, without doing it, and the pull
  request that does it in git. Manifests are the objects they show; a slice index Go refuses
  is the error \<open>GoPanic\<close>.
\<close>

section \<open>Fit checks\<close>

definition verdict_unverified :: string where "verdict_unverified = ''unverified''"

definition catalogBackend :: "string \<Rightarrow> bool" where
  "catalogBackend n \<longleftrightarrow> trim_space n = [] \<or> kind_of (trim_space n) = name_kserve"

definition catalogFit ::
  "(fit_request \<Rightarrow> 'w \<Rightarrow> fit_result res) \<Rightarrow> fit_request \<Rightarrow> err \<Rightarrow> 'w \<Rightarrow> fit_result res" where
  "catalogFit catalog req no_backend w =
     (case catalog req w of
        Inl e \<Rightarrow>
          if err_is e ErrNoBackend
          then Inl (wrap_err [] no_backend (''; '' @ trim_prefix (sentinel_text ErrNoBackend @ '': '') (err_msg e)))
          else if err_is e ErrNotFound \<or> err_is e ErrInvalid then Inl e
          else Inl (wrap_err [] no_backend (''; the preset catalog could not be read: '' @ err_msg e))
      | Inr r \<Rightarrow>
          Inr (r\<lparr>fr_fits := False, fr_verdict := verdict_unverified,
                 fr_reason := ''no_backend: '' @ err_msg no_backend @ '' '' @ em_dash @ '' '' @ fr_reason r\<rparr>))"

definition FitCheck :: "'w service \<Rightarrow> string \<Rightarrow> fit_request \<Rightarrow> 'w \<Rightarrow> fit_result res" where
  "FitCheck s n req w =
     (if trim_space (fq_model req) = [] \<and> trim_space (fq_preset req) = []
      then Inl (errw ErrInvalid ''model or preset is required'')
      else case targetsWith s n cap_fit_check ''fit check'' of
        Inl e \<Rightarrow>
          (case (if err_is e ErrNoBackend \<and> catalogBackend n then sv_catalog s else None) of
             Some catalog \<Rightarrow> catalogFit catalog req e w
           | None \<Rightarrow> Inl e)
      | Inr ts \<Rightarrow>
          if length ts > 1
          then Inl (errw ErrConflict (''several backends offer fit checks ('' @
                 joinNames (map b_name ts) @ ''); name the backend''))
          else (let b = hd ts
                in case b_fit_check b of
                     None \<Rightarrow> Inl (errw ErrUnsupported (''fit check on '' @ b_name b))
                   | Some check \<Rightarrow>
                       (case check req w of
                          Inl e \<Rightarrow> Inl e
                        | Inr r \<Rightarrow> Inr (r\<lparr>fr_backend := b_name b\<rparr>))))"

section \<open>Plans\<close>

definition rendered_kobj :: "rendered_object \<Rightarrow> kobj" where
  "rendered_kobj x = (case x of MCObject m \<Rightarrow> kobj.truncate m | SecretObject s \<Rightarrow> kobj.truncate s)"

text \<open>\<open>WirePlan\<close>: the wiring write that would land.\<close>

record wiring_plan =
  pl_backend :: name
  pl_model :: string
  pl_model_config :: string
  pl_namespace :: string
  pl_gitops :: "gitops_owner option"
  pl_replaces :: string
  pl_already_wired :: "mc_ref option"
  pl_left :: "not_owned option"
  pl_objects :: "rendered_object list"

definition empty_wiring_plan :: "name \<Rightarrow> string \<Rightarrow> wiring_plan" where
  "empty_wiring_plan b model =
     \<lparr>pl_backend = b, pl_model = model, pl_model_config = [], pl_namespace = [], pl_gitops = None,
      pl_replaces = [], pl_already_wired = None, pl_left = None, pl_objects = []\<rparr>"

definition fill :: "rendered \<Rightarrow> wiring_plan \<Rightarrow> wiring_plan" where
  "fill r p =
     p\<lparr>pl_model_config := rn_name r, pl_gitops := rn_gitops r, pl_replaces := rn_replaces r,
       pl_left := rn_left r, pl_objects := rn_objects r,
       pl_namespace :=
         (if pl_namespace p \<noteq> [] then pl_namespace p
          else case find (\<lambda>x. o_name (rendered_kobj x) = rn_name r \<and> o_namespace (rendered_kobj x) \<noteq> [])
                 (rn_objects r) of
            None \<Rightarrow> []
          | Some x \<Rightarrow> o_namespace (rendered_kobj x))\<rparr>"

text \<open>\<open>OpPlan\<close>: the dry run of a pull, load, unload or delete.\<close>

record op_plan =
  op_backend :: name
  op_model :: string
  op_present :: bool
  op_loaded :: bool
  op_keep_alive :: string
  op_fit :: "fit_result option"
  op_already :: bool
  op_nodes :: "string list"
  op_objects :: "kobj list"
  op_wiring :: "wiring_plan option"
  op_commit :: "commit_result option"
  op_refusal :: "err option"

definition empty_op_plan :: "name \<Rightarrow> string \<Rightarrow> op_plan" where
  "empty_op_plan b model =
     \<lparr>op_backend = b, op_model = model, op_present = False, op_loaded = False, op_keep_alive = [],
      op_fit = None, op_already = False, op_nodes = [], op_objects = [], op_wiring = None,
      op_commit = None, op_refusal = None\<rparr>"

text \<open>The plan of a wiring whose endpoint is decided: \<open>named_ns\<close> says whether a plan of
  someone else's ModelConfig reports its namespace (\<open>PlanWire\<close> does).\<close>

definition wiring_plan_of ::
  "'w wirer_ops \<Rightarrow> 'w backend \<Rightarrow> bool \<Rightarrow> string \<Rightarrow> wire_options \<Rightarrow> 'w \<Rightarrow> wiring_plan res \<times> 'w" where
  "wiring_plan_of wr b named_ns model opts w =
     (case endpointFor wr b model opts w of
        (Inl e, w) \<Rightarrow> (Inl e, w)
      | (Inr (model, ep, Some existing), w) \<Rightarrow>
          (Inr ((empty_wiring_plan (b_name b) model)
             \<lparr>pl_already_wired := Some existing, pl_model_config := r_name existing,
              pl_namespace := (if named_ns then r_namespace existing else [])\<rparr>), w)
      | (Inr (model, ep, None), w) \<Rightarrow>
          (case w_render wr model ep w of
             (Inl e, w) \<Rightarrow> (Inl e, w)
           | (Inr r, w) \<Rightarrow> (Inr (fill r (empty_wiring_plan (b_name b) model)), w)))"

definition planWiring ::
  "'w service \<Rightarrow> 'w backend \<Rightarrow> string \<Rightarrow> 'w \<Rightarrow> wiring_plan option res \<times> 'w" where
  "planWiring s b model w =
     (case sv_wirer s of
        None \<Rightarrow> (Inr None, w)
      | Some wr \<Rightarrow>
          (case wiring_plan_of wr b False model no_wire_options w of
             (Inl e, w) \<Rightarrow> (Inl e, w)
           | (Inr p, w) \<Rightarrow> (Inr (Some p), w)))"

definition unwiring :: "'w service \<Rightarrow> name \<Rightarrow> string \<Rightarrow> 'w \<Rightarrow> wiring_plan option res \<times> 'w" where
  "unwiring s b model w =
     (case sv_wirer s of
        None \<Rightarrow> (Inr None, w)
      | Some wr \<Rightarrow>
          (case w_removal wr b model CreatedHere w of
             (Inl e, w) \<Rightarrow> (Inl e, w)
           | (Inr r, w) \<Rightarrow> (Inr (Some (fill r (empty_wiring_plan b model))), w)))"

definition PlanPull :: "'w service \<Rightarrow> pull_options \<Rightarrow> 'w \<Rightarrow> op_plan res \<times> 'w" where
  "PlanPull s opts w =
     (case named s (po_backend opts) of
        Inl e \<Rightarrow> (Inl e, w)
      | Inr b \<Rightarrow>
          if \<not> cap_pull (b_caps b) then (Inl (errw ErrUnsupported (''pull on '' @ b_name b)), w)
          else (let rf = trim_space (po_model opts)
                in if rf = [] then (Inl (errw ErrInvalid ''model reference is required''), w)
                   else let p = (case b_get_model b rf w of
                              Inr m \<Rightarrow> (empty_op_plan (b_name b) (m_name m))\<lparr>op_present := True\<rparr>
                            | Inl e \<Rightarrow> empty_op_plan (b_name b) rf);
                            fit = (if cap_fit_check (b_caps b)
                              then map_sum id Some (FitCheck s (b_name b)
                                \<lparr>fq_model = rf, fq_preset = trim_space (po_preset opts),
                                 fq_node = trim_space (po_node opts), fq_placement = [], fq_nodes = []\<rparr> w)
                              else Inr None);
                            do_wire = (case po_wire opts of
                                Some x \<Rightarrow> x \<and> \<not> serveLifecycle b
                              | None \<Rightarrow> cf_auto_wire (sv_cfg s) \<and> sv_wirer s \<noteq> None \<and> \<not> serveLifecycle b)
                        in case fit of
                             Inl e \<Rightarrow> (Inl e, w)
                           | Inr f \<Rightarrow>
                               (let p = p\<lparr>op_fit := f\<rparr>
                                in if \<not> do_wire then (Inr p, w)
                                   else case planWiring s b (op_model p) w of
                                     (Inl e, w) \<Rightarrow> (Inl e, w)
                                   | (Inr wp, w) \<Rightarrow> (Inr (p\<lparr>op_wiring := wp\<rparr>), w))))"

definition PlanLoad :: "'w service \<Rightarrow> load_options \<Rightarrow> 'w \<Rightarrow> op_plan res \<times> 'w" where
  "PlanLoad s opts w =
     (case loadTarget s opts w of
        Inl e \<Rightarrow> (Inl e, w)
      | Inr (b, m, req) \<Rightarrow>
          (let p = (empty_op_plan (b_name b) (m_name m))\<lparr>op_present := True,
                     op_loaded := (loadedIndex b w (m_name m) \<noteq> None)\<rparr>
           in case (case b_serve b of
                      None \<Rightarrow> (Inr (p\<lparr>op_keep_alive := lr_keep_alive req\<rparr>), w)
                    | Some serve \<Rightarrow>
                        (case serve (req\<lparr>lr_dry_run := True\<rparr>) w of
                           (Inl e, w) \<Rightarrow> (Inl e, w)
                         | (Inr None, w) \<Rightarrow> (Inr p, w)
                         | (Inr (Some r), w) \<Rightarrow>
                             (Inr (p\<lparr>op_fit := lo_fit r, op_already := lo_already r, op_nodes := lo_nodes r,
                                     op_objects := lo_manifests r\<rparr>), w))) of
                (Inl e, w) \<Rightarrow> (Inl e, w)
              | (Inr p, w) \<Rightarrow>
                  if cf_auto_wire (sv_cfg s) \<and> \<not> op_already p
                  then (case planWiring s b (if b_serve b \<noteq> None then servedRef (m_name m) (lr_preset req)
                                             else m_name m) w of
                          (Inl e, w) \<Rightarrow> (Inl e, w)
                        | (Inr wp, w) \<Rightarrow> (Inr (p\<lparr>op_wiring := wp\<rparr>), w))
                  else (Inr p, w)))"

text \<open>\<open>stopPlan\<close>: \<open>None\<close> when the unload is not a StopPlanner's.\<close>

definition stopPlan :: "'w service \<Rightarrow> string \<Rightarrow> string \<Rightarrow> 'w \<Rightarrow> ('w backend \<times> stop_plan) option res" where
  "stopPlan s n rf w =
     (if trim_space n = [] \<and> length (sv_backends s) \<noteq> 1 then Inr None
      else case named s n of
        Inl e \<Rightarrow> Inl e
      | Inr b \<Rightarrow>
          (case b_stop_plan b of
             None \<Rightarrow> Inr None
           | Some planner \<Rightarrow>
               (case unloadable b of
                  Inl e \<Rightarrow> Inl e
                | Inr u \<Rightarrow> (case planner rf w of Inl e \<Rightarrow> Inl e | Inr st \<Rightarrow> Inr (Some (b, st))))))"

definition planUnload :: "'w service \<Rightarrow> string \<Rightarrow> string \<Rightarrow> 'w \<Rightarrow> op_plan res \<times> 'w" where
  "planUnload s n rf w =
     (case stopPlan s n rf w of
        Inl e \<Rightarrow> (Inl e, w)
      | Inr (Some (b, st)) \<Rightarrow>
          (let p = (empty_op_plan (b_name b) (st_model st))\<lparr>op_present := True, op_loaded := True,
                     op_refusal := st_refusal st, op_objects := st_objects st\<rparr>
           in case unwiring s (b_name b) (st_model st) w of
                (Inl e, w) \<Rightarrow> (Inl e, w)
              | (Inr wp, w) \<Rightarrow> (Inr (p\<lparr>op_wiring := wp\<rparr>), w))
      | Inr None \<Rightarrow>
          (case resolve s n rf w of
             Inl e \<Rightarrow> (Inl e, w)
           | Inr (b, m) \<Rightarrow>
               (case unloadable b of
                  Inl e \<Rightarrow> (Inl e, w)
                | Inr u \<Rightarrow>
                    (Inr ((empty_op_plan (b_name b) (m_name m))\<lparr>op_present := True,
                       op_loaded := (loadedIndex b w (m_name m) \<noteq> None)\<rparr>), w))))"

definition PlanUnload :: "'w service \<Rightarrow> string \<Rightarrow> string \<Rightarrow> 'w \<Rightarrow> op_plan res \<times> 'w" where
  "PlanUnload s n rf w =
     (case planUnload s n rf w of
        (Inl e, w) \<Rightarrow> (Inl e, w)
      | (Inr p, w) \<Rightarrow> (case op_refusal p of Some e \<Rightarrow> (Inl e, w) | None \<Rightarrow> (Inr p, w)))"

definition PlanDelete :: "'w service \<Rightarrow> string \<Rightarrow> string \<Rightarrow> bool \<Rightarrow> 'w \<Rightarrow> op_plan res \<times> 'w" where
  "PlanDelete s n rf unwire w =
     (case resolve s n rf w of
        Inl e \<Rightarrow> (Inl e, w)
      | Inr (b, m) \<Rightarrow>
          if \<not> cap_delete (b_caps b) then (Inl (errw ErrUnsupported (''delete on '' @ b_name b)), w)
          else (let p = (empty_op_plan (b_name b) (m_name m))\<lparr>op_present := True,
                         op_loaded := (loadedIndex b w (m_name m) \<noteq> None)\<rparr>
                in if \<not> unwire then (Inr p, w)
                   else case unwiring s (b_name b) (m_name m) w of
                     (Inl e, w) \<Rightarrow> (Inl e, w)
                   | (Inr wp, w) \<Rightarrow>
                       (case (case wp of None \<Rightarrow> None | Some q \<Rightarrow> pl_left q) of
                          Some left \<Rightarrow>
                            (Inl (wrap_err (''unwire '' @ m_name m @ '': '') (not_owned_err left)
                               (''; nothing would be deleted '' @ em_dash @
                                '' repeat with unwire=false to delete the weights alone'')), w)
                        | None \<Rightarrow> (Inr (p\<lparr>op_wiring := wp\<rparr>), w))))"

definition PlanWire ::
  "'w service \<Rightarrow> string \<Rightarrow> string \<Rightarrow> wire_options \<Rightarrow> 'w \<Rightarrow> wiring_plan res \<times> 'w" where
  "PlanWire s n rf opts w =
     (case sv_wirer s of
        None \<Rightarrow> (Inl ErrWiringDisabled, w)
      | Some wr \<Rightarrow>
          (case resolve s n rf w of
             Inl e \<Rightarrow> (Inl e, w)
           | Inr (b, m) \<Rightarrow> wiring_plan_of wr b True (m_name m) opts w))"

definition PlanUnwire :: "'w service \<Rightarrow> string \<Rightarrow> string \<Rightarrow> 'w \<Rightarrow> wiring_plan res \<times> 'w" where
  "PlanUnwire s n rf w =
     (case unwireTarget s n rf w of
        (Inl e, w) \<Rightarrow> (Inl e, w)
      | (Inr (b, rf), w) \<Rightarrow>
          if b = [] then (Inr (empty_wiring_plan [] rf), w)
          else case sv_wirer s of
            None \<Rightarrow> (Inl ErrWiringDisabled, w)
          | Some wr \<Rightarrow>
              (case w_removal wr b rf Unclaimed w of
                 (Inl e, w) \<Rightarrow> (Inl e, w)
               | (Inr r, w) \<Rightarrow>
                   (case rn_left r of
                      Some left \<Rightarrow> (Inl (not_owned_err left), w)
                    | None \<Rightarrow> (Inr (fill r (empty_wiring_plan b rf)), w))))"

section \<open>Mode commit\<close>

definition ErrCommitUnavailable :: err where
  "ErrCommitUnavailable = errw ErrUnsupported (''mode commit (a pull request opened as you) is not offered by this server: it is not registered with its GitHub App (chart value github.enabled), so it holds no GitHub authorization of yours '' @ em_dash @ '' use mode apply'')"

definition errCommitsOnKServe :: "string \<Rightarrow> name \<Rightarrow> err" where
  "errCommitsOnKServe tool b =
     errw ErrUnsupported (''mode commit on '' @ tool @ '': '' @ b @
       '' serves no manifest a repository could hold (only kserve's serving object is one); use mode apply, and wire_model mode commit for the ModelConfig'')"

definition put_part :: "bool \<Rightarrow> kobj list \<Rightarrow> commit_part \<Rightarrow> commit_part" where
  "put_part gone objs p = (if gone then p\<lparr>cp_write := [], cp_remove := objs\<rparr>
                             else p\<lparr>cp_write := objs, cp_remove := []\<rparr>)"

definition splitForTarget ::
  "commit_request \<Rightarrow> 'w backend \<Rightarrow> kobj list \<Rightarrow> kobj list \<Rightarrow> bool \<Rightarrow> commit_request res" where
  "splitForTarget req b serving wiring gone =
     (case b_target b of
        None \<Rightarrow> Inr (req\<lparr>cq_part := put_part gone (serving @ wiring) (cq_part req)\<rparr>)
      | Some t \<Rightarrow>
          if \<not> b_target_client b
          then Inl (errw ErrUnsupported (''the backend on cluster '' @ t_cluster t @
                 '' offers no client of its target to read the serving namespace's provenance there''))
          else Inr (req\<lparr>cq_cluster := Some (t_cluster t), cq_part := put_part gone serving (cq_part req),
                 cq_also := (case wiring of
                    [] \<Rightarrow> cq_also req
                  | x # _ \<Rightarrow> [put_part gone wiring \<lparr>cp_namespace = o_namespace x, cp_write = [],
                              cp_remove = [], cp_owner = owner_of (o_labels x)\<rparr>])\<rparr>))"

definition wiring_objects :: "op_plan \<Rightarrow> kobj list" where
  "wiring_objects p = (case op_wiring p of None \<Rightarrow> [] | Some wp \<Rightarrow> map rendered_kobj (pl_objects wp))"

definition commit_request_for ::
  "kobj \<Rightarrow> gitops_owner option \<Rightarrow> commit_target \<Rightarrow> string \<Rightarrow> string \<Rightarrow> string \<Rightarrow> bool \<Rightarrow> commit_request" where
  "commit_request_for serving ow target verb tool summary dry =
     \<lparr>cq_part = \<lparr>cp_namespace = o_namespace serving, cp_write = [], cp_remove = [], cp_owner = ow\<rparr>,
      cq_cluster = None, cq_target = target, cq_also = [], cq_verb = verb, cq_subject = o_name serving,
      cq_summary = summary, cq_tool = tool, cq_dry_run = dry\<rparr>"

definition CommitLoad ::
  "'w service \<Rightarrow> load_options \<Rightarrow> commit_target \<Rightarrow> bool \<Rightarrow> 'w \<Rightarrow> op_plan res \<times> 'w" where
  "CommitLoad s opts target dry w =
     (case sv_commit s of
        None \<Rightarrow> (Inl ErrCommitUnavailable, w)
      | Some commit \<Rightarrow>
          (case PlanLoad s opts w of
             (Inl e, w) \<Rightarrow> (Inl e, w)
           | (Inr p, w) \<Rightarrow>
               (case Option.bind (lookup_backend s (op_backend p)) (\<lambda>b. if b_serve b \<noteq> None then Some b else None) of
                  None \<Rightarrow> (Inl (errCommitsOnKServe ''load_model'' (op_backend p)), w)
                | Some b \<Rightarrow>
                    (case op_objects p of
                       [] \<Rightarrow> (Inr p, w)
                     | serving # _ \<Rightarrow>
                         if op_already p then (Inr p, w)
                         else case splitForTarget
                             (commit_request_for serving None target ''serve'' ''load_model''
                               (''Serves the model `'' @ op_model p @ ''` as '' @ o_kind serving @ '' `'' @
                                o_namespace serving @ ''/'' @ o_name serving @ ''`, wired into kagent'') dry)
                             b (op_objects p) (wiring_objects p) False of
                           Inl e \<Rightarrow> (Inl e, w)
                         | Inr req \<Rightarrow>
                             (case commit req w of
                                (Inl e, w) \<Rightarrow> (Inl e, w)
                              | (Inr r, w) \<Rightarrow>
                                  (Inr (p\<lparr>op_commit := Some (r\<lparr>cr_live_steps := cr_live_steps r @
                                     [''the ModelConfig turns ready once the served model does; its entry on the platform's LLM endpoint follows with the next read of list_loaded_models'']\<rparr>)\<rparr>), w))))))"

text \<open>\<open>serving := plan.objects[0]\<close> panics on a plan without objects.\<close>

definition CommitUnload ::
  "'w service \<Rightarrow> string \<Rightarrow> string \<Rightarrow> commit_target \<Rightarrow> bool \<Rightarrow> 'w \<Rightarrow> op_plan res \<times> 'w" where
  "CommitUnload s n rf target dry w =
     (case sv_commit s of
        None \<Rightarrow> (Inl ErrCommitUnavailable, w)
      | Some commit \<Rightarrow>
          (case planUnload s n rf w of
             (Inl e, w) \<Rightarrow> (Inl e, w)
           | (Inr p, w) \<Rightarrow>
               (case Option.bind (lookup_backend s (op_backend p)) (\<lambda>b. if b_stop_plan b \<noteq> None then Some b else None) of
                  None \<Rightarrow> (Inl (errCommitsOnKServe ''unload_model'' (op_backend p)), w)
                | Some b \<Rightarrow>
                    (case op_objects p of
                       [] \<Rightarrow> (Inl (Err [GoPanic] ''index out of range [0] with length 0''), w)
                     | serving # _ \<Rightarrow>
                         (case splitForTarget
                             (commit_request_for serving (owner_of (o_labels serving)) target ''unserve'' ''unload_model''
                               (''Stops serving the model `'' @ op_model p @ ''`: removes '' @ o_kind serving @ '' `'' @
                                o_namespace serving @ ''/'' @ o_name serving @ ''` and its ModelConfig'') dry)
                             b (op_objects p) (wiring_objects p) True of
                           Inl e \<Rightarrow> (Inl e, w)
                         | Inr req \<Rightarrow>
                             (case commit req w of
                                (Inl e, w) \<Rightarrow> (Inl e, w)
                              | (Inr r, w) \<Rightarrow> (Inr (p\<lparr>op_commit := Some r\<rparr>), w)))))))"

text \<open>\<open>CommitWire\<close> and \<open>CommitUnwire\<close>: the plan and, when something is committed, the
  pull request.\<close>

definition wire_commit_request ::
  "'w service \<Rightarrow> wiring_plan \<Rightarrow> commit_target \<Rightarrow> bool \<Rightarrow> bool \<Rightarrow> commit_request" where
  "wire_commit_request s p target gone dry =
     (let objs = map rendered_kobj (pl_objects p)
      in \<lparr>cq_part = put_part gone objs \<lparr>cp_namespace = sv_wire_namespace s, cp_write = [],
                       cp_remove = [], cp_owner = pl_gitops p\<rparr>,
          cq_cluster = None, cq_target = target, cq_also = [],
          cq_verb = (if gone then ''unwire'' else ''wire''), cq_subject = pl_model_config p,
          cq_summary =
            (if gone
             then ''Unwires the model `'' @ pl_model p @ ''` (backend '' @ pl_backend p @
               '') from kagent: removes ModelConfig `'' @ sv_wire_namespace s @ ''/'' @ pl_model_config p @ ''`''
             else ''Wires the model `'' @ pl_model p @ ''` (backend '' @ pl_backend p @
               '') into kagent: ModelConfig `'' @ sv_wire_namespace s @ ''/'' @ pl_model_config p @ ''`''),
          cq_tool = (if gone then ''unwire_model'' else ''wire_model''), cq_dry_run = dry\<rparr>)"

definition CommitWire ::
  "'w service \<Rightarrow> string \<Rightarrow> string \<Rightarrow> wire_options \<Rightarrow> commit_target \<Rightarrow> bool \<Rightarrow> 'w
   \<Rightarrow> (wiring_plan \<times> commit_result option) res \<times> 'w" where
  "CommitWire s n rf opts target dry w =
     (case sv_commit s of
        None \<Rightarrow> (Inl ErrCommitUnavailable, w)
      | Some commit \<Rightarrow>
          (case PlanWire s n rf opts w of
             (Inl e, w) \<Rightarrow> (Inl e, w)
           | (Inr p, w) \<Rightarrow>
               if pl_already_wired p \<noteq> None then (Inr (p, None), w)
               else (case commit (wire_commit_request s p target False dry) w of
                       (Inl e, w) \<Rightarrow> (Inl e, w)
                     | (Inr r, w) \<Rightarrow> (Inr (p, Some r), w))))"

definition CommitUnwire ::
  "'w service \<Rightarrow> string \<Rightarrow> string \<Rightarrow> commit_target \<Rightarrow> bool \<Rightarrow> 'w
   \<Rightarrow> (wiring_plan \<times> commit_result option) res \<times> 'w" where
  "CommitUnwire s n rf target dry w =
     (case sv_commit s of
        None \<Rightarrow> (Inl ErrCommitUnavailable, w)
      | Some commit \<Rightarrow>
          (case PlanUnwire s n rf w of
             (Inl e, w) \<Rightarrow> (Inl e, w)
           | (Inr p, w) \<Rightarrow>
               if pl_objects p = [] then (Inr (p, None), w)
               else (case commit (wire_commit_request s p target True dry) w of
                       (Inl e, w) \<Rightarrow> (Inl e, w)
                     | (Inr r, w) \<Rightarrow> (Inr (p, Some r), w))))"

end
