(* ===== verification/Service_Registry.thy ===== *)
theory Service_Registry
  imports Service
begin

text \<open>
  The backend set: an invariant of every service reached from \<open>New\<close> by registrations and
  removals (the list, the index and the sources agree; the static backends come first, the
  registered ones sorted by name), and the abstract state it refines: the fixed static
  backends and a map of registered ones. Then what the reads of that set answer: which backend
  a name addresses, which a model reference resolves to, and what an aggregate read returns.
\<close>

section \<open>The invariant\<close>

definition registered :: "'w service \<Rightarrow> 'w backend list" where
  "registered s = map snd (filter (\<lambda>(n, b). source_of s n \<noteq> source_static) (sv_by_name s))"

text \<open>All but the list, for the static backends \<open>st\<close>.\<close>

definition svc_core :: "'w backend list \<Rightarrow> 'w service \<Rightarrow> bool" where
  "svc_core st s \<longleftrightarrow>
     distinct (map fst (sv_by_name s)) \<and> distinct (map fst (sv_sources s)) \<and>
     dom (map_of (sv_by_name s)) = dom (map_of (sv_sources s)) \<and>
     (\<forall>n b. map_of (sv_by_name s) n = Some b \<longrightarrow> b_name b = n) \<and>
     (\<forall>n. source_of s n = source_static \<longleftrightarrow> n \<in> b_name ` set st) \<and>
     (\<forall>b\<in>set st. map_of (sv_by_name s) (b_name b) = Some b) \<and> distinct (map b_name st) \<and>
     take (sv_static s) (sv_backends s) = st \<and> sv_static s = length st"

definition svc_inv :: "'w backend list \<Rightarrow> 'w service \<Rightarrow> bool" where
  "svc_inv st s \<longleftrightarrow> svc_core st s \<and> sv_backends s = st @ sort_key b_name (registered s)"

lemma source_static_nonempty [simp]: "source_static \<noteq> []" "[] \<noteq> source_static"
  by (simp_all add: source_static_def)

lemma svc_coreD:
  assumes "svc_core st s"
  shows "distinct (map fst (sv_by_name s))" "distinct (map fst (sv_sources s))"
    "dom (map_of (sv_by_name s)) = dom (map_of (sv_sources s))"
    "\<And>n b. map_of (sv_by_name s) n = Some b \<Longrightarrow> b_name b = n"
    "\<And>n. source_of s n = source_static \<longleftrightarrow> n \<in> b_name ` set st"
    "\<And>b. b \<in> set st \<Longrightarrow> map_of (sv_by_name s) (b_name b) = Some b"
    "distinct (map b_name st)" "take (sv_static s) (sv_backends s) = st" "sv_static s = length st"
  using assms unfolding svc_core_def by blast+

lemma registered_names:
  assumes "svc_core st s"
  shows "map b_name (registered s) =
    map fst (filter (\<lambda>(n, b). source_of s n \<noteq> source_static) (sv_by_name s))"
proof -
  note d = svc_coreD(1) [OF assms] and n = svc_coreD(4) [OF assms]
  have "b_name (snd p) = fst p" if "p \<in> set (sv_by_name s)" for p
    using in_set_map_of [OF d, of "fst p" "snd p"] n that by simp
  then show ?thesis by (simp add: registered_def)
qed

lemma registered_member:
  assumes "svc_core st s"
  shows "b \<in> set (registered s) \<longleftrightarrow>
    map_of (sv_by_name s) (b_name b) = Some b \<and> source_of s (b_name b) \<noteq> source_static"
proof -
  have d: "distinct (map fst (sv_by_name s))"
    and n: "\<And>n b. map_of (sv_by_name s) n = Some b \<Longrightarrow> b_name b = n"
    using svc_coreD [OF assms] by blast+
  have "b \<in> set (registered s) \<longleftrightarrow>
      (\<exists>n. map_of (sv_by_name s) n = Some b \<and> source_of s n \<noteq> source_static)"
    by (auto simp: registered_def in_set_map_of [OF d, symmetric] image_iff)
  with n show ?thesis by blast
qed

lemma source_of_backends [simp]: "source_of (s\<lparr>sv_backends := bs\<rparr>) n = source_of s n"
  by (simp add: source_of_def)

lemma registered_backends [simp]: "registered (s\<lparr>sv_backends := bs\<rparr>) = registered s"
  by (simp add: registered_def)

lemma svc_core_problems [simp]: "svc_core st (s\<lparr>sv_problems := ps\<rparr>) \<longleftrightarrow> svc_core st s"
  by (simp add: svc_core_def source_of_def)

lemma svc_inv_problems [simp]: "svc_inv st (s\<lparr>sv_problems := ps\<rparr>) \<longleftrightarrow> svc_inv st s"
  by (simp add: svc_inv_def registered_def source_of_def)

lemma rebuild_inv:
  assumes "svc_core st s"
  shows "svc_inv st (rebuildLocked s)"
proof -
  have "take (sv_static s) (sv_backends s) = st" using assms unfolding svc_core_def by blast
  then have "rebuildLocked s = s\<lparr>sv_backends := st @ sort_key b_name (registered s)\<rparr>"
    by (simp add: rebuildLocked_def registered_def Let_def)
  with assms show ?thesis by (simp add: svc_inv_def svc_core_def)
qed

lemma source_of_update:
  "source_of (s\<lparr>sv_by_name := bn, sv_sources := AList.update n src (sv_sources s)\<rparr>) k =
     (if k = n then src else source_of s k)"
  by (simp add: source_of_def update_conv)

lemma source_of_delete:
  "source_of (s\<lparr>sv_by_name := bn, sv_sources := AList.delete n (sv_sources s)\<rparr>) k =
     (if k = n then [] else source_of s k)"
  by (simp add: source_of_def delete_conv)

text \<open>Adding a registered backend, and dropping one.\<close>

lemma core_register:
  assumes c: "svc_core st s" and n: "source_of s (b_name b) \<noteq> source_static" and src: "src \<noteq> source_static"
  shows "svc_core st (s\<lparr>sv_by_name := AList.update (b_name b) b (sv_by_name s),
     sv_sources := AList.update (b_name b) src (sv_sources s)\<rparr>)"
proof -
  note d = svc_coreD [OF c]
  have nst: "b_name b \<notin> b_name ` set st" using n d(5) by blast
  then have "\<forall>x\<in>set st. map_of (AList.update (b_name b) b (sv_by_name s)) (b_name x) = Some x"
    using d(6) by (auto simp: update_conv' image_iff)
  moreover have "\<forall>n. source_of (s\<lparr>sv_by_name := AList.update (b_name b) b (sv_by_name s),
     sv_sources := AList.update (b_name b) src (sv_sources s)\<rparr>) n = source_static \<longleftrightarrow> n \<in> b_name ` set st"
    using d(5) nst src by (auto simp: source_of_update)
  ultimately show ?thesis unfolding svc_core_def
    using d by (simp add: distinct_update update_conv')
qed

lemma core_deregister:
  assumes c: "svc_core st s" and n: "source_of s n \<noteq> source_static"
  shows "svc_core st (s\<lparr>sv_by_name := AList.delete n (sv_by_name s),
     sv_sources := AList.delete n (sv_sources s)\<rparr>)"
proof -
  note d = svc_coreD [OF c]
  have nst: "n \<notin> b_name ` set st" using n d(5) by blast
  then have "\<forall>x\<in>set st. map_of (AList.delete n (sv_by_name s)) (b_name x) = Some x"
    using d(6) by (auto simp: delete_conv' image_iff)
  moreover have "\<forall>k. source_of (s\<lparr>sv_by_name := AList.delete n (sv_by_name s),
     sv_sources := AList.delete n (sv_sources s)\<rparr>) k = source_static \<longleftrightarrow> k \<in> b_name ` set st"
    using d(5) nst by (auto simp: source_of_delete)
  ultimately show ?thesis unfolding svc_core_def
    using d by (simp add: distinct_delete delete_conv')
qed

lemma RegisterDocument_cases:
  "RegisterDocument b src cm s =
     (if source_of s (b_name b) = source_static
      then (Inl (Err [ErrConflict, ErrStaticBackend]
             (sentinel_text ErrConflict @ '': backend '' @ b_name b @ '' is '' @ sentinel_text ErrStaticBackend)), s)
      else (Inr (), (rebuildLocked (s\<lparr>sv_by_name := AList.update (b_name b) b (sv_by_name s),
             sv_sources := AList.update (b_name b) src (sv_sources s)\<rparr>))
           \<lparr>sv_problems := AList.delete cm (sv_problems s)\<rparr>))"
  by (simp add: RegisterDocument_def Let_def rebuildLocked_def)

lemma register_inv:
  assumes "svc_inv st s" "src \<noteq> source_static"
  shows "svc_inv st (snd (RegisterDocument b src cm s))"
proof -
  have "svc_core st s" using assms(1) by (simp add: svc_inv_def)
  from rebuild_inv [OF core_register [OF this _ assms(2), of b]] assms(1) show ?thesis
    by (simp add: RegisterDocument_cases)
qed

lemma deregister_inv:
  assumes "svc_inv st s"
  shows "svc_inv st (snd (DeregisterDocument n cm p s))"
proof -
  define ps where "ps = (if p = [] then AList.delete cm (sv_problems s)
    else AList.update cm p (sv_problems s))"
  have ps: "DeregisterDocument n cm p s =
      (case map_of (sv_sources s) n of None \<Rightarrow> (False, s\<lparr>sv_problems := ps\<rparr>)
       | Some src \<Rightarrow> if src = source_static then (False, s\<lparr>sv_problems := ps\<rparr>)
           else (True, rebuildLocked (s\<lparr>sv_problems := ps, sv_by_name := AList.delete n (sv_by_name s),
                       sv_sources := AList.delete n (sv_sources s)\<rparr>)))"
    by (cases "p = []"; cases "map_of (sv_sources s) n") (simp_all add: DeregisterDocument_def Let_def ps_def)
  have c: "svc_core st (s\<lparr>sv_problems := ps\<rparr>)" using assms by (simp add: svc_inv_def)
  show ?thesis
  proof (cases "map_of (sv_sources s) n")
    case None
    with ps assms show ?thesis by simp
  next
    case (Some src)
    have "svc_inv st (rebuildLocked (s\<lparr>sv_problems := ps, sv_by_name := AList.delete n (sv_by_name s),
        sv_sources := AList.delete n (sv_sources s)\<rparr>))" if "src \<noteq> source_static"
      using core_deregister [OF c, of n] that Some rebuild_inv by (simp add: source_of_def)
    with ps Some assms show ?thesis by simp
  qed
qed

section \<open>Reachable services\<close>

text \<open>A service as the process runs it: built over its static backends, then changed by the
  documents that come and go. A registered document's source is never static
  (\<open>validate\<close> of the document accepts person and cluster-manager).\<close>

inductive svc_reach :: "'w backend list \<Rightarrow> 'w service \<Rightarrow> bool" where
  reach_new: "new_service st wirer inst wns cfg = Some s \<Longrightarrow> svc_reach st s"
| reach_register: "svc_reach st s \<Longrightarrow> src \<noteq> source_static \<Longrightarrow>
     svc_reach st (snd (RegisterDocument b src cm s))"
| reach_deregister: "svc_reach st s \<Longrightarrow> svc_reach st (snd (DeregisterDocument n cm p s))"
| reach_catalog: "svc_reach st s \<Longrightarrow> svc_reach st (WithCatalog f s)"
| reach_committer: "svc_reach st s \<Longrightarrow> svc_reach st (WithCommitter g s)"

lemma add_static_core:
  assumes "add_static bs s = Some s'" "svc_core st (s\<lparr>sv_static := length st\<rparr>)" "sv_backends s = st"
    "registered s = []"
  shows "svc_core (st @ bs) (s'\<lparr>sv_static := length (st @ bs)\<rparr>) \<and> sv_backends s' = st @ bs \<and>
    registered s' = []"
  using assms
proof (induction bs arbitrary: s st)
  case (Cons b bs)
  let ?s = "s\<lparr>sv_backends := sv_backends s @ [b], sv_by_name := AList.update (b_name b) b (sv_by_name s),
     sv_sources := AList.update (b_name b) source_static (sv_sources s)\<rparr>"
  have new: "map_of (sv_by_name s) (b_name b) = None" and rest: "add_static bs ?s = Some s'"
    using Cons.prems(1) by (auto split: if_splits)
  note d = svc_coreD [OF Cons.prems(2), simplified]
  have so: "source_of (?s\<lparr>sv_static := k\<rparr>) n = (if n = b_name b then source_static else source_of s n)" for n k
    by (simp add: source_of_def update_conv)
  have so': "source_of (s\<lparr>sv_static := k\<rparr>) n = source_of s n" for n k by (simp add: source_of_def)
  have fresh: "b_name b \<notin> b_name ` set st" using d(6) new by force
  have st': "\<forall>x\<in>set (st @ [b]). map_of (sv_by_name (?s\<lparr>sv_static := length (st @ [b])\<rparr>)) (b_name x) = Some x"
    using d(6) fresh by (auto simp: update_conv' image_iff)
  have src: "\<forall>n. source_of (?s\<lparr>sv_static := length (st @ [b])\<rparr>) n = source_static \<longleftrightarrow> n \<in> b_name ` set (st @ [b])"
    using d(5) so so' by auto
  have core: "svc_core (st @ [b]) (?s\<lparr>sv_static := length (st @ [b])\<rparr>)"
    unfolding svc_core_def using d st' src fresh Cons.prems(3)
    by (simp add: distinct_update update_conv')
  have all_static: "source_of ?s n = source_static" if "(n, x) \<in> set (sv_by_name ?s)" for n x
  proof -
    have "n \<in> fst ` set (sv_by_name ?s)" using that by force
    then have "n = b_name b \<or> n \<in> fst ` set (sv_by_name s)" by (simp add: dom_update)
    then show ?thesis
    proof
      assume "n \<in> fst ` set (sv_by_name s)"
      with Cons.prems(4) have "source_of s n = source_static"
        by (force simp: registered_def filter_empty_conv)
      then show ?thesis by (simp add: source_of_def update_conv)
    qed (simp add: source_of_def update_conv)
  qed
  then have "registered ?s = []" by (auto simp: registered_def filter_empty_conv)
  from Cons.IH [OF rest core _ this] Cons.prems(3) show ?case by simp
qed simp

lemma new_service_inv:
  assumes "new_service st wirer inst wns cfg = Some s"
  shows "svc_inv st s"
proof -
  let ?s = "\<lparr>sv_backends = [], sv_by_name = [], sv_sources = [], sv_problems = [], sv_static = 0,
          sv_wirer = wirer, sv_commit = None, sv_catalog = None, sv_instance = inst,
          sv_wire_namespace = wns, sv_cfg = cfg\<rparr> :: 'a service"
  obtain s1 where s1: "add_static st ?s = Some s1" "s = s1\<lparr>sv_static := length (sv_backends s1)\<rparr>"
    using assms by (auto simp: new_service_def split: option.splits)
  have "svc_core [] (?s\<lparr>sv_static := length []\<rparr>)" by (simp add: svc_core_def source_of_def)
  from add_static_core [OF s1(1) this] s1(2) show ?thesis
    by (simp add: svc_inv_def registered_def source_of_def)
qed

lemma with_inv: "svc_inv st (WithCatalog f s) = svc_inv st s" "svc_inv st (WithCommitter g s) = svc_inv st s"
  by (simp_all add: svc_inv_def svc_core_def WithCatalog_def WithCommitter_def registered_def source_of_def)

lemma svc_reach_inv: "svc_reach st s \<Longrightarrow> svc_inv st s"
  by (induction rule: svc_reach.induct) (simp_all add: new_service_inv register_inv deregister_inv with_inv)

section \<open>What the set promises\<close>

lemma svc_inv_lookup:
  assumes "svc_inv st s"
  shows "lookup_backend s n = Some b \<longleftrightarrow> b \<in> set (sv_backends s) \<and> b_name b = n"
proof -
  have c: "svc_core st s" and l: "sv_backends s = st @ sort_key b_name (registered s)"
    using assms by (auto simp: svc_inv_def)
  note d = svc_coreD [OF c]
  have "map_of (sv_by_name s) n = Some b" if b: "b \<in> set (sv_backends s)" "b_name b = n"
    using b d(6) registered_member [OF c, of b] by (auto simp: l)
  moreover have "b \<in> set (sv_backends s)" if b: "map_of (sv_by_name s) n = Some b"
  proof (cases "source_of s n = source_static")
    case True
    then obtain b' where "b' \<in> set st" "b_name b' = n" using d(5) by auto
    with d(6) b show ?thesis by (force simp: l)
  next
    case False
    with b d(4) [OF b] show ?thesis using registered_member [OF c, of b] by (simp add: l)
  qed
  ultimately show ?thesis using d(4) by (auto simp: lookup_backend_def)
qed

lemma svc_inv_names: 
  assumes "svc_inv st s"
  shows "distinct (names s)" "sorted (map b_name (drop (length st) (sv_backends s)))"
    "take (length st) (sv_backends s) = st"
proof -
  have c: "svc_core st s" and l: "sv_backends s = st @ sort_key b_name (registered s)"
    using assms by (auto simp: svc_inv_def)
  note d = svc_coreD [OF c]
  have "distinct (map b_name (registered s))"
    using registered_names [OF c] distinct_keys_filter [OF d(1)] by simp
  then have "distinct (map b_name (sort_key b_name (registered s)))"
    by (metis distinct_map distinct_sort set_sort)
  moreover have "b_name ` set (registered s) \<inter> b_name ` set st = {}"
    using registered_member [OF c] d(5) by auto
  ultimately show "distinct (names s)" using d(7) by (auto simp: names_def l)
  show "sorted (map b_name (drop (length st) (sv_backends s)))"
    "take (length st) (sv_backends s) = st" by (simp_all add: l)
qed

text \<open>C9. The backend set is consistent at every moment: after any sequence of registrations
  and removals the listed backends have distinct names, the static ones come first in the
  operator's order and the registered ones follow sorted by name; a name is looked up exactly
  to the listed backend of that name, and \<open>Has\<close> knows exactly the listed names.\<close>

theorem reachable_services_consistent:
  assumes "svc_reach st s"
  shows "distinct (names s) \<and> take (length st) (sv_backends s) = st \<and>
    sorted (map b_name (drop (length st) (sv_backends s))) \<and>
    (\<forall>n b. lookup_backend s n = Some b \<longleftrightarrow> b \<in> set (sv_backends s) \<and> b_name b = n) \<and>
    (\<forall>n. snd (has_backend s n) \<longleftrightarrow> n \<in> set (names s))"
proof -
  note inv = svc_reach_inv [OF assms]
  have c: "svc_core st s" using inv by (simp add: svc_inv_def)
  have "snd (has_backend s n) \<longleftrightarrow> (\<exists>b. lookup_backend s n = Some b)" for n
    using svc_coreD(3) [OF c] by (auto simp: has_backend_def lookup_backend_def dom_def set_eq_iff split: option.splits)
  then have "snd (has_backend s n) \<longleftrightarrow> n \<in> set (names s)" for n
    using svc_inv_lookup [OF inv] by (auto simp: names_def)
  with svc_inv_names [OF inv] svc_inv_lookup [OF inv] show ?thesis by blast
qed

text \<open>The abstract state: the registered backends and their sources, as a map.\<close>

definition abs_registered :: "'w service \<Rightarrow> name \<rightharpoonup> 'w backend \<times> string" where
  "abs_registered s n =
     (case (map_of (sv_by_name s) n, map_of (sv_sources s) n) of
        (Some b, Some src) \<Rightarrow> if src = source_static then None else Some (b, src)
      | _ \<Rightarrow> None)"

lemma rebuild_maps [simp]:
  "sv_by_name (rebuildLocked s) = sv_by_name s" "sv_sources (rebuildLocked s) = sv_sources s"
  "sv_problems (rebuildLocked s) = sv_problems s" "sv_static (rebuildLocked s) = sv_static s"
  by (simp_all add: rebuildLocked_def Let_def)

lemma register_refines:
  assumes c: "svc_core st s" and src: "src \<noteq> source_static"
  shows "if b_name b \<in> b_name ` set st
      then (\<exists>e. RegisterDocument b src cm s = (Inl e, s) \<and> err_is e ErrConflict)
      else fst (RegisterDocument b src cm s) = Inr () \<and>
        abs_registered (snd (RegisterDocument b src cm s)) = (abs_registered s)(b_name b \<mapsto> (b, src)) \<and>
        map_of (sv_problems (snd (RegisterDocument b src cm s))) cm = None"
  using svc_coreD(5) [OF c] src by (auto simp: RegisterDocument_cases abs_registered_def fun_eq_iff update_conv'
        delete_conv' err_is_def split: option.splits)

lemma deregister_refines:
  assumes c: "svc_core st s"
  shows "abs_registered (snd (DeregisterDocument n cm p s)) = (abs_registered s)(n := None) \<and>
      (fst (DeregisterDocument n cm p s) \<longleftrightarrow> n \<in> dom (abs_registered s))"
proof -
  have dm: "map_of (sv_by_name s) n = None \<longleftrightarrow> map_of (sv_sources s) n = None"
    using svc_coreD(3) [OF c] by (metis domIff)
  have "n \<in> dom (abs_registered s) \<longleftrightarrow> (\<exists>src. map_of (sv_sources s) n = Some src \<and> src \<noteq> source_static)"
    using dm by (auto simp: abs_registered_def dom_def split: option.splits if_splits)
  moreover have "abs_registered (s\<lparr>sv_problems := ps\<rparr>) = abs_registered s" for ps
    by (simp add: abs_registered_def fun_eq_iff)
  moreover have "abs_registered (s\<lparr>sv_problems := ps, sv_by_name := AList.delete n (sv_by_name s),
      sv_sources := AList.delete n (sv_sources s)\<rparr>) = (abs_registered s)(n := None)" for ps
    by (auto simp: abs_registered_def fun_eq_iff delete_conv' split: option.splits)
  moreover have "abs_registered (rebuildLocked t) = abs_registered t" for t :: "'a service"
    by (simp add: abs_registered_def fun_eq_iff)
  moreover have "(abs_registered s)(n := None) = abs_registered s" if "n \<notin> dom (abs_registered s)"
    using that by (auto simp: dom_def)
  ultimately show ?thesis
    by (auto simp: DeregisterDocument_def Let_def split: option.splits)
qed

text \<open>C8. Registering and dropping a backend is an update of a map. For a reachable service
  \<open>RegisterDocument\<close> refuses the name of a static backend with a conflict and changes
  nothing, and otherwise makes exactly that name stand for the new backend and clears the
  document's report; \<open>DeregisterDocument\<close> removes exactly that name from the registered
  ones, never a static backend, and says whether it was there.\<close>

theorem backend_set_refines_map:
  assumes r: "svc_reach st s" and src: "src \<noteq> source_static"
  shows "(if b_name b \<in> b_name ` set st
      then (\<exists>e. RegisterDocument b src cm s = (Inl e, s) \<and> err_is e ErrConflict)
      else fst (RegisterDocument b src cm s) = Inr () \<and>
        abs_registered (snd (RegisterDocument b src cm s)) = (abs_registered s)(b_name b \<mapsto> (b, src)) \<and>
        map_of (sv_problems (snd (RegisterDocument b src cm s))) cm = None) \<and>
    abs_registered (snd (DeregisterDocument n cm p s)) = (abs_registered s)(n := None) \<and>
    (fst (DeregisterDocument n cm p s) \<longleftrightarrow> n \<in> dom (abs_registered s))"
proof -
  have c: "svc_core st s" using svc_reach_inv [OF r] by (simp add: svc_inv_def)
  show ?thesis using register_refines [OF c src] deregister_refines [OF c] by blast
qed

section \<open>Which backend a call addresses\<close>

text \<open>A named call addresses the backend of that name and an unnamed one the default
  (first) backend; the errors tell the cases apart: no backend at all is \<open>ErrNoBackend\<close>,
  an unknown name among configured backends \<open>ErrInvalid\<close>.\<close>

theorem named_addresses:
  assumes "svc_reach st s"
  shows "case named s n of
      Inr b \<Rightarrow> b \<in> set (sv_backends s) \<and>
        (if trim_space n = [] then b = hd (sv_backends s) else b_name b = trim_space n)
    | Inl e \<Rightarrow>
        if sv_backends s = [] then err_is e ErrNoBackend
        else err_is e ErrInvalid \<and> trim_space n \<noteq> [] \<and> trim_space n \<notin> set (names s)"
proof -
  note lk = svc_inv_lookup [OF svc_reach_inv [OF assms]]
  have nb: "err_is (noBackend s) ErrNoBackend" by (simp add: noBackend_def err_is_def)
  show ?thesis
  proof (cases "trim_space n = []")
    case True
    then show ?thesis using nb by (auto simp: named_def default_backend_def split: list.splits)
  next
    case False
    show ?thesis
    proof (cases "lookup_backend s (trim_space n)")
      case (Some b)
      with False lk [of "trim_space n" b] show ?thesis by (simp add: named_def)
    next
      case None
      then have "trim_space n \<notin> set (names s)" using lk [of "trim_space n"] unfolding names_def by (metis image_iff list.set_map option.distinct(1))
      with None False nb show ?thesis by (simp add: named_def)
    qed
  qed
qed

text \<open>The backends that hold a reference, and the errors of those that failed.\<close>

definition holders :: "string \<Rightarrow> 'w \<Rightarrow> 'w backend list \<Rightarrow> ('w backend \<times> model) list" where
  "holders r w bs =
     List.map_filter (\<lambda>b. case b_get_model b r w of Inr m \<Rightarrow> Some (b, m) | Inl e \<Rightarrow> None) bs"

definition refusals :: "string \<Rightarrow> 'w \<Rightarrow> 'w backend list \<Rightarrow> err list" where
  "refusals r w bs =
     List.map_filter (\<lambda>b. case b_get_model b r w of
        Inl e \<Rightarrow> if \<not> err_is e ErrNotFound \<and> err_is e ErrInvalid then Some e else None
      | Inr m \<Rightarrow> None) bs"

definition failures :: "string \<Rightarrow> 'w \<Rightarrow> 'w backend list \<Rightarrow> err list" where
  "failures r w bs =
     List.map_filter (\<lambda>b. case b_get_model b r w of
        Inl e \<Rightarrow> if err_is e ErrNotFound then None else Some (wrap_err (b_name b @ '': '') e [])
      | Inr m \<Rightarrow> None) bs"

lemma map_filter_Cons:
  "List.map_filter f (x # xs) = (case f x of None \<Rightarrow> List.map_filter f xs | Some y \<Rightarrow> y # List.map_filter f xs)"
  by (simp add: map_filter_def split: option.split)

lemma map_filter_Nil [simp]: "List.map_filter f [] = []"
  by (simp add: map_filter_def)

lemma resolve_loop_spec:
  "resolve_loop r w bs hits failure =
     (case refusals r w bs of
        e # _ \<Rightarrow> Inl e
      | [] \<Rightarrow> Inr (hits @ holders r w bs,
          (case failure of Some f \<Rightarrow> Some f
           | None \<Rightarrow> (case failures r w bs of [] \<Rightarrow> None | f # _ \<Rightarrow> Some f))))"
proof (induction bs arbitrary: hits failure)
  case Nil
  then show ?case by (simp add: refusals_def holders_def failures_def split: option.split)
next
  case (Cons b bs)
  then show ?case
    by (auto simp: refusals_def holders_def failures_def map_filter_Cons
        split: sum.split option.split list.split)
qed

text \<open>An unqualified reference resolves to the one backend that holds it: with several
  backends configured the answer is a holder only when it is the single one (and no backend
  finds the reference invalid); two or more holders are a conflict, none is not found, or the
  first failure when some backend could not tell.\<close>

theorem resolve_unqualified:
  assumes "trim_space n = []" "length (sv_backends s) \<noteq> 1" "trim_space r \<noteq> []"
  shows "resolve s n r w =
    (case refusals (trim_space r) w (sv_backends s) of
       e # _ \<Rightarrow> Inl e
     | [] \<Rightarrow>
         (case holders (trim_space r) w (sv_backends s) of
            [h] \<Rightarrow> Inr h
          | [] \<Rightarrow>
              (case failures (trim_space r) w (sv_backends s) of
                 f # _ \<Rightarrow> Inl f
               | [] \<Rightarrow> Inl (errw ErrNotFound (trim_space r @ '' is on none of the backends ('' @
                         joinNames (names s) @ '')'')))
          | hs \<Rightarrow> Inl (errw ErrConflict (trim_space r @ '' exists on '' @
                        joinNames (map (b_name \<circ> fst) hs) @ ''; name the backend''))))"
  using assms
  by (auto simp: resolve_def Let_def resolve_loop_spec split: list.split)

section \<open>Aggregate reads\<close>

definition answered :: "('w backend \<Rightarrow> 'a list res) \<Rightarrow> 'w backend list \<Rightarrow> 'a list" where
  "answered f ts = concat (List.map_filter (\<lambda>b. case f b of Inr xs \<Rightarrow> Some xs | Inl e \<Rightarrow> None) ts)"

definition failed :: "('w backend \<Rightarrow> 'a list res) \<Rightarrow> 'w backend list \<Rightarrow> (name \<times> err) list" where
  "failed f ts = List.map_filter (\<lambda>b. case f b of Inr xs \<Rightarrow> None | Inl e \<Rightarrow> Some (b_name b, e)) ts"

lemma fetch_all_spec:
  "fetch_all (\<lambda>b w. (f b, w)) ts w out errs = ((out @ answered f ts, errs @ failed f ts), w)"
  by (induction ts arbitrary: out errs)
     (auto simp: answered_def failed_def map_filter_Cons split: sum.split)

lemma length_failed: "length (failed f ts) = length ts \<longleftrightarrow> (\<forall>b\<in>set ts. \<exists>e. f b = Inl e)"
proof -
  have le: "length (failed f us) \<le> length us" for us
    by (induction us) (auto simp: failed_def map_filter_Cons split: sum.split)
  show ?thesis
  proof (induction ts)
    case (Cons b ts)
    then show ?case using le [of ts]
      by (cases "f b") (auto simp: failed_def map_filter_Cons)
  qed (simp add: failed_def)
qed

text \<open>An aggregate read loses nothing and hides nothing: unless every target fails it
  answers all items of the targets that answered, in order, together with the error text of
  each that failed; it fails only when there are targets and every one fails, a single
  target's error as is, and else with the kind of the first failure.\<close>

theorem aggregate_answers:
  "aggregate ts (\<lambda>b w. (f b, w)) w =
     (if ts \<noteq> [] \<and> list_all (\<lambda>b. case f b of Inl e \<Rightarrow> True | Inr xs \<Rightarrow> False) ts
      then (Inl (if length ts = 1 then snd (hd (failed f ts))
                 else Err (err_kinds (snd (hd (failed f ts)))) (''every backend failed: '' @
                        join ''; '' (map (\<lambda>(n, e). n @ '': '' @ err_msg e) (failed f ts)))), w)
      else (Inr (answered f ts, map (\<lambda>(n, e). (n, err_msg e)) (failed f ts)), w))"
proof -
  have "list_all (\<lambda>b. case f b of Inl e \<Rightarrow> True | Inr xs \<Rightarrow> False) ts \<longleftrightarrow> length (failed f ts) = length ts"
    unfolding length_failed list_all_iff by (metis (no_types, lifting) old.sum.exhaust sum.simps(5,6))
  then show ?thesis by (simp add: aggregate_def fetch_all_spec)
qed

end
