(* ===== verification/Wirer_Contract.thy ===== *)
theory Wirer_Contract
  imports Service_Plan Service_Registry
begin

text \<open>
  The \<open>Wirer\<close> interface as the service relies on it (\<open>internal/wiring/kagent.go\<close>), as
  locales over the record of its operations, and what the operations of the service keep by it.
  \<open>wirer_frame\<close>: the reads stay in a preorder \<open>R\<close> of worlds. \<open>wirer_writes\<close>: so do
  the writes. \<open>wirer_answers\<close>: what one call tells of the next.
\<close>

text \<open>What the writes of a backend do to the world stays in \<open>R\<close>.\<close>

definition frames :: "('w \<Rightarrow> 'w \<Rightarrow> bool) \<Rightarrow> 'w backend \<Rightarrow> bool" where
  "frames R b \<longleftrightarrow>
     (\<forall>x w. R w (snd (b_pull b x w))) \<and> (\<forall>x w. R w (snd (b_delete b x w))) \<and>
     (\<forall>x w. R w (snd (b_load b x w))) \<and> (\<forall>x w. R w (snd (b_unload b x w))) \<and>
     (\<forall>f x w. b_wait_ready b = Some f \<longrightarrow> R w (snd (f x w))) \<and>
     (\<forall>f x w. b_serve b = Some f \<longrightarrow> R w (snd (f x w))) \<and>
     (\<forall>f x w. b_stop b = Some f \<longrightarrow> R w (snd (f x w)))"

text \<open>So does a serve that is a dry run.\<close>

definition dry_serve :: "('w \<Rightarrow> 'w \<Rightarrow> bool) \<Rightarrow> 'w backend \<Rightarrow> bool" where
  "dry_serve R b \<longleftrightarrow>
     (\<forall>f x w. b_serve b = Some f \<longrightarrow> lr_dry_run x \<longrightarrow> R w (snd (f x w)))"

section \<open>The backends a call works on\<close>

lemma named_in: "svc_inv st s \<Longrightarrow> named s n = Inr b \<Longrightarrow> b \<in> set (sv_backends s)"
  using svc_inv_lookup [of st s]
  by (auto simp: named_def Let_def default_backend_def split: if_splits option.splits list.splits)

lemma resolve_loop_in:
  assumes "resolve_loop r w bs hits f = Inr (hs, g)" "fst ` set hits \<subseteq> A" "set bs \<subseteq> A"
  shows "fst ` set hs \<subseteq> A"
  using assms
  by (induction r w bs hits f rule: resolve_loop.induct) (force split: sum.splits if_splits)+

lemma resolve_in:
  assumes "svc_inv st s" "resolve s n r w = Inr (b, m)"
  shows "b \<in> set (sv_backends s)"
proof -
  have "b \<in> set (sv_backends s)" if "resolve_loop r' w (sv_backends s) [] None = Inr ([(b, m)], f)" for r' f
    using resolve_loop_in [OF that, of "set (sv_backends s)"] by simp
  with assms named_in [OF assms(1)] show ?thesis
    by (auto simp: resolve_def Let_def split: if_splits sum.splits list.splits option.splits)
qed

section \<open>Reads\<close>

locale wirer_frame =
  fixes wr :: "'w wirer_ops" and R :: "'w \<Rightarrow> 'w \<Rightarrow> bool"
  assumes R_refl: "R w w"
    and R_trans: "R u v \<Longrightarrow> R v w \<Longrightarrow> R u w"
    and lookup_R: "R w (snd (w_lookup wr b model w))"
    and list_R: "R w (snd (w_list wr w))"
    and list_all_R: "R w (snd (w_list_all wr w))"
    and render_R: "R w (snd (w_render wr model ep w))"
    and removal_R: "R w (snd (w_removal wr b model sc w))"
    and writable_R: "R w (snd (w_writable wr ep w))"
begin

text \<open>The same laws at an equation, with what precedes the call.\<close>

lemma reads_R:
  "w_lookup wr b model v = (r1, w1) \<Longrightarrow> R u v \<Longrightarrow> R u w1"
  "w_list wr v = (r2, w2) \<Longrightarrow> R u v \<Longrightarrow> R u w2"
  "w_list_all wr v = (r3, w3) \<Longrightarrow> R u v \<Longrightarrow> R u w3"
  "w_render wr model ep v = (r4, w4) \<Longrightarrow> R u v \<Longrightarrow> R u w4"
  "w_removal wr b model sc v = (r5, w5) \<Longrightarrow> R u v \<Longrightarrow> R u w5"
  "w_writable wr ep v = (r6, w6) \<Longrightarrow> R u v \<Longrightarrow> R u w6"
  by (metis R_trans lookup_R snd_conv, metis R_trans list_R snd_conv, metis R_trans list_all_R snd_conv,
      metis R_trans render_R snd_conv, metis R_trans removal_R snd_conv, metis R_trans writable_R snd_conv)

lemma endpointFor_R:
  assumes "endpointFor wr b model opts v = (r, w)" "R u v"
  shows "R u w"
  using assms
  by (auto simp: endpointFor_def foreignForEndpoint_def Let_def split: sum.splits option.splits if_splits prod.splits
      dest: reads_R(3))

lemma wiredIndex_R:
  assumes "wiredIndex s b v = (r, w)" "sv_wirer s \<in> {None, Some wr}" "R u v"
  shows "R u w"
  using assms
  by (auto simp: wiredIndex_def Let_def split: sum.splits option.splits if_splits prod.splits dest: reads_R(2,3))

lemma wiring_plan_of_R:
  assumes "wiring_plan_of wr b ns model opts v = (r, w)" "R u v"
  shows "R u w"
  using assms
  by (auto simp: wiring_plan_of_def split: sum.splits option.splits prod.splits
      dest: endpointFor_R reads_R(4))

lemma planWiring_R:
  assumes "planWiring s b model v = (r, w)" "sv_wirer s \<in> {None, Some wr}" "R u v"
  shows "R u w"
  using assms
  by (auto simp: planWiring_def split: sum.splits option.splits prod.splits dest: wiring_plan_of_R)

lemma unwiring_R:
  assumes "unwiring s b model v = (r, w)" "sv_wirer s \<in> {None, Some wr}" "R u v"
  shows "R u w"
  using assms by (auto simp: unwiring_def split: sum.splits option.splits prod.splits dest: reads_R(5))

lemma unwireTarget_R:
  assumes "unwireTarget s n rf v = (r, w)" "sv_wirer s \<in> {None, Some wr}" "R u v"
  shows "R u w"
  using assms
  by (auto simp: unwireTarget_def wiredBackends_def Let_def split: sum.splits option.splits prod.splits if_splits
      dest: reads_R(2))

lemma plan_removal_loop_R:
  assumes "plan_removal_loop wr n rs out v = (r, w)" "R u v"
  shows "R u w"
  using assms
  by (induction rs arbitrary: out v) (auto split: if_splits sum.splits prod.splits dest: reads_R(5))

text \<open>The dry runs of the service.\<close>

lemma PlanPull_R:
  assumes "sv_wirer s \<in> {None, Some wr}"
  shows "R w (snd (PlanPull s opts w))"
  using R_refl [of w]
  by (auto simp: PlanPull_def Let_def split: sum.splits prod.splits dest: planWiring_R [OF _ assms])

lemma PlanLoad_R:
  assumes wr: "sv_wirer s \<in> {None, Some wr}" and inv: "svc_inv st s"
    and dry: "\<forall>b\<in>set (sv_backends s). dry_serve R b"
  shows "R w (snd (PlanLoad s opts w))"
proof (cases "loadTarget s opts w")
  case (Inl e)
  then show ?thesis by (simp add: PlanLoad_def R_refl)
next
  case (Inr t)
  then obtain b m req where t: "loadTarget s opts w = Inr (b, m, req)" by (cases t) auto
  then have "b \<in> set (sv_backends s)"
    by (auto simp: loadTarget_def Let_def split: sum.splits if_splits dest: resolve_in [OF inv])
  with dry have "R w (snd (f (req\<lparr>lr_dry_run := True\<rparr>) w))" if "b_serve b = Some f" for f
    using that by (auto simp: dry_serve_def)
  then have served: "R w v" if "b_serve b = Some f" "f (req\<lparr>lr_dry_run := True\<rparr>) w = (r, v)" for f r v
    using that by (metis snd_conv)
  show ?thesis
    using R_refl [of w]
    by (auto simp: PlanLoad_def t Let_def split: sum.splits prod.splits option.splits
        dest: planWiring_R [OF _ wr] served)
qed

lemma PlanUnload_R:
  assumes "sv_wirer s \<in> {None, Some wr}"
  shows "R w (snd (PlanUnload s n rf w))"
  using R_refl [of w]
  by (auto simp: PlanUnload_def planUnload_def Let_def split: sum.splits prod.splits option.splits
      dest: unwiring_R [OF _ assms])

lemma PlanDelete_R:
  assumes "sv_wirer s \<in> {None, Some wr}"
  shows "R w (snd (PlanDelete s n rf unwire w))"
  using R_refl [of w]
  by (auto simp: PlanDelete_def Let_def split: sum.splits prod.splits option.splits
      dest: unwiring_R [OF _ assms])

lemma PlanWire_R:
  assumes "sv_wirer s \<in> {None, Some wr}"
  shows "R w (snd (PlanWire s n rf opts w))"
  using R_refl [of w] assms
  by (auto simp: PlanWire_def split: sum.splits prod.splits option.splits intro: wiring_plan_of_R [OF prod.collapse [symmetric]])

lemma PlanUnwire_R:
  assumes "sv_wirer s \<in> {None, Some wr}"
  shows "R w (snd (PlanUnwire s n rf w))"
proof (cases "unwireTarget s n rf w")
  case (Pair r v)
  note v = unwireTarget_R [OF Pair assms R_refl]
  then show ?thesis using assms
    by (auto simp: PlanUnwire_def Pair split: sum.splits prod.splits option.splits dest: reads_R(5))
qed

lemma PlanBackendRemoval_R:
  assumes "sv_wirer s \<in> {None, Some wr}"
  shows "R w (snd (PlanBackendRemoval s n w))"
  using R_refl [of w] assms
  by (auto simp: PlanBackendRemoval_def split: sum.splits prod.splits option.splits
      dest!: reads_R(2) [OF _ R_refl] intro: plan_removal_loop_R [OF prod.collapse [symmetric]])

end

section \<open>Writes\<close>

locale wirer_writes = wirer_frame +
  assumes ensure_R: "R w (snd (w_ensure wr model ep w))"
    and remove_R: "R w (snd (w_remove wr b model sc w))"
begin

lemma writes_R:
  "w_ensure wr model ep v = (r1, w1) \<Longrightarrow> R u v \<Longrightarrow> R u w1"
  "w_remove wr b model sc v = (r2, w2) \<Longrightarrow> R u v \<Longrightarrow> R u w2"
  by (metis R_trans ensure_R snd_conv, metis R_trans remove_R snd_conv)

lemma wireModel_R:
  assumes "wireModel wr b model opts v = (r, w)" "R u v"
  shows "R u w"
  using assms
  by (auto simp: wireModel_def split: sum.splits option.splits prod.splits dest: endpointFor_R writes_R(1))

lemma wire_R:
  assumes "wire wr b model why v = (r, w)" "R u v"
  shows "R u w"
  using assms by (auto simp: wire_def split: sum.splits prod.splits dest: wireModel_R)

lemma loaded_views_loop_R:
  assumes "loaded_views_loop s b joins wired ls v = (r, w)" "joins \<in> {None, Some wr}" "R u v"
  shows "R u w"
  using assms
  by (induction s b joins wired ls v arbitrary: r w rule: loaded_views_loop.induct)
     (auto simp: Let_def split: option.splits prod.splits if_splits dest: wire_R)

lemma loadedViews_R:
  assumes "loadedViews s b ls v = (r, w)" "sv_wirer s \<in> {None, Some wr}" "R u v"
  shows "R u w"
  using assms
  by (auto simp: loadedViews_def Let_def split: prod.splits if_splits dest: wiredIndex_R loaded_views_loop_R)

lemma fetch_all_R:
  assumes "fetch_all fetch bs v out errs = (r, w)" "R u v"
    and "\<And>b v r w. fetch b v = (r, w) \<Longrightarrow> R u v \<Longrightarrow> R u w"
  shows "R u w"
  using assms(1,2)
  by (induction bs arbitrary: v out errs) (auto split: sum.splits prod.splits dest: assms(3))

lemma ListLoaded_R:
  assumes "sv_wirer s \<in> {None, Some wr}"
  shows "R w (snd (ListLoaded s n w))"
proof -
  let ?fetch = "\<lambda>b w. case b_list_loaded b w of
              Inl e \<Rightarrow> (Inl e, w)
            | Inr loaded \<Rightarrow> (case loadedViews s b loaded w of (vs, w) \<Rightarrow> (Inr vs, w))"
  have "R u w'" if "?fetch b v = (r, w')" "R u v" for b v r w' u
    using that by (auto split: sum.splits prod.splits dest: loadedViews_R [OF _ assms])
  then have "R w v" if "fetch_all ?fetch ts w [] [] = (r, v)" for ts r v
    using fetch_all_R [OF that R_refl] by blast
  then show ?thesis
    by (auto simp: ListLoaded_def aggregate_def R_refl split: sum.splits prod.splits)
qed

lemma pull_job_R:
  assumes "frames R b" "sv_wirer s \<in> {None, Some wr}"
  shows "R w (snd (pull_job s b req do_wire w))"
proof -
  have "R w (snd (b_pull b req w))" using assms(1) by (simp add: frames_def)
  then have "R w v" if "b_pull b req w = (r, v)" for r v using that by simp
  then show ?thesis using assms(2)
    by (auto simp: pull_job_def split: sum.splits prod.splits option.splits if_splits dest: wireModel_R)
qed

lemma load_job_R:
  assumes "frames R b" "b_wait_ready b = Some f"
  shows "R w (snd (load_job wr b f model rf ended w))"
proof -
  have "R w (snd (f model w))" using assms by (simp add: frames_def)
  then have "R w v" if "f model w = (r, v)" for r v using that by simp
  then show ?thesis
    by (auto simp: load_job_def split: sum.splits prod.splits if_splits dest: wireModel_R)
qed

lemma loadedView_R:
  assumes "loadedView s b m v = (r, w)" "sv_wirer s \<in> {None, Some wr}" "R u v"
  shows "R u w"
  using assms
  by (auto simp: loadedView_def GetModel_def Let_def split: sum.splits prod.splits dest: wiredIndex_R)

lemma call_load_R:
  assumes "call_load b req v = (r, w)" "frames R b" "R u v"
  shows "R u w"
proof -
  have "R u w'" if "b_load b req v = (r', w')" for r' w'
    using assms(2,3) that R_trans by (metis frames_def snd_conv)
  moreover have "R u w'" if "b_serve b = Some f" "f req v = (r', w')" for f r' w'
    using assms(2,3) that R_trans by (metis frames_def snd_conv)
  ultimately show ?thesis using assms(1)
    by (auto simp: call_load_def split: sum.splits prod.splits option.splits)
qed

lemma Load_R:
  assumes wr: "sv_wirer s \<in> {None, Some wr}" and inv: "svc_inv st s"
    and fr: "\<forall>b\<in>set (sv_backends s). frames R b"
  shows "R w (snd (snd (Load s opts env jm w)))"
proof (cases "loadTarget s opts w")
  case (Inl e)
  then show ?thesis by (simp add: Load_def R_refl)
next
  case (Inr t)
  then obtain b m req where t: "loadTarget s opts w = Inr (b, m, req)" by (cases t) auto
  then have "b \<in> set (sv_backends s)"
    by (auto simp: loadTarget_def Let_def split: sum.splits if_splits dest: resolve_in [OF inv])
  with fr have f: "frames R b" by blast
  obtain r v where c: "call_load b req w = (r, v)" by fastforce
  have v: "R w v" using call_load_R [OF c f R_refl] .
  show ?thesis
    using v wr
    by (auto simp: Load_def t c Let_def split: sum.splits prod.splits option.splits if_splits)
       (metis loadedView_R [OF _ wr] wire_R wireModel_R)+
qed

lemma stop_model_R:
  assumes inv: "svc_inv st s" and fr: "\<forall>b\<in>set (sv_backends s). frames R b"
    and st: "stop_model s n rf v = (r, w)" and u: "R u v"
  shows "R u w"
proof -
  have "R u w'" if "b \<in> set (sv_backends s)" "b_unload b x v = (r', w')" for b x r' w'
    using fr u that R_trans by (metis frames_def snd_conv)
  moreover have "R u w'" if "b \<in> set (sv_backends s)" "b_stop b = Some f" "f x v = (r', w')" for b f x r' w'
    using fr u that R_trans by (metis frames_def snd_conv)
  ultimately show ?thesis
    using st u named_in [OF inv] resolve_in [OF inv]
    by (auto simp: stop_model_def stop_addressed_def split: sum.splits prod.splits option.splits if_splits) blast+
qed

lemma Unload_R:
  assumes wr: "sv_wirer s \<in> {None, Some wr}" and inv: "svc_inv st s"
    and fr: "\<forall>b\<in>set (sv_backends s). frames R b"
  shows "R w (snd (snd (Unload s settle n rf env jm w)))"
proof (cases "stop_model s n rf w")
  case (Pair r v)
  note v = stop_model_R [OF inv fr Pair R_refl]
  then show ?thesis using wr
    by (auto simp: Unload_def Pair Let_def split: sum.splits prod.splits option.splits if_splits dest: writes_R(2))
qed

lemma Delete_R:
  assumes wr: "sv_wirer s \<in> {None, Some wr}" and inv: "svc_inv st s"
    and fr: "\<forall>b\<in>set (sv_backends s). frames R b"
  shows "R w (snd (Delete s n rf unwire w))"
proof (cases "resolve s n rf w")
  case (Inl e)
  then show ?thesis by (simp add: Delete_def R_refl)
next
  case (Inr t)
  then obtain b m where t: "resolve s n rf w = Inr (b, m)" by (cases t) auto
  then have "frames R b" using resolve_in [OF inv] fr by blast
  then have del: "R w v'" if "b_delete b x v = (r, v')" "R w v" for x v r v'
    using that R_trans by (metis frames_def snd_conv)
  show ?thesis using wr R_refl [of w]
    by (auto simp: Delete_def t split: sum.splits prod.splits option.splits if_splits
        dest!: writes_R(2) [OF _ R_refl] intro: del)
qed

lemma Wire_R:
  assumes "sv_wirer s \<in> {None, Some wr}"
  shows "R w (snd (Wire s n rf opts w))"
  using R_refl [of w] assms
  by (auto simp: Wire_def split: sum.splits prod.splits option.splits intro: wireModel_R [OF prod.collapse [symmetric]])

lemma Unwire_R:
  assumes "sv_wirer s \<in> {None, Some wr}"
  shows "R w (snd (Unwire s n rf w))"
proof (cases "unwireTarget s n rf w")
  case (Pair r v)
  note v = unwireTarget_R [OF Pair assms R_refl]
  then show ?thesis using assms
    by (auto simp: Unwire_def Pair split: sum.splits prod.splits option.splits)
       (metis reads_R(1) writes_R(2))+
qed

lemma reconcile_loop_R:
  assumes "reconcile_loop wr b wired now ls jm v = (jm', w)" "R u v"
  shows "R u w"
  using assms
  by (induction ls arbitrary: jm v) (auto split: if_splits prod.splits bool.splits dest: wireModel_R)

lemma refresh_loop_R:
  assumes "R u v"
  shows "R u (refresh_loop s wr b rs v)"
  using assms
  by (induction rs arbitrary: v) (auto split: sum.splits prod.splits dest: reads_R(6) wireModel_R)

lemma run_tick_R:
  assumes "run_tick s wr now bs jm v = (jm', w)" "sv_wirer s \<in> {None, Some wr}" "R u v"
  shows "R u w"
  using assms
proof (induction bs arbitrary: jm v)
  case (Cons b bs)
  have "R u w'" if "reconcileWiring s wr b now jm v = (j, w')" for j w'
    using that Cons.prems(2,3)
    by (auto simp: reconcileWiring_def split: sum.splits prod.splits dest: wiredIndex_R reconcile_loop_R)
  moreover have "R u (refreshModelConfigs s wr b v)"
    using Cons.prems(3)
    by (auto simp: refreshModelConfigs_def split: sum.splits prod.splits dest: reads_R(2) intro: refresh_loop_R)
  ultimately show ?case using Cons by (auto split: if_splits prod.splits)
qed simp

lemma unwire_loop_R:
  assumes "R u v"
  shows "R u (snd (unwire_loop wr n rs removed v))"
  using assms
  by (induction rs arbitrary: removed v) (auto split: sum.splits prod.splits dest: writes_R(2))

lemma UnwireBackend_R:
  assumes "sv_wirer s \<in> {None, Some wr}"
  shows "R w (snd (UnwireBackend s n w))"
  using R_refl [of w] assms
  by (auto simp: UnwireBackend_def split: sum.splits prod.splits option.splits dest!: reads_R(2) [OF _ R_refl] intro: unwire_loop_R)

end

section \<open>What one call tells of the next\<close>

text \<open>A delete whose unwiring was refused has deleted nothing.\<close>

lemma Delete_refused:
  assumes "resolve s n rf w = Inr (b, m)" "cap_delete (b_caps b)" "sv_wirer s = Some wr"
    and "w_remove wr (b_name b) (m_name m) CreatedHere w = (Inl e, w2)"
  shows "\<exists>e'. Delete s n rf True w = ((b_name b, Some e'), w2) \<and> err_kinds e' = err_kinds e"
  using assms by (simp add: Delete_def wrap_err_def)

locale wirer_answers =
  fixes wr :: "'w wirer_ops" and good :: "'w \<Rightarrow> bool" and same :: "'w \<Rightarrow> 'w \<Rightarrow> bool"
  assumes same_refl: "same w w"
    and ensure_lookup: "good w \<Longrightarrow> ep_name ep = [] \<Longrightarrow> w_ensure wr model ep w = (Inr r, w') \<Longrightarrow>
      fst (w_lookup wr (ep_backend ep) model w') = Inr (Some r)"
    and removal_left: "good w \<Longrightarrow> w_removal wr b model sc w = (Inr d, w') \<Longrightarrow> rn_left d = Some left \<Longrightarrow>
      fst (w_remove wr b model sc w') = Inl (not_owned_err left) \<and> same w' (snd (w_remove wr b model sc w'))"
    and removal_gitops: "good w \<Longrightarrow> w_removal wr b model sc w = (Inr d, w') \<Longrightarrow> rn_left d = None \<Longrightarrow>
      rn_gitops d = Some ow \<Longrightarrow> (\<exists>e. fst (w_remove wr b model sc w') = Inl e \<and> err_is e ErrGitOpsOwned) \<and>
      same w' (snd (w_remove wr b model sc w'))"
begin

text \<open>A wiring the service wrote for a backend that wires under its own names is what the
  next lookup of that model on that backend answers.\<close>

lemma wireModel_lookup:
  assumes "good w" "\<not> serveLifecycle b" "ep_name (b_endpoint b x w) = []"
    and x: "x = (case b_get_model b model w of Inr m \<Rightarrow> if m_preset m = [] then m_name m else model | Inl e \<Rightarrow> model)"
    and wired: "wireModel wr b model opts w = (Inr r, w')"
  shows "fst (w_lookup wr (b_name b)
      (case b_get_model b model w of Inr m \<Rightarrow> m_name m | Inl e \<Rightarrow> model) w') = Inr (Some r)"
proof -
  let ?nm = "case b_get_model b model w of Inr m \<Rightarrow> m_name m | Inl e \<Rightarrow> model"
  let ?fit = "case b_get_model b model w of Inr m \<Rightarrow> m | Inl e \<Rightarrow> zero_model"
  let ?ep = "(fit_to (apply_opts opts (b_endpoint b x w)) ?fit)\<lparr>ep_backend := b_name b\<rparr>"
  have "endpointFor wr b model opts w =
      (case ep_validate ?ep of Some e \<Rightarrow> (Inl e, w) | None \<Rightarrow> (Inr (?nm, ?ep, None), w))"
    using assms(2) by (cases "b_get_model b model w") (simp_all add: endpointFor_def Let_def x split: option.split)
  with wired have "w_ensure wr ?nm ?ep w = (Inr r, w')"
    by (auto simp: wireModel_def split: option.splits)
  moreover have "ep_name ?ep = []"
    using assms(3) by (simp add: fit_to_def apply_opts_def Let_def)
  ultimately show ?thesis using ensure_lookup [OF assms(1)] by fastforce
qed

text \<open>The dry run of a delete and the delete: where the removal would leave the ModelConfig of
  another instance, both refuse; where it is applied from git, the plan names the owner and the delete
  refuses; a refused delete leaves the world as it was, the weights included.\<close>

lemma PlanDelete_Delete:
  assumes good: "good w" and wr: "sv_wirer s = Some wr"
    and rm: "w_removal wr (b_name b) (m_name m) CreatedHere w = (rm, w')"
    and reads: "resolve s n rf w' = resolve s n rf w" "resolve s n rf w = Inr (b, m)"
    and del: "cap_delete (b_caps b)"
  shows "case rm of
      Inl e \<Rightarrow> PlanDelete s n rf True w = (Inl e, w')
    | Inr d \<Rightarrow> (case rn_left d of
        Some left \<Rightarrow>
          (\<exists>e. PlanDelete s n rf True w = (Inl e, w') \<and> err_as_not_owned e = Some left) \<and>
          (\<exists>e. fst (Delete s n rf True w') = (b_name b, Some e) \<and> err_as_not_owned e = Some left) \<and>
          same w' (snd (Delete s n rf True w'))
      | None \<Rightarrow>
          (\<exists>p q. PlanDelete s n rf True w = (Inr p, w') \<and> op_wiring p = Some q \<and> pl_gitops q = rn_gitops d \<and>
             pl_objects q = rn_objects d) \<and>
          (case rn_gitops d of None \<Rightarrow> True | Some ow \<Rightarrow>
             (\<exists>e. fst (Delete s n rf True w') = (b_name b, Some e) \<and> err_is e ErrGitOpsOwned) \<and>
             same w' (snd (Delete s n rf True w'))))"
proof -
  obtain e2 w2 where r2: "w_remove wr (b_name b) (m_name m) CreatedHere w' = (e2, w2)" by fastforce
  show ?thesis
  proof (cases rm)
    case (Inl e)
    then show ?thesis using rm reads del wr by (simp add: PlanDelete_def unwiring_def Let_def)
  next
    case d: (Inr d)
    show ?thesis
    proof (cases "rn_left d")
      case None
      have "(\<exists>e. fst (Delete s n rf True w') = (b_name b, Some e) \<and> err_is e ErrGitOpsOwned) \<and>
          same w' (snd (Delete s n rf True w'))" if "rn_gitops d = Some ow" for ow
        using removal_gitops [OF good rm [unfolded d] None that] r2 Delete_refused [of s n rf w' b m wr _ w2] reads del wr
        by (force simp: err_is_def)
      then show ?thesis using d None rm reads del wr
        by (auto simp: PlanDelete_def unwiring_def fill_def empty_op_plan_def Let_def split: option.splits)
    next
      case (Some left)
      have "(\<exists>e. fst (Delete s n rf True w') = (b_name b, Some e) \<and> err_as_not_owned e = Some left) \<and>
          same w' (snd (Delete s n rf True w'))"
        using removal_left [OF good rm [unfolded d] Some] r2 Delete_refused [of s n rf w' b m wr _ w2] reads del wr
        by (force simp: err_as_not_owned_def not_owned_err_def)
      then show ?thesis using d Some rm reads del wr
        by (auto simp: PlanDelete_def unwiring_def fill_def empty_op_plan_def Let_def err_as_not_owned_def
            not_owned_err_def wrap_err_def)
    qed
  qed
qed

end

end
