(* ===== verification/Wiring_Correct.thy ===== *)
theory Wiring_Correct
  imports Wiring
begin

text \<open>
  What the wirer promises. First the frame of every operation: what of the cluster and of
  the wirer it can change (\<open>same_env\<close>, \<open>same_wirer\<close>), and which ModelConfigs a write
  may take away or replace. Then the properties: a removal and an \<open>Ensure\<close> touch only
  ModelConfigs this instance may write, a dry run tells what the write does, a lookup after an
  \<open>Ensure\<close> answers what the \<open>Ensure\<close> answered, and the smaller contracts (readiness,
  references, versions).
\<close>

section \<open>Frames\<close>

definition same_env :: "cluster \<Rightarrow> cluster \<Rightarrow> bool" where
  "same_env c c' \<longleftrightarrow>
     cl_now c' = cl_now c \<and> cl_status_sub c' = cl_status_sub c \<and> cl_served c' = cl_served c \<and>
     cl_kss c' = cl_kss c \<and> cl_refs c' = cl_refs c \<and> cl_openapi c' = cl_openapi c \<and>
     cl_fail c' = cl_fail c"

lemma same_env_refl [simp]: "same_env c c"
  by (simp add: same_env_def)

lemma same_env_trans: "same_env a b \<Longrightarrow> same_env b c \<Longrightarrow> same_env a c"
  by (simp add: same_env_def)

text \<open>The wirer but for its schema cache.\<close>

definition same_wirer :: "wirer \<Rightarrow> wirer \<Rightarrow> bool" where
  "same_wirer k k' \<longleftrightarrow> k\<lparr>k_fields := None\<rparr> = k'\<lparr>k_fields := None\<rparr>"

lemma same_wirer_fields:
  assumes "same_wirer k k'"
  shows "k_namespace k' = k_namespace k" "k_prefix k' = k_prefix k" "k_instance k' = k_instance k"
    "k_group k' = k_group k" "k_version k' = k_version k" "k_discover k' = k_discover k"
    "k_discovered k' = k_discovered k"
  using assms by (cases k; cases k'; simp add: same_wirer_def)+

lemma same_wirer_refl [simp]: "same_wirer k k"
  by (simp add: same_wirer_def)

lemma ollamaFields_same_wirer: "ollamaFields k c = (r, k') \<Longrightarrow> same_wirer k k'"
  by (auto simp: ollamaFields_def same_wirer_def split: option.splits sum.splits if_splits)

lemma writable_same_wirer: "writable ep k c = (r, k') \<Longrightarrow> same_wirer k k'"
  by (auto simp: writable_def split: if_splits sum.splits prod.splits dest: ollamaFields_same_wirer)

lemma writable_keeps:
  assumes "writable ep k c = (Inr ep', k')"
  shows "ep' = ep \<or> ep' = ep\<lparr>ep_think := None\<rparr>"
  using assms by (auto simp: writable_def split: if_splits sum.splits prod.splits)

lemma plan_same_wirer: "plan model ep k c = (r, k') \<Longrightarrow> same_wirer k k'"
  by (auto simp: plan_def split: if_splits option.splits sum.splits prod.splits
      dest: writable_same_wirer)

subsection \<open>The calls\<close>

lemma api_Inr: "api c call answer = Inr x \<longleftrightarrow> cl_fail c call = None \<and> answer = Inr x"
  by (auto simp: api_def split: option.splits)

lemma api_same_env: "same_env c c' \<Longrightarrow> api c' call answer = api c call answer"
  by (simp add: api_def same_env_def)

lemma applying_same_env:
  assumes "same_env c c'"
  shows "applying c' x = applying c x"
proof -
  have "api_get_ks c' ns n = api_get_ks c ns n" for ns n
    using assms by (simp add: api_get_ks_def api_def same_env_def)
  then have "labelling c' ow x = labelling c ow x" for ow
    by (simp add: labelling_def)
  then show ?thesis by (cases "owner_of (o_labels x)") (simp_all add: applying_def)
qed

lemma referrers_same_env:
  assumes "same_env c c'"
  shows "referrers k c' x = referrers k c x"
proof -
  have "api_list_refs c' g v r ns = api_list_refs c g v r ns" for g v r ns
    using assms by (simp add: api_list_refs_def api_def same_env_def)
  then have "referrers_in k c' ns n rs acc = referrers_in k c ns n rs acc" for ns n rs acc
    by (induction rs arbitrary: acc) (simp_all split: sum.splits)
  then show ?thesis by (simp add: referrers_def)
qed

lemma create_secret_frame:
  "api_create_secret c s = (r, c') \<Longrightarrow> same_env c c' \<and> cl_mcs c' = cl_mcs c \<and> cl_rev c' = cl_rev c"
  by (auto simp: api_create_secret_def same_env_def split: sum.splits)

lemma delete_secret_frame:
  "api_delete_secret c ns n = (r, c') \<Longrightarrow> same_env c c' \<and> cl_mcs c' = cl_mcs c \<and> cl_rev c' = cl_rev c"
  by (auto simp: api_delete_secret_def same_env_def split: sum.splits)

lemma ensurePlaceholderSecret_frame:
  "ensurePlaceholderSecret k n c = (r, c') \<Longrightarrow>
     same_env c c' \<and> cl_mcs c' = cl_mcs c \<and> cl_rev c' = cl_rev c"
  by (auto simp: ensurePlaceholderSecret_def Let_def split: sum.splits if_splits prod.splits
      dest!: create_secret_frame)

lemma removePlaceholderSecret_frame:
  "removePlaceholderSecret k n c = (r, c') \<Longrightarrow>
     same_env c c' \<and> cl_mcs c' = cl_mcs c \<and> cl_rev c' = cl_rev c"
  by (auto simp: removePlaceholderSecret_def Let_def
      split: sum.splits if_splits prod.splits option.splits dest!: delete_secret_frame)

lemma delete_mc_frame:
  assumes "api_delete_mc c g v ns n = (r, c')"
  shows "same_env c c'" "cl_secrets c' = cl_secrets c" "cl_rev c' = cl_rev c"
    "cl_mcs c' = cl_mcs c \<or>
     cl_mcs c' = (cl_mcs c)(g := filter (\<lambda>m. \<not> keyed ns n m) (cl_mcs c g))"
  using assms by (auto simp: api_delete_mc_def same_env_def split: sum.splits)

text \<open>A removal takes away at most the ModelConfig of that name in the wirer's namespace and
  group; when it answers no error the name is gone.\<close>

lemma removeObj_frame:
  assumes "removeObj k n c = (r, c')"
  shows "same_env c c'" "cl_rev c' = cl_rev c"
    "cl_mcs c' = cl_mcs c \<or>
     cl_mcs c' = (cl_mcs c)(k_group k := filter (\<lambda>m. \<not> keyed (k_namespace k) n m) (cl_mcs c (k_group k)))"
proof -
  obtain r1 c1 where d: "api_delete_mc c (k_group k) (k_version k) (k_namespace k) n = (r1, c1)"
    by fastforce
  note f = delete_mc_frame [OF d]
  have "(c' = c1 \<or> removePlaceholderSecret k n c1 = (r, c'))"
    using assms d by (auto simp: removeObj_def split: sum.splits if_splits)
  then have "same_env c1 c' \<and> cl_mcs c' = cl_mcs c1 \<and> cl_rev c' = cl_rev c1"
    using removePlaceholderSecret_frame by fastforce
  then show "same_env c c'" "cl_rev c' = cl_rev c"
    "cl_mcs c' = cl_mcs c \<or>
     cl_mcs c' = (cl_mcs c)(k_group k := filter (\<lambda>m. \<not> keyed (k_namespace k) n m) (cl_mcs c (k_group k)))"
    using f same_env_trans by auto
qed

lemma create_mc_frame:
  assumes "api_create_mc c g v m = (r, c')"
  shows "same_env c c'" "cl_secrets c' = cl_secrets c"
    "(\<exists>e. r = Inl e \<and> c' = c) \<or>
     (stored c g (o_namespace m) (o_name m) = None \<and> cl_fail c (CreateMC g v (o_namespace m) (o_name m)) = None \<and>
      List.member (cl_served c g) v \<and>
      (let m' = m\<lparr>mc_uid := Suc (cl_rev c), mc_rv := Suc (cl_rev c)\<rparr>
       in r = Inr (at_version g v m') \<and> cl_mcs c' = (cl_mcs c)(g := cl_mcs c g @ [m'])))"
  using assms
  by (auto simp: api_create_mc_def same_env_def api_Inr Let_def split: sum.splits if_splits)

lemma update_mc_frame:
  assumes "api_update_mc c g v m = (r, c')"
  shows "same_env c c'" "cl_secrets c' = cl_secrets c"
    "(\<exists>e. r = Inl e \<and> c' = c) \<or>
     (\<exists>old. stored c g (o_namespace m) (o_name m) = Some old \<and> mc_rv m = mc_rv old \<and>
      (let m' = m\<lparr>mc_uid := mc_uid old, mc_rv := Suc (cl_rev c),
                  mc_status := (if cl_status_sub c then mc_status old else mc_status m)\<rparr>
       in r = Inr (at_version g v m') \<and> cl_mcs c' = (cl_mcs c)(g := put_mc m' (cl_mcs c g))))"
  using assms
  by (auto simp: api_update_mc_def same_env_def api_Inr Let_def split: sum.splits if_splits option.splits)

section \<open>What a removal may take\<close>

text \<open>Kubernetes keeps one object of a name in a namespace.\<close>

definition mc_key :: "mconfig \<Rightarrow> string \<times> string" where
  "mc_key m = (o_namespace m, o_name m)"

definition wf_store :: "cluster \<Rightarrow> bool" where
  "wf_store c \<longleftrightarrow> (\<forall>g. distinct (map mc_key (cl_mcs c g)))"

text \<open>What a removal in a scope may delete: a managed ModelConfig Flux does not apply, created
  by this instance or, in scope \<open>Unclaimed\<close>, by none and referenced by nothing.\<close>

definition removable :: "wirer \<Rightarrow> cluster \<Rightarrow> scope \<Rightarrow> mconfig \<Rightarrow> bool" where
  "removable k c sc x \<longleftrightarrow>
     get_label (o_labels x) ManagedByLabel = ManagedByValue \<and> applying c x = Inr None \<and>
     (createdHere k x \<or>
      sc = Unclaimed \<and> get_label (o_labels x) InstanceLabel = [] \<and> referrers k c x = Inr [])"

lemma kept_None:
  "kept k c x sc = Inr None \<longleftrightarrow>
     createdHere k x \<or>
     sc = Unclaimed \<and> get_label (o_labels x) InstanceLabel = [] \<and> referrers k c x = Inr []"
  by (auto simp: kept_def split: sum.splits)

lemma managed_selector_label:
  "managed_selector ls \<Longrightarrow> get_label ls ManagedByLabel = ManagedByValue"
  by (simp add: managed_selector_def get_label_def)

lemma at_version_fields [simp]:
  "o_group (at_version g v m) = g" "o_version (at_version g v m) = v"
  "o_kind (at_version g v m) = o_kind m" "o_namespace (at_version g v m) = o_namespace m"
  "o_name (at_version g v m) = o_name m" "o_labels (at_version g v m) = o_labels m"
  "mc_annotations (at_version g v m) = mc_annotations m" "mc_spec (at_version g v m) = mc_spec m"
  "mc_status (at_version g v m) = mc_status m" "mc_rv (at_version g v m) = mc_rv m"
  "mc_uid (at_version g v m) = mc_uid m"
  by (simp_all add: at_version_def)

lemma match_mc_Some:
  assumes "match_mc k items b model = Some x"
  shows "x \<in> set items \<and> backendMatches x b"
  using assms by (auto simp: match_mc_def split: option.splits dest!: find_Some)

lemma list_mcs_Inr:
  "api_list_mcs c g v ns sel = Inr items \<Longrightarrow>
     items = map (at_version g v) (filter (\<lambda>m. o_namespace m = ns \<and> sel (o_labels m)) (cl_mcs c g))"
  by (auto simp: api_list_mcs_def api_Inr split: if_splits)

lemma list_mcs_items:
  assumes "api_list_mcs c g v ns sel = Inr items" "x \<in> set items"
  shows "\<exists>m\<in>set (cl_mcs c g). x = at_version g v m \<and> o_namespace m = ns \<and> sel (o_labels m)"
  using assms list_mcs_Inr by fastforce

lemma find_mc_Some:
  assumes "find_mc k c b model = Inr (Some x)"
  shows "managed_selector (o_labels x)" "o_namespace x = k_namespace k" "backendMatches x b"
    "(\<exists>m\<in>set (cl_mcs c (k_group k)). x = at_version (k_group k) (k_version k) m) \<or>
     (k_group k = KagentGroup \<and>
      (\<exists>m\<in>set (cl_mcs c LegacyKagentGroup). x = at_version LegacyKagentGroup (k_version k) m))"
proof -
  obtain items where l: "api_list_mcs c (k_group k) (k_version k) (k_namespace k) managed_selector = Inr items"
    using assms by (auto simp: find_mc_def split: sum.splits)
  consider (here) "match_mc k items b model = Some x"
    | (legacy) legacy where "legacyGitOps k c managed_selector = Inr legacy"
        "match_mc k legacy b model = Some x"
    using assms l by (auto simp: find_mc_def split: option.splits sum.splits)
  then have "managed_selector (o_labels x) \<and> o_namespace x = k_namespace k \<and> backendMatches x b \<and>
    ((\<exists>m\<in>set (cl_mcs c (k_group k)). x = at_version (k_group k) (k_version k) m) \<or>
     (k_group k = KagentGroup \<and>
      (\<exists>m\<in>set (cl_mcs c LegacyKagentGroup). x = at_version LegacyKagentGroup (k_version k) m)))"
  proof cases
    case here
    then show ?thesis using list_mcs_items [OF l] match_mc_Some by fastforce
  next
    case (legacy legacy)
    have x: "x \<in> set legacy" "backendMatches x b" using match_mc_Some [OF legacy(2)] by auto
    then have g: "k_group k = KagentGroup"
      using legacy(1) by (auto simp: legacyGitOps_def split: if_splits)
    with legacy(1) x(1) obtain items' where
      "api_list_mcs c LegacyKagentGroup (k_version k) (k_namespace k) managed_selector = Inr items'"
      "x \<in> set items'"
      by (auto simp: legacyGitOps_def split: sum.splits if_splits)
    with g x(2) show ?thesis using list_mcs_items by fastforce
  qed
  then show "managed_selector (o_labels x)" "o_namespace x = k_namespace k" "backendMatches x b"
    "(\<exists>m\<in>set (cl_mcs c (k_group k)). x = at_version (k_group k) (k_version k) m) \<or>
     (k_group k = KagentGroup \<and>
      (\<exists>m\<in>set (cl_mcs c LegacyKagentGroup). x = at_version LegacyKagentGroup (k_version k) m))"
    by blast+
qed

lemma distinct_map_unique:
  "distinct (map f xs) \<Longrightarrow> x \<in> set xs \<Longrightarrow> y \<in> set xs \<Longrightarrow> f x = f y \<Longrightarrow> x = y"
  by (metis distinct_map inj_onD)

lemma remove_cases:
  assumes "remove b model sc k c = (r, k', c')"
  shows "k' = k \<and> (c' = c \<or> (\<exists>x. find_mc k c b model = Inr (Some x) \<and> removable k c sc x \<and>
            removeObj k (o_name x) c = (r, c')))"
  using assms
  by (auto simp: remove_def refuseGitOps_def removable_def kept_None refuse_Inr
      split: sum.splits option.splits prod.splits
      dest: find_mc_Some(1) [THEN managed_selector_label])

lemma remove_same_env: "remove b model sc k c = (r, k', c') \<Longrightarrow> same_env c c'"
  using remove_cases removeObj_frame(1) by (metis same_env_refl)

text \<open>C1. A removal deletes only what it may. A ModelConfig that is gone after \<open>Remove\<close>
  was in the wirer's group and namespace, and the ModelConfig the removal found for the model
  has its name, is managed, is not applied from git, and was created by this instance (or, for
  \<open>unwire_model\<close>, by none, with nothing referencing it). When that one is of the group in
  use it is the ModelConfig deleted.\<close>

theorem remove_deletes_only_ours:
  assumes wf: "wf_store c"
    and rm: "remove b model sc k c = (r, k', c')"
    and m: "m \<in> set (cl_mcs c g)" "m \<notin> set (cl_mcs c' g)"
  shows "g = k_group k \<and> o_namespace m = k_namespace k \<and>
    (\<exists>x. find_mc k c b model = Inr (Some x) \<and> o_name x = o_name m \<and> removable k c sc x \<and>
         (o_group x = k_group k \<longrightarrow> x = at_version (k_group k) (k_version k) m))"
proof -
  from remove_cases [OF rm] m obtain x where x: "find_mc k c b model = Inr (Some x)"
      "removable k c sc x" "removeObj k (o_name x) c = (r, c')" by auto
  from removeObj_frame(3) [OF x(3)] m
  have cut: "g = k_group k" "keyed (k_namespace k) (o_name x) m"
    by (auto split: if_splits)
  have "x = at_version (k_group k) (k_version k) m" if g: "o_group x = k_group k"
  proof -
    obtain m' where m': "m' \<in> set (cl_mcs c (k_group k))" "x = at_version (k_group k) (k_version k) m'"
      using find_mc_Some(4) [OF x(1)] g by (auto simp: LegacyKagentGroup_def KagentGroup_def)
    moreover have "mc_key m' = mc_key m"
      using cut m' find_mc_Some(2) [OF x(1)] by (simp add: mc_key_def keyed_def)
    ultimately show ?thesis
      using wf m cut distinct_map_unique by (metis wf_store_def)
  qed
  with x cut show ?thesis by (auto simp: keyed_def)
qed

section \<open>A dry run tells what the removal does\<close>

lemma removal_objects_Inr:
  "removal_objects k c m ow = Inr r \<Longrightarrow>
     rn_name r = o_name m \<and> rn_gitops r = ow \<and> rn_left r = None \<and> MCObject m \<in> set (rn_objects r)"
  by (auto simp: removal_objects_def Let_def split: sum.splits if_splits)

text \<open>The dry run of a removal is honest. Where \<open>Removal\<close> answers, \<open>Remove\<close>
  in the same state does what it said: leaves the ModelConfig with that \<open>NotOwnedError\<close>
  and changes nothing; refuses with \<open>ErrGitOpsOwned\<close> and changes nothing when it named
  an owner; does nothing when it listed no objects; and else deletes by the name it gave.\<close>

lemma removal_tells_remove:
  "case removal_res b model sc k c of
     Inl e \<Rightarrow> True
   | Inr r \<Rightarrow>
       (case rn_left r of
          Some n \<Rightarrow> remove b model sc k c = (Inl (not_owned_err n), k, c)
        | None \<Rightarrow>
            (case rn_gitops r of
               Some ow \<Rightarrow> \<exists>e. remove b model sc k c = (Inl e, k, c) \<and> err_is e ErrGitOpsOwned
             | None \<Rightarrow>
                 if rn_objects r = [] then remove b model sc k c = (Inr (), k, c)
                 else remove b model sc k c =
                   (case removeObj k (rn_name r) c of (u, c') \<Rightarrow> (u, k, c'))))"
proof (cases "removal_res b model sc k c")
  case (Inl e)
  then show ?thesis by simp
next
  case (Inr r)
  then obtain found where f: "find_mc k c b model = Inr found"
    by (auto simp: removal_res_def split: sum.splits)
  show ?thesis
  proof (cases found)
    case None
    with f Inr have "r = nothing_rendered" by (simp add: removal_res_def)
    moreover have "remove b model sc k c = (Inr (), k, c)" using f None by (simp add: remove_def)
    ultimately show ?thesis using Inr by (simp add: nothing_rendered_def)
  next
    case (Some m)
    with f Inr obtain ow where ow: "applying c m = Inr ow"
      by (auto simp: removal_res_def split: sum.splits)
    show ?thesis
    proof (cases ow)
      case (Some o)
      with f \<open>found = Some m\<close> ow Inr show ?thesis
        by (auto simp: removal_res_def remove_def refuseGitOps_def refuse_def dest!: removal_objects_Inr)
    next
      case None
      then have rf: "refuse c m = Inr ()" using ow by simp
      from f \<open>found = Some m\<close> ow None Inr obtain left where k: "kept k c m sc = Inr left"
        by (auto simp: removal_res_def split: sum.splits)
      show ?thesis
      proof (cases left)
        case (Some n)
        with f \<open>found = Some m\<close> ow None Inr k rf show ?thesis
          by (auto simp: removal_res_def remove_def refuseGitOps_def)
      next
        case None
        with f \<open>found = Some m\<close> ow \<open>ow = None\<close> Inr k
        have "removal_objects k c m None = Inr r" by (simp add: removal_res_def)
        from removal_objects_Inr [OF this] f \<open>found = Some m\<close> k None rf Inr show ?thesis
          by (auto simp: remove_def refuseGitOps_def split: prod.splits)
      qed
    qed
  qed
qed

lemma removal_lists_found:
  assumes "find_mc k c b model = Inr (Some x)" "removable k c sc x" "cl_fail c = Map.empty"
  shows "\<exists>d. removal_res b model sc k c = Inr d \<and> rn_name d = o_name x \<and> rn_gitops d = None \<and> rn_left d = None \<and>
    {y. MCObject y \<in> set (rn_objects d)} = {x}"
proof -
  have "kept k c x sc = Inr None" "applying c x = Inr None"
    using assms(2) by (auto simp: removable_def kept_None)
  with assms show ?thesis
    by (auto simp: removal_res_def removal_objects_def Let_def api_get_secret_def api_def is_not_found_def api_not_found_def err_is_def
        split: sum.splits option.splits)
qed

text \<open>C38. A removal may delete a ModelConfig of the wrong group: when the one found for the
  model is of another group than the one in use (a kagent.dev ModelConfig its Kustomization left
  behind), \<open>Remove\<close> deletes by its name in the group in use. With an API server that answers every
  call, the dry run of the removal lists the ModelConfig found and no other, says that nothing applies it
  from git and that no other instance keeps it; \<open>Remove\<close> then leaves the ModelConfigs of the group of the one
  found as they were, and deletes a ModelConfig of that name in the group in use, whoever
  created it and whatever its labels say.\<close>

theorem remove_wrong_group:
  assumes x: "find_mc k c b model = Inr (Some x)" "o_group x \<noteq> k_group k" "removable k c sc x"
    and m: "m \<in> set (cl_mcs c (k_group k))" "keyed (k_namespace k) (o_name x) m"
    and up: "cl_fail c = Map.empty" "List.member (cl_served c (k_group k)) (k_version k)"
    and rm: "remove b model sc k c = (r, k', c')"
  shows "(\<exists>d. removal b model sc k c = (Inr d, k, c) \<and> rn_name d = o_name x \<and>
       rn_gitops d = None \<and> rn_left d = None \<and> {y. MCObject y \<in> set (rn_objects d)} = {x}) \<and>
     cl_mcs c' (o_group x) = cl_mcs c (o_group x) \<and> m \<notin> set (cl_mcs c' (k_group k))"
proof -
  have dry: "\<exists>d. removal b model sc k c = (Inr d, k, c) \<and> rn_name d = o_name x \<and>
       rn_gitops d = None \<and> rn_left d = None \<and> {y. MCObject y \<in> set (rn_objects d)} = {x}"
    using removal_lists_found [OF x(1,3) up(1)] by (auto simp: removal_def)
  have obj: "removeObj k (o_name x) c = (r, c')"
  proof -
    have "kept k c x sc = Inr None" "refuse c x = Inr ()" using x(3) by (auto simp: removable_def kept_None refuse_Inr)
    with rm x(1) show ?thesis by (auto simp: remove_def refuseGitOps_def split: prod.splits)
  qed
  have stored: "stored c (k_group k) (k_namespace k) (o_name x) \<noteq> None" using m by (auto simp: stored_def find_None_iff)
  let ?d = "c\<lparr>cl_mcs := (cl_mcs c)(k_group k := filter (\<lambda>m. \<not> keyed (k_namespace k) (o_name x) m) (cl_mcs c (k_group k)))\<rparr>"
  have "api_delete_mc c (k_group k) (k_version k) (k_namespace k) (o_name x) = (Inr (), ?d)"
    using up stored by (simp add: api_delete_mc_def api_def)
  then have "removePlaceholderSecret k (o_name x) ?d = (r, c')" using obj by (simp add: removeObj_def)
  from removePlaceholderSecret_frame [OF this] m x(2) dry show ?thesis by simp
qed

section \<open>What an Ensure may write\<close>

lemma plan_Inr:
  assumes "plan model ep k c = (Inr p, k1)"
  shows "\<exists>ep' target found. writable ep k c = (Inr ep', k1) \<and> same_wirer k k1 \<and>
     plan_target k1 c model ep' = Inr target \<and> find_mc k1 c (ep_backend ep) model = Inr found \<and>
     plan_at k1 c model ep' (plan_name k1 ep' target found) = Inr p \<and>
     trim_space model \<noteq> [] \<and> ep_validate ep = None \<and> (ep' = ep \<or> ep' = ep\<lparr>ep_think := None\<rparr>)"
proof -
  obtain ep' k2 where w: "writable ep k c = (Inr ep', k2)"
    using assms by (auto simp: plan_def split: if_splits option.splits sum.splits prod.splits)
  have e: "ep' = ep \<or> ep' = ep\<lparr>ep_think := None\<rparr>" using writable_keeps [OF w] .
  then have b: "ep_backend ep' = ep_backend ep" by auto
  have "\<exists>target found. plan_target k2 c model ep' = Inr target \<and>
     find_mc k2 c (ep_backend ep) model = Inr found \<and>
     plan_at k2 c model ep' (plan_name k2 ep' target found) = Inr p \<and> k2 = k1 \<and>
     trim_space model \<noteq> [] \<and> ep_validate ep = None"
    using assms w b by (auto simp: plan_def split: if_splits option.splits sum.splits)
  with w e writable_same_wirer [OF w] show ?thesis by blast
qed

lemma get_mc_Inr:
  "api_get_mc c g v ns n = Inr x \<longleftrightarrow>
     cl_fail c (GetMC g v ns n) = None \<and> List.member (cl_served c g) v \<and>
     (\<exists>m. stored c g ns n = Some m \<and> x = at_version g v m)"
  by (auto simp: api_get_mc_def api_Inr split: option.splits if_splits)

lemma stored_Some: "stored c g ns n = Some m \<Longrightarrow> m \<in> set (cl_mcs c g) \<and> keyed ns n m"
  by (auto simp: stored_def dest: find_Some)

lemma stored_None: "stored c g ns n = None \<longleftrightarrow> (\<forall>m\<in>set (cl_mcs c g). \<not> keyed ns n m)"
  by (simp add: stored_def find_None)

lemma keyed_unique:
  "wf_store c \<Longrightarrow> m \<in> set (cl_mcs c g) \<Longrightarrow> m' \<in> set (cl_mcs c g) \<Longrightarrow> keyed ns n m \<Longrightarrow>
    keyed ns n m' \<Longrightarrow> m = m'"
  by (rule distinct_map_unique [of mc_key "cl_mcs c g"]) (auto simp: wf_store_def mc_key_def keyed_def)

lemma stored_unique:
  assumes "wf_store c" "m \<in> set (cl_mcs c g)" "keyed ns n m"
  shows "stored c g ns n = Some m"
proof (cases "stored c g ns n")
  case None
  with assms show ?thesis by (simp add: stored_None)
next
  case (Some m')
  with assms keyed_unique stored_Some show ?thesis by metis
qed

text \<open>What a plan decided: the name, the object at it (this instance's or nobody's, managed),
  and the one it replaces (this instance's).\<close>

lemma plan_at_Inr:
  assumes "plan_at k c model ep (nm, replaces, legacy) = Inr p"
  shows "wp_name p = nm" "wp_replaces p = replaces" "wp_legacy p = legacy"
    "wp_secret p = (if placeholderNeeded ep then Some (placeholderSecret k nm) else None)"
    "(case wp_existing p of
        None \<Rightarrow> wp_desired p = build k nm model ep \<and>
          (\<exists>e. api_get_mc c (k_group k) (k_version k) (k_namespace k) nm = Inl e \<and> is_not_found e)
      | Some x \<Rightarrow>
          api_get_mc c (k_group k) (k_version k) (k_namespace k) nm = Inr x \<and>
          get_label (o_labels x) ManagedByLabel = ManagedByValue \<and>
          (get_label (o_labels x) InstanceLabel = [] \<or> get_label (o_labels x) InstanceLabel = k_instance k) \<and>
          wp_desired p = (if createdHere k x then build k nm model ep
             else (build k nm model ep)\<lparr>o_labels := (o_labels (build k nm model ep))(InstanceLabel := None)\<rparr>))"
  using assms by (auto simp: plan_at_def Let_def split: sum.splits if_splits)

lemma secret_step_frame:
  assumes "(case wp_secret p of None \<Rightarrow> f | Some sec \<Rightarrow> ensurePlaceholderSecret k n c) = (r, c')"
    and "f = (Inr (), c) \<or> f = removePlaceholderSecret k n c"
  shows "same_env c c' \<and> cl_mcs c' = cl_mcs c \<and> cl_rev c' = cl_rev c"
proof (cases "wp_secret p")
  case None
  with assms have "(r, c') = (Inr (), c) \<or> removePlaceholderSecret k n c = (r, c')" by auto
  then show ?thesis using removePlaceholderSecret_frame by auto
next
  case (Some sec)
  with assms show ?thesis using ensurePlaceholderSecret_frame by simp
qed

lemma ensure_create_frame:
  assumes "ensure_create k p c = (r, c')"
  shows "same_env c c' \<and>
    (cl_mcs c' = cl_mcs c \<and> (\<exists>e. r = Inl e) \<or>
     stored c (k_group k) (o_namespace (wp_desired p)) (o_name (wp_desired p)) = None \<and>
     List.member (cl_served c (k_group k)) (k_version k) \<and>
     (let m' = (wp_desired p)\<lparr>mc_uid := Suc (cl_rev c), mc_rv := Suc (cl_rev c)\<rparr>
      in cl_mcs c' = (cl_mcs c)(k_group k := cl_mcs c (k_group k) @ [m']) \<and>
         r = ref c' (at_version (k_group k) (k_version k) m')))"
proof -
  obtain u c1 where s: "(case wp_secret p of None \<Rightarrow> (Inr (), c)
      | Some sec \<Rightarrow> ensurePlaceholderSecret k (wp_name p) c) = (u, c1)" by fastforce
  have f: "same_env c c1 \<and> cl_mcs c1 = cl_mcs c \<and> cl_rev c1 = cl_rev c"
    using secret_step_frame [OF s] by blast
  obtain r2 c2 where cr: "api_create_mc c1 (k_group k) (k_version k) (wp_desired p) = (r2, c2)"
    by fastforce
  show ?thesis
  proof (cases u)
    case (Inl e)
    with assms s have "r = Inl e" "c' = c1" by (auto simp: ensure_create_def)
    with f show ?thesis by auto
  next
    case (Inr v)
    have r: "(\<exists>e. r2 = Inl e \<and> c' = c2 \<and> (\<exists>e. r = Inl e)) \<or> (\<exists>x. r2 = Inr x \<and> c' = c2 \<and> r = ref c2 x)"
      using assms s Inr cr by (auto simp: ensure_create_def split: sum.splits)
    have st: "stored c1 = stored c" "cl_served c1 = cl_served c"
      using f by (simp_all add: stored_def fun_eq_iff same_env_def)
    from create_mc_frame(3) [OF cr] show ?thesis
    proof
      assume "\<exists>e. r2 = Inl e \<and> c2 = c1"
      with r f show ?thesis by auto
    next
      assume "stored c1 (k_group k) (o_namespace (wp_desired p)) (o_name (wp_desired p)) = None \<and>
        cl_fail c1 (CreateMC (k_group k) (k_version k) (o_namespace (wp_desired p)) (o_name (wp_desired p))) = None \<and>
        List.member (cl_served c1 (k_group k)) (k_version k) \<and>
        (let m' = (wp_desired p)\<lparr>mc_uid := Suc (cl_rev c1), mc_rv := Suc (cl_rev c1)\<rparr>
         in r2 = Inr (at_version (k_group k) (k_version k) m') \<and>
            cl_mcs c2 = (cl_mcs c1)(k_group k := cl_mcs c1 (k_group k) @ [m']))"
      with r f st same_env_trans [OF _ create_mc_frame(1) [OF cr], of c] show ?thesis
        by (auto simp: Let_def)
    qed
  qed
qed

lemma ensure_update_frame:
  assumes "ensure_update k p x c = (r, c')"
  shows "same_env c c' \<and>
    (cl_mcs c' = cl_mcs c \<and> (\<exists>e. r = Inl e) \<or>
     (\<exists>old. stored c (k_group k) (o_namespace (wp_desired p)) (o_name (wp_desired p)) = Some old \<and>
     (let m' = (merged x (wp_desired p))\<lparr>mc_uid := mc_uid old, mc_rv := Suc (cl_rev c),
                 mc_status := (if cl_status_sub c then mc_status old else mc_status (wp_desired p))\<rparr>
      in cl_mcs c' = (cl_mcs c)(k_group k := put_mc m' (cl_mcs c (k_group k))) \<and>
         r = ref c' (if mc_status x \<noteq> None
                then (at_version (k_group k) (k_version k) m')\<lparr>mc_status := mc_status x\<rparr>
                else at_version (k_group k) (k_version k) m'))))"
proof -
  obtain u c1 where s: "(case wp_secret p of None \<Rightarrow> removePlaceholderSecret k (wp_name p) c
      | Some sec \<Rightarrow> ensurePlaceholderSecret k (wp_name p) c) = (u, c1)" by fastforce
  have f: "same_env c c1 \<and> cl_mcs c1 = cl_mcs c \<and> cl_rev c1 = cl_rev c"
    using secret_step_frame [OF s] by blast
  obtain r2 c2 where up: "api_update_mc c1 (k_group k) (k_version k) (merged x (wp_desired p)) = (r2, c2)"
    by fastforce
  have keep: "o_namespace (merged x (wp_desired p)) = o_namespace (wp_desired p)"
    "o_name (merged x (wp_desired p)) = o_name (wp_desired p)"
    "mc_status (merged x (wp_desired p)) = mc_status (wp_desired p)" by (simp_all add: merged_def)
  show ?thesis
  proof (cases u)
    case (Inl e)
    with assms s have "r = Inl e" "c' = c1" by (auto simp: ensure_update_def)
    with f show ?thesis by auto
  next
    case (Inr v)
    have r: "(\<exists>e. r2 = Inl e \<and> c' = c2 \<and> (\<exists>e. r = Inl e)) \<or> (\<exists>y. r2 = Inr y \<and> c' = c2 \<and>
        r = ref c2 (if mc_status x \<noteq> None then y\<lparr>mc_status := mc_status x\<rparr> else y))"
      using assms s Inr up by (auto simp: ensure_update_def split: sum.splits)
    have st: "stored c1 = stored c" "cl_status_sub c1 = cl_status_sub c"
      using f by (simp_all add: stored_def fun_eq_iff same_env_def)
    note env = same_env_trans [OF _ update_mc_frame(1) [OF up], of c]
    from update_mc_frame(3) [OF up] show ?thesis
    proof
      assume "\<exists>e. r2 = Inl e \<and> c2 = c1"
      with r f show ?thesis by auto
    next
      assume "\<exists>old. stored c1 (k_group k) (o_namespace (merged x (wp_desired p))) (o_name (merged x (wp_desired p))) = Some old \<and>
         mc_rv (merged x (wp_desired p)) = mc_rv old \<and>
         (let m' = (merged x (wp_desired p))\<lparr>mc_uid := mc_uid old, mc_rv := Suc (cl_rev c1),
             mc_status := (if cl_status_sub c1 then mc_status old else mc_status (merged x (wp_desired p)))\<rparr>
          in r2 = Inr (at_version (k_group k) (k_version k) m') \<and>
             cl_mcs c2 = (cl_mcs c1)(k_group k := put_mc m' (cl_mcs c1 (k_group k))))"
      with r f st env show ?thesis by (fastforce simp: Let_def keep)
    qed
  qed
qed

lemma plan_name_cases:
  assumes "plan_name k ep target found = (nm, replaces, legacy)"
  shows "(found = None \<and> nm = target \<and> replaces = None \<and> legacy = None) \<or>
    (\<exists>old. found = Some old \<and> gv_string (o_group old) (o_version old) \<noteq> APIVersion k \<and>
       nm = o_name old \<and> replaces = None \<and> legacy = Some old) \<or>
    (\<exists>old. found = Some old \<and> gv_string (o_group old) (o_version old) = APIVersion k \<and>
       ep_name ep \<noteq> [] \<and> o_name old \<noteq> target \<and> createdHere k old \<and>
       nm = target \<and> replaces = Some old \<and> legacy = None) \<or>
    (\<exists>old. found = Some old \<and> gv_string (o_group old) (o_version old) = APIVersion k \<and>
       nm = o_name old \<and> replaces = None \<and> legacy = None)"
  using assms by (auto simp: plan_name_def split: option.splits if_splits)

lemma build_fields [simp]:
  "o_namespace (build k nm model ep) = k_namespace k" "o_name (build k nm model ep) = nm"
  "mc_annotations (build k nm model ep) = [ModelAnnotation \<mapsto> model]"
  "mc_spec (build k nm model ep) = build_spec nm model ep" "mc_status (build k nm model ep) = None"
  "o_group (build k nm model ep) = k_group k" "o_version (build k nm model ep) = k_version k"
  "o_kind (build k nm model ep) = ''ModelConfig''"
  by (simp_all add: build_def)

lemma desired_fields:
  assumes "plan_at k c model ep (nm, replaces, legacy) = Inr p"
  shows "o_namespace (wp_desired p) = k_namespace k" "o_name (wp_desired p) = nm"
    "mc_annotations (wp_desired p) = [ModelAnnotation \<mapsto> model]"
    "mc_spec (wp_desired p) = build_spec nm model ep" "mc_status (wp_desired p) = None"
    "o_group (wp_desired p) = k_group k" "o_version (wp_desired p) = k_version k"
  using plan_at_Inr(5) [OF assms] by (auto split: option.splits if_splits)

lemma find_here:
  assumes "find_mc k c b model = Inr (Some x)" "gv_string (o_group x) (o_version x) = APIVersion k"
  shows "\<exists>m\<in>set (cl_mcs c (k_group k)). x = at_version (k_group k) (k_version k) m"
proof -
  have "gv_string LegacyKagentGroup v \<noteq> gv_string KagentGroup v" for v
    by (simp add: gv_string_def LegacyKagentGroup_def KagentGroup_def)
  with find_mc_Some(4) [OF assms(1)] assms(2) show ?thesis by (auto simp: APIVersion_def)
qed

lemma apply_plan_cases:
  assumes "apply_plan k p c = (r, c')"
  shows "c' = c \<and> (\<exists>e. r = Inl e) \<or>
    (\<forall>x. x \<in> {wp_existing p, wp_replaces p, wp_legacy p} \<longrightarrow> (\<forall>m. x = Some m \<longrightarrow> applying c m = Inr None)) \<and>
    (\<exists>u c1. (case wp_replaces p of None \<Rightarrow> c1 = c \<and> u = Inr ()
             | Some m \<Rightarrow> removeObj k (o_name m) c = (u, c1)) \<and>
       (c' = c1 \<and> (\<exists>e. r = Inl e) \<or>
        (case wp_existing p of None \<Rightarrow> ensure_create k p c1 = (r, c')
         | Some x \<Rightarrow> ensure_update k p x c1 = (r, c'))))"
proof (cases "refuse_all c [wp_existing p, wp_replaces p, wp_legacy p]")
  case (Inl e)
  then have "c' = c" "r = Inl e" using assms by (auto simp: apply_plan_def simp del: refuse_all.simps)
  then show ?thesis by blast
next
  case (Inr u)
  then have ok: "\<forall>x. x \<in> {wp_existing p, wp_replaces p, wp_legacy p} \<longrightarrow>
      (\<forall>m. x = Some m \<longrightarrow> applying c m = Inr None)"
    by (auto simp: refuseGitOps_def refuse_Inr split: sum.splits)
  have rest: "(case (case wp_replaces p of None \<Rightarrow> (Inr (), c) | Some m \<Rightarrow> removeObj k (o_name m) c) of
             (Inl e, c) \<Rightarrow> (Inl e, c)
           | (Inr u, c) \<Rightarrow>
               (case wp_existing p of
                  None \<Rightarrow> ensure_create k p c
                | Some existing \<Rightarrow> ensure_update k p existing c)) = (r, c')"
    using assms Inr by (simp add: apply_plan_def)
  obtain u1 c1 where c1: "(case wp_replaces p of None \<Rightarrow> (Inr (), c)
      | Some m \<Rightarrow> removeObj k (o_name m) c) = (u1, c1)" by fastforce
  then have "case wp_replaces p of None \<Rightarrow> c1 = c \<and> u1 = Inr ()
             | Some m \<Rightarrow> removeObj k (o_name m) c = (u1, c1)" by (auto split: option.splits)
  moreover have "c' = c1 \<and> (\<exists>e. r = Inl e) \<or>
        (case wp_existing p of None \<Rightarrow> ensure_create k p c1 = (r, c')
         | Some x \<Rightarrow> ensure_update k p x c1 = (r, c'))"
    using rest c1 by (cases u1) (auto split: option.splits)
  ultimately show ?thesis using ok by blast
qed

text \<open>An \<open>Ensure\<close> takes over no one else's ModelConfig. A ModelConfig that is not as
  it was after \<open>Ensure\<close>, whether it succeeded or failed halfway, was in the wirer's group
  and namespace, managed by model-manager, not another instance's, and not applied from git.\<close>

lemma ensure_touches_only_ours:
  assumes wf: "wf_store c"
    and en: "ensure model ep k c = (r, k', c')"
    and m: "m \<in> set (cl_mcs c g)" "m \<notin> set (cl_mcs c' g)"
  shows "g = k_group k \<and> o_namespace m = k_namespace k \<and>
    get_label (o_labels m) ManagedByLabel = ManagedByValue \<and>
    (get_label (o_labels m) InstanceLabel = [] \<or> get_label (o_labels m) InstanceLabel = k_instance k) \<and>
    applying c (at_version (k_group k) (k_version k) m) = Inr None"
proof -
  have "c' \<noteq> c" using m by auto
  with en obtain p where p: "plan model ep k c = (Inr p, k')" and ap: "apply_plan k' p c = (r, c')"
    by (auto simp: ensure_def split: sum.splits prod.splits)
  from plan_Inr [OF p] obtain ep' target found where pl: "same_wirer k k'"
      "find_mc k' c (ep_backend ep) model = Inr found"
      "plan_at k' c model ep' (plan_name k' ep' target found) = Inr p" by blast
  obtain nm replaces legacy where nm: "plan_name k' ep' target found = (nm, replaces, legacy)"
    by (cases "plan_name k' ep' target found") auto
  note at = plan_at_Inr [OF pl(3) [unfolded nm]] and de = desired_fields [OF pl(3) [unfolded nm]]
  from apply_plan_cases [OF ap] \<open>c' \<noteq> c\<close> obtain u c1 where ok:
      "\<And>x. wp_existing p = Some x \<or> wp_replaces p = Some x \<Longrightarrow> applying c x = Inr None"
    and c1: "case wp_replaces p of None \<Rightarrow> c1 = c \<and> u = Inr ()
             | Some m \<Rightarrow> removeObj k' (o_name m) c = (u, c1)"
    and c2: "c' = c1 \<and> (\<exists>e. r = Inl e) \<or>
        (case wp_existing p of None \<Rightarrow> ensure_create k' p c1 = (r, c')
         | Some x \<Rightarrow> ensure_update k' p x c1 = (r, c'))"
    by fastforce
  let ?at = "at_version (k_group k') (k_version k')"
  have "\<exists>x. g = k_group k' \<and> keyed (k_namespace k') (o_name x) m \<and> o_namespace x = k_namespace k' \<and>
      (\<exists>m0\<in>set (cl_mcs c (k_group k')). x = ?at m0) \<and>
      get_label (o_labels x) ManagedByLabel = ManagedByValue \<and>
      (get_label (o_labels x) InstanceLabel = [] \<or> get_label (o_labels x) InstanceLabel = k_instance k') \<and>
      applying c x = Inr None"
  proof (cases "m \<in> set (cl_mcs c1 g)")
    case False
    with c1 m(1) obtain x where x: "wp_replaces p = Some x" "removeObj k' (o_name x) c = (u, c1)"
      by (auto split: option.splits)
    with at(2) plan_name_cases [OF nm] have f: "find_mc k' c (ep_backend ep) model = Inr (Some x)"
      "gv_string (o_group x) (o_version x) = APIVersion k'" "createdHere k' x" using pl by auto
    have "g = k_group k'" "keyed (k_namespace k') (o_name x) m"
      using removeObj_frame(3) [OF x(2)] False m(1) by (auto split: if_splits)
    with f x ok find_here [OF f(1,2)] find_mc_Some(2) [OF f(1)] show ?thesis
      by (auto simp: createdHere_def)
  next
    case True
    with c2 m obtain x where x: "wp_existing p = Some x" "ensure_update k' p x c1 = (r, c')"
      using ensure_create_frame [of k' p c1 r c'] by (force simp: Let_def split: option.splits if_splits)
    with at(5) obtain m0 where m0: "stored c (k_group k') (k_namespace k') nm = Some m0" "x = ?at m0"
      by (auto simp: get_mc_Inr)
    have "g = k_group k' \<and> keyed (k_namespace k') nm m"
      using ensure_update_frame [OF x(2)] True m(2) de(1,2)
      by (force simp: Let_def put_mc_def merged_def split: if_splits)
    with m0 x ok at(5) stored_Some [OF m0(1)] show ?thesis
      by (intro exI [of _ x]) (auto simp: keyed_def)
  qed
  then obtain x m0 where x: "g = k_group k'" "keyed (k_namespace k') (o_name x) m"
      "m0 \<in> set (cl_mcs c (k_group k'))" "x = ?at m0" "o_namespace x = k_namespace k'"
      "get_label (o_labels x) ManagedByLabel = ManagedByValue"
      "get_label (o_labels x) InstanceLabel = [] \<or> get_label (o_labels x) InstanceLabel = k_instance k'"
      "applying c x = Inr None" by blast
  then have "m0 = m" using keyed_unique [OF wf x(3), of m] m(1) by (simp add: keyed_def)
  with x same_wirer_fields [OF pl(1)] show ?thesis by (auto simp: keyed_def)
qed

section \<open>A lookup after an Ensure\<close>

lemma find_map_filter:
  "find P (map f (filter S xs)) = map_option f (find (\<lambda>x. S x \<and> P (f x)) xs)"
  by (induction xs) auto

lemma find_append_None: "find P xs = None \<Longrightarrow> find P (xs @ ys) = find P ys"
  by (induction xs) (auto split: if_splits)

text \<open>Replacing the element of a key by one that satisfies the predicate: it is found, when
  no other element that does comes before it.\<close>

lemma find_put_mc:
  assumes "distinct (map mc_key ms)" "m0 \<in> set ms" "mc_key m0 = mc_key m'" "Q m'"
    and "find Q ms = None \<or> find Q ms = Some m0"
  shows "find Q (put_mc m' ms) = Some m'"
  using assms
proof (induction ms)
  case (Cons x ms)
  show ?case
  proof (cases "mc_key x = mc_key m'")
    case True
    then show ?thesis using Cons.prems(4) by (simp add: put_mc_def keyed_def mc_key_def)
  next
    case False
    then have "x \<noteq> m0" using Cons.prems(3) by auto
    moreover have "\<not> Q x" using Cons.prems(5) \<open>x \<noteq> m0\<close> by (auto split: if_splits)
    ultimately show ?thesis
      using Cons False by (auto simp: put_mc_def keyed_def mc_key_def split: if_splits)
  qed
qed simp

text \<open>The ModelConfigs of a store that name the model, for the wirer.\<close>

definition naming :: "wirer \<Rightarrow> name \<Rightarrow> string \<Rightarrow> mconfig \<Rightarrow> bool" where
  "naming k b model m \<longleftrightarrow>
     (o_namespace m = k_namespace k \<and> managed_selector (o_labels m)) \<and>
     get_label (mc_annotations m) ModelAnnotation = model \<and> backendMatches m b"

lemma backendMatches_at [simp]: "backendMatches (at_version g v m) b = backendMatches m b"
  by (simp add: backendMatches_def)

lemma find_naming:
  "find (\<lambda>m. get_label (mc_annotations m) ModelAnnotation = model \<and> backendMatches m b)
     (map (at_version g v) (filter (\<lambda>m. o_namespace m = k_namespace k \<and> managed_selector (o_labels m)) ms)) =
   map_option (at_version g v) (find (naming k b model) ms)"
  by (simp add: find_map_filter naming_def [abs_def])

lemma find_mc_naming:
  assumes l: "api_list_mcs c (k_group k) (k_version k) (k_namespace k) managed_selector = Inr items"
    and f: "find (naming k b model) (cl_mcs c (k_group k)) = Some m"
  shows "find_mc k c b model = Inr (Some (at_version (k_group k) (k_version k) m))"
proof -
  have "match_mc k items b model = Some (at_version (k_group k) (k_version k) m)"
    using f find_naming list_mcs_Inr [OF l] by (simp add: match_mc_def)
  with l show ?thesis by (simp add: find_mc_def)
qed

text \<open>What was found before says what names the model in the store.\<close>

lemma find_mc_before:
  assumes "find_mc k c b model = Inr found"
  shows "(\<exists>items. api_list_mcs c (k_group k) (k_version k) (k_namespace k) managed_selector = Inr items) \<and>
    (find (naming k b model) (cl_mcs c (k_group k)) = None \<or>
     (\<exists>m. find (naming k b model) (cl_mcs c (k_group k)) = Some m \<and>
          found = Some (at_version (k_group k) (k_version k) m)))"
proof -
  obtain items where l: "api_list_mcs c (k_group k) (k_version k) (k_namespace k) managed_selector = Inr items"
    using assms by (auto simp: find_mc_def split: sum.splits)
  moreover have "found = Some (at_version (k_group k) (k_version k) m)"
    if "find (naming k b model) (cl_mcs c (k_group k)) = Some m" for m
    using find_mc_naming [OF l that] assms by simp
  ultimately show ?thesis by (cases "find (naming k b model) (cl_mcs c (k_group k))") auto
qed

lemma build_labels:
  "o_labels (build k nm model ep) ManagedByLabel = Some ManagedByValue"
  "ep_backend ep \<noteq> [] \<Longrightarrow> o_labels (build k nm model ep) BackendLabel = Some (ep_backend ep)"
  by (simp_all add: build_def Let_def ManagedByLabel_def InstanceLabel_def BackendLabel_def)

lemma desired_naming:
  assumes "plan_at k c model ep (nm, replaces, legacy) = Inr p"
    and "o_namespace m = k_namespace k"
    and "o_labels m = ls ++ o_labels (wp_desired p)" "mc_annotations m = as ++ mc_annotations (wp_desired p)"
  shows "naming k (ep_backend ep) model m"
proof -
  have l: "o_labels (wp_desired p) ManagedByLabel = Some ManagedByValue"
    "ep_backend ep \<noteq> [] \<Longrightarrow> o_labels (wp_desired p) BackendLabel = Some (ep_backend ep)"
    using plan_at_Inr(5) [OF assms(1)] build_labels
    by (auto simp: ManagedByLabel_def InstanceLabel_def BackendLabel_def split: option.splits if_splits)
  then show ?thesis
    using assms desired_fields(3) [OF assms(1)]
    by (auto simp: naming_def managed_selector_def backendMatches_def get_label_def map_add_Some_iff
        Let_def map_add_def split: option.splits)
qed

lemma list_ok_same_env:
  assumes "api_list_mcs c g v ns sel = Inr items" "same_env c c'"
  shows "\<exists>items'. api_list_mcs c' g v ns sel = Inr items'"
  using assms by (auto simp: api_list_mcs_def api_Inr same_env_def split: if_splits)

text \<open>A successful Ensure that replaces nothing leaves a ModelConfig that names the model, and
  answers its reference.\<close>

lemma ensure_stores:
  assumes wf: "wf_store c" and sub: "cl_status_sub c" and nm0: "ep_name ep = []"
    and en: "ensure model ep k c = (Inr r, k', c')"
  shows "\<exists>m ep'. find (naming k' (ep_backend ep) model) (cl_mcs c' (k_group k')) = Some m \<and>
     ref c' (at_version (k_group k') (k_version k') m) = Inr r \<and> writable ep k c = (Inr ep', k') \<and>
     mc_spec m = build_spec (o_name m) model ep' \<and>
     (\<exists>items. api_list_mcs c' (k_group k') (k_version k') (k_namespace k') managed_selector = Inr items)"
proof -
  from en obtain p where p: "plan model ep k c = (Inr p, k')" and ap: "apply_plan k' p c = (Inr r, c')"
    by (auto simp: ensure_def split: sum.splits prod.splits)
  from plan_Inr [OF p] obtain ep' target found where pl: "writable ep k c = (Inr ep', k')"
      "find_mc k' c (ep_backend ep) model = Inr found"
      "plan_at k' c model ep' (plan_name k' ep' target found) = Inr p"
      "ep' = ep \<or> ep' = ep\<lparr>ep_think := None\<rparr>" by blast
  then have b: "ep_backend ep' = ep_backend ep" "ep_name ep' = []" using nm0 by auto
  obtain nm replaces legacy where nm: "plan_name k' ep' target found = (nm, replaces, legacy)"
    by (cases "plan_name k' ep' target found") auto
  note pa = pl(3) [unfolded nm]
  note at = plan_at_Inr [OF pa] and de = desired_fields [OF pa]
  let ?at = "at_version (k_group k') (k_version k')" and ?ms = "cl_mcs c (k_group k')"
    and ?Q = "naming k' (ep_backend ep) model"
  have rep: "replaces = None" using plan_name_cases [OF nm] b by auto
  with apply_plan_cases [OF ap] at(2) have step:
      "(case wp_existing p of None \<Rightarrow> ensure_create k' p c = (Inr r, c')
         | Some x \<Rightarrow> ensure_update k' p x c = (Inr r, c'))" by auto
  have before: "find ?Q ?ms = None \<or> (\<exists>m. find ?Q ?ms = Some m \<and> m \<in> set ?ms \<and> keyed (k_namespace k') nm m)"
  proof (cases "find ?Q ?ms")
    case (Some m)
    then have f: "found = Some (?at m)" using find_mc_before [OF pl(2)] by auto
    then have "nm = o_name m" using plan_name_cases [OF nm] b by (auto simp: APIVersion_def)
    with Some find_Some [OF Some] show ?thesis by (auto simp: naming_def keyed_def)
  qed simp
  have lst: "\<exists>items. api_list_mcs c' (k_group k') (k_version k') (k_namespace k') managed_selector = Inr items"
    if "same_env c c'" using list_ok_same_env [OF _ that] find_mc_before [OF pl(2)] by blast
  show ?thesis
  proof (cases "wp_existing p")
    case None
    with step have cr: "ensure_create k' p c = (Inr r, c')" by simp
    let ?m' = "(wp_desired p)\<lparr>mc_uid := Suc (cl_rev c), mc_rv := Suc (cl_rev c)\<rparr>"
    from ensure_create_frame [OF cr] de have f: "same_env c c'" "stored c (k_group k') (k_namespace k') nm = None"
      "cl_mcs c' (k_group k') = ?ms @ [?m']" "ref c' (?at ?m') = Inr r" by (auto simp: Let_def)
    have "find ?Q ?ms = None" using before f(2) by (auto simp: stored_None)
    moreover have "?Q ?m'"
      using desired_naming [OF pa, of ?m' Map.empty Map.empty] de b by simp
    ultimately have "find ?Q (cl_mcs c' (k_group k')) = Some ?m'"
      using f(3) by (simp add: find_append_None)
    with f lst pl(1) de show ?thesis by (intro exI [of _ ?m'] exI [of _ ep']) auto
  next
    case (Some x)
    with step have up: "ensure_update k' p x c = (Inr r, c')" by simp
    from ensure_update_frame [OF up] obtain old where old:
        "stored c (k_group k') (k_namespace k') nm = Some old" and env: "same_env c c'"
      and upd: "let m' = (merged x (wp_desired p))\<lparr>mc_uid := mc_uid old, mc_rv := Suc (cl_rev c),
                 mc_status := mc_status old\<rparr>
      in cl_mcs c' = (cl_mcs c)(k_group k' := put_mc m' ?ms) \<and>
         Inr r = ref c' (if mc_status x \<noteq> None then (?at m')\<lparr>mc_status := mc_status x\<rparr> else ?at m')"
      using de sub by auto
    let ?m' = "(merged x (wp_desired p))\<lparr>mc_uid := mc_uid old, mc_rv := Suc (cl_rev c),
                 mc_status := mc_status old\<rparr>"
    have x: "x = ?at old" using at(5) Some old by (auto simp: get_mc_Inr)
    note om = stored_Some [OF old]
    have "find ?Q ?ms = None \<or> find ?Q ?ms = Some old"
      using before om keyed_unique [OF wf] by metis
    moreover have "?Q ?m'"
      using desired_naming [OF pa, of ?m' "o_labels x" "mc_annotations x"] de b by (simp add: merged_def)
    moreover have "mc_key old = mc_key ?m'" using om de by (simp add: mc_key_def keyed_def merged_def)
    moreover have "distinct (map mc_key ?ms)" using wf by (simp add: wf_store_def)
    ultimately have "find ?Q (put_mc ?m' ?ms) = Some ?m'" using om find_put_mc by blast
    moreover have "ref c' (?at ?m') = Inr r"
    proof (cases "mc_status x")
      case None
      with upd show ?thesis by (simp add: Let_def)
    next
      case (Some st)
      have "(?at ?m')\<lparr>mc_status := mc_status x\<rparr> = ?at ?m'" by (simp add: x at_version_def)
      with upd Some show ?thesis by (simp add: Let_def)
    qed
    moreover have "mc_spec ?m' = build_spec (o_name ?m') model ep'" using de by (simp add: merged_def)
    ultimately show ?thesis using upd lst [OF env] pl(1)
      by (intro exI [of _ ?m'] exI [of _ ep']) (simp add: Let_def)
  qed
qed

text \<open>An \<open>Ensure\<close> that succeeded is what the next read finds: for an endpoint whose
  backend leaves the name to the wirer, \<open>Lookup\<close> of the model on that backend answers the
  very reference \<open>Ensure\<close> answered, and changes nothing.\<close>

lemma ensure_then_lookup:
  assumes "wf_store c" "cl_status_sub c" "ep_name ep = []"
    and "ensure model ep k c = (Inr r, k', c')"
  shows "lookup (ep_backend ep) model k' c' = (Inr (Some r), k', c')"
proof -
  from ensure_stores [OF assms] obtain m items where
    "find (naming k' (ep_backend ep) model) (cl_mcs c' (k_group k')) = Some m"
    "ref c' (at_version (k_group k') (k_version k') m) = Inr r"
    "api_list_mcs c' (k_group k') (k_version k') (k_namespace k') managed_selector = Inr items" by blast
  with find_mc_naming show ?thesis by (simp add: lookup_def)
qed

text \<open>C7. What was written reads back with the settings it was written for. Take a store in which the object
  names are distinct and ModelConfigs have a status subresource, and an endpoint that leaves its name to the
  wirer (a named one, as the kserve backend's, is not covered), whose context window is between 0 and
  \<open>2^63\<close>, and whose provider is Ollama unless it has neither a context window nor a think setting (the
  settings of another provider are not written). Then the reference a successful \<open>Ensure\<close> answers carries the
  endpoint as the served schema lets it be written (its context window and its think), so the reconciler's
  comparison does not wire it again.\<close>

theorem written_ref_carries:
  assumes "wf_store c" "cl_status_sub c" "ep_name ep = []"
    and en: "ensure model ep k c = (Inr r, k', c')"
    and w: "writable ep k c = (Inr ep', k1)"
    and range: "0 \<le> ep_context_length ep" "ep_context_length ep < 2 ^ 63"
    and settings: "ep_provider ep = ''Ollama'' \<or> ep_context_length ep = 0 \<and> ep_think ep = None"
  shows "carries r ep'"
proof -
  from ensure_stores [OF assms(1-4)] w obtain m where
    m: "ref c' (at_version (k_group k') (k_version k') m) = Inr r"
      "mc_spec m = build_spec (o_name m) model ep'" by auto
  have e: "ep' = ep \<or> ep' = ep\<lparr>ep_think := None\<rparr>" using writable_keeps [OF w] .
  then have same: "ep_provider ep' = ep_provider ep" "ep_context_length ep' = ep_context_length ep"
    "ep_think ep = None \<longrightarrow> ep_think ep' = None" by auto
  from m(1) obtain ow where r: "r = (toRef (at_version (k_group k') (k_version k') m))\<lparr>r_gitops := ow\<rparr>"
    by (auto simp: ref_def split: sum.splits)
  have "show_int (ep_context_length ep) \<noteq> []"
    using show_nat_digits [of "nat (ep_context_length ep)"] range(1) by (simp add: show_int_def)
  moreover have "parse_num (show_int (ep_context_length ep)) = ep_context_length ep"
    using parse_show_int [OF range] by (simp add: parse_num_def)
  moreover have "parse_num [] = 0" by (simp add: parse_num_def parse_int64_def)
  ultimately show ?thesis
    using settings same range(1) by (auto simp: carries_def r toRef_def m(2) build_spec_def Let_def)
qed

end
