(* ===== verification/Wirer_Kagent.thy ===== *)
theory Wirer_Kagent
  imports Wirer_Contract Wiring_Correct
begin

text \<open>
  The kagent wirer implements the interface the service calls (\<open>Wirer_Contract\<close>): its
  operations as a \<open>wirer_ops\<close> record over a world that holds the wirer, the cluster and
  whatever else the backends work on, and the interpretations of the three locales.
\<close>

type_synonym 'x world = "wirer \<times> cluster \<times> 'x"

definition lift_op :: "'a op \<Rightarrow> 'x world \<Rightarrow> 'a res \<times> 'x world" where
  "lift_op f w = (case w of (k, c, x) \<Rightarrow> (case f k c of (r, k, c) \<Rightarrow> (r, (k, c, x))))"

definition kagent :: "'x world wirer_ops" where
  "kagent =
     \<lparr>w_ensure = (\<lambda>model ep. lift_op (wire_ensure model ep)),
      w_remove = (\<lambda>b model sc. lift_op (wire_remove b model sc)),
      w_lookup = (\<lambda>b model. lift_op (wire_lookup b model)),
      w_list = lift_op wire_list, w_list_all = lift_op wire_list_all,
      w_render = (\<lambda>model ep. lift_op (wire_render model ep)),
      w_removal = (\<lambda>b model sc. lift_op (wire_removal b model sc)),
      w_writable = (\<lambda>ep. lift_op (wire_writable ep))\<rparr>"

lemma kagent_sel [simp]:
  "w_ensure kagent model ep = lift_op (wire_ensure model ep)"
  "w_remove kagent b model sc = lift_op (wire_remove b model sc)"
  "w_lookup kagent b model = lift_op (wire_lookup b model)"
  "w_list kagent = lift_op wire_list" "w_list_all kagent = lift_op wire_list_all"
  "w_render kagent model ep = lift_op (wire_render model ep)"
  "w_removal kagent b model sc = lift_op (wire_removal b model sc)"
  "w_writable kagent ep = lift_op (wire_writable ep)"
  by (simp_all add: kagent_def)

section \<open>The retry stays in a preorder\<close>

definition in_frame :: "(wirer \<Rightarrow> cluster \<Rightarrow> wirer \<Rightarrow> cluster \<Rightarrow> bool) \<Rightarrow> 'a op \<Rightarrow> bool" where
  "in_frame Q f \<longleftrightarrow> (\<forall>k c r k' c'. f k c = (r, k', c') \<longrightarrow> Q k c k' c')"

lemma retried_in_frame:
  assumes trans: "\<And>k c k1 c1 k2 c2. Q k c k1 c1 \<Longrightarrow> Q k1 c1 k2 c2 \<Longrightarrow> Q k c k2 c2"
    and refresh: "\<And>k c. Q k c (refresh k c) c"
    and again: "\<And>e k c. Q k c (snd (rediscovered e k c)) c"
    and f: "in_frame Q f"
  shows "in_frame Q (retried f)"
proof -
  have "Q k c k' c'" if r: "retried f k c = (r, k', c')" for k c r k' c'
  proof -
    obtain r1 k1 c1 where 1: "f (refresh k c) c = (r1, k1, c1)" by (metis prod.exhaust)
    have q1: "Q k c k1 c1" using trans [OF refresh] f 1 by (auto simp: in_frame_def)
    show ?thesis
    proof (cases r1)
      case (Inr v)
      then show ?thesis using r 1 q1 by (simp add: retried_def)
    next
      case (Inl e)
      obtain yes k2 where 2: "rediscovered e k1 c1 = (yes, k2)" by fastforce
      have q2: "Q k c k2 c1" using trans [OF q1 again [of k1 c1 e]] 2 by simp
      then show ?thesis using r 1 2 Inl f trans [OF q2]
        by (cases yes) (auto simp: retried_def in_frame_def)
    qed
  qed
  then show ?thesis by (auto simp: in_frame_def)
qed

section \<open>Reads leave the cluster as it is\<close>

definition unchanged :: "'x world \<Rightarrow> 'x world \<Rightarrow> bool" where
  "unchanged w w' \<longleftrightarrow> snd w' = snd w"

lemma in_frame_reads:
  "in_frame (\<lambda>k c k' c'. c' = c) (lookup b model)" "in_frame (\<lambda>k c k' c'. c' = c) list_mcs"
  "in_frame (\<lambda>k c k' c'. c' = c) list_all_mcs" "in_frame (\<lambda>k c k' c'. c' = c) (render model ep)"
  "in_frame (\<lambda>k c k' c'. c' = c) (removal b model sc)"
  "in_frame (\<lambda>k c k' c'. c' = c) (\<lambda>k c. case writable ep k c of (r, k) \<Rightarrow> (r, k, c))"
  by (auto simp: in_frame_def lookup_def list_mcs_def list_all_mcs_def render_def removal_def
      split: sum.splits option.splits prod.splits)

lemma lift_unchanged:
  assumes "in_frame (\<lambda>k c k' c'. c' = c) f"
  shows "unchanged w (snd (lift_op (retried f) w))"
proof -
  have "in_frame (\<lambda>k c k' c'. c' = c) (retried f)"
    by (rule retried_in_frame [OF _ _ _ assms]) simp_all
  then show ?thesis
    by (auto simp: unchanged_def lift_op_def in_frame_def split: prod.splits)
qed

interpretation kr: wirer_frame kagent unchanged
proof unfold_locales
  show "unchanged w w" for w :: "'x world" by (simp add: unchanged_def)
  show "unchanged u v \<Longrightarrow> unchanged v w \<Longrightarrow> unchanged u w" for u v w :: "'x world"
    by (simp add: unchanged_def)
qed (simp_all add: wire_lookup_def wire_list_def wire_list_all_def wire_render_def wire_removal_def
    wire_writable_def lift_unchanged in_frame_reads)

section \<open>A wirer whose version stays\<close>

text \<open>\<open>settled\<close>: the store is well formed, ModelConfigs have a status subresource (their CRD
  has), and discovery, if the wirer follows one, answers the version in use.\<close>

definition settled :: "wirer \<Rightarrow> cluster \<Rightarrow> bool" where
  "settled k c \<longleftrightarrow> wf_store c \<and> cl_status_sub c \<and>
     (\<forall>d c'. k_discover k = Some d \<longrightarrow> same_env c c' \<longrightarrow> d c' = Inr (APIVersion k))"

text \<open>The wirer but for its caches.\<close>

definition same_kagent :: "wirer \<Rightarrow> wirer \<Rightarrow> bool" where
  "same_kagent k k' \<longleftrightarrow> k\<lparr>k_fields := None, k_discovered := 0\<rparr> = k'\<lparr>k_fields := None, k_discovered := 0\<rparr>"

lemma same_kagent_fields:
  assumes "same_kagent k k'"
  shows "k_namespace k' = k_namespace k" "k_prefix k' = k_prefix k" "k_instance k' = k_instance k"
    "k_group k' = k_group k" "k_version k' = k_version k" "k_discover k' = k_discover k"
  using assms by (cases k; cases k'; simp add: same_kagent_def)+

lemma same_kagent_refl [simp]: "same_kagent k k" and
  same_kagent_trans: "same_kagent a b \<Longrightarrow> same_kagent b c \<Longrightarrow> same_kagent a c" and
  same_kagent_sym: "same_kagent a b \<Longrightarrow> same_kagent b a" and
  same_wirer_kagent: "same_wirer k k' \<Longrightarrow> same_kagent k k'"
     apply (simp_all add: same_kagent_def)
  apply (cases k; cases k'; simp add: same_wirer_def)
  done

lemma settled_same:
  assumes "settled k c" "same_kagent k k'" "same_env c c'" "wf_store c'"
  shows "settled k' c'"
  using assms same_kagent_fields [OF assms(2)] same_env_trans
  by (auto simp: settled_def APIVersion_def same_env_def)

lemma refresh_settled:
  assumes "settled k c"
  shows "refresh k c = k \<or> (\<exists>t. refresh k c = k\<lparr>k_discovered := t\<rparr>)"
  using assms
  by (auto simp: settled_def refresh_def rediscover_def APIVersion_def split: option.splits sum.splits)

lemma rediscovered_settled:
  assumes "settled k c"
  shows "rediscovered e k c = (False, k) \<or> (\<exists>t. rediscovered e k c = (False, k\<lparr>k_discovered := t\<rparr>))"
  using assms
  by (auto simp: settled_def rediscovered_def rediscover_def APIVersion_def Let_def split: option.splits sum.splits)

lemma same_kagent_discovered [simp]:
  "same_kagent k (k\<lparr>k_discovered := t\<rparr>)" "same_kagent (k\<lparr>k_discovered := t\<rparr>) k"
  by (cases k, simp add: same_kagent_def)+

lemma refresh_same: "settled k c \<Longrightarrow> same_kagent k (refresh k c)"
  using refresh_settled [of k c] by auto

lemma rediscovered_same: "settled k c \<Longrightarrow> same_kagent k (snd (rediscovered e k c))"
  using rediscovered_settled [of k c e] by auto

text \<open>In a settled state a call is made once, by the wirer as its refresh leaves it.\<close>

lemma retried_settled:
  assumes "settled k c" and r: "retried f k c = (r, k', c')"
    and once: "\<And>r1 k1 c1. f (refresh k c) c = (r1, k1, c1) \<Longrightarrow> settled k1 c1"
  shows "\<exists>k1. f (refresh k c) c = (r, k1, c') \<and> same_kagent k1 k'"
proof -
  obtain r1 k1 c1 where 1: "f (refresh k c) c = (r1, k1, c1)" by (metis prod.exhaust)
  show ?thesis
  proof (cases r1)
    case (Inr v)
    then show ?thesis using r 1 by (auto simp: retried_def)
  next
    case (Inl e)
    then show ?thesis using r 1 rediscovered_settled [OF once [OF 1], of e] by (auto simp: retried_def)
  qed
qed

section \<open>Writes keep the store well formed\<close>

lemma wf_filter: "wf_store c \<Longrightarrow> wf_store (c\<lparr>cl_mcs := (cl_mcs c)(g := filter P (cl_mcs c g))\<rparr>)"
  by (simp add: wf_store_def distinct_map_filter)

lemma wf_mcs: "cl_mcs c' = cl_mcs c \<Longrightarrow> wf_store c' = wf_store c"
  by (simp add: wf_store_def)

lemma removeObj_wf: "removeObj k n c = (r, c') \<Longrightarrow> wf_store c \<Longrightarrow> wf_store c'"
  using removeObj_frame(3) [of k n c r c']
  by (auto simp: wf_store_def distinct_map_filter)

lemma put_mc_keys: "map mc_key (put_mc m ms) = map mc_key ms"
  by (induction ms) (auto simp: put_mc_def mc_key_def keyed_def)

lemma ensure_create_wf:
  assumes "ensure_create k p c = (r, c')" "wf_store c"
  shows "wf_store c'"
proof -
  from ensure_create_frame [OF assms(1)] consider "cl_mcs c' = cl_mcs c"
    | "stored c (k_group k) (o_namespace (wp_desired p)) (o_name (wp_desired p)) = None"
      "cl_mcs c' = (cl_mcs c)(k_group k := cl_mcs c (k_group k) @
        [(wp_desired p)\<lparr>mc_uid := Suc (cl_rev c), mc_rv := Suc (cl_rev c)\<rparr>])"
    by (auto simp: Let_def)
  then show ?thesis
  proof cases
    case 1
    then show ?thesis using assms(2) wf_mcs by blast
  next
    case 2
    then have "mc_key (wp_desired p) \<notin> mc_key ` set (cl_mcs c (k_group k))"
      by (auto simp: stored_None keyed_def mc_key_def)
    moreover have "mc_key ((wp_desired p)\<lparr>mc_uid := u, mc_rv := v\<rparr>) = mc_key (wp_desired p)" for u v
      by (simp add: mc_key_def)
    ultimately show ?thesis using assms(2) 2(2) by (auto simp: wf_store_def)
  qed
qed

lemma ensure_update_wf:
  assumes "ensure_update k p x c = (r, c')" "wf_store c"
  shows "wf_store c'"
  using ensure_update_frame [OF assms(1)] assms(2) by (auto simp: Let_def wf_store_def put_mc_keys)

lemma ensure_frame:
  assumes "ensure model ep k c = (r, k', c')"
  shows "same_wirer k k' \<and> same_env c c' \<and> (wf_store c \<longrightarrow> wf_store c') \<and>
    (\<forall>g. g \<noteq> k_group k \<longrightarrow> cl_mcs c' g = cl_mcs c g)"
proof (cases "plan model ep k c")
  case (Pair pr k1)
  note sw = plan_same_wirer [OF Pair]
  show ?thesis
  proof (cases pr)
    case (Inl e)
    then show ?thesis using assms Pair sw by (simp add: ensure_def)
  next
    case (Inr p)
    with assms Pair have ap: "apply_plan k1 p c = (r, c')" and k1: "k' = k1"
      by (auto simp: ensure_def split: prod.splits)
    have g: "k_group k1 = k_group k" using same_wirer_fields [OF sw] by simp
    from apply_plan_cases [OF ap] consider "c' = c"
      | u c1 where "case wp_replaces p of None \<Rightarrow> c1 = c \<and> u = Inr ()
             | Some m \<Rightarrow> removeObj k1 (o_name m) c = (u, c1)"
        "c' = c1 \<or> (case wp_existing p of None \<Rightarrow> ensure_create k1 p c1 = (r, c')
         | Some x \<Rightarrow> ensure_update k1 p x c1 = (r, c'))"
      by blast
    then have "same_env c c' \<and> (wf_store c \<longrightarrow> wf_store c') \<and> (\<forall>g. g \<noteq> k_group k1 \<longrightarrow> cl_mcs c' g = cl_mcs c g)"
    proof cases
      case 1
      then show ?thesis by simp
    next
      case (2 u c1)
      have 1: "same_env c c1 \<and> (wf_store c \<longrightarrow> wf_store c1) \<and> (\<forall>g. g \<noteq> k_group k1 \<longrightarrow> cl_mcs c1 g = cl_mcs c g)"
        using 2(1) removeObj_frame(1,3) removeObj_wf by (fastforce split: option.splits)
      have "same_env c1 c' \<and> (wf_store c1 \<longrightarrow> wf_store c') \<and> (\<forall>g. g \<noteq> k_group k1 \<longrightarrow> cl_mcs c' g = cl_mcs c1 g)"
        using 2(2) ensure_create_frame [of k1 p c1 r c'] ensure_update_frame [of k1 p _ c1 r c']
          ensure_create_wf [of k1 p c1 r c'] ensure_update_wf [of k1 p _ c1 r c']
        by (fastforce simp: Let_def split: option.splits)
      with 1 show ?thesis using same_env_trans by (metis (no_types))
    qed
    then show ?thesis using sw g k1 by simp
  qed
qed

lemma remove_frame:
  assumes "remove b model sc k c = (r, k', c')"
  shows "k' = k \<and> same_env c c' \<and> (wf_store c \<longrightarrow> wf_store c') \<and>
    (\<forall>g. g \<noteq> k_group k \<longrightarrow> cl_mcs c' g = cl_mcs c g)"
  using remove_cases [OF assms] removeObj_frame removeObj_wf by fastforce

section \<open>Whose ModelConfigs the wirer changes\<close>

text \<open>A ModelConfig the wirer may change: in its group and namespace, managed by
  model-manager, not another instance's, and not applied from git.\<close>

definition ours :: "wirer \<Rightarrow> cluster \<Rightarrow> string \<Rightarrow> mconfig \<Rightarrow> bool" where
  "ours k c g m \<longleftrightarrow>
     g = k_group k \<and> o_namespace m = k_namespace k \<and>
     get_label (o_labels m) ManagedByLabel = ManagedByValue \<and>
     (get_label (o_labels m) InstanceLabel = [] \<or> get_label (o_labels m) InstanceLabel = k_instance k) \<and>
     applying c (at_version (k_group k) (k_version k) m) = Inr None"

definition no_legacy :: "wirer \<Rightarrow> cluster \<Rightarrow> bool" where
  "no_legacy k c \<longleftrightarrow> k_group k = LegacyKagentGroup \<or> cl_mcs c LegacyKagentGroup = []"

definition hands_off :: "wirer \<Rightarrow> cluster \<Rightarrow> wirer \<Rightarrow> cluster \<Rightarrow> bool" where
  "hands_off k c k' c' \<longleftrightarrow>
     (settled k c \<and> no_legacy k c \<longrightarrow>
        settled k' c' \<and> no_legacy k' c' \<and> same_kagent k k' \<and> same_env c c' \<and>
        (\<forall>g m. m \<in> set (cl_mcs c g) \<longrightarrow> m \<notin> set (cl_mcs c' g) \<longrightarrow> ours k c g m))"

lemma ours_same:
  assumes "same_kagent k k'" "same_env c c'"
  shows "ours k' c' g m = ours k c g m"
  using same_kagent_fields [OF assms(1)]
    applying_same_env [OF assms(2), of "at_version (k_group k) (k_version k) m"] by (simp add: ours_def)

lemma no_legacy_same: "same_kagent k k' \<Longrightarrow> no_legacy k' c = no_legacy k c"
  using same_kagent_fields(4) by (auto simp: no_legacy_def)

lemma hands_off_refl: "hands_off k c k c"
  by (simp add: hands_off_def)

lemma hands_off_trans:
  assumes "hands_off k c k1 c1" "hands_off k1 c1 k2 c2"
  shows "hands_off k c k2 c2"
proof -
  have "settled k2 c2 \<and> no_legacy k2 c2 \<and> same_kagent k k2 \<and> same_env c c2 \<and>
        (\<forall>g m. m \<in> set (cl_mcs c g) \<longrightarrow> m \<notin> set (cl_mcs c2 g) \<longrightarrow> ours k c g m)"
    if "settled k c" "no_legacy k c"
  proof -
    from assms(1) that have 1: "settled k1 c1" "no_legacy k1 c1" "same_kagent k k1" "same_env c c1"
      "\<forall>g m. m \<in> set (cl_mcs c g) \<longrightarrow> m \<notin> set (cl_mcs c1 g) \<longrightarrow> ours k c g m"
      by (simp_all add: hands_off_def)
    with assms(2) have 2: "settled k2 c2" "no_legacy k2 c2" "same_kagent k1 k2" "same_env c1 c2"
      "\<forall>g m. m \<in> set (cl_mcs c1 g) \<longrightarrow> m \<notin> set (cl_mcs c2 g) \<longrightarrow> ours k1 c1 g m"
      by (simp_all add: hands_off_def)
    show ?thesis
      using 1 2 ours_same [OF 1(3,4)] same_kagent_trans [OF 1(3) 2(3)] same_env_trans [OF 1(4) 2(4)]
      by blast
  qed
  then show ?thesis by (simp add: hands_off_def)
qed

lemma hands_off_same:
  assumes "settled k c \<Longrightarrow> same_kagent k k'"
  shows "hands_off k c k' c"
  using assms settled_same [of k c k' c] by (auto simp: hands_off_def settled_def no_legacy_same)

lemma ensure_hands_off: "in_frame hands_off (ensure model ep)"
proof -
  have "hands_off k c k' c'" if en: "ensure model ep k c = (r, k', c')" for k c r k' c'
  proof -
    note f = ensure_frame [OF en] and t = ensure_touches_only_ours [OF _ en]
    have "no_legacy k c \<Longrightarrow> no_legacy k' c'"
      using f same_wirer_fields(4) [of k k'] unfolding no_legacy_def by metis
    moreover have "settled k c \<Longrightarrow> settled k' c'"
      using f settled_same [of k c k' c'] same_wirer_kagent [of k k'] by (simp add: settled_def)
    moreover have "settled k c \<Longrightarrow> m \<in> set (cl_mcs c g) \<Longrightarrow> m \<notin> set (cl_mcs c' g) \<Longrightarrow> ours k c g m" for g m
      using t [of m g] by (simp add: ours_def settled_def)
    ultimately show ?thesis
      using f same_wirer_kagent [of k k'] by (simp add: hands_off_def)
  qed
  then show ?thesis by (simp add: in_frame_def)
qed

lemma remove_ours:
  assumes wf: "wf_store c" and nl: "no_legacy k c"
    and rm: "remove b model sc k c = (r, k', c')"
    and m: "m \<in> set (cl_mcs c g)" "m \<notin> set (cl_mcs c' g)"
  shows "ours k c g m"
proof -
  from remove_cases [OF rm] m obtain x where x: "find_mc k c b model = Inr (Some x)"
      "removable k c sc x" "removeObj k (o_name x) c = (r, c')" by auto
  from removeObj_frame(3) [OF x(3)] m
  have g: "g = k_group k" "keyed (k_namespace k) (o_name x) m" by (auto split: if_splits)
  from find_mc_Some(4) [OF x(1)] nl obtain m' where
    m': "m' \<in> set (cl_mcs c (k_group k))" "x = at_version (k_group k) (k_version k) m'"
    by (auto simp: no_legacy_def KagentGroup_def LegacyKagentGroup_def)
  with g find_mc_Some(2) [OF x(1)] m(1) have "m' = m"
    using keyed_unique [OF wf m'(1), of m] by (simp add: keyed_def)
  with m' g x(2) show ?thesis by (auto simp: ours_def removable_def createdHere_def keyed_def)
qed

lemma remove_hands_off: "in_frame hands_off (remove b model sc)"
proof -
  have "hands_off k c k' c'" if rm: "remove b model sc k c = (r, k', c')" for k c r k' c'
  proof -
    note f = remove_frame [OF rm]
    have "no_legacy k c \<Longrightarrow> no_legacy k' c'"
      using f unfolding no_legacy_def by metis
    moreover have "settled k c \<Longrightarrow> settled k' c'"
      using f settled_same [of k c k' c'] by (simp add: settled_def)
    moreover have "settled k c \<Longrightarrow> no_legacy k c \<Longrightarrow> m \<in> set (cl_mcs c g) \<Longrightarrow> m \<notin> set (cl_mcs c' g) \<Longrightarrow>
        ours k c g m" for g m
      using remove_ours [OF _ _ rm, of m g] by (simp add: settled_def)
    ultimately show ?thesis
      using f by (simp add: hands_off_def)
  qed
  then show ?thesis by (simp add: in_frame_def)
qed

lemma hands_off_read:
  assumes "\<And>k c r k' c'. f k c = (r, k', c') \<Longrightarrow> c' = c \<and> same_kagent k k'"
  shows "in_frame hands_off f"
  using assms hands_off_same by (metis in_frame_def)

lemma reads_hands_off:
  "in_frame hands_off (lookup b model)" "in_frame hands_off list_mcs" "in_frame hands_off list_all_mcs"
  "in_frame hands_off (render model ep)" "in_frame hands_off (removal b model sc)"
  "in_frame hands_off (\<lambda>k c. case writable ep k c of (r, k) \<Rightarrow> (r, k, c))"
  by (rule hands_off_read; auto simp: lookup_def list_mcs_def list_all_mcs_def render_def removal_def
      split: sum.splits option.splits prod.splits dest: plan_same_wirer writable_same_wirer
      intro: same_wirer_kagent)+

text \<open>Of a world: what the wirer and the cluster do, whatever the rest does.\<close>

definition leaves_others :: "'x world \<Rightarrow> 'x world \<Rightarrow> bool" where
  "leaves_others w w' \<longleftrightarrow> hands_off (fst w) (fst (snd w)) (fst w') (fst (snd w'))"

lemma lift_leaves_others:
  assumes "in_frame hands_off f"
  shows "leaves_others w (snd (lift_op (retried f) w))"
proof -
  have "in_frame hands_off (retried f)"
    using retried_in_frame [of hands_off f] assms hands_off_trans hands_off_same refresh_same rediscovered_same
    by metis
  then show ?thesis
    by (auto simp: leaves_others_def lift_op_def in_frame_def split: prod.splits)
qed

interpretation kw: wirer_writes kagent leaves_others
proof unfold_locales
  show "leaves_others w w" for w :: "'x world" by (simp add: leaves_others_def hands_off_refl)
  show "leaves_others u v \<Longrightarrow> leaves_others v w \<Longrightarrow> leaves_others u w" for u v w :: "'x world"
    using hands_off_trans by (auto simp: leaves_others_def)
qed (simp_all add: wire_lookup_def wire_list_def wire_list_all_def wire_render_def wire_removal_def
    wire_writable_def wire_ensure_def wire_remove_def lift_leaves_others reads_hands_off ensure_hands_off remove_hands_off)

section \<open>What a call tells of the next\<close>

text \<open>The reads do not look at the time of the last discovery.\<close>

lemma match_same:
  assumes "same_kagent k k'"
  shows "match_mc k' = match_mc k"
  by (intro ext, unfold match_mc_def same_kagent_fields [OF assms], rule refl)

lemma find_mc_same:
  assumes "same_kagent k k'"
  shows "find_mc k' c b model = find_mc k c b model"
  unfolding find_mc_def legacyGitOps_def list_error_def match_same [OF assms] same_kagent_fields [OF assms]
  by (rule refl)

lemma lookup_same:
  assumes "same_kagent k k'"
  shows "fst (lookup b model k' c) = fst (lookup b model k c)"
  by (simp add: lookup_def find_mc_same [OF assms] split: sum.split option.split)

lemma referrers_in_same:
  assumes "same_kagent k k'"
  shows "referrers_in k' c ns n rs refs = referrers_in k c ns n rs refs"
  by (induction rs arbitrary: refs) (simp_all add: same_kagent_fields [OF assms] split: sum.split)

lemma kept_same:
  assumes "same_kagent k k'"
  shows "kept k' c (x :: 'a kobj_scheme) sc = kept k c x sc"
  unfolding kept_def createdHere_def notOwned_def referrers_def referrers_in_same [OF assms] same_kagent_fields [OF assms]
  by (rule refl)

lemma removal_res_same:
  assumes "same_kagent k k'"
  shows "removal_res b model sc k' c = removal_res b model sc k c"
  unfolding removal_res_def find_mc_same [OF assms] kept_same [OF assms] removal_objects_def
    same_kagent_fields [OF assms]
  by (rule refl)

definition settled_world :: "'x world \<Rightarrow> bool" where
  "settled_world w \<longleftrightarrow> settled (fst w) (fst (snd w))"

lemma wire_lookup_settled:
  assumes "settled k c" "lookup b model k c = (Inr a, k, c)"
  shows "fst (wire_lookup b model k c) = Inr a"
proof -
  have "fst (lookup b model (refresh k c) c) = Inr a"
    using lookup_same [OF refresh_same [OF assms(1)]] assms(2) by simp
  then show ?thesis
    by (cases "lookup b model (refresh k c) c") (simp add: wire_lookup_def retried_def)
qed

lemma settled_refresh: "settled k c \<Longrightarrow> settled (refresh k c) c"
  using settled_same [of k c "refresh k c" c] refresh_same [of k c] by (simp add: settled_def)

lemma wire_ensure_settled:
  assumes "settled k c" "wire_ensure model ep k c = (Inr r, k', c')"
  shows "settled k' c' \<and> ensure model ep (refresh k c) c = (Inr r, k', c')"
proof -
  obtain r1 k1 c1 where 1: "ensure model ep (refresh k c) c = (r1, k1, c1)" by (metis prod.exhaust)
  note f = ensure_frame [OF 1] and s0 = settled_refresh [OF assms(1)]
  have s1: "settled k1 c1"
    using settled_same [OF s0, of k1 c1] f same_wirer_kagent s0 unfolding settled_def by blast
  have "r1 = Inr r \<and> k1 = k' \<and> c1 = c'"
    using assms(2) 1 rediscovered_settled [OF s1, of "projl r1"] by (auto simp: wire_ensure_def retried_def split: sum.splits)
  with 1 s1 show ?thesis by simp
qed

lemma wire_removal_settled:
  assumes "settled k c" "wire_removal b model sc k c = (Inr d, k', c')"
  shows "settled k' c' \<and> c' = c \<and> removal_res b model sc k' c' = Inr d"
proof -
  note s0 = settled_refresh [OF assms(1)]
  have "removal b model sc (refresh k c) c = (removal_res b model sc (refresh k c) c, refresh k c, c)"
    by (simp add: removal_def)
  with assms(2) rediscovered_settled [OF s0, of "projl (removal_res b model sc (refresh k c) c)"]
  have "removal_res b model sc (refresh k c) c = Inr d \<and> k' = refresh k c \<and> c' = c"
    by (auto simp: wire_removal_def retried_def split: sum.splits)
  with s0 show ?thesis by simp
qed

text \<open>A removal that refuses in a settled state refuses after its refresh as well.\<close>

lemma wire_remove_refused:
  assumes "settled k c" "remove b model sc (refresh k c) c = (Inl e, refresh k c, c)"
  shows "\<exists>k'. wire_remove b model sc k c = (Inl e, k', c)"
  using rediscovered_settled [OF settled_refresh [OF assms(1)], of e] assms(2)
  by (auto simp: wire_remove_def retried_def)

interpretation ka: wirer_answers kagent settled_world unchanged
proof unfold_locales
  show "unchanged w w" for w :: "'x world" by (simp add: unchanged_def)
next
  fix w w' :: "'x world" and ep model r
  assume a: "settled_world w" "ep_name ep = []" "w_ensure kagent model ep w = (Inr r, w')"
  obtain k c x where w: "w = (k, c, x)" by (metis prod.exhaust)
  obtain k' c' where w': "wire_ensure model ep k c = (Inr r, k', c')" "w' = (k', c', x)"
    using a(3) w by (auto simp: lift_op_def split: prod.splits)
  have s: "settled k c" using a(1) w by (simp add: settled_world_def)
  from wire_ensure_settled [OF s w'(1)] have en: "settled k' c'" "ensure model ep (refresh k c) c = (Inr r, k', c')" by auto
  have "lookup (ep_backend ep) model k' c' = (Inr (Some r), k', c')"
    using ensure_then_lookup [OF _ _ a(2) en(2)] s by (simp add: settled_def)
  from wire_lookup_settled [OF en(1) this] w'
  show "fst (w_lookup kagent (ep_backend ep) model w') = Inr (Some r)"
    by (cases "wire_lookup (ep_backend ep) model k' c'") (auto simp: lift_op_def)
next
  fix w w' :: "'x world" and b model sc d left
  assume a: "settled_world w" "w_removal kagent b model sc w = (Inr d, w')" "rn_left d = Some left"
  obtain k c x where w: "w = (k, c, x)" by (metis prod.exhaust)
  obtain k' c' where w': "wire_removal b model sc k c = (Inr d, k', c')" "w' = (k', c', x)"
    using a(2) w by (auto simp: lift_op_def split: prod.splits)
  have s: "settled k c" using a(1) w by (simp add: settled_world_def)
  from wire_removal_settled [OF s w'(1)] have d: "settled k' c'" "removal_res b model sc k' c' = Inr d" by auto
  have "removal_res b model sc (refresh k' c') c' = Inr d"
    using removal_res_same [OF refresh_same [OF d(1)]] d(2) by simp
  then have "remove b model sc (refresh k' c') c' = (Inl (not_owned_err left), refresh k' c', c')"
    using removal_tells_remove [of b model sc "refresh k' c'" c'] a(3) by simp
  from wire_remove_refused [OF d(1) this] w'(2)
  show "fst (w_remove kagent b model sc w') = Inl (not_owned_err left) \<and>
      unchanged w' (snd (w_remove kagent b model sc w'))"
    by (auto simp: lift_op_def unchanged_def)
next
  fix w w' :: "'x world" and b model sc d ow
  assume a: "settled_world w" "w_removal kagent b model sc w = (Inr d, w')" "rn_left d = None" "rn_gitops d = Some ow"
  obtain k c x where w: "w = (k, c, x)" by (metis prod.exhaust)
  obtain k' c' where w': "wire_removal b model sc k c = (Inr d, k', c')" "w' = (k', c', x)"
    using a(2) w by (auto simp: lift_op_def split: prod.splits)
  have s: "settled k c" using a(1) w by (simp add: settled_world_def)
  from wire_removal_settled [OF s w'(1)] have d: "settled k' c'" "removal_res b model sc k' c' = Inr d" by auto
  have "removal_res b model sc (refresh k' c') c' = Inr d"
    using removal_res_same [OF refresh_same [OF d(1)]] d(2) by simp
  then obtain e where "remove b model sc (refresh k' c') c' = (Inl e, refresh k' c', c')" "err_is e ErrGitOpsOwned"
    using removal_tells_remove [of b model sc "refresh k' c'" c'] a(3,4) by auto
  with wire_remove_refused [OF d(1) this(1)] w'(2)
  show "(\<exists>e. fst (w_remove kagent b model sc w') = Inl e \<and> err_is e ErrGitOpsOwned) \<and>
      unchanged w' (snd (w_remove kagent b model sc w'))"
    by (auto simp: lift_op_def unchanged_def)
qed

end
