(* ===== verification/Service_Examples.thy ===== *)
theory Service_Examples
  imports Service_Registry
begin

text \<open>
  Concrete services, at which the hypotheses of the properties of the backend set hold: two
  static backends, of which one holds a model, and a third registered at runtime.
\<close>

definition w_caps :: capabilities where
  "w_caps =
     \<lparr>cap_pull = True, cap_pull_progress = True, cap_delete = True, cap_load = True,
      cap_unload = True, cap_loaded_models = True, cap_wire = False, cap_presets = False,
      cap_fit_check = False, cap_node_inventory = False, cap_search = False, cap_commit = False\<rparr>"

text \<open>A backend that holds the models \<open>ms\<close>, over any world.\<close>

definition w_backend :: "name \<Rightarrow> string list \<Rightarrow> 'w backend" where
  "w_backend n ms =
     \<lparr>b_name = n, b_caps = w_caps,
      b_list_models = (\<lambda>w. Inr (map (\<lambda>m. zero_model\<lparr>m_name := m, m_backend := n\<rparr>) ms)),
      b_get_model = (\<lambda>m w. if List.member ms m then Inr (zero_model\<lparr>m_name := m, m_backend := n\<rparr>)
                           else Inl (errw ErrNotFound m)),
      b_list_loaded = (\<lambda>w. Inr []), b_pull = (\<lambda>r w. (Inr (), w)), b_delete = (\<lambda>m w. (Inr (), w)),
      b_load = (\<lambda>r w. (Inr (), w)), b_unload = (\<lambda>m w. (Inr (), w)),
      b_endpoint = (\<lambda>m w.
        \<lparr>ep_provider = ''Ollama'', ep_backend = n, ep_host = ''http://ollama:11434'', ep_base_url = [],
         ep_model = m, ep_placeholder_key = False, ep_passthrough = False, ep_secret = [],
         ep_secret_key = [], ep_name = [], ep_context_length = 0, ep_think = None\<rparr>),
      b_wait_ready = None, b_serve = None, b_stop = None, b_stop_plan = None,
      b_running_pulls = None, b_fit_check = None, b_target = None, b_target_client = False\<rparr>"

definition w_cfg :: config where
  "w_cfg = \<lparr>cf_auto_wire = True, cf_keep_alive = ''5m'', cf_instance = [], cf_version = [],
      cf_namespace = []\<rparr>"

definition w_static :: "unit backend list" where
  "w_static = [w_backend ''ollama'' [''qwen3:8b''], w_backend ''lemonade'' []]"

definition w_new :: "unit service" where
  "w_new = the (new_service w_static None None [] w_cfg)"

definition w_service :: "unit service" where
  "w_service = snd (RegisterDocument (w_backend ''kserve'' [''qwen3:8b'']) ''person'' ''cm'' w_new)"

lemma w_new_reach: "svc_reach w_static w_new"
proof -
  have "new_service w_static None None [] w_cfg = Some w_new"
    by (simp add: w_new_def new_service_def w_static_def w_backend_def Let_def)
  then show ?thesis by (rule reach_new)
qed

lemma w_service_reach: "svc_reach w_static w_service"
  unfolding w_service_def by (rule reach_register [OF w_new_reach]) (simp add: source_static_def)

lemma reachable_services_consistent_witness:
  "distinct (names w_service) \<and> take (length w_static) (sv_backends w_service) = w_static"
  using reachable_services_consistent [OF w_service_reach] by blast

lemma backend_set_refines_map_witness:
  "abs_registered (snd (DeregisterDocument ''kserve'' ''cm'' [] w_service)) =
     (abs_registered w_service)(''kserve'' := None)"
  using backend_set_refines_map [OF w_service_reach, of "''person''" "w_backend ''kserve'' []" "''cm''" "''kserve''" "[]"]
  by (simp add: source_static_def)

lemma named_addresses_witness:
  "\<exists>b. named w_service '' lemonade '' = Inr b \<and> b_name b = ''lemonade''"
proof -
  have "\<exists>b. named w_service '' lemonade '' = Inr b"
    by (simp add: w_service_def w_new_def new_service_def w_static_def w_backend_def Let_def
        named_def trim_space_def is_space_def RegisterDocument_def rebuildLocked_def lookup_backend_def
        source_of_def source_static_def)
  then obtain b where b: "named w_service '' lemonade '' = Inr b" by blast
  show ?thesis
    using named_addresses [OF w_service_reach, of "'' lemonade ''"] b
    by (simp add: trim_space_def is_space_def)
qed

lemma resolve_unqualified_witness:
  "\<exists>e. resolve w_service [] ''qwen3:8b'' () = Inl e \<and> err_is e ErrConflict"
proof -
  have [simp]: "trim_space [] = []" "trim_space ''qwen3:8b'' = ''qwen3:8b''"
    by (simp_all add: trim_space_def is_space_def)
  have b: "sv_backends w_service = w_static @ [w_backend ''kserve'' [''qwen3:8b'']]"
    by (simp add: w_service_def w_new_def new_service_def w_static_def w_backend_def Let_def
        RegisterDocument_def rebuildLocked_def source_of_def source_static_def)
  show ?thesis
    using resolve_unqualified [of "[]" w_service "''qwen3:8b''" "()"]
    by (simp add: b refusals_def holders_def w_static_def w_backend_def)
qed

end
