(* ===== verification/Service_Correct.thy ===== *)
theory Service_Correct
  imports Wirer_Kagent Service_Examples
begin

text \<open>
  What the operations of the service promise, with the kagent wirer behind them: whose
  ModelConfigs they change, that a dry run changes nothing and tells what the operation does,
  and that a model wired is found wired.
\<close>

section \<open>Whose ModelConfigs the service changes\<close>

text \<open>C2. No operation of the service changes a ModelConfig that is not its own: whatever is
  called (wire, unwire, load, unload, delete, a list that wires on read, the work of a pull job, the
  work of a load job that waits for its model, a tick of the reconciler, the unwiring of a backend), a
  ModelConfig that is no longer as it was lies in the wirer's group and namespace, is managed by
  model-manager, not another instance's, and not applied from git. This holds where the wirer's API
  version stays and no kagent.dev ModelConfigs are left beside it, for backends that leave
  ModelConfigs alone.\<close>

theorem service_keeps_others:
  fixes s :: "'x world service" and x :: 'x
  assumes "svc_reach st s" "sv_wirer s \<in> {None, Some kagent}"
    and "\<forall>b\<in>set (sv_backends s). frames leaves_others b" "b \<in> set (sv_backends s)"
    and "settled k c" "no_legacy k c"
    and "w' \<in> {snd (Wire s n rf opts (k, c, x)), snd (Unwire s n rf (k, c, x)),
      snd (snd (Load s lo env jm (k, c, x))), snd (snd (Unload s settle n rf env jm (k, c, x))),
      snd (Delete s n rf unwire (k, c, x)), snd (ListLoaded s n (k, c, x)),
      snd (pull_job s b req do_wire (k, c, x)), snd (run_tick s kagent now (sv_backends s) jm (k, c, x)),
      snd (UnwireBackend s n (k, c, x))} \<union>
      {snd (load_job kagent b wait model rf ended (k, c, x)) | wait model ended. b_wait_ready b = Some wait}"
    and "m \<in> set (cl_mcs c g)" "m \<notin> set (cl_mcs (fst (snd w')) g)"
  shows "ours k c g m"
proof -
  note wr = assms(2) and inv = svc_reach_inv [OF assms(1)] and fr = assms(3)
  have "leaves_others (k, c, x) (snd (run_tick s kagent now (sv_backends s) jm (k, c, x)))"
    by (rule kw.run_tick_R [OF prod.collapse [symmetric] wr kw.R_refl])
  moreover have "frames leaves_others b" using fr assms(4) by blast
  ultimately have "leaves_others (k, c, x) w'"
    using assms(7)
    by (elim UnE insertE emptyE CollectE exE conjE)
       (simp_all add: kw.Wire_R [OF wr] kw.Unwire_R [OF wr] kw.Load_R [OF wr inv fr] kw.Unload_R [OF wr inv fr]
        kw.Delete_R [OF wr inv fr] kw.ListLoaded_R [OF wr] kw.pull_job_R [OF _ wr] kw.load_job_R kw.UnwireBackend_R [OF wr])
  then show ?thesis using assms(5,6,8,9) by (auto simp: leaves_others_def hands_off_def)
qed

section \<open>Dry runs\<close>

text \<open>C3. A dry run writes nothing: planning a pull, load, unload, delete, wiring, unwiring or
  the removal of a backend leaves the cluster, and everything else but the wirer's own caches,
  exactly as it was, whatever it answers (given that a backend's serve keeps its own dry run).\<close>

theorem dry_runs_write_nothing:
  fixes s :: "'x world service"
  assumes "svc_reach st s" "sv_wirer s \<in> {None, Some kagent}"
    and "\<forall>b\<in>set (sv_backends s). dry_serve unchanged b"
    and "w' \<in> {snd (PlanPull s po w), snd (PlanLoad s lo w), snd (PlanUnload s n rf w),
      snd (PlanDelete s n rf unwire w), snd (PlanWire s n rf opts w), snd (PlanUnwire s n rf w),
      snd (PlanBackendRemoval s n w)}"
  shows "snd w' = snd w"
proof -
  note wr = assms(2) and inv = svc_reach_inv [OF assms(1)]
  have "unchanged w w'"
    using assms(4) kr.PlanPull_R [OF wr] kr.PlanLoad_R [OF wr inv assms(3)] kr.PlanUnload_R [OF wr]
      kr.PlanDelete_R [OF wr] kr.PlanWire_R [OF wr] kr.PlanUnwire_R [OF wr] kr.PlanBackendRemoval_R [OF wr]
    by blast
  then show ?thesis by (simp add: unchanged_def)
qed

text \<open>C4. The dry run of a delete that unwires tells what the delete does, by what the wirer's dry
  removal answers. Where that fails, the plan fails with its error. Where it would leave the ModelConfig
  of another instance, the plan refuses with that instance's refusal, and so does the delete. Otherwise
  the plan answers the removal's objects and the owner that applies the ModelConfig from git, if any;
  with an owner, the delete refuses with \<open>ErrGitOpsOwned\<close>. A refused delete leaves the world as it
  was, the model's weights included. The model is resolved alike before and after the dry removal, and
  its backend can delete.\<close>

theorem plan_delete_tells_delete:
  fixes s :: "'x world service"
  assumes "settled_world w" "sv_wirer s = Some kagent"
    and "w_removal kagent (b_name b) (m_name m) CreatedHere w = (rm, w')"
    and "resolve s n rf w' = resolve s n rf w" "resolve s n rf w = Inr (b, m)" "cap_delete (b_caps b)"
  shows "case rm of
      Inl e \<Rightarrow> PlanDelete s n rf True w = (Inl e, w')
    | Inr d \<Rightarrow> (case rn_left d of
        Some left \<Rightarrow>
          (\<exists>e. PlanDelete s n rf True w = (Inl e, w') \<and> err_as_not_owned e = Some left) \<and>
          (\<exists>e. fst (Delete s n rf True w') = (b_name b, Some e) \<and> err_as_not_owned e = Some left) \<and>
          snd (snd (Delete s n rf True w')) = snd w'
      | None \<Rightarrow>
          (\<exists>p q. PlanDelete s n rf True w = (Inr p, w') \<and> op_wiring p = Some q \<and> pl_gitops q = rn_gitops d \<and>
             pl_objects q = rn_objects d) \<and>
          (case rn_gitops d of None \<Rightarrow> True | Some ow \<Rightarrow>
             (\<exists>e. fst (Delete s n rf True w') = (b_name b, Some e) \<and> err_is e ErrGitOpsOwned) \<and>
             snd (snd (Delete s n rf True w')) = snd w'))"
  by (rule ka.PlanDelete_Delete [OF assms, unfolded unchanged_def])

text \<open>C36. The dry run of a pull agrees with the pull. When \<open>PlanPull\<close> answers, \<open>Pull\<close>
  accepts the same options for the same backend and wires exactly when a wiring is planned; the
  one exception is a wiring asked for that cannot be (no wirer, or a backend whose models are
  wired when served): there the plan answers as if it had not been asked, and the pull
  refuses.\<close>

theorem plan_pull_tells_pull:
  assumes "PlanPull s opts w = (Inr p, w')"
  shows "(\<exists>b req do_wire. pull_target s opts = Inr (b, req, do_wire) \<and> b_name b = op_backend p \<and>
      (op_wiring p \<noteq> None \<longleftrightarrow> do_wire)) \<or>
    po_wire opts = Some True \<and> op_wiring p = None \<and>
    (\<exists>b e. named s (po_backend opts) = Inr b \<and> (sv_wirer s = None \<or> serveLifecycle b) \<and>
      pull_target s opts = Inl e)"
proof -
  obtain b where b: "named s (po_backend opts) = Inr b" "cap_pull (b_caps b)" "trim_space (po_model opts) \<noteq> []"
    using assms by (auto simp: PlanPull_def Let_def split: sum.splits if_splits)
  have "op_backend p = b_name b"
    using assms b by (auto simp: PlanPull_def Let_def empty_op_plan_def split: sum.splits if_splits prod.splits option.splits)
  moreover have "op_wiring p \<noteq> None \<longleftrightarrow> sv_wirer s \<noteq> None \<and> \<not> serveLifecycle b \<and>
      (case po_wire opts of Some y \<Rightarrow> y | None \<Rightarrow> cf_auto_wire (sv_cfg s))"
    using assms b
    by (auto simp: PlanPull_def planWiring_def Let_def empty_op_plan_def split: sum.splits if_splits prod.splits option.splits)
  ultimately show ?thesis using b
    by (auto simp: pull_target_def Let_def split: option.splits)
qed

section \<open>A model wired is found\<close>

text \<open>C6. What \<open>Wire\<close> wrote is what the next lookup finds: on a backend that leaves the
  ModelConfig's name to the wirer, a wiring that succeeded answers the very reference that
  looking the model up on that backend then answers.\<close>

theorem wired_model_is_found:
  fixes s :: "'x world service"
  assumes "settled_world w" "sv_wirer s = Some kagent"
    and "resolve s n rf w = Inr (b, m)" "b_get_model b (m_name m) w = Inr m" "m_preset m = []"
    and "\<not> serveLifecycle b" "ep_name (b_endpoint b (m_name m) w) = []"
    and "Wire s n rf opts w = (Inr r, w')"
  shows "fst (w_lookup kagent (b_name b) (m_name m) w') = Inr (Some r)"
  using ka.wireModel_lookup [OF assms(1,6,7), of "m_name m" opts r w'] assms by (simp add: Wire_def)

section \<open>Committing an unload\<close>

text \<open>C37. Committing an unload of a served model without naming its backend panics when
  several backends are configured: the plan then is not the stop planner's and carries no
  objects, of which the code takes the first. (\<open>PlanUnload\<close> answers that plan, without the
  objects the unload would delete.)\<close>

theorem unload_commit_panics:
  assumes "svc_reach st s" "sv_commit s = Some commit"
    and "trim_space n = []" "length (sv_backends s) \<noteq> 1"
    and "resolve s n rf w = Inr (b, m)" "cap_unload (b_caps b)" "b_stop_plan b \<noteq> None"
  shows "(\<exists>e. fst (CommitUnload s n rf target dry w) = Inl e \<and> err_is e GoPanic) \<and>
    (\<exists>p. PlanUnload s n rf w = (Inr p, w) \<and> op_objects p = [])"
proof -
  note inv = svc_reach_inv [OF assms(1)]
  have "lookup_backend s (b_name b) = Some b"
    using svc_inv_lookup [OF inv] resolve_in [OF inv assms(5)] by blast
  then show ?thesis using assms
    by (auto simp: CommitUnload_def PlanUnload_def planUnload_def stopPlan_def unloadable_def empty_op_plan_def err_is_def)
qed

end
