(* ===== verification/Wiring_Contracts.thy ===== *)
theory Wiring_Contracts
  imports Wiring_Correct
begin

text \<open>
  The smaller contracts of the wirer: readiness, references, API versions and their
  discovery, the retry after a version miss, and what the fallback on the derived name does to
  a ModelConfig of another model.
\<close>

section \<open>Readiness\<close>

definition last_of :: "string \<Rightarrow> condition list \<Rightarrow> condition option" where
  "last_of t conds = find (\<lambda>x. co_type x = t) (rev conds)"

lemma find_append:
  "find P (xs @ ys) = (case find P xs of None \<Rightarrow> find P ys | Some x \<Rightarrow> Some x)"
  by (induction xs) auto

lemma last_of_Cons:
  "last_of t (x # xs) =
     (case last_of t xs of None \<Rightarrow> if co_type x = t then Some x else None | Some y \<Rightarrow> Some y)"
  by (simp add: last_of_def find_append split: option.split)

lemma condition_types_differ [simp]:
  "acceptedCondition \<noteq> resolvedRefsCondition" "resolvedRefsCondition \<noteq> acceptedCondition"
  by (simp_all add: acceptedCondition_def resolvedRefsCondition_def)

lemma readiness_loop_spec:
  "readiness_loop xs a am u um =
     (let a' = (case last_of acceptedCondition xs of None \<Rightarrow> a | Some x \<Rightarrow> co_status x = ''True'');
          am' = (case last_of acceptedCondition xs of None \<Rightarrow> am | Some x \<Rightarrow> co_message x);
          u' = (case last_of resolvedRefsCondition xs of None \<Rightarrow> u | Some x \<Rightarrow> co_status x \<noteq> ''True'');
          um' = (case last_of resolvedRefsCondition xs of None \<Rightarrow> um | Some x \<Rightarrow> co_message x)
      in if \<not> a' then (False, am') else if u' then (False, um') else (True, am'))"
proof (induction xs arbitrary: a am u um)
  case Nil
  then show ?case by (simp add: last_of_def)
next
  case (Cons x xs)
  then show ?case by (auto simp: last_of_Cons Let_def split: option.splits)
qed

text \<open>A ModelConfig is ready exactly when the last \<open>Accepted\<close> condition of its status
  is True and the last \<open>ResolvedRefs\<close> condition, if the controller reports one, is True as
  well; a status without conditions is not ready, and the order of conditions of different
  types does not matter.\<close>

theorem readiness_iff:
  "fst (readiness conds) \<longleftrightarrow>
     (case last_of acceptedCondition conds of None \<Rightarrow> False | Some x \<Rightarrow> co_status x = ''True'') \<and>
     (case last_of resolvedRefsCondition conds of None \<Rightarrow> True | Some x \<Rightarrow> co_status x = ''True'')"
  by (cases "conds = []")
     (auto simp: readiness_def readiness_loop_spec Let_def last_of_def split: option.splits)

section \<open>References\<close>

text \<open>A value mentions a ModelConfig: some field of it, at any depth, names it.\<close>

inductive mentions :: "string \<Rightarrow> string \<Rightarrow> json \<Rightarrow> bool" for ns n where
  field: "(key, f) \<in> set kvs \<Longrightarrow> names_model_config key f ns n \<Longrightarrow> mentions ns n (JObj kvs)"
| inner: "(key, f) \<in> set kvs \<Longrightarrow> mentions ns n f \<Longrightarrow> mentions ns n (JObj kvs)"
| item: "f \<in> set xs \<Longrightarrow> mentions ns n f \<Longrightarrow> mentions ns n (JList xs)"

inductive_simps mentions_simps:
  "mentions ns n (JObj kvs)" "mentions ns n (JList xs)" "mentions ns n (JStr s)"
  "mentions ns n (JNum i)" "mentions ns n (JBool b)" "mentions ns n JNull"

lemma references_mentions_aux:
  "references v ns n \<longleftrightarrow> mentions ns n v"
  "fields_reference kvs ns n \<longleftrightarrow>
     (\<exists>(key, f)\<in>set kvs. names_model_config key f ns n \<or> mentions ns n f)"
  "items_reference xs ns n \<longleftrightarrow> (\<exists>f\<in>set xs. mentions ns n f)"
  by (induction v ns n and kvs ns n and xs ns n rule: references_fields_reference_items_reference.induct)
     (auto simp: mentions_simps)

text \<open>The walk over an object's spec misses nothing and invents nothing: it answers true
  exactly when some \<open>modelConfig\<close> or \<open>modelConfigRef\<close> field, at any depth of maps and
  lists, names the ModelConfig, by an object's name or by a bare or qualified string.\<close>

theorem references_iff:
  "references v ns n \<longleftrightarrow> mentions ns n v"
  by (rule references_mentions_aux(1))

section \<open>Versions\<close>

lemma cut_at: "c \<notin> set a \<Longrightarrow> cut c (a @ c # b) = (a, b, True)"
  by (induction a) auto

lemma ParseAPIVersion_gv_string:
  assumes "ParseAPIVersion s = Inr (g, v)"
  shows "gv_string g v = s \<and> g \<in> {KagentGroup, LegacyKagentGroup} \<and> v \<noteq> []"
proof -
  have p: "parse_group_version s = Some (g, v)" "g \<in> {KagentGroup, LegacyKagentGroup}" "v \<noteq> []"
    using assms by (auto simp: ParseAPIVersion_def split: option.splits prod.splits if_splits)
  then have "g \<noteq> []" by (auto simp: KagentGroup_def LegacyKagentGroup_def)
  with p(1) obtain f where "cut (CHR ''/'') s = (g, v, f)" "f"
    by (auto simp: parse_group_version_def split: if_splits prod.splits)
  then have "s = g @ CHR ''/'' # v" using cut_found by auto
  with p \<open>g \<noteq> []\<close> show ?thesis by (simp add: gv_string_def)
qed

lemma ParseAPIVersion_group:
  assumes "g \<in> {KagentGroup, LegacyKagentGroup}" "CHR ''/'' \<notin> set v" "v \<noteq> []"
  shows "ParseAPIVersion (g @ ''/'' @ v) = Inr (g, v)"
proof -
  have "list_all (\<lambda>c. c \<noteq> CHR ''/'') KagentGroup" "list_all (\<lambda>c. c \<noteq> CHR ''/'') LegacyKagentGroup"
    by code_simp+
  with assms(1) have g: "CHR ''/'' \<notin> set g" by (auto simp: list_all_iff)
  have "g \<noteq> []" using assms(1) by (auto simp: KagentGroup_def LegacyKagentGroup_def)
  then have "g @ CHR ''/'' # v \<noteq> ''/''" using assms(3) by (cases g) auto
  with assms g cut_at [OF g, of v] show ?thesis
    by (auto simp: ParseAPIVersion_def parse_group_version_def)
qed

text \<open>A configured API version cannot crash the wirer: whatever setting
  \<open>ParseAPIVersionSetting\<close> accepts, the version used while discovery is unavailable is one
  \<open>NewKagent\<close> takes without panicking, in a kagent group, and it is the pinned one when
  one is pinned.\<close>

theorem version_setting_safe:
  assumes "ParseAPIVersionSetting s = Inr v"
  shows "\<exists>k. NewKagent ns (version_fallback v) pre inst = Some k \<and>
     k_group k \<in> {KagentGroup, LegacyKagentGroup} \<and> APIVersion k = version_fallback v \<and>
     (if vs_pinned v \<noteq> [] then APIVersion k = s else k_group k = KagentGroup)"
proof -
  have "ParseAPIVersion DefaultAPIVersion = Inr (KagentGroup, ''v1alpha3'')" by code_simp
  have "\<exists>g w. ParseAPIVersion (version_fallback v) = Inr (g, w) \<and>
      (if vs_pinned v \<noteq> [] then version_fallback v = s else g = KagentGroup)"
  proof -
    consider (auto) "v = \<lparr>vs_pinned = [], vs_version = []\<rparr>"
      | (pinned) g w where "ParseAPIVersion s = Inr (g, w)" "v = \<lparr>vs_pinned = s, vs_version = []\<rparr>" "s \<noteq> []"
      | (version) "CHR ''/'' \<notin> set s" "v = \<lparr>vs_pinned = [], vs_version = s\<rparr>" "s \<noteq> []"
      using assms by (auto simp: ParseAPIVersionSetting_def split: if_splits sum.splits)
    then show ?thesis
    proof cases
      case auto
      have "ParseAPIVersion DefaultAPIVersion = Inr (KagentGroup, ''v1alpha3'')" by code_simp
      with auto show ?thesis by (simp add: version_fallback_def)
    next
      case pinned
      then show ?thesis by (simp add: version_fallback_def)
    next
      case version
      then show ?thesis
        using ParseAPIVersion_group [of KagentGroup s] by (simp add: version_fallback_def)
    qed
  qed
  then obtain g w where p: "ParseAPIVersion (version_fallback v) = Inr (g, w)"
    "if vs_pinned v \<noteq> [] then version_fallback v = s else g = KagentGroup" by blast
  note ParseAPIVersion_gv_string [OF p(1)]
  moreover from this have "version_fallback v \<noteq> []" by (auto simp: gv_string_def KagentGroup_def LegacyKagentGroup_def)
  ultimately show ?thesis using p
    by (auto simp: NewKagent_def setVersion_def APIVersion_def)
qed

lemma version_setting_safe_witness:
  "\<exists>k. NewKagent ''kagent'' (version_fallback \<lparr>vs_pinned = [], vs_version = ''v1beta1''\<rparr>) [] ''mm'' = Some k \<and>
     k_group k = KagentGroup"
proof -
  have "ParseAPIVersionSetting ''v1beta1'' = Inr \<lparr>vs_pinned = [], vs_version = ''v1beta1''\<rparr>"
    by code_simp
  from version_setting_safe [OF this, of "''kagent''" "[]" "''mm''"] show ?thesis by auto
qed

subsection \<open>Discovery\<close>

lemma servedVersion_Some:
  assumes "servedVersion resources g want \<noteq> []"
  shows "\<exists>names. resources (ag_name g @ ''/'' @ servedVersion resources g want) = Inr names \<and>
     ModelConfigResource \<in> set names \<and> (want \<noteq> [] \<longrightarrow> servedVersion resources g want = want)"
proof -
  let ?cs = "if want \<noteq> [] then [want]
     else ag_preferred g # filter (\<lambda>v. v \<noteq> ag_preferred g) (ag_versions g)"
  let ?P = "\<lambda>v. case resources (ag_name g @ ''/'' @ v) of Inl e \<Rightarrow> False
     | Inr names \<Rightarrow> List.member names ModelConfigResource"
  have sv: "servedVersion resources g want = (case find ?P ?cs of None \<Rightarrow> [] | Some v \<Rightarrow> v)"
    unfolding servedVersion_def Let_def by simp
  with assms obtain v where v: "find ?P ?cs = Some v" "servedVersion resources g want = v"
    by (cases "find ?P ?cs") auto
  from find_Some [OF v(1)] obtain names where "resources (ag_name g @ ''/'' @ v) = Inr names"
      "ModelConfigResource \<in> set names" by (auto split: sum.splits)
  moreover have "want \<noteq> [] \<longrightarrow> v = want" using find_Some [OF v(1)] by auto
  ultimately show ?thesis unfolding v(2) by blast
qed

lemma discover_in_Inr:
  "discover_in resources want ps found = Inr gv \<Longrightarrow>
     \<exists>as g bs nm. ps = as @ (nm, g) # bs \<and> ag_name g = nm \<and> servedVersion resources g want \<noteq> [] \<and>
       gv = nm @ ''/'' @ servedVersion resources g want \<and>
       (\<forall>(nm', g')\<in>set as. ag_name g' = nm' \<longrightarrow> servedVersion resources g' want = [])"
proof (induction ps arbitrary: found)
  case (Cons p ps)
  obtain nm g where p: "p = (nm, g)" by (cases p)
  consider (other) "ag_name g \<noteq> nm" | (unserved) "ag_name g = nm" "servedVersion resources g want = []"
    | (here) "ag_name g = nm" "servedVersion resources g want \<noteq> []" by blast
  then show ?case
  proof cases
    case here
    then show ?thesis using Cons.prems p by (intro exI [of _ "[]"] exI [of _ g] exI [of _ ps] exI [of _ nm]) (auto simp: Let_def)
  next
    case other
    then have "discover_in resources want ps found = Inr gv" using Cons.prems p by simp
    from Cons.IH [OF this] obtain as g' bs nm' where "ps = as @ (nm', g') # bs" "ag_name g' = nm'"
      "servedVersion resources g' want \<noteq> []" "gv = nm' @ ''/'' @ servedVersion resources g' want"
      "\<forall>(nm', g')\<in>set as. ag_name g' = nm' \<longrightarrow> servedVersion resources g' want = []" by blast
    then show ?thesis using p other by (intro exI [of _ "p # as"]) auto
  next
    case unserved
    then have "discover_in resources want ps (found @ [nm]) = Inr gv"
      using Cons.prems p by (simp add: Let_def)
    from Cons.IH [OF this] obtain as g' bs nm' where "ps = as @ (nm', g') # bs" "ag_name g' = nm'"
      "servedVersion resources g' want \<noteq> []" "gv = nm' @ ''/'' @ servedVersion resources g' want"
      "\<forall>(nm', g')\<in>set as. ag_name g' = nm' \<longrightarrow> servedVersion resources g' want = []" by blast
    then show ?thesis using p unserved by (intro exI [of _ "p # as"]) auto
  qed
qed simp

lemma kagent_groups_differ [simp]: "KagentGroup \<noteq> LegacyKagentGroup" "LegacyKagentGroup \<noteq> KagentGroup"
  by (simp_all add: KagentGroup_def LegacyKagentGroup_def)

lemma map_Pair_split:
  "map (Pair a) xs @ ys = as @ p # bs \<Longrightarrow> fst p \<noteq> a \<Longrightarrow> set (map (Pair a) xs) \<subseteq> set as"
proof (induction xs arbitrary: as)
  case (Cons x xs)
  then show ?case by (cases as) auto
qed simp

text \<open>Discovery answers a group version the API server serves ModelConfigs at: one of the
  two kagent groups, listed by the server, at the wanted version where one is wanted; and it
  answers kagent.dev only when no listed api.kagent.dev group serves ModelConfigs at a version
  it may use.\<close>

theorem DiscoverAPIVersion_served:
  assumes "DiscoverAPIVersion (Inr gs) resources version = Inr gv"
  shows "\<exists>g v names. g \<in> set gs \<and> ag_name g \<in> {KagentGroup, LegacyKagentGroup} \<and>
     gv = ag_name g @ ''/'' @ v \<and> v \<noteq> [] \<and>
     resources gv = Inr names \<and> ModelConfigResource \<in> set names \<and> (version \<noteq> [] \<longrightarrow> v = version) \<and>
     (ag_name g = LegacyKagentGroup \<longrightarrow>
        (\<forall>g'\<in>set gs. ag_name g' = KagentGroup \<longrightarrow> servedVersion resources g' version = []))"
proof -
  let ?ps = "List.product [KagentGroup, LegacyKagentGroup] gs"
  have "discover_in resources version ?ps [] = Inr gv"
    using assms by (auto simp: DiscoverAPIVersion_def split: sum.splits if_splits)
  from discover_in_Inr [OF this] obtain as g bs nm where d: "?ps = as @ (nm, g) # bs" "ag_name g = nm"
    "servedVersion resources g version \<noteq> []" "gv = nm @ ''/'' @ servedVersion resources g version"
    "\<forall>(nm', g')\<in>set as. ag_name g' = nm' \<longrightarrow> servedVersion resources g' version = []" by blast
  have "(nm, g) \<in> set ?ps" unfolding d(1) by simp
  then have g: "g \<in> set gs" "nm \<in> {KagentGroup, LegacyKagentGroup}" by auto
  have "servedVersion resources g' version = []"
    if "nm = LegacyKagentGroup" "g' \<in> set gs" "ag_name g' = KagentGroup" for g'
  proof -
    have "map (Pair KagentGroup) gs @ map (Pair LegacyKagentGroup) gs = as @ (nm, g) # bs"
      using d(1) by simp
    from map_Pair_split [OF this] that have "(KagentGroup, g') \<in> set as" by auto
    with d(5) that(3) show ?thesis by fastforce
  qed
  with g d servedVersion_Some [OF d(3)] show ?thesis by auto
qed

definition w_resources :: "string \<Rightarrow> string list res" where
  "w_resources gv = (if gv = ''kagent.dev/v1alpha2'' then Inr [''agents'', ''modelconfigs''] else Inr [''agents''])"

definition w_groups :: "api_group list" where
  "w_groups = [\<lparr>ag_name = ''kagent.dev'', ag_preferred = ''v1alpha1'', ag_versions = [''v1alpha1'', ''v1alpha2'']\<rparr>,
     \<lparr>ag_name = ''api.kagent.dev'', ag_preferred = ''v1alpha3'', ag_versions = [''v1alpha3'']\<rparr>]"

lemma DiscoverAPIVersion_served_witness:
  "\<exists>g v names. g \<in> set w_groups \<and> ''kagent.dev/v1alpha2'' = ag_name g @ ''/'' @ v \<and>
     w_resources ''kagent.dev/v1alpha2'' = Inr names \<and> ModelConfigResource \<in> set names"
proof -
  have "DiscoverAPIVersion (Inr w_groups) w_resources [] = Inr ''kagent.dev/v1alpha2''"
    by code_simp
  from DiscoverAPIVersion_served [OF this] show ?thesis by blast
qed

subsection \<open>The retry\<close>

lemma rediscover_True:
  assumes "rediscover k c = (True, k')"
  shows "\<exists>d v. k_discover k = Some d \<and> d c = Inr v \<and> v \<noteq> APIVersion k \<and> APIVersion k' = v \<and>
     k_fields k' = None \<and> k_instance k' = k_instance k \<and> k_namespace k' = k_namespace k \<and>
     k_prefix k' = k_prefix k"
  using assms ParseAPIVersion_gv_string
  by (fastforce simp: rediscover_def setVersion_def APIVersion_def
      split: option.splits sum.splits if_splits)

lemma retried_cases:
  fixes call :: "'a op"
  assumes "call (refresh k c) c = (r1, k1, c1)"
  shows "(\<exists>k2. retried call k c = (r1, k2, c1) \<and> APIVersion k2 = APIVersion k1) \<or>
    (\<exists>e d v k2. r1 = Inl e \<and> (is_not_found e \<or> err_is e ErrVersionNotServed) \<and>
       k_discover k1 = Some d \<and> d c1 = Inr v \<and> v \<noteq> APIVersion k1 \<and> APIVersion k2 = v \<and>
       k_fields k2 = None \<and> retried call k c = call k2 c1)"
proof (cases r1)
  case (Inr x)
  with assms show ?thesis by (simp add: retried_def)
next
  case (Inl e)
  obtain b k2 where rd: "rediscovered e k1 c1 = (b, k2)" by fastforce
  show ?thesis
  proof (cases b)
    case True
    then have m: "is_not_found e \<or> err_is e ErrVersionNotServed"
        "rediscover (k1\<lparr>k_discovered := cl_now c1\<rparr>) c1 = (True, k2)"
      using rd by (auto simp: rediscovered_def Let_def split: if_splits)
    moreover have "APIVersion (k1\<lparr>k_discovered := cl_now c1\<rparr>) = APIVersion k1"
      by (simp add: APIVersion_def)
    ultimately show ?thesis
      using rediscover_True [OF m(2)] rd True Inl assms by (intro disjI2) (auto simp: retried_def)
  next
    case False
    then have "APIVersion k2 = APIVersion k1"
      using rd by (auto simp: rediscovered_def rediscover_def APIVersion_def Let_def
          split: if_splits option.splits sum.splits)
    with False rd Inl assms show ?thesis by (simp add: retried_def)
  qed
qed

text \<open>A call is made at most twice, and again only for a reason: its answer is the first
  call's, or that call failed with a miss (not found, or the version's schema is not served),
  discovery answers another version than the one it was made at, and the answer is the second
  call's, made at that version with the schema cache dropped.\<close>

theorem retried_twice_at_most:
  fixes call :: "'a op"
  shows "case call (refresh k c) c of (r1, k1, c1) \<Rightarrow>
    (\<exists>k2. retried call k c = (r1, k2, c1) \<and> APIVersion k2 = APIVersion k1) \<or>
    (\<exists>e d v k2. r1 = Inl e \<and> (is_not_found e \<or> err_is e ErrVersionNotServed) \<and>
       k_discover k1 = Some d \<and> d c1 = Inr v \<and> v \<noteq> APIVersion k1 \<and> APIVersion k2 = v \<and>
       k_fields k2 = None \<and> retried call k c = call k2 c1)"
proof (cases "call (refresh k c) c")
  case (fields r1 k1 c1)
  show ?thesis unfolding fields prod.case by (rule retried_cases [of call, OF fields])
qed

section \<open>The fallback on the derived name\<close>

text \<open>A removal may take another model's ModelConfig: when none is annotated with the
  model asked for, the one whose name is the one derived from it is taken whatever model its
  own annotation names. So unwiring a reference nobody wired deletes the ModelConfig of a
  reference that shares its derived name.\<close>

theorem remove_takes_namesake:
  assumes wf: "wf_store c"
    and m: "m \<in> set (cl_mcs c (k_group k))" "o_namespace m = k_namespace k"
      "managed_selector (o_labels m)" "backendMatches m b" "createdHere k m" "owner_of (o_labels m) = None"
    and namesake: "o_name m = ModelConfigName (k_prefix k) model"
    and other: "\<forall>x\<in>set (cl_mcs c (k_group k)). get_label (mc_annotations x) ModelAnnotation \<noteq> model"
    and up: "cl_fail c = Map.empty" "List.member (cl_served c (k_group k)) (k_version k)"
    and rm: "remove b model sc k c = (r, k', c')"
  shows "m \<notin> set (cl_mcs c' (k_group k))"
proof -
  let ?at = "at_version (k_group k) (k_version k)"
  let ?S = "\<lambda>m. o_namespace m = k_namespace k \<and> managed_selector (o_labels m)"
  let ?items = "map ?at (filter ?S (cl_mcs c (k_group k)))"
  have l: "api_list_mcs c (k_group k) (k_version k) (k_namespace k) managed_selector = Inr ?items"
    using up by (simp add: api_list_mcs_def api_def)
  have none: "find (\<lambda>m. get_label (mc_annotations m) ModelAnnotation = model \<and> backendMatches m b) ?items = None"
    using other by (auto simp: find_None)
  have some: "find (\<lambda>m. o_name m = ModelConfigName (k_prefix k) model \<and> backendMatches m b) ?items = Some (?at m)"
  proof -
    have "find (\<lambda>x. ?S x \<and> o_name x = ModelConfigName (k_prefix k) model \<and> backendMatches x b)
        (cl_mcs c (k_group k)) = Some m"
    proof (rule find_unique)
      fix y
      assume y: "y \<in> set (cl_mcs c (k_group k))"
        "?S y \<and> o_name y = ModelConfigName (k_prefix k) model \<and> backendMatches y b"
      then show "y = m"
        using keyed_unique [OF wf y(1) m(1), of "k_namespace k" "o_name m"] m namesake
        by (simp add: keyed_def)
    qed (use m namesake in auto)
    then show ?thesis by (simp add: find_map_filter)
  qed
  have "find_mc k c b model = Inr (Some (?at m))"
    using l none some by (simp add: find_mc_def match_mc_def)
  moreover have "applying c (?at m) = Inr None" using m by simp
  moreover have "createdHere k (?at m)" using m by (simp add: createdHere_def)
  ultimately have ro: "removeObj k (o_name m) c = (r, c')"
    using rm by (auto simp: remove_def refuseGitOps_def kept_def split: prod.splits)
  have "stored c (k_group k) (k_namespace k) (o_name m) = Some m"
    using stored_unique [OF wf m(1)] m by (simp add: keyed_def)
  then obtain c1 where d: "api_delete_mc c (k_group k) (k_version k) (k_namespace k) (o_name m) = (Inr (), c1)"
    "cl_mcs c1 = (cl_mcs c)(k_group k := filter (\<lambda>x. \<not> keyed (k_namespace k) (o_name m) x) (cl_mcs c (k_group k)))"
    using up by (simp add: api_delete_mc_def api_def)
  with ro have "removePlaceholderSecret k (o_name m) c1 = (r, c')" by (simp add: removeObj_def)
  then have "cl_mcs c' = cl_mcs c1" using removePlaceholderSecret_frame by blast
  with d(2) m show ?thesis by (simp add: keyed_def)
qed

end
