(* ===== verification/Wiring_Examples.thy ===== *)
theory Wiring_Examples
  imports Wiring_Contracts
begin

text \<open>
  Concrete wirers, clusters and endpoints, and the wirer's properties applied to them.
\<close>

definition w_wirer :: wirer where
  "w_wirer = \<lparr>k_namespace = ''kagent'', k_prefix = [], k_instance = ''mm'', k_discover = None,
     k_group = KagentGroup, k_version = ''v1alpha3'', k_discovered = 0, k_fields = None\<rparr>"

definition w_ep :: agent_endpoint where
  "w_ep = \<lparr>ep_provider = ''Ollama'', ep_backend = ''ollama'', ep_host = ''http://o:11434'',
     ep_base_url = [], ep_model = [], ep_placeholder_key = False, ep_passthrough = False,
     ep_secret = [], ep_secret_key = [], ep_name = [], ep_context_length = 16, ep_think = None\<rparr>"

text \<open>A ModelConfig this instance created for a model, and a cluster that holds some.\<close>

definition w_mc :: "string \<Rightarrow> mconfig" where
  "w_mc model = build w_wirer (ModelConfigName [] model) model w_ep"

definition w_holding :: "string \<Rightarrow> mconfig list \<Rightarrow> cluster" where
  "w_holding g ms = w_empty_cluster\<lparr>cl_mcs := (\<lambda>h. if h = g then ms else [])\<rparr>"

lemma wf_holding_one: "wf_store (w_holding g [m])"
  by (simp add: wf_store_def w_holding_def)

lemma remove_deletes_only_ours_witness:
  "removable w_wirer (w_holding KagentGroup [w_mc ''llama'']) CreatedHere
     (at_version KagentGroup ''v1alpha3'' (w_mc ''llama''))"
proof -
  let ?c = "w_holding KagentGroup [w_mc ''llama'']" and ?m = "w_mc ''llama''"
  obtain r k' c' where rm: "remove ''ollama'' ''llama'' CreatedHere w_wirer ?c = (r, k', c')"
    by (metis prod.exhaust)
  have "cl_mcs (snd (snd (remove ''ollama'' ''llama'' CreatedHere w_wirer ?c))) KagentGroup = []"
    by code_simp
  with rm have "?m \<notin> set (cl_mcs c' KagentGroup)" by simp
  moreover have "?m \<in> set (cl_mcs ?c KagentGroup)" by (simp add: w_holding_def)
  ultimately obtain x where x: "find_mc w_wirer ?c ''ollama'' ''llama'' = Inr (Some x)"
      "removable w_wirer ?c CreatedHere x"
      "o_group x = k_group w_wirer \<longrightarrow> x = at_version (k_group w_wirer) (k_version w_wirer) ?m"
    using remove_deletes_only_ours [OF wf_holding_one rm] by blast
  have "case find_mc w_wirer ?c ''ollama'' ''llama'' of Inr (Some x) \<Rightarrow> o_group x = KagentGroup | _ \<Rightarrow> False"
    by code_simp
  with x show ?thesis by (simp add: w_wirer_def)
qed

definition w_legacy :: mconfig where
  "w_legacy = (w_mc ''llama'')\<lparr>o_group := LegacyKagentGroup, o_labels := (o_labels (w_mc ''llama''))
     (label_kustomize_name \<mapsto> ''models'', label_kustomize_namespace \<mapsto> ''flux'')\<rparr>"

text \<open>Another instance's, of the same name, on another backend.\<close>

definition w_foreign :: mconfig where
  "w_foreign = (w_mc ''llama'')\<lparr>o_labels := (o_labels (w_mc ''llama''))
     (InstanceLabel \<mapsto> ''other'', BackendLabel \<mapsto> ''lemonade'')\<rparr>"

definition w_two_groups :: cluster where
  "w_two_groups = w_empty_cluster\<lparr>cl_mcs :=
     (\<lambda>g. if g = LegacyKagentGroup then [w_legacy] else if g = KagentGroup then [w_foreign] else [])\<rparr>"

lemma remove_wrong_group_witness:
  "(\<exists>d y. fst (removal ''ollama'' ''llama'' CreatedHere w_wirer w_two_groups) = Inr d \<and>
      {z. MCObject z \<in> set (rn_objects d)} = {y} \<and> o_group y = LegacyKagentGroup) \<and>
   w_foreign \<notin> set (cl_mcs (snd (snd (remove ''ollama'' ''llama'' CreatedHere w_wirer w_two_groups))) KagentGroup)"
proof -
  let ?x = "at_version LegacyKagentGroup ''v1alpha3'' w_legacy"
  obtain r k' c' where rm: "remove ''ollama'' ''llama'' CreatedHere w_wirer w_two_groups = (r, k', c')"
    by (metis prod.exhaust)
  have ki: "k_instance w_wirer = ''mm''" by (simp add: w_wirer_def)
  have "case find_mc w_wirer w_two_groups ''ollama'' ''llama'' of
      Inr (Some x) \<Rightarrow> o_group x = LegacyKagentGroup \<and> o_name x = ''llama'' \<and>
        get_label (o_labels x) ManagedByLabel = ManagedByValue \<and>
        get_label (o_labels x) InstanceLabel = ''mm'' \<and>
        applying w_two_groups x = Inr None
    | _ \<Rightarrow> False"
    by code_simp
  then obtain x where x: "find_mc w_wirer w_two_groups ''ollama'' ''llama'' = Inr (Some x)"
      "o_group x = LegacyKagentGroup" "o_name x = ''llama''" "removable w_wirer w_two_groups CreatedHere x"
    using ki by (auto simp: removable_def createdHere_def split: sum.splits option.splits)
  have f: "cl_fail w_two_groups = Map.empty" "w_foreign \<in> set (cl_mcs w_two_groups (k_group w_wirer))"
    "k_group w_wirer = KagentGroup" "k_group w_wirer \<noteq> LegacyKagentGroup"
    by (simp_all add: w_two_groups_def w_empty_cluster_def w_wirer_def KagentGroup_def LegacyKagentGroup_def)
  have k: "keyed (k_namespace w_wirer) ''llama'' w_foreign \<and>
      List.member (cl_served w_two_groups (k_group w_wirer)) (k_version w_wirer)"
    by code_simp
  have "o_group x \<noteq> k_group w_wirer" "keyed (k_namespace w_wirer) (o_name x) w_foreign"
      "List.member (cl_served w_two_groups (k_group w_wirer)) (k_version w_wirer)"
    using x(2,3) f(4) k by simp_all
  note t = remove_wrong_group [OF x(1) this(1) x(4) f(2) this(2) f(1) this(3) rm]
  from t obtain d where "removal ''ollama'' ''llama'' CreatedHere w_wirer w_two_groups = (Inr d, w_wirer, w_two_groups)"
      "{y. MCObject y \<in> set (rn_objects d)} = {x}" by blast
  with x(2) have "\<exists>d y. fst (removal ''ollama'' ''llama'' CreatedHere w_wirer w_two_groups) = Inr d \<and>
      {z. MCObject z \<in> set (rn_objects d)} = {y} \<and> o_group y = LegacyKagentGroup"
    by (intro exI [of _ d] exI [of _ x]) simp
  with t rm f(3) show ?thesis by simp
qed

lemma w_ensured:
  "\<exists>r k' c'. ensure ''llama'' w_ep w_wirer (w_holding KagentGroup [w_mc ''llama'']) = (Inr r, k', c')"
proof -
  let ?r = "ensure ''llama'' w_ep w_wirer (w_holding KagentGroup [w_mc ''llama''])"
  have "case fst ?r of Inl e \<Rightarrow> False | Inr r \<Rightarrow> True" by code_simp
  then show ?thesis by (cases ?r) (auto split: sum.splits)
qed

lemma written_ref_carries_witness:
  "\<exists>r k' c'. ensure ''llama'' w_ep w_wirer (w_holding KagentGroup [w_mc ''llama'']) = (Inr r, k', c') \<and>
     carries r w_ep"
proof -
  obtain r k' c' where en: "ensure ''llama'' w_ep w_wirer (w_holding KagentGroup [w_mc ''llama'']) = (Inr r, k', c')"
    using w_ensured by blast
  have "cl_status_sub (w_holding KagentGroup [w_mc ''llama''])" "ep_name w_ep = []"
    "0 \<le> ep_context_length w_ep" "ep_context_length w_ep < 2 ^ 63" "ep_provider w_ep = ''Ollama''"
    "writable w_ep w_wirer (w_holding KagentGroup [w_mc ''llama'']) = (Inr w_ep, w_wirer)"
    by (simp_all add: w_holding_def w_empty_cluster_def w_ep_def writable_def)
  with written_ref_carries [OF wf_holding_one _ _ en] en show ?thesis by blast
qed

lemma remove_takes_namesake_witness:
  "w_mc ''llama:8b'' \<notin> set (cl_mcs (snd (snd (remove ''ollama'' ''llama-8b'' CreatedHere w_wirer
     (w_holding KagentGroup [w_mc ''llama:8b''])))) KagentGroup)"
proof -
  let ?c = "w_holding KagentGroup [w_mc ''llama:8b'']" and ?m = "w_mc ''llama:8b''"
  obtain r k' c' where rm: "remove ''ollama'' ''llama-8b'' CreatedHere w_wirer ?c = (r, k', c')"
    by (metis prod.exhaust)
  have m: "o_namespace ?m = k_namespace w_wirer \<and> managed_selector (o_labels ?m) \<and> backendMatches ?m ''ollama'' \<and>
      createdHere w_wirer ?m \<and> o_name ?m = ModelConfigName (k_prefix w_wirer) ''llama-8b'' \<and>
      get_label (mc_annotations ?m) ModelAnnotation \<noteq> ''llama-8b'' \<and>
      List.member (cl_served ?c (k_group w_wirer)) (k_version w_wirer)"
    by code_simp
  have o: "owner_of (o_labels ?m) = None" by code_simp
  have f: "cl_fail ?c = Map.empty" by (simp add: w_holding_def w_empty_cluster_def)
  have s: "cl_mcs ?c (k_group w_wirer) = [?m]" by (simp add: w_holding_def w_wirer_def)
  have "?m \<notin> set (cl_mcs c' (k_group w_wirer))"
    by (rule remove_takes_namesake [OF wf_holding_one _ _ _ _ _ _ _ _ _ _ rm])
       (use m o f s in simp_all)
  then show ?thesis using rm by (simp add: w_wirer_def)
qed

end
