(* ===== verification/Service_Witnesses.thy ===== *)
theory Service_Witnesses
  imports Service_Correct Wiring_Examples
begin

text \<open>
  Concrete services over the kagent wirer, at which the hypotheses of the properties of the
  service's operations hold.
\<close>

definition w_ksvc :: "unit world service" where
  "w_ksvc = the (new_service [w_backend ''ollama'' [''llama'']] (Some kagent) (Some ''mm'') ''kagent'' w_cfg)"

definition w_world :: "mconfig list \<Rightarrow> unit world" where
  "w_world ms = (w_wirer, w_holding KagentGroup ms, ())"

lemma w_ksvc_new:
  "new_service [w_backend ''ollama'' [''llama'']] (Some kagent) (Some ''mm'') ''kagent'' w_cfg = Some w_ksvc"
  by (simp add: w_ksvc_def new_service_def w_backend_def)

lemma w_ksvc_fields:
  "svc_reach [w_backend ''ollama'' [''llama'']] w_ksvc" "sv_wirer w_ksvc = Some kagent"
  "sv_backends w_ksvc = [w_backend ''ollama'' [''llama'']]"
  using reach_new [OF w_ksvc_new] by (simp_all add: w_ksvc_def new_service_def w_backend_def)

lemma w_backend_frames:
  "frames leaves_others (w_backend n ms)" "dry_serve unchanged (w_backend n ms)"
  by (simp_all add: frames_def dry_serve_def w_backend_def kw.R_refl)

definition w_load :: load_options where
  "w_load = \<lparr>lop_backend = [], lop_model = ''llama'', lop_keep_alive = [], lop_preset = [], lop_node = [],
     lop_placement = [], lop_nodes = [], lop_tracing = False\<rparr>"

definition w_pull :: pull_options where
  "w_pull = \<lparr>po_backend = ''ollama'', po_model = ''llama'', po_wire = None, po_preset = [], po_node = []\<rparr>"

definition w_env :: call_env where
  "w_env = \<lparr>ce_now = 0, ce_id = ''j'', ce_caller = []\<rparr>"

lemma w_settled: "settled w_wirer (w_holding KagentGroup [m])" "no_legacy w_wirer (w_holding KagentGroup [m])"
  using wf_holding_one
  by (simp_all add: settled_def no_legacy_def w_holding_def w_empty_cluster_def w_wirer_def KagentGroup_def LegacyKagentGroup_def)

lemma service_keeps_others_witness:
  "ours w_wirer (w_holding KagentGroup [w_mc ''llama'']) KagentGroup (w_mc ''llama'')"
proof -
  let ?c = "w_holding KagentGroup [w_mc ''llama'']" and ?b = "w_backend ''ollama'' [''llama'']"
  let ?w' = "snd (Delete w_ksvc [] ''llama'' True (w_wirer, ?c, ()))"
  have "cl_mcs (fst (snd ?w')) KagentGroup = []" by code_simp
  then have gone: "w_mc ''llama'' \<notin> set (cl_mcs (fst (snd ?w')) KagentGroup)" by simp
  show ?thesis
    by (rule service_keeps_others [OF w_ksvc_fields(1), where w' = ?w' and b = ?b and x = "()" and n = "[]"
          and rf = "''llama''" and unwire = True and opts = no_wire_options and lo = w_load and env = w_env
          and jm = "new_manager 0 0" and settle = "\<lambda>i m. m" and now = 0 and do_wire = False
          and req = "\<lparr>pr_ref = [], pr_preset = [], pr_node = []\<rparr>"])
       (use w_ksvc_fields w_backend_frames w_settled gone in \<open>simp_all add: w_holding_def\<close>)
qed

lemma dry_runs_write_nothing_witness:
  "snd (snd (PlanDelete w_ksvc [] ''llama'' True (w_world [w_mc ''llama'']))) = snd (w_world [w_mc ''llama''])"
  by (rule dry_runs_write_nothing [OF w_ksvc_fields(1), where n = "[]" and rf = "''llama''" and unwire = True
        and opts = no_wire_options and lo = w_load and po = w_pull])
     (use w_ksvc_fields w_backend_frames in \<open>simp_all\<close>)

text \<open>The same ModelConfig, applied by a Helm release.\<close>

definition w_released :: mconfig where
  "w_released = (w_mc ''llama'')\<lparr>o_labels := (o_labels (w_mc ''llama''))
     (label_helm_name \<mapsto> ''models'', label_helm_namespace \<mapsto> ''flux'')\<rparr>"

lemma w_resolved:
  "resolve w_ksvc n ''llama'' w = resolve w_ksvc n ''llama'' v"
  "resolve w_ksvc [] ''llama'' w = Inr (w_backend ''ollama'' [''llama''],
     zero_model\<lparr>m_name := ''llama'', m_backend := ''ollama''\<rparr>)"
  by (simp_all add: resolve_def named_def default_backend_def w_ksvc_fields(3) lookup_backend_def
      w_backend_def trim_space_def is_space_def w_ksvc_def new_service_def Let_def)

text \<open>The same ModelConfig, created by another instance.\<close>

definition w_others :: mconfig where
  "w_others = (w_mc ''llama'')\<lparr>o_labels := (o_labels (w_mc ''llama''))(InstanceLabel \<mapsto> ''other'')\<rparr>"

lemma plan_delete_tells_delete_witness:
  "(\<exists>e'. fst (Delete w_ksvc [] ''llama'' True (snd (w_removal kagent ''ollama'' ''llama'' CreatedHere (w_world [w_released])))) =
      (''ollama'', Some e') \<and> err_is e' ErrGitOpsOwned) \<and>
   (\<exists>e v. PlanDelete w_ksvc [] ''llama'' True (w_world [w_others]) = (Inl e, v) \<and> err_as_not_owned e \<noteq> None \<and>
      snd (snd (Delete w_ksvc [] ''llama'' True v)) = snd v)"
proof -
  have b: "b_name (w_backend ''ollama'' [''llama'']) = ''ollama''" "cap_delete (b_caps (w_backend ''ollama'' [''llama'']))"
    "m_name (zero_model\<lparr>m_name := ''llama'', m_backend := ''ollama''\<rparr>) = ''llama''"
    by (simp_all add: w_backend_def w_caps_def)
  have good: "settled_world (w_world [w_released])" "settled_world (w_world [w_others])"
    by (simp_all add: settled_world_def w_world_def w_settled)
  note tells = plan_delete_tells_delete [OF _ w_ksvc_fields(2) _ w_resolved(1) w_resolved(2) b(2), unfolded b(1,3)]
  obtain r1 v1 where 1: "w_removal kagent ''ollama'' ''llama'' CreatedHere (w_world [w_released]) = (r1, v1)"
    by (metis prod.exhaust)
  obtain r2 v2 where 2: "w_removal kagent ''ollama'' ''llama'' CreatedHere (w_world [w_others]) = (r2, v2)"
    by (metis prod.exhaust)
  have "case fst (w_removal kagent ''ollama'' ''llama'' CreatedHere (w_world [w_released])) of
      Inl e \<Rightarrow> False | Inr d \<Rightarrow> rn_left d = None \<and> rn_gitops d \<noteq> None" by code_simp
  then obtain d1 ow where d1: "r1 = Inr d1" "rn_left d1 = None" "rn_gitops d1 = Some ow"
    using 1 by (auto split: sum.splits)
  have "case fst (w_removal kagent ''ollama'' ''llama'' CreatedHere (w_world [w_others])) of
      Inl e \<Rightarrow> False | Inr d \<Rightarrow> rn_left d \<noteq> None" by code_simp
  then obtain d2 left where d2: "r2 = Inr d2" "rn_left d2 = Some left" using 2 by (auto split: sum.splits)
  from tells [OF good(1) 1] d1 have "\<exists>e'. fst (Delete w_ksvc [] ''llama'' True v1) = (''ollama'', Some e') \<and> err_is e' ErrGitOpsOwned"
    by simp
  moreover from tells [OF good(2) 2] d2 have "\<exists>e. PlanDelete w_ksvc [] ''llama'' True (w_world [w_others]) = (Inl e, v2) \<and>
      err_as_not_owned e \<noteq> None \<and> snd (snd (Delete w_ksvc [] ''llama'' True v2)) = snd v2"
    by auto
  ultimately show ?thesis unfolding 1 snd_conv by blast
qed

lemma plan_pull_tells_pull_witness:
  "\<exists>b req do_wire. pull_target w_ksvc w_pull = Inr (b, req, do_wire) \<and> b_name b = ''ollama''"
proof -
  let ?w = "w_world [w_mc ''llama'']"
  obtain r w' where p: "PlanPull w_ksvc w_pull ?w = (r, w')" by (metis prod.exhaust)
  have "case fst (PlanPull w_ksvc w_pull ?w) of Inl e \<Rightarrow> False | Inr p \<Rightarrow> op_backend p = ''ollama''"
    by code_simp
  with p obtain pl where pl: "PlanPull w_ksvc w_pull ?w = (Inr pl, w')" "op_backend pl = ''ollama''"
    by (auto split: sum.splits)
  from plan_pull_tells_pull [OF pl(1)] pl(2) show ?thesis by (auto simp: w_pull_def)
qed

lemma wired_model_is_found_witness:
  "\<exists>r. fst (w_lookup kagent ''ollama'' ''llama''
      (snd (Wire w_ksvc [] ''llama'' no_wire_options (w_world [w_mc ''llama''])))) = Inr (Some r)"
proof -
  let ?w = "w_world [w_mc ''llama'']"
  have "case fst (Wire w_ksvc [] ''llama'' no_wire_options ?w) of Inl e \<Rightarrow> False | Inr r \<Rightarrow> True"
    by code_simp
  then obtain r w' where wi: "Wire w_ksvc [] ''llama'' no_wire_options ?w = (Inr r, w')"
    by (cases "Wire w_ksvc [] ''llama'' no_wire_options ?w") (auto split: sum.splits)
  have "settled_world ?w" by (simp add: settled_world_def w_world_def w_settled)
  from wired_model_is_found [OF this w_ksvc_fields(2) w_resolved(2) _ _ _ _ wi]
  have "fst (w_lookup kagent (b_name (w_backend ''ollama'' [''llama''] :: unit world backend)) ''llama'' w') = Inr (Some r)"
    by (simp add: w_backend_def serveLifecycle_def zero_model_def)
  then show ?thesis by (auto simp: wi w_backend_def)
qed

text \<open>A backend that plans its stops, beside another, on a service that commits.\<close>

definition w_stopper :: "unit backend" where
  "w_stopper = (w_backend ''kserve'' [''llama''])\<lparr>b_stop_plan := Some (\<lambda>m w.
     Inr \<lparr>st_model = m, st_objects = [], st_refusal = None\<rparr>)\<rparr>"

definition w_csvc :: "unit service" where
  "w_csvc = WithCommitter (Some (\<lambda>q w. (Inr \<lparr>cr_live_steps = [], cr_more = JNull\<rparr>, w)))
     (the (new_service [w_stopper, w_backend ''ollama'' []] None None [] w_cfg))"

definition w_commit_target :: commit_target where
  "w_commit_target = \<lparr>ct_repository = [], ct_branch = [], ct_path = []\<rparr>"

lemma unload_commit_panics_witness:
  "\<exists>e. fst (CommitUnload w_csvc [] ''llama'' w_commit_target False ()) = Inl e \<and> err_is e GoPanic"
proof -
  have new: "new_service [w_stopper, w_backend ''ollama'' []] None None [] w_cfg =
      Some (the (new_service [w_stopper, w_backend ''ollama'' []] None None [] w_cfg))"
    by (simp add: new_service_def w_stopper_def w_backend_def)
  have r: "svc_reach [w_stopper, w_backend ''ollama'' []] w_csvc"
    unfolding w_csvc_def by (rule reach_committer [OF reach_new [OF new]])
  have f: "sv_backends w_csvc = [w_stopper, w_backend ''ollama'' []]" "sv_commit w_csvc \<noteq> None"
    by (simp_all add: w_csvc_def WithCommitter_def new_service_def w_stopper_def w_backend_def)
  have res: "resolve w_csvc [] ''llama'' () = Inr (w_stopper, zero_model\<lparr>m_name := ''llama'', m_backend := ''kserve''\<rparr>)"
    by (simp add: resolve_def f trim_space_def is_space_def Let_def w_stopper_def w_backend_def)
  show ?thesis
    using unload_commit_panics [OF r, where n = "[]" and rf = "''llama''" and w = "()"] f res
    by (force simp: trim_space_def w_stopper_def w_backend_def w_caps_def)
qed

end
