(* ===== verification/GoNum.thy ===== *)
theory GoNum
  imports Prelude "HOL-Library.Signed_Division" "HOL-Library.Log_Nat"
begin

text \<open>
  Go's numbers as the KServe driver computes with them. An \<open>int64\<close> is an \<^typ>\<open>int\<close>
  whose operations wrap to 64 bits where the code could overflow (\<open>wrap64\<close>). A
  \<open>float64\<close> is a rational, an infinity or a NaN (\<open>gofloat\<close>), and every operation
  rounds its exact result to 53 bits, half to even (\<open>fl\<close>). The sign of zero is not kept.
  Converting a float that does not fit to \<open>int64\<close> answers the least \<open>int64\<close>, as amd64
  does (the Go language leaves it to the processor).
\<close>

section \<open>64-bit integers\<close>

definition wrap64 :: "int \<Rightarrow> int" where
  "wrap64 x = (x + 2 ^ 63) mod 2 ^ 64 - 2 ^ 63"

definition is_int64 :: "int \<Rightarrow> bool" where
  "is_int64 x \<longleftrightarrow> - (2 ^ 63) \<le> x \<and> x < 2 ^ 63"

definition add64 :: "int \<Rightarrow> int \<Rightarrow> int" where
  "add64 a b = wrap64 (a + b)"

definition sub64 :: "int \<Rightarrow> int \<Rightarrow> int" where
  "sub64 a b = wrap64 (a - b)"

definition mul64 :: "int \<Rightarrow> int \<Rightarrow> int" where
  "mul64 a b = wrap64 (a * b)"

text \<open>Go truncates towards zero; the code divides by positive numbers only.\<close>

definition div64 :: "int \<Rightarrow> int \<Rightarrow> int" where
  "div64 a b = wrap64 (a sdiv b)"

lemma wrap64_id [simp]: "is_int64 x \<Longrightarrow> wrap64 x = x"
  by (simp add: wrap64_def is_int64_def)

lemma wrap64_is_int64 [simp]: "is_int64 (wrap64 x)"
proof -
  have "0 \<le> (x + 2 ^ 63) mod 2 ^ 64" "(x + 2 ^ 63) mod 2 ^ 64 < 2 ^ 64"
    by simp_all
  then show ?thesis unfolding wrap64_def is_int64_def by simp
qed

lemma sdiv_nonneg: "0 \<le> a \<Longrightarrow> 0 < b \<Longrightarrow> (a :: int) sdiv b = a div b"
  by (cases "a = 0") (auto simp: signed_divide_int_def)

lemma div64_nonneg:
  assumes "0 \<le> a" "is_int64 a" "0 < b"
  shows "div64 a b = a div b"
proof -
  have "a div b \<le> a" using assms zdiv_mono2[of a 1 b] by simp
  moreover have "0 \<le> a div b" using assms by (simp add: pos_imp_zdiv_nonneg_iff)
  ultimately have "is_int64 (a div b)" using assms(2) by (simp add: is_int64_def)
  then show ?thesis using assms by (simp add: div64_def sdiv_nonneg)
qed

section \<open>64-bit floats\<close>

datatype gofloat = Fin rat | Inf bool | NaN \<comment> \<open>\<open>Inf True\<close>: minus infinity\<close>

definition pow2 :: "int \<Rightarrow> rat" where
  "pow2 e = (if 0 \<le> e then 2 ^ nat e else 1 / 2 ^ nat (- e))"

text \<open>The exponent of the leading bit of a positive number.\<close>

definition leading :: "rat \<Rightarrow> int" where
  "leading x = (if 1 \<le> x then bitlen \<lfloor>x\<rfloor> - 1 else - bitlen (\<lceil>1 / x\<rceil> - 1))"

definition round_even :: "rat \<Rightarrow> int" where
  "round_even x =
     (let n = \<lfloor>x\<rfloor>; d = x - of_int n
      in if d < 1 / 2 then n else if 1 / 2 < d then n + 1 else if even n then n else n + 1)"

definition fl_abs :: "rat \<Rightarrow> rat" where
  "fl_abs x =
     (if x = 0 then 0
      else let e = max (leading x - 52) (- 1074) in of_int (round_even (x / pow2 e)) * pow2 e)"

definition fl :: "rat \<Rightarrow> gofloat" where
  "fl x = (let y = fl_abs \<bar>x\<bar>
           in if pow2 1024 \<le> y then Inf (x < 0) else Fin (if x < 0 then - y else y))"

lemma pow2_pos [simp]: "0 < pow2 e"
  by (simp add: pow2_def)

lemma pow2_0 [simp]: "pow2 0 = 1"
  by (simp add: pow2_def)

lemma pow2_nonzero [simp]: "pow2 e \<noteq> 0"
  using pow2_pos[of e] by (metis less_irrefl)

lemma pow2_powi: "pow2 e = 2 powi e"
  by (cases "0 \<le> e") (simp_all add: pow2_def power_int_def inverse_eq_divide power_one_over)

lemma pow2_add: "pow2 (a + b) = pow2 a * pow2 b"
  by (simp add: pow2_powi power_int_add)

lemma pow2_mono: "a \<le> b \<Longrightarrow> pow2 a \<le> pow2 b"
  by (simp add: pow2_powi power_int_increasing)

lemma pow2_less: "a < b \<Longrightarrow> pow2 a < pow2 b"
  by (simp add: pow2_powi power_int_strict_increasing)

lemma pow2_minus: "pow2 (- e) = 1 / pow2 e"
  by (simp add: pow2_powi power_int_minus divide_inverse)

lemma pow2_nat: "0 \<le> e \<Longrightarrow> pow2 e = of_int (2 ^ nat e)"
  by (simp add: pow2_def)

lemma leading_bounds:
  assumes "0 < x"
  shows "pow2 (leading x) \<le> x" "x < pow2 (leading x + 1)"
proof -
  have "pow2 (leading x) \<le> x \<and> x < pow2 (leading x + 1)"
  proof (cases "1 \<le> x")
    case True
    let ?n = "\<lfloor>x\<rfloor>" and ?k = "bitlen \<lfloor>x\<rfloor>"
    have n: "1 \<le> ?n" using True by (simp add: le_floor_iff)
    then have b: "2 ^ nat (?k - 1) \<le> ?n" "?n + 1 \<le> 2 ^ nat ?k"
      using bitlen_bounds[of ?n] by auto
    have k: "1 \<le> ?k" using n compute_bitlen[of ?n] bitlen_nonneg[of "?n div 2"] by simp
    have "pow2 (?k - 1) = of_int (2 ^ nat (?k - 1))" using k by (intro pow2_nat) simp
    also have "\<dots> \<le> of_int ?n" using b(1) by (simp only: of_int_le_iff)
    also have "\<dots> \<le> x" by simp
    finally have lo: "pow2 (?k - 1) \<le> x" .
    have "x < of_int (?n + 1)" using floor_correct[of x] by simp
    also have "\<dots> \<le> of_int (2 ^ nat ?k)" using b(2) by (simp only: of_int_le_iff)
    also have "\<dots> = pow2 ?k" using k by (intro pow2_nat[symmetric]) simp
    finally show ?thesis using lo True by (simp add: leading_def)
  next
    case False
    let ?n = "\<lceil>1 / x\<rceil> - 1"
    let ?k = "bitlen ?n"
    have y: "1 < 1 / x" using assms False by simp
    then have n: "1 \<le> ?n" by linarith
    then have b: "2 ^ nat (?k - 1) \<le> ?n" "?n + 1 \<le> 2 ^ nat ?k"
      using bitlen_bounds[of ?n] by auto
    have k: "1 \<le> ?k" using n compute_bitlen[of ?n] bitlen_nonneg[of "?n div 2"] by simp
    have "1 / x \<le> of_int (?n + 1)" by simp
    also have "\<dots> \<le> of_int (2 ^ nat ?k)" using b(2) by (simp only: of_int_le_iff)
    also have "\<dots> = pow2 ?k" using k by (intro pow2_nat[symmetric]) simp
    finally have hi: "1 / x \<le> pow2 ?k" .
    have "pow2 (?k - 1) = of_int (2 ^ nat (?k - 1))" using k by (intro pow2_nat) simp
    also have "\<dots> \<le> of_int ?n" using b(1) by (simp only: of_int_le_iff)
    also have "\<dots> < 1 / x" by linarith
    finally have lo: "pow2 (?k - 1) < 1 / x" .
    have "pow2 (- ?k) \<le> x" using hi assms by (simp add: pow2_minus field_simps)
    moreover have "x < 1 / pow2 (?k - 1)"
      using lo assms by (simp add: less_divide_eq pos_less_divide_eq mult.commute)
    then have "x < pow2 (- ?k + 1)" using pow2_minus[of "?k - 1"] by simp
    ultimately show ?thesis using False by (simp add: leading_def)
  qed
  then show "pow2 (leading x) \<le> x" "x < pow2 (leading x + 1)" by auto
qed

lemma round_even_near: "\<bar>of_int (round_even x) - x\<bar> \<le> 1 / 2"
  unfolding round_even_def Let_def by (simp add: abs_if) linarith

lemma round_even_int [simp]: "round_even (of_int n) = n"
  by (simp add: round_even_def)

lemma round_even_mono:
  assumes "x \<le> y"
  shows "round_even x \<le> round_even y"
proof (cases "\<lfloor>x\<rfloor> = \<lfloor>y\<rfloor>")
  case True
  then show ?thesis using assms by (simp add: round_even_def Let_def)
next
  case False
  then have "\<lfloor>x\<rfloor> + 1 \<le> \<lfloor>y\<rfloor>" using floor_mono[OF assms] by linarith
  moreover have "round_even x \<le> \<lfloor>x\<rfloor> + 1" "\<lfloor>y\<rfloor> \<le> round_even y"
    by (simp_all add: round_even_def Let_def)
  ultimately show ?thesis by linarith
qed

lemma round_even_nonneg: "0 \<le> x \<Longrightarrow> 0 \<le> round_even x"
  using round_even_mono[of 0 x] round_even_int[of 0] by simp

definition unit_exp :: "rat \<Rightarrow> int" where
  "unit_exp x = max (leading x - 52) (- 1074)"

lemma fl_abs_unit: "x \<noteq> 0 \<Longrightarrow> fl_abs x = of_int (round_even (x / pow2 (unit_exp x))) * pow2 (unit_exp x)"
  by (simp add: fl_abs_def unit_exp_def Let_def)

lemma fl_abs_0 [simp]: "fl_abs 0 = 0"
  by (simp add: fl_abs_def)

lemma fl_abs_nonneg: "0 \<le> x \<Longrightarrow> 0 \<le> fl_abs x"
  by (cases "x = 0") (auto simp: fl_abs_unit less_imp_le intro!: mult_nonneg_nonneg round_even_nonneg)

lemma fl_abs_half_unit:
  assumes "0 < x"
  shows "\<bar>fl_abs x - x\<bar> \<le> pow2 (unit_exp x) / 2"
proof -
  let ?e = "pow2 (unit_exp x)"
  have "fl_abs x - x = (of_int (round_even (x / ?e)) - x / ?e) * ?e"
    using assms by (simp add: fl_abs_unit left_diff_distrib)
  then have "\<bar>fl_abs x - x\<bar> = \<bar>of_int (round_even (x / ?e)) - x / ?e\<bar> * ?e"
    by (simp add: abs_mult less_imp_le)
  also have "\<dots> \<le> 1 / 2 * ?e"
    by (intro mult_right_mono round_even_near) (simp add: less_imp_le)
  finally show ?thesis by simp
qed

text \<open>Rounding a number of normal size errs by at most a unit in the 53rd bit.\<close>

lemma fl_abs_near:
  assumes "pow2 (- 1022) \<le> x"
  shows "\<bar>fl_abs x - x\<bar> \<le> x / 2 ^ 53"
proof -
  have x: "0 < x" using assms pow2_pos[of "- 1022"] by linarith
  have "\<not> leading x + 1 \<le> - 1022"
    using pow2_mono[of "leading x + 1" "- 1022"] leading_bounds(2)[OF x] assms by auto
  then have e: "unit_exp x = leading x - 52" by (simp add: unit_exp_def)
  have "pow2 (leading x) = pow2 (unit_exp x) * 2 ^ 52"
    using pow2_add[of "unit_exp x" 52] by (simp add: e pow2_def[of 52])
  then have "pow2 (unit_exp x) / 2 \<le> x / 2 ^ 53"
    using leading_bounds(1)[OF x] by simp
  with fl_abs_half_unit[OF x] show ?thesis by linarith
qed

lemma fl_abs_exact:
  assumes "0 \<le> x" "x = of_int n * pow2 (unit_exp x)"
  shows "fl_abs x = x"
proof (cases "x = 0")
  case False
  have "x / pow2 (unit_exp x) = of_int n"
    by (subst assms(2)) simp
  then show ?thesis using False assms(2) by (simp add: fl_abs_unit)
qed simp

lemma int_multiple:
  assumes "unit_exp x \<le> 0" "x = of_int n"
  shows "x = of_int (n * 2 ^ nat (- unit_exp x)) * pow2 (unit_exp x)"
  using assms by (simp add: pow2_def)

text \<open>Integers up to \<open>2^53\<close> are floats.\<close>

lemma fl_abs_int:
  assumes "0 \<le> n" "n \<le> 2 ^ 53"
  shows "fl_abs (of_int n) = of_int n"
proof (cases "n = 0")
  case False
  let ?x = "of_int n :: rat"
  have x: "0 < ?x" using assms False by simp
  show ?thesis
  proof (cases "n = 2 ^ 53")
    case True
    have x53: "?x = pow2 53" by (simp add: True pow2_def)
    have "leading ?x = 53"
    proof (rule ccontr)
      assume "leading ?x \<noteq> 53"
      then consider "leading ?x + 1 \<le> 53" | "53 < leading ?x" by linarith
      then show False
        using leading_bounds[OF x] pow2_mono[of "leading ?x + 1" 53] pow2_less[of 53 "leading ?x"]
        by cases (auto simp: x53)
    qed
    then have "unit_exp ?x = 1" by (simp add: unit_exp_def)
    then have "?x = of_int (2 ^ 52) * pow2 (unit_exp ?x)"
      by (simp add: True pow2_def)
    then show ?thesis using x by (intro fl_abs_exact[of _ "2 ^ 52"]) simp_all
  next
    case False
    then have "?x < of_int (2 ^ 53)" using assms by (simp only: of_int_less_iff)
    then have "?x < pow2 53" by (simp add: pow2_def)
    then have "\<not> 53 \<le> leading ?x"
      using leading_bounds(1)[OF x] pow2_mono[of 53 "leading ?x"] by linarith
    then have "unit_exp ?x \<le> 0" by (simp add: unit_exp_def)
    from fl_abs_exact[OF _ int_multiple[OF this refl]] x show ?thesis by simp
  qed
qed simp

lemma fl_abs_between:
  assumes "0 < x"
  shows "pow2 (leading x) \<le> fl_abs x \<or> leading x < - 1022" "fl_abs x \<le> pow2 (max (leading x + 1) (- 1022))"
proof -
  have a: "of_int m * pow2 (unit_exp x) \<le> fl_abs x" if "of_int m * pow2 (unit_exp x) \<le> x" for m
    using that assms round_even_mono[of "of_int m" "x / pow2 (unit_exp x)"]
    by (simp add: fl_abs_unit field_simps mult_right_mono)
  have b: "fl_abs x \<le> of_int m * pow2 (unit_exp x)" if "x \<le> of_int m * pow2 (unit_exp x)" for m
    using that assms round_even_mono[of "x / pow2 (unit_exp x)" "of_int m"]
    by (simp add: fl_abs_unit field_simps mult_right_mono)
  show "pow2 (leading x) \<le> fl_abs x \<or> leading x < - 1022"
  proof (cases "leading x < - 1022")
    case False
    then have "pow2 (leading x) = of_int (2 ^ 52) * pow2 (unit_exp x)"
      using pow2_add[of "unit_exp x" 52] by (simp add: unit_exp_def pow2_def[of 52])
    then show ?thesis using a[of "2 ^ 52"] leading_bounds(1)[OF assms] by simp
  qed simp
  have "0 \<le> max (leading x + 1) (- 1022) - unit_exp x" by (auto simp: unit_exp_def)
  then have "pow2 (max (leading x + 1) (- 1022)) = of_int (2 ^ nat (max (leading x + 1) (- 1022) - unit_exp x)) * pow2 (unit_exp x)"
    using pow2_add[of "max (leading x + 1) (- 1022) - unit_exp x" "unit_exp x"] by (metis pow2_nat diff_add_cancel)
  moreover have "x \<le> pow2 (max (leading x + 1) (- 1022))"
    using leading_bounds(2)[OF assms] pow2_mono[of "leading x + 1" "max (leading x + 1) (- 1022)"] by simp
  ultimately show "fl_abs x \<le> pow2 (max (leading x + 1) (- 1022))" using b by metis
qed

lemma leading_mono: "0 < x \<Longrightarrow> x \<le> y \<Longrightarrow> leading x \<le> leading y"
  using leading_bounds[of x] leading_bounds[of y] pow2_mono[of "leading y + 1" "leading x"] by force

lemma fl_abs_mono:
  assumes "0 \<le> x" "x \<le> y"
  shows "fl_abs x \<le> fl_abs y"
proof (cases "x = 0")
  case True
  then show ?thesis using assms fl_abs_nonneg by simp
next
  case False
  then have x: "0 < x" "0 < y" using assms by auto
  show ?thesis
  proof (cases "unit_exp x = unit_exp y")
    case True
    then show ?thesis using x assms
      by (auto simp: fl_abs_unit less_imp_le intro!: mult_right_mono round_even_mono divide_right_mono)
  next
    case False
    then have l: "max (leading x + 1) (- 1022) \<le> leading y" "\<not> leading y < - 1022"
      using leading_mono[OF x(1) assms(2)] by (auto simp: unit_exp_def)
    have "fl_abs x \<le> pow2 (max (leading x + 1) (- 1022))" by (rule fl_abs_between[OF x(1)])
    also have "\<dots> \<le> pow2 (leading y)" by (rule pow2_mono[OF l(1)])
    also have "\<dots> \<le> fl_abs y" using fl_abs_between(1)[OF x(2)] l(2) by blast
    finally show ?thesis .
  qed
qed

section \<open>Operations\<close>

text \<open>A rational that rounds to a finite float.\<close>

lemma fl_finite:
  assumes "0 \<le> x" "x < pow2 1023"
  shows "fl x = Fin (fl_abs x)"
proof -
  have "fl_abs x < pow2 1024"
  proof (cases "x = 0")
    case False
    then have x: "0 < x" using assms by simp
    then have "leading x < 1023"
      using leading_bounds(1)[OF x] assms(2) pow2_mono[of 1023 "leading x"] by linarith
    then have "pow2 (max (leading x + 1) (- 1022)) < pow2 1024" by (intro pow2_less) simp
    then show ?thesis using fl_abs_between(2)[OF x] by linarith
  qed simp
  then show ?thesis using assms(1) by (simp add: fl_def Let_def)
qed

definition of_int64 :: "int \<Rightarrow> gofloat" where
  "of_int64 n = fl (of_int n)"

definition to_int64 :: "gofloat \<Rightarrow> int" where
  "to_int64 f =
     (case f of
        Fin x \<Rightarrow> let n = (if x < 0 then \<lceil>x\<rceil> else \<lfloor>x\<rfloor>) in if is_int64 n then n else - (2 ^ 63)
      | _ \<Rightarrow> - (2 ^ 63))"

fun neg_of :: "gofloat \<Rightarrow> bool" where
  "neg_of (Fin x) = (x < 0)"
| "neg_of (Inf s) = s"
| "neg_of NaN = False"

fun fmul :: "gofloat \<Rightarrow> gofloat \<Rightarrow> gofloat" where
  "fmul (Fin a) (Fin b) = fl (a * b)"
| "fmul NaN _ = NaN"
| "fmul _ NaN = NaN"
| "fmul (Fin a) (Inf s) = (if a = 0 then NaN else Inf ((a < 0) \<noteq> s))"
| "fmul (Inf s) (Fin b) = (if b = 0 then NaN else Inf ((b < 0) \<noteq> s))"
| "fmul (Inf s) (Inf t) = Inf (s \<noteq> t)"

fun fdiv :: "gofloat \<Rightarrow> gofloat \<Rightarrow> gofloat" where
  "fdiv (Fin a) (Fin b) = (if b = 0 then (if a = 0 then NaN else Inf (a < 0)) else fl (a / b))"
| "fdiv NaN _ = NaN"
| "fdiv _ NaN = NaN"
| "fdiv (Fin a) (Inf s) = Fin 0"
| "fdiv (Inf s) (Fin b) = Inf ((b < 0) \<noteq> s)"
| "fdiv (Inf s) (Inf t) = NaN"

fun fadd :: "gofloat \<Rightarrow> gofloat \<Rightarrow> gofloat" where
  "fadd (Fin a) (Fin b) = fl (a + b)"
| "fadd NaN _ = NaN"
| "fadd _ NaN = NaN"
| "fadd (Fin a) (Inf s) = Inf s"
| "fadd (Inf s) (Fin b) = Inf s"
| "fadd (Inf s) (Inf t) = (if s = t then Inf s else NaN)"

text \<open>Comparisons are false with a NaN.\<close>

fun fless_eq :: "gofloat \<Rightarrow> gofloat \<Rightarrow> bool" where
  "fless_eq (Fin a) (Fin b) = (a \<le> b)"
| "fless_eq NaN _ = False"
| "fless_eq _ NaN = False"
| "fless_eq (Inf s) (Inf t) = (s \<or> \<not> t)"
| "fless_eq (Inf s) (Fin _) = s"
| "fless_eq (Fin _) (Inf s) = (\<not> s)"

definition feq :: "gofloat \<Rightarrow> gofloat \<Rightarrow> bool" where
  "feq a b \<longleftrightarrow> fless_eq a b \<and> fless_eq b a"

definition fless :: "gofloat \<Rightarrow> gofloat \<Rightarrow> bool" where
  "fless a b \<longleftrightarrow> fless_eq a b \<and> \<not> feq a b"

text \<open>\<open>min\<close> of two floats: a NaN wins.\<close>

definition fmin :: "gofloat \<Rightarrow> gofloat \<Rightarrow> gofloat" where
  "fmin a b = (if a = NaN \<or> b = NaN then NaN else if fless_eq a b then a else b)"

text \<open>\<open>math.Trunc\<close>, \<open>Floor\<close>, \<open>Ceil\<close> and \<open>Round\<close> (half away from zero). A
  float's integer part is a float.\<close>

fun rounded :: "(rat \<Rightarrow> int) \<Rightarrow> gofloat \<Rightarrow> gofloat" where
  "rounded r (Fin x) = Fin (of_int (r x))"
| "rounded r f = f"

definition ftrunc :: "gofloat \<Rightarrow> gofloat" where
  "ftrunc = rounded (\<lambda>x. if x < 0 then \<lceil>x\<rceil> else \<lfloor>x\<rfloor>)"

definition ffloor :: "gofloat \<Rightarrow> gofloat" where
  "ffloor = rounded floor"

definition fceil :: "gofloat \<Rightarrow> gofloat" where
  "fceil = rounded ceiling"

definition fround :: "gofloat \<Rightarrow> gofloat" where
  "fround = rounded (\<lambda>x. if x < 0 then - \<lfloor>- x + 1 / 2\<rfloor> else \<lfloor>x + 1 / 2\<rfloor>)"

lemma of_int64_exact: "0 \<le> n \<Longrightarrow> n \<le> 2 ^ 53 \<Longrightarrow> of_int64 n = Fin (of_int n)"
proof -
  assume n: "0 \<le> n" "n \<le> 2 ^ 53"
  have "(of_int n :: rat) \<le> of_int (2 ^ 53)" using n(2) by (simp only: of_int_le_iff)
  also have "\<dots> = pow2 53" by (simp add: pow2_def)
  also have "\<dots> < pow2 1023" by (rule pow2_less) simp
  finally show "of_int64 n = Fin (of_int n)"
    using n by (simp add: of_int64_def fl_finite fl_abs_int)
qed

lemma to_int64_Fin: "0 \<le> x \<Longrightarrow> x < 2 ^ 63 \<Longrightarrow> to_int64 (Fin x) = \<lfloor>x\<rfloor>"
  by (simp add: to_int64_def is_int64_def Let_def floor_less_iff le_floor_iff)

section \<open>Floats in text\<close>

text \<open>\<open>strconv.ParseFloat(s, 64)\<close>: decimal and hexadecimal literals with underscores
  between digits, infinities and NaN; \<open>None\<close> for a syntax error or a value out of range.\<close>

definition is_hex :: "char \<Rightarrow> bool" where
  "is_hex c \<longleftrightarrow> is_digit c \<or> CHR ''a'' \<le> lower_char c \<and> lower_char c \<le> CHR ''f''"

definition hex_value :: "char \<Rightarrow> int" where
  "hex_value c = (if is_digit c then int (digit_value c) else of_char (lower_char c) - 87)"

fun underscores_between :: "bool \<Rightarrow> char \<Rightarrow> string \<Rightarrow> bool" where
  "underscores_between hex saw [] = (saw \<noteq> CHR ''_'')"
| "underscores_between hex saw (c # cs) =
     (if is_digit c \<or> hex \<and> is_hex c then underscores_between hex CHR ''0'' cs
      else if c = CHR ''_'' then saw = CHR ''0'' \<and> underscores_between hex CHR ''_'' cs
      else saw \<noteq> CHR ''_'' \<and> underscores_between hex CHR ''!'' cs)"

fun based :: "string \<Rightarrow> string option" where
  "based (z # x # r) =
     (if z = CHR ''0'' \<and> List.member ''box'' (lower_char x) then Some (lower_char x # r) else None)"
| "based _ = None"

definition unsigned :: "string \<Rightarrow> bool \<times> string" where
  "unsigned s =
     (case s of
        c # cs \<Rightarrow> if c = CHR ''-'' then (True, cs) else if c = CHR ''+'' then (False, cs) else (False, s)
      | [] \<Rightarrow> (False, []))"

definition underscoreOK :: "string \<Rightarrow> bool" where
  "underscoreOK s =
     (let d = snd (unsigned s)
      in case based d of
           Some (x # r) \<Rightarrow> underscores_between (x = CHR ''x'') CHR ''0'' r
         | _ \<Rightarrow> underscores_between False CHR ''^'' d)"

text \<open>The digits before the exponent: whether there are any, their value without the dot,
  how many follow the dot, and what is left.\<close>

fun scan_digits :: "bool \<Rightarrow> bool \<Rightarrow> bool \<Rightarrow> int \<Rightarrow> nat \<Rightarrow> string \<Rightarrow> bool \<times> int \<times> nat \<times> string" where
  "scan_digits hex dot seen m k [] = (seen, m, k, [])"
| "scan_digits hex dot seen m k (c # cs) =
     (if c = CHR ''_'' then scan_digits hex dot seen m k cs
      else if c = CHR ''.'' \<and> \<not> dot then scan_digits hex True seen m k cs
      else if is_digit c \<or> hex \<and> is_hex c
           then scan_digits hex dot True ((if hex then 16 else 10) * m + hex_value c)
                  (if dot then Suc k else k) cs
      else (seen, m, k, c # cs))"

fun scan_exp :: "int \<Rightarrow> string \<Rightarrow> int option" where
  "scan_exp e [] = Some e"
| "scan_exp e (c # cs) =
     (if c = CHR ''_'' then scan_exp e cs
      else if is_digit c then scan_exp (if e < 10000 then 10 * e + hex_value c else e) cs
      else None)"

definition exponent :: "bool \<Rightarrow> string \<Rightarrow> int option" where
  "exponent hex s =
     (case s of
        [] \<Rightarrow> if hex then None else Some 0
      | c # cs \<Rightarrow>
          if lower_char c \<noteq> (if hex then CHR ''p'' else CHR ''e'') then None
          else let (neg, ds) = unsigned cs
               in if ds = [] \<or> \<not> is_digit (hd ds) then None
                  else map_option (\<lambda>e. if neg then - e else e) (scan_exp 0 ds))"

definition rat_powi :: "rat \<Rightarrow> int \<Rightarrow> rat" where
  "rat_powi b e = (if 0 \<le> e then b ^ nat e else 1 / b ^ nat (- e))"

definition read_float :: "string \<Rightarrow> rat option" where
  "read_float s =
     (let (neg, d) = unsigned s;
        hex = (case d of z # x # _ # _ \<Rightarrow> z = CHR ''0'' \<and> lower_char x = CHR ''x'' | _ \<Rightarrow> False);
        (seen, m, k, rest) = scan_digits hex False False 0 0 (if hex then drop 2 d else d)
      in if \<not> seen \<or> List.member s CHR ''_'' \<and> \<not> underscoreOK s then None
         else map_option
                (\<lambda>e. (if neg then - 1 else 1) * of_int m *
                     (if hex then pow2 (e - 4 * int k) else rat_powi 10 (e - int k)))
                (exponent hex rest))"

definition parse_float :: "string \<Rightarrow> gofloat option" where
  "parse_float s =
     (let (neg, d) = unsigned s; w = to_lower d
      in if w = ''inf'' \<or> w = ''infinity'' then Some (Inf neg)
         else if to_lower s = ''nan'' then Some NaN
         else case read_float s of
                None \<Rightarrow> None
              | Some x \<Rightarrow> (case fl x of Fin y \<Rightarrow> Some (Fin y) | _ \<Rightarrow> None))"

text \<open>\<open>%.1f\<close>.\<close>

definition show_tenths :: "gofloat \<Rightarrow> string" where
  "show_tenths f =
     (case f of
        Fin x \<Rightarrow>
          let n = round_even (10 * \<bar>x\<bar>)
          in (if x < 0 then ''-'' else []) @ show_int (n div 10) @ ''.'' @ show_int (n mod 10)
      | Inf s \<Rightarrow> if s then ''-Inf'' else ''+Inf''
      | NaN \<Rightarrow> ''NaN'')"

text \<open>\<open>FormatFloat(f, 'f', -1, 64)\<close> of a float that two decimals denote: the fewest
  decimals that read back as the float.\<close>

definition show_hundredths :: "gofloat \<Rightarrow> string" where
  "show_hundredths f =
     (case f of
        Fin x \<Rightarrow>
          let a = \<bar>x\<bar>; back = (\<lambda>p. fl (of_int (round_even (a * p)) / p) = Fin a);
            n = round_even (a * 100)
          in (if x < 0 then ''-'' else []) @
             (if back 1 then show_int (round_even a)
              else if back 10 then show_int (round_even (a * 10) div 10) @ ''.'' @
                                   show_int (round_even (a * 10) mod 10)
              else show_int (n div 100) @ ''.'' @ show_int (n mod 100 div 10) @ show_int (n mod 10))
      | Inf s \<Rightarrow> if s then ''-Inf'' else ''+Inf''
      | NaN \<Rightarrow> ''NaN'')"

lemma pow2_numeral [simp]: "pow2 (numeral k) = 2 ^ numeral k"
  by (simp add: pow2_def)

lemma pow2_1 [simp]: "pow2 1 = 2" "pow2 (- 1) = 1 / 2"
  by (simp_all add: pow2_def)

lemma pow2_neg_numeral [simp]: "pow2 (- numeral k) = 1 / 2 ^ numeral k"
  by (simp add: pow2_def)

section \<open>Evaluation\<close>

lemma floor_numerals [simp]: "\<lfloor>numeral a / numeral b :: rat\<rfloor> = numeral a div numeral b"
  by (metis floor_divide_of_int_eq of_int_numeral)

lemma floor_one_numeral [simp]: "\<lfloor>1 / numeral b :: rat\<rfloor> = 1 div numeral b"
  by (metis floor_divide_of_int_eq of_int_numeral of_int_1)

lemma leading_eq:
  assumes "pow2 k \<le> x" "x < pow2 (k + 1)"
  shows "leading x = k"
proof (rule ccontr)
  assume "leading x \<noteq> k"
  then consider "leading x + 1 \<le> k" | "k + 1 \<le> leading x" by linarith
  moreover have x: "0 < x" using assms(1) pow2_pos[of k] by linarith
  ultimately show False
    using assms leading_bounds[OF x] pow2_mono[of "leading x + 1" k] pow2_mono[of "k + 1" "leading x"]
    by cases (auto dest: order.strict_trans2 order.trans)
qed

lemma fl_eval:
  assumes "pow2 (e + 52) \<le> x" "x < pow2 (e + 53)" "- 1074 \<le> e" "e \<le> 970"
  shows "fl x = Fin (of_int (round_even (x / pow2 e)) * pow2 e)"
proof -
  have x: "0 < x" using assms(1) pow2_pos[of "e + 52"] by linarith
  have "leading x = e + 52" using assms(1,2) by (intro leading_eq) (simp_all add: add.assoc)
  then have "unit_exp x = e" using assms(3) by (simp add: unit_exp_def)
  then have "fl_abs x = of_int (round_even (x / pow2 e)) * pow2 e" using x by (simp add: fl_abs_unit)
  moreover have "x < pow2 1023" using assms(2,4) pow2_mono[of "e + 53" 1023] by linarith
  ultimately show ?thesis using x by (simp add: fl_finite)
qed

lemma fl_int: "0 \<le> n \<Longrightarrow> n \<le> 2 ^ 53 \<Longrightarrow> fl (of_int n) = Fin (of_int n)"
  using of_int64_exact by (simp add: of_int64_def)

lemma fl_numeral: "numeral k \<le> (2 ^ 53 :: int) \<Longrightarrow> fl (numeral k) = Fin (numeral k)"
  using fl_int[of "numeral k"] by simp

end
