(* ===== verification/VllmArgs.thy ===== *)
theory VllmArgs
  imports GoNum Backend
begin

text \<open>
  How \<open>internal/backend/kserve\<close> reads vLLM's command line (\<open>kvcache.go\<close>,
  \<open>placement.go\<close>): the flags of an argument list as vLLM's API server reads them, the
  token counts and fractions in their values, the arguments the KV cache check needs, and an
  argument list without one of its flags.
\<close>

section \<open>Flags\<close>

definition flagMaxModelLen :: string where "flagMaxModelLen = ''--max-model-len''"
definition flagMaxNumBatched :: string where "flagMaxNumBatched = ''--max-num-batched-tokens''"
definition flagGPUMemoryUtilization :: string where
  "flagGPUMemoryUtilization = ''--gpu-memory-utilization''"
definition flagKVCacheDType :: string where "flagKVCacheDType = ''--kv-cache-dtype''"
definition flagDType :: string where "flagDType = ''--dtype''"
definition flagBlockSize :: string where "flagBlockSize = ''--block-size''"
definition flagTensorParallelSize :: string where "flagTensorParallelSize = ''--tensor-parallel-size''"
definition flagPipelineParallelSize :: string where
  "flagPipelineParallelSize = ''--pipeline-parallel-size''"
definition flagNoEnableChunkedPrefill :: string where
  "flagNoEnableChunkedPrefill = ''--no-enable-chunked-prefill''"

lemmas flag_defs = flagMaxModelLen_def flagMaxNumBatched_def flagGPUMemoryUtilization_def
  flagKVCacheDType_def flagDType_def flagBlockSize_def flagTensorParallelSize_def
  flagPipelineParallelSize_def flagNoEnableChunkedPrefill_def

text \<open>\<open>strings.Trim(s, `'"`)\<close>.\<close>

definition is_quote :: "char \<Rightarrow> bool" where
  "is_quote c \<longleftrightarrow> c = CHR 0x27 \<or> c = CHR 0x22"

definition trim_quotes :: "string \<Rightarrow> string" where
  "trim_quotes s = rev (dropWhile is_quote (rev (dropWhile is_quote s)))"

definition flag_value :: "string \<Rightarrow> string" where
  "flag_value v = trim_quotes (trim_space v)"

text \<open>A flag with the underscores after its dashes made dashes.\<close>

definition flag_name :: "string \<Rightarrow> string" where
  "flag_name f = ''--'' @ map (\<lambda>c. if c = CHR ''_'' then CHR ''-'' else c) (drop 2 f)"

fun flag_loop :: "(string \<rightharpoonup> string) \<Rightarrow> string list \<Rightarrow> (string \<rightharpoonup> string)" where
  "flag_loop m [] = m"
| "flag_loop m [a] =
     (let (flag, value, has) = cut (CHR ''='') (trim_space a)
      in if \<not> prefix ''--'' flag then m else m(flag_name flag \<mapsto> flag_value value))"
| "flag_loop m (a # b # as) =
     (let (flag, value, has) = cut (CHR ''='') (trim_space a); f = flag_name flag
      in if \<not> prefix ''--'' flag then flag_loop m (b # as)
         else if \<not> has \<and> f \<noteq> flagNoEnableChunkedPrefill \<and> \<not> prefix ''-'' b
         then flag_loop (m(f \<mapsto> flag_value b)) as
         else flag_loop (m(f \<mapsto> flag_value value)) (b # as))"

definition vllmFlagValues :: "string list \<Rightarrow> (string \<rightharpoonup> string)" where
  "vllmFlagValues args = flag_loop Map.empty args"

fun withoutFlag :: "string list \<Rightarrow> string \<Rightarrow> string list" where
  "withoutFlag [] flag = []"
| "withoutFlag [a] flag = (if a = flag \<or> prefix (flag @ ''='') a then [] else [a])"
| "withoutFlag (a # b # as) flag =
     (if a = flag then withoutFlag as flag
      else if prefix (flag @ ''='') a then withoutFlag (b # as) flag
      else a # withoutFlag (b # as) flag)"

section \<open>Values\<close>

definition factor_of :: "char \<Rightarrow> int option" where
  "factor_of c = map_of [(CHR ''k'', 10 ^ 3), (CHR ''K'', 2 ^ 10), (CHR ''m'', 10 ^ 6),
                         (CHR ''M'', 2 ^ 20), (CHR ''g'', 10 ^ 9), (CHR ''G'', 2 ^ 30)] c"

definition humanReadableInt :: "string \<Rightarrow> int option" where
  "humanReadableInt s =
     (let (num, factor) =
        (if s = [] then (s, 1)
         else case factor_of (last s) of Some k \<Rightarrow> (butlast s, k) | None \<Rightarrow> (s, 1))
      in case parse_float num of
           None \<Rightarrow> None
         | Some v \<Rightarrow> let w = fmul v (of_int64 factor)
                     in if feq w (ftrunc w) then Some (to_int64 w) else None)"

definition parseUtilization :: "string \<Rightarrow> string + gofloat" where
  "parseUtilization v =
     (case parse_float v of
        None \<Rightarrow> Inl (flagGPUMemoryUtilization @ ''='' @ v @ '' is not a fraction'')
      | Some u \<Rightarrow> if fless_eq u (Fin 0) \<or> fless (Fin 1) u
                  then Inl (flagGPUMemoryUtilization @ ''='' @ v @ '' is not a fraction'')
                  else Inr u)"

section \<open>The arguments of the KV cache check\<close>

record vllm_args =
  MaxModelLen :: int
  BatchedTokens :: int
  Utilization :: gofloat
  KVCacheDType :: string
  DType :: string
  BlockSize :: int
  TensorParallel :: int
  ChunkedPrefill :: bool

definition kvCacheDTypeAuto :: string where "kvCacheDTypeAuto = ''auto''"

definition vllmDefaultUtilization :: gofloat where "vllmDefaultUtilization = fl (9 / 10)"

definition default_args :: vllm_args where
  "default_args = \<lparr>MaxModelLen = 0, BatchedTokens = 0, Utilization = vllmDefaultUtilization,
     KVCacheDType = kvCacheDTypeAuto, DType = kvCacheDTypeAuto, BlockSize = 16,
     TensorParallel = 1, ChunkedPrefill = True\<rparr>"

text \<open>The three counts, in the order a range over the map of them visits.\<close>

definition set_count :: "string \<Rightarrow> int \<Rightarrow> vllm_args \<Rightarrow> vllm_args" where
  "set_count flag n a =
     (if flag = flagMaxNumBatched then a\<lparr>BatchedTokens := n\<rparr>
      else if flag = flagBlockSize then a\<lparr>BlockSize := n\<rparr>
      else if flag = flagTensorParallelSize then a\<lparr>TensorParallel := n\<rparr> else a)"

fun counts :: "(string \<rightharpoonup> string) \<Rightarrow> string list \<Rightarrow> vllm_args \<Rightarrow> string + vllm_args" where
  "counts values [] a = Inr a"
| "counts values (f # fs) a =
     (case values f of
        None \<Rightarrow> counts values fs a
      | Some v \<Rightarrow>
          (case humanReadableInt v of
             Some n \<Rightarrow> if n \<le> 0 then Inl (f @ ''='' @ v @ '' does not parse'')
                       else counts values fs (set_count f n a)
           | None \<Rightarrow> Inl (f @ ''='' @ v @ '' does not parse'')))"

definition parallel_error :: "(string \<rightharpoonup> string) \<Rightarrow> string option" where
  "parallel_error values =
     (case values flagPipelineParallelSize of
        Some v \<Rightarrow> if v \<noteq> ''1''
                  then Some (flagPipelineParallelSize @ ''='' @ v @
                         '' splits the layers across GPUs, which the check does not judge'')
                  else None
      | None \<Rightarrow> None)"

definition set_dtypes :: "(string \<rightharpoonup> string) \<Rightarrow> vllm_args \<Rightarrow> vllm_args" where
  "set_dtypes values a =
     a\<lparr>KVCacheDType := (case values flagKVCacheDType of Some v \<Rightarrow> to_lower v | None \<Rightarrow> KVCacheDType a),
       DType := (case values flagDType of Some v \<Rightarrow> to_lower v | None \<Rightarrow> DType a)\<rparr>"

definition parseVLLMArgs :: "string list \<Rightarrow> string list \<Rightarrow> string + vllm_args" where
  "parseVLLMArgs order args =
     (let values = vllmFlagValues args;
        a = default_args\<lparr>ChunkedPrefill := values flagNoEnableChunkedPrefill = None\<rparr>
      in case values flagMaxModelLen of
           None \<Rightarrow> Inl (''the preset sets no '' @ flagMaxModelLen @
                     '': the context vLLM derives from the checkpoint is not judged'')
         | Some raw \<Rightarrow>
             (case humanReadableInt raw of
                None \<Rightarrow> Inl (flagMaxModelLen @ ''='' @ raw @
                  '' is not a token count the check judges (vLLM fits auto to the memory itself)'')
              | Some len \<Rightarrow>
                  if len \<le> 0
                  then Inl (flagMaxModelLen @ ''='' @ raw @
                    '' is not a token count the check judges (vLLM fits auto to the memory itself)'')
                  else case counts values order (a\<lparr>MaxModelLen := len\<rparr>) of
                         Inl e \<Rightarrow> Inl e
                       | Inr a \<Rightarrow>
                           (case parallel_error values of
                              Some e \<Rightarrow> Inl e
                            | None \<Rightarrow>
                                (case values flagGPUMemoryUtilization of
                                   None \<Rightarrow> Inr (set_dtypes values a)
                                 | Some v \<Rightarrow>
                                     (case parseUtilization v of
                                        Inl e \<Rightarrow> Inl e
                                      | Inr u \<Rightarrow> Inr (set_dtypes values (a\<lparr>Utilization := u\<rparr>)))))))"

text \<open>\<open>pipelineParallel\<close> and \<open>presetTensorParallel\<close> of an argument list
  (\<open>shape.go\<close>), and \<open>presetDType\<close> (\<open>compute.go\<close>), which reads the list itself.\<close>

definition pipeline_parallel :: "string list \<Rightarrow> bool" where
  "pipeline_parallel args =
     (case vllmFlagValues args flagPipelineParallelSize of Some v \<Rightarrow> v \<noteq> ''1'' | None \<Rightarrow> False)"

definition tensor_parallel :: "string list \<Rightarrow> int" where
  "tensor_parallel args =
     (case vllmFlagValues args flagTensorParallelSize of
        Some v \<Rightarrow> (case humanReadableInt v of Some n \<Rightarrow> if n > 0 then n else 1 | None \<Rightarrow> 1)
      | None \<Rightarrow> 1)"

fun dtype_arg :: "string list \<Rightarrow> string" where
  "dtype_arg [] = []"
| "dtype_arg (a # as) =
     (if prefix (flagDType @ ''='') a then drop (length (flagDType @ ''='')) a
      else if a = flagDType \<and> as \<noteq> [] then hd as
      else dtype_arg as)"

end
