(* ===== verification/Presets.thy ===== *)
theory Presets
  imports VllmArgs
begin

text \<open>
  Serving presets (\<open>internal/backend/kserve/presets.go\<close>): a published document and what
  the driver reads of it, the list of them from the preset ConfigMaps, and the index that
  resolves a request to one. A nil preset (a bare model reference) is \<^const>\<open>None\<close>.
  Decoding a document from YAML is the argument \<open>decode\<close>; of \<open>resources.requests\<close>
  the record keeps the printed values, of the template the main container's image.
\<close>

record serving_preset =
  sp_apiVersion :: string
  sp_kind :: string
  sp_name :: string
  sp_displayName :: string
  sp_description :: string
  sp_model :: string
  sp_storageURI :: string
  sp_format :: string
  sp_contextLength :: int
  sp_capabilities :: "string list"
  sp_license :: string
  sp_args :: "string list"
  sp_chatTemplate :: "string option"
  sp_gpus :: "int option"
  sp_requests :: "string \<rightharpoonup> string"
  sp_weightsGiB :: gofloat
  sp_overheadGiB :: "gofloat option"
  sp_residentGiB :: "gofloat option"
  sp_minCompute :: string
  sp_nodeSelector :: "(string \<times> string) list"
  sp_scheduler :: "bool option"
  sp_image :: string
  sp_source :: string
  sp_chartVersion :: string

definition gib :: int where "gib = 2 ^ 30"
definition mib :: int where "mib = 2 ^ 20"
definition presetKind :: string where "presetKind = ''ServingPreset''"
definition agentPlatformAPIVersion :: string where
  "agentPlatformAPIVersion = ''agent-platform.giantswarm.io/v1alpha1''"
definition presetConfigKey :: string where "presetConfigKey = ''preset.yaml''"
definition PresetSourceLabel :: string where
  "PresetSourceLabel = ''agent-platform.giantswarm.io/preset-source''"
definition PresetChartVersionAnnotation :: string where
  "PresetChartVersionAnnotation = ''agent-platform.giantswarm.io/chart-version''"

section \<open>What a preset says\<close>

definition gpus :: "serving_preset \<Rightarrow> int" where
  "gpus p = (case sp_gpus p of None \<Rightarrow> 1 | Some n \<Rightarrow> n)"

definition cpu :: "serving_preset option \<Rightarrow> bool" where
  "cpu p = (case p of None \<Rightarrow> False | Some q \<Rightarrow> gpus q = 0)"

definition routerScheduler :: "bool \<Rightarrow> serving_preset \<Rightarrow> bool" where
  "routerScheduler dflt p = (case sp_scheduler p of Some s \<Rightarrow> s | None \<Rightarrow> dflt)"

definition fromModelImage :: "serving_preset option \<Rightarrow> bool" where
  "fromModelImage p = (case p of None \<Rightarrow> False | Some q \<Rightarrow> prefix ''oci://'' (sp_storageURI q))"

definition storesInCache :: "serving_preset option \<Rightarrow> bool" where
  "storesInCache p \<longleftrightarrow> \<not> fromModelImage p"

definition utilization :: "serving_preset \<Rightarrow> gofloat" where
  "utilization p =
     (if cpu (Some p) then Fin 0
      else case vllmFlagValues (sp_args p) flagGPUMemoryUtilization of
             None \<Rightarrow> vllmDefaultUtilization
           | Some v \<Rightarrow> (case parseUtilization v of Inr u \<Rightarrow> u | Inl _ \<Rightarrow> vllmDefaultUtilization))"

definition gibToBytes :: "gofloat \<Rightarrow> int" where
  "gibToBytes g = (if fless_eq g (Fin 0) then 0 else to_int64 (fround (fmul g (of_int64 gib))))"

definition weightsBytes :: "serving_preset \<Rightarrow> int" where
  "weightsBytes p = gibToBytes (sp_weightsGiB p)"

definition residentBytes :: "serving_preset option \<Rightarrow> int \<Rightarrow> int" where
  "residentBytes p weights =
     (case p of
        None \<Rightarrow> weights
      | Some q \<Rightarrow> (case sp_residentGiB q of None \<Rightarrow> weights | Some g \<Rightarrow> gibToBytes g))"

definition overheadBytes :: "serving_preset \<Rightarrow> gofloat \<Rightarrow> int" where
  "overheadBytes p dflt = gibToBytes (case sp_overheadGiB p of None \<Rightarrow> dflt | Some g \<Rightarrow> g)"

text \<open>The API form (\<open>backend.Preset\<close>).\<close>

record preset_view =
  pv_name :: string
  pv_displayName :: string
  pv_description :: string
  pv_source :: string
  pv_model :: string
  pv_storageURI :: string
  pv_format :: string
  pv_contextLength :: int
  pv_capabilities :: "string list"
  pv_license :: string
  pv_gpus :: int
  pv_utilization :: gofloat
  pv_weights :: int
  pv_overhead :: int
  pv_required :: int
  pv_minCompute :: string
  pv_args :: "string list"
  pv_nodeSelector :: "(string \<times> string) list"
  pv_chatTemplate :: string
  pv_image :: string
  pv_chartVersion :: string

definition preset_view :: "gofloat \<Rightarrow> string \<Rightarrow> serving_preset \<Rightarrow> preset_view" where
  "preset_view overhead templateImage p =
     \<lparr>pv_name = sp_name p, pv_displayName = sp_displayName p, pv_description = sp_description p,
      pv_source = sp_source p, pv_model = sp_model p, pv_storageURI = sp_storageURI p,
      pv_format = sp_format p, pv_contextLength = sp_contextLength p,
      pv_capabilities = sp_capabilities p, pv_license = sp_license p, pv_gpus = gpus p,
      pv_utilization = utilization p, pv_weights = weightsBytes p,
      pv_overhead = overheadBytes p overhead,
      pv_required = add64 (weightsBytes p) (overheadBytes p overhead),
      pv_minCompute = sp_minCompute p, pv_args = sp_args p,
      pv_nodeSelector = sp_nodeSelector p,
      pv_chatTemplate = (case sp_chatTemplate p of Some c \<Rightarrow> c | None \<Rightarrow> []),
      pv_image = (if sp_image p = [] then templateImage else sp_image p),
      pv_chartVersion = sp_chartVersion p\<rparr>"

section \<open>Documents\<close>

definition parsePreset :: "(string \<Rightarrow> err + serving_preset) \<Rightarrow> string \<Rightarrow> string \<Rightarrow> serving_preset res" where
  "parsePreset decode raw source =
     (case decode raw of
        Inl e \<Rightarrow> Inl (wrap_err ''parse preset: '' e [])
      | Inr p \<Rightarrow>
          if sp_kind p \<noteq> [] \<and> sp_kind p \<noteq> presetKind
          then Inl (Err [] (''kind '' @ quoted (sp_kind p) @ '', want '' @ presetKind))
          else if sp_apiVersion p \<noteq> [] \<and> sp_apiVersion p \<noteq> agentPlatformAPIVersion
          then Inl (Err [] (''apiVersion '' @ quoted (sp_apiVersion p) @ '', want '' @ agentPlatformAPIVersion))
          else if sp_name p = [] then Inl (Err [] ''metadata.name is required'')
          else if sp_model p = [] then Inl (Err [] ''spec.model.id is required'')
          else Inr (p\<lparr>sp_storageURI := (if sp_storageURI p = [] then ''hf://'' @ sp_model p else sp_storageURI p),
                      sp_format := (if sp_format p = [] then ''vLLM'' else sp_format p),
                      sp_source := source\<rparr>))"

record config_map =
  cm_name :: string
  cm_data :: "string \<rightharpoonup> string"
  cm_labels :: "string \<rightharpoonup> string"
  cm_annotations :: "string \<rightharpoonup> string"

definition read_preset :: "(string \<Rightarrow> err + serving_preset) \<Rightarrow> config_map \<Rightarrow> string + serving_preset" where
  "read_preset decode cm =
     (case cm_data cm presetConfigKey of
        None \<Rightarrow> Inl (cm_name cm @ '': no '' @ presetConfigKey @ '' key'')
      | Some raw \<Rightarrow>
          (case parsePreset decode raw (get_label (cm_labels cm) PresetSourceLabel) of
             Inl e \<Rightarrow> Inl (cm_name cm @ '': '' @ err_msg e)
           | Inr p \<Rightarrow> Inr (p\<lparr>sp_chartVersion := get_label (cm_annotations cm) PresetChartVersionAnnotation\<rparr>)))"

fun rights :: "('a + 'b) list \<Rightarrow> 'b list" where
  "rights [] = []"
| "rights (x # xs) = (case x of Inr b \<Rightarrow> b # rights xs | Inl _ \<Rightarrow> rights xs)"

fun lefts :: "('a + 'b) list \<Rightarrow> 'a list" where
  "lefts [] = []"
| "lefts (x # xs) = (case x of Inl a \<Rightarrow> a # lefts xs | Inr _ \<Rightarrow> lefts xs)"

text \<open>The presets and the warnings of the listed ConfigMaps. Presets of one name keep their
  order here; \<open>sort.Slice\<close> may swap them.\<close>

definition listPresets :: "(string \<Rightarrow> err + serving_preset) \<Rightarrow> config_map list \<Rightarrow> serving_preset list \<times> string list" where
  "listPresets decode cms =
     (let read = map (read_preset decode) cms
      in (sort_key sp_name (rights read), lefts read))"

section \<open>The index\<close>

text \<open>\<open>strings.EqualFold\<close> of ASCII strings.\<close>

definition equal_fold :: "string \<Rightarrow> string \<Rightarrow> bool" where
  "equal_fold a b \<longleftrightarrow> to_lower a = to_lower b"

record preset_index =
  byName :: "string \<rightharpoonup> serving_preset"
  byModel :: "string \<Rightarrow> serving_preset list"
  all_presets :: "serving_preset list"

definition indexPresets :: "serving_preset list \<Rightarrow> preset_index" where
  "indexPresets ps =
     \<lparr>byName = map_of (rev (map (\<lambda>p. (sp_name p, p)) ps)),
      byModel = (\<lambda>k. filter (\<lambda>p. to_lower (sp_model p) = k) ps),
      all_presets = ps\<rparr>"

definition forModel :: "preset_index \<Rightarrow> string \<Rightarrow> serving_preset list" where
  "forModel idx model = byModel idx (to_lower (trim_space model))"

definition preset_names :: "serving_preset list \<Rightarrow> string" where
  "preset_names ps = join '', '' (map sp_name ps)"

definition resolve_preset :: "preset_index \<Rightarrow> string \<Rightarrow> string \<Rightarrow> serving_preset option res" where
  "resolve_preset idx model preset =
     (if preset \<noteq> [] then
        (case byName idx preset of
           None \<Rightarrow> Inl (errw ErrNotFound (''preset '' @ quoted preset @ '' not found (available: '' @
                          preset_names (all_presets idx) @ '')''))
         | Some p \<Rightarrow>
             if model \<noteq> [] \<and> \<not> equal_fold (sp_model p) model \<and> model \<noteq> sp_name p
             then Inl (errw ErrInvalid (''preset '' @ quoted preset @ '' serves '' @ sp_model p @
                         '', not '' @ model))
             else Inr (Some p))
      else case byName idx model of
             Some p \<Rightarrow> Inr (Some p)
           | None \<Rightarrow>
               (case forModel idx model of
                  [] \<Rightarrow> Inr None
                | [p] \<Rightarrow> Inr (Some p)
                | ps \<Rightarrow> Inl (errw ErrInvalid (show_int (int (length ps)) @ '' presets serve '' @ model @
                           '' ('' @ preset_names ps @ ''); pass preset to choose one''))))"

end
