(* ===== verification/Nodes.thy ===== *)
theory Nodes
  imports Presets Naming
begin

text \<open>
  The cluster as the KServe driver sees it (\<open>internal/backend/kserve\<close>): names of the objects
  it makes (\<open>names.go\<close>), the settings a fit reads (\<open>config.go\<close>), taints and the pool
  toleration (\<open>scheduling.go\<close>), a node's budget, its eligibility and whether it still
  starts (\<open>nodes.go\<close>), and where the cache lives (\<open>nodeclaims.go\<close>). A node is
  what the API server answers for it, quantities read; times are nanoseconds.
\<close>

section \<open>Names\<close>

definition truncateLabel :: "string \<Rightarrow> string \<Rightarrow> string" where
  "truncateLabel name original =
     (if length name \<le> max_name_length then name
      else let sfx = CHR ''-'' # hex8 (fnv32a original)
           in trim_right (CHR ''-'') (take (max_name_length - length sfx) name) @ sfx)"

definition dnsLabel :: "string \<Rightarrow> string" where
  "dnsLabel s =
     (let raw = to_lower (trim_space s);
        name = trim_right (CHR ''-'') (dashed True raw);
        name = (if name = [] then ''model'' else name);
        name = (if is_digit (hd name) then ''m-'' @ name else name)
      in truncateLabel name raw)"

definition prefixedName :: "string \<Rightarrow> string \<Rightarrow> string" where
  "prefixedName pre name = truncateLabel (pre @ name) (pre @ name)"

fun split_at :: "char \<Rightarrow> string \<Rightarrow> string list" where
  "split_at c [] = [[]]"
| "split_at c (x # xs) =
     (if x = c then [] # split_at c xs
      else case split_at c xs of (w # ws) \<Rightarrow> (x # w) # ws | [] \<Rightarrow> [[x]])"

definition isRepoID :: "string \<Rightarrow> bool" where
  "isRepoID s =
     (let parts = split_at (CHR ''/'') (trim_space s)
      in length parts = 2 \<and>
         list_all (\<lambda>p. p \<noteq> [] \<and> \<not> list_ex (\<lambda>c. c = CHR '' '' \<or> c = CHR 0x09 \<or> c = CHR '':'') p) parts)"

text \<open>The text before and after the last \<open>:\<close> or \<open>@\<close> behind the last slash.\<close>

definition splitRevision :: "string \<Rightarrow> string \<times> string" where
  "splitRevision ref =
     (let ref = trim_prefix ''hf://'' (trim_space ref);
        tail = takeWhile (\<lambda>c. c \<noteq> CHR '':'' \<and> c \<noteq> CHR ''@'' \<and> c \<noteq> CHR ''/'') (rev ref);
        rest = drop (length tail) (rev ref)
      in case rest of
           c # before \<Rightarrow> if c = CHR ''/'' then (ref, []) else (rev before, rev tail)
         | [] \<Rightarrow> (ref, []))"

section \<open>Settings\<close>

record taint =
  tn_key :: string
  tn_value :: string
  tn_effect :: string

record instance_shape =
  is_type :: string
  is_size :: string
  is_vcpu :: int
  is_memory :: int
  is_gpus :: int
  is_gpuMemory :: int
  is_usableVCPU :: gofloat
  is_usableMemory :: gofloat
  is_capability :: string

record gpu_pool =
  gp_taint :: "taint option"
  gp_selector :: "(string \<times> string) list"
  gp_instances :: "instance_shape list"

definition no_pool :: gpu_pool where
  "no_pool = \<lparr>gp_taint = None, gp_selector = [], gp_instances = []\<rparr>"

record fast_link =
  fl_name :: string
  fl_nodes :: "string list"
  fl_networks :: "string list"
  fl_resources :: "(string \<times> string) list"
  fl_env :: "(string \<times> string) list"

record settings =
  s_namespace :: string
  s_gpuResource :: string
  s_runtimeClass :: string
  s_selector :: "(string \<times> string) list"
  s_pool :: gpu_pool
  s_pools :: "(string \<times> gpu_pool) list"
  s_fastLinks :: "fast_link list"
  s_routerScheduler :: bool
  s_cacheEnabled :: bool
  s_cacheClaim :: string
  s_cacheRedirect :: bool
  s_cacheNodeClaims :: bool
  s_discoveryFound :: bool
  s_discoveryError :: string

definition forPreset :: "settings \<Rightarrow> serving_preset option \<Rightarrow> settings" where
  "forPreset s p = (if cpu p then s\<lparr>s_pool := no_pool, s_pools := [], s_runtimeClass := []\<rparr> else s)"

definition poolUnnamed :: "settings \<Rightarrow> bool" where
  "poolUnnamed s \<longleftrightarrow> s_discoveryFound s \<and> gp_selector (s_pool s) = [] \<and> gp_instances (s_pool s) \<noteq> []"

text \<open>The configured discovery ConfigMap: its namespace and name.\<close>

definition discoveryMissing :: "string \<times> string \<Rightarrow> settings \<Rightarrow> string" where
  "discoveryMissing d s =
     (if poolUnnamed s
      then ''the serving layer's discovery document '' @ fst d @ ''/'' @ snd d @
        '' names no GPU pool yet (no spec.gpuPool.nodeSelector) though the pool's instance shapes are known '' @
        em_dash @ '' the slice is still publishing the new pool; retry in a moment''
      else if snd d = [] \<or> fst d = [] \<or> s_discoveryFound s then []
      else if s_discoveryError s \<noteq> []
      then ''the serving layer's discovery document could not be read ('' @ s_discoveryError s @ ''); retry in a moment''
      else ''the serving layer's discovery document '' @ fst d @ ''/'' @ snd d @
        '' is not published yet '' @ em_dash @ '' the slice is still installing; retry in a moment'')"

definition sizeName :: "instance_shape \<Rightarrow> string" where
  "sizeName s =
     (if is_size s \<noteq> [] then is_size s
      else case cut (CHR ''.'') (is_type s) of
             (_, sz, ok) \<Rightarrow> if ok \<and> sz \<noteq> [] then sz else is_type s)"

definition has_node :: "fast_link \<Rightarrow> string \<Rightarrow> bool" where
  "has_node l n \<longleftrightarrow> List.member (fl_nodes l) n"

section \<open>Labels and taints\<close>

definition matchesSelector :: "(string \<rightharpoonup> string) \<Rightarrow> (string \<times> string) list \<Rightarrow> bool" where
  "matchesSelector labels sel \<longleftrightarrow> list_all (\<lambda>(k, v). get_label labels k = v) sel"

definition formatSelector :: "(string \<times> string) list \<Rightarrow> string" where
  "formatSelector sel = join '', '' (map (\<lambda>(k, v). k @ ''='' @ v) (sort_key fst sel))"

datatype toleration_op = Exists | Equal

record toleration =
  tol_key :: string
  tol_op :: toleration_op
  tol_value :: string
  tol_effect :: string

definition poolToleration :: "settings \<Rightarrow> toleration option" where
  "poolToleration s =
     (case gp_taint (s_pool s) of
        None \<Rightarrow> None
      | Some t \<Rightarrow>
          if tn_key t = [] then None
          else Some \<lparr>tol_key = tn_key t, tol_op = (if tn_value t \<noteq> [] then Equal else Exists),
                     tol_value = tn_value t, tol_effect = tn_effect t\<rparr>)"

definition poolTolerations :: "settings \<Rightarrow> toleration list" where
  "poolTolerations s = (case poolToleration s of Some t \<Rightarrow> [t] | None \<Rightarrow> [])"

definition tolerates :: "toleration \<Rightarrow> taint \<Rightarrow> bool" where
  "tolerates tol t \<longleftrightarrow>
     (tol_effect tol = [] \<or> tol_effect tol = tn_effect t) \<and>
     (tol_key tol = [] \<or> tol_key tol = tn_key t) \<and>
     (tol_op tol = Exists \<or> tol_value tol = tn_value t)"

definition toleratesTaint :: "toleration list \<Rightarrow> taint \<Rightarrow> bool" where
  "toleratesTaint tols t \<longleftrightarrow> list_ex (\<lambda>tol. tolerates tol t) tols"

definition formatTaint :: "taint \<Rightarrow> string" where
  "formatTaint t = tn_key t @ (if tn_value t \<noteq> [] then ''='' @ tn_value t else []) @ '':'' @ tn_effect t"

definition hard_taint :: "taint \<Rightarrow> bool" where
  "hard_taint t \<longleftrightarrow> tn_effect t = ''NoSchedule'' \<or> tn_effect t = ''NoExecute''"

definition untolerated :: "settings \<Rightarrow> taint list \<Rightarrow> string list" where
  "untolerated s taints =
     sort (map formatTaint
       (filter (\<lambda>t. hard_taint t \<and> \<not> toleratesTaint (poolTolerations s) t) taints))"

section \<open>The cache\<close>

record cache_location =
  cl_claim :: string
  cl_nodes :: "string list"
  cl_shared :: bool
  cl_bound :: bool
  cl_volume :: string
  cl_missing :: bool
  cl_zones :: "string list"
  cl_volumeRead :: bool
  cl_nodeClaims :: bool
  cl_nodeCaches :: "string \<rightharpoonup> string"

definition no_cache :: cache_location where
  "no_cache = \<lparr>cl_claim = [], cl_nodes = [], cl_shared = False, cl_bound = False, cl_volume = [],
     cl_missing = False, cl_zones = [], cl_volumeRead = False, cl_nodeClaims = False, cl_nodeCaches = Map.empty\<rparr>"

definition pinned :: "cache_location \<Rightarrow> bool" where
  "pinned l \<longleftrightarrow> \<not> cl_missing l \<and> cl_bound l \<and> \<not> cl_shared l \<and> cl_nodes l \<noteq> []"

definition perNode :: "cache_location \<Rightarrow> bool" where
  "perNode l \<longleftrightarrow> cl_nodeClaims l \<and> pinned l"

definition nodeClaimName :: "string \<Rightarrow> string \<Rightarrow> string" where
  "nodeClaimName claim node = truncateLabel (claim @ ''-'' @ node) (claim @ ''-'' @ node)"

definition claimOn :: "cache_location \<Rightarrow> string \<Rightarrow> string" where
  "claimOn l node =
     (if node = [] \<or> \<not> perNode l \<or> List.member (cl_nodes l) node then cl_claim l
      else nodeClaimName (cl_claim l) node)"

definition hasCacheOn :: "cache_location \<Rightarrow> string \<Rightarrow> bool" where
  "hasCacheOn l node \<longleftrightarrow> claimOn l node = cl_claim l \<or> cl_nodeCaches l node \<noteq> None"

definition sameClaim :: "cache_location \<Rightarrow> string list \<Rightarrow> bool" where
  "sameClaim l nodes \<longleftrightarrow> list_all (\<lambda>n. claimOn l n = claimOn l (hd nodes)) nodes"

definition claimsOf :: "cache_location \<Rightarrow> string list \<Rightarrow> string" where
  "claimsOf l nodes = join '', '' (map (\<lambda>n. n @ '': '' @ claimOn l n) nodes)"

text \<open>The claims a model's pods name: the leader's and the workers', where they are not the
  cache claim.\<close>

definition cacheClaimAnnotations :: "cache_location \<Rightarrow> string list \<Rightarrow> string option \<times> string option" where
  "cacheClaimAnnotations l nodes =
     (let named = (\<lambda>n. if claimOn l n \<noteq> cl_claim l then Some (claimOn l n) else None)
      in if \<not> perNode l then (None, None)
         else case nodes of
                [] \<Rightarrow> (None, None)
              | [n] \<Rightarrow> (named n, None)
              | n # m # _ \<Rightarrow> (named n, named m))"

section \<open>A node\<close>

text \<open>A Node of the API server: quantities are read (\<open>Value\<close>, and \<open>MilliValue\<close> of the
  allocatable CPU), and \<open>kn_ready\<close> is the status of its Ready conditions, in order.\<close>

record kube_node =
  kn_name :: string
  kn_labels :: "string \<rightharpoonup> string"
  kn_annotations :: "string \<rightharpoonup> string"
  kn_taints :: "taint list"
  kn_arch :: string
  kn_created :: "int option"
  kn_ready :: "bool list"
  kn_capacity :: "string \<rightharpoonup> int"
  kn_allocatable :: "string \<rightharpoonup> int"
  kn_cpuMillis :: int
  kn_images :: "string list"

record node_budget =
  nb_name :: string
  nb_ready :: bool
  nb_arch :: string
  nb_labels :: "string \<rightharpoonup> string"
  nb_taints :: "taint list"
  nb_allocatable :: int
  nb_cpu :: int
  nb_capacity :: int
  nb_gpuCount :: int
  nb_gpuAllocatable :: int
  nb_gpuMemory :: int
  nb_gpuProduct :: string
  nb_gpusTaken :: int
  nb_budget :: int
  nb_source :: string
  nb_message :: string
  nb_eligible :: bool
  nb_reason :: string
  nb_imageEligible :: bool
  nb_created :: "int option"
  nb_starting :: bool
  nb_images :: "string list"

definition labelGPUPresent :: string where "labelGPUPresent = ''nvidia.com/gpu.present''"
definition labelGPUCount :: string where "labelGPUCount = ''nvidia.com/gpu.count''"
definition labelGPUMemory :: string where "labelGPUMemory = ''nvidia.com/gpu.memory''"
definition labelGPUProduct :: string where "labelGPUProduct = ''nvidia.com/gpu.product''"
definition labelMachinePool :: string where "labelMachinePool = ''giantswarm.io/machine-pool''"
definition BudgetAnnotation :: string where
  "BudgetAnnotation = ''model-manager.giantswarm.io/memory-budget-gib''"
definition startupWindow :: int where "startupWindow = 15 * 60 * 10 ^ 9"

definition positive_label :: "(string \<rightharpoonup> string) \<Rightarrow> string \<Rightarrow> int option" where
  "positive_label labels k =
     (case parse_int64 (get_label labels k) of
        Some v \<Rightarrow> if v > 0 then Some v else None
      | None \<Rightarrow> None)"

definition quantity :: "(string \<rightharpoonup> int) \<Rightarrow> string \<Rightarrow> int" where
  "quantity m k = (case m k of Some q \<Rightarrow> q | None \<Rightarrow> 0)"

definition isAccelerator :: "kube_node \<Rightarrow> string \<Rightarrow> bool" where
  "isAccelerator n gpuResource \<longleftrightarrow>
     quantity (kn_capacity n) gpuResource > 0 \<or> quantity (kn_allocatable n) gpuResource > 0 \<or>
     (let v = to_lower (trim_space (get_label (kn_labels n) labelGPUPresent))
      in v \<noteq> [] \<and> v \<noteq> ''false'') \<or>
     positive_label (kn_labels n) labelGPUCount \<noteq> None \<or>
     trim_space (get_label (kn_labels n) labelGPUProduct) \<noteq> []"

definition servingReasons :: "node_budget \<Rightarrow> settings \<Rightarrow> string list" where
  "servingReasons n s =
     (if nb_ready n then [] else [''not ready'']) @
     (if matchesSelector (nb_labels n) (s_selector s) then []
      else [''outside the serving node selector ('' @ formatSelector (s_selector s) @ '')'']) @
     (if matchesSelector (nb_labels n) (gp_selector (s_pool s)) then []
      else [''outside the GPU pool node selector ('' @ formatSelector (gp_selector (s_pool s)) @ '')'']) @
     (let taints = untolerated s (nb_taints n)
      in if taints = [] then []
         else [''taint '' @ join '', '' taints @ '' not tolerated (set the GPU pool taint)''])"

definition eligibility :: "node_budget \<Rightarrow> settings \<Rightarrow> cache_location \<Rightarrow> bool \<times> string" where
  "eligibility n s loc =
     (let reasons = servingReasons n s @
        (if s_cacheEnabled s \<and> s_cacheRedirect s \<and> pinned loc \<and> \<not> perNode loc \<and>
            \<not> List.member (cl_nodes loc) (nb_name n)
         then [''cache claim '' @ cl_claim loc @ '' is pinned to '' @ join '', '' (cl_nodes loc)] else [])
      in (reasons = [], join ''; '' reasons))"

definition startupTaintKeys :: "string list" where
  "startupTaintKeys = [''node.kubernetes.io/not-ready'',
     ''node.cloudprovider.kubernetes.io/uninitialized'', ''karpenter.sh/unregistered'']"

definition isStartupTaint :: "taint \<Rightarrow> bool" where
  "isStartupTaint t \<longleftrightarrow> List.member startupTaintKeys (tn_key t) \<or> suffix ''/agent-not-ready'' (tn_key t)"

text \<open>\<open>now.Sub\<close> saturates; no two times of this program are centuries apart.\<close>

definition starting :: "node_budget \<Rightarrow> settings \<Rightarrow> cache_location \<Rightarrow> int \<Rightarrow> bool" where
  "starting n s loc now =
     (case nb_created n of
        None \<Rightarrow> False
      | Some t \<Rightarrow>
          \<not> nb_eligible n \<and> now - t \<le> startupWindow \<and>
          fst (eligibility (n\<lparr>nb_ready := True,
                 nb_taints := filter (\<lambda>t. \<not> isStartupTaint t) (nb_taints n)\<rparr>) s loc))"

section \<open>Its budget\<close>

definition budgetSourceGPULabels :: string where "budgetSourceGPULabels = ''gpu-labels''"
definition budgetSourceAllocatable :: string where "budgetSourceAllocatable = ''allocatable''"
definition budgetSourceAnnotation :: string where "budgetSourceAnnotation = ''annotation''"

definition gpu_count :: "kube_node \<Rightarrow> string \<Rightarrow> int" where
  "gpu_count n gpuResource =
     (case positive_label (kn_labels n) labelGPUCount of
        Some v \<Rightarrow> v
      | None \<Rightarrow> if quantity (kn_allocatable n) gpuResource > 0
                then quantity (kn_allocatable n) gpuResource
                else quantity (kn_capacity n) gpuResource)"

definition gpu_memory :: "kube_node \<Rightarrow> int" where
  "gpu_memory n =
     (case positive_label (kn_labels n) labelGPUMemory of Some v \<Rightarrow> mul64 v mib | None \<Rightarrow> 0)"

text \<open>The annotation: \<open>None\<close> without one, \<open>Inl\<close> one that is ignored.\<close>

definition budget_annotation :: "kube_node \<Rightarrow> (string + gofloat) option" where
  "budget_annotation n =
     map_option (\<lambda>raw.
       case parse_float (trim_space raw) of
         None \<Rightarrow> Inl raw
       | Some v \<Rightarrow> if fless_eq v (Fin 0) \<or> v = Inf False \<or> v = Inf True then Inl raw else Inr v)
       (kn_annotations n BudgetAnnotation)"

definition source_budget :: "string \<Rightarrow> int \<Rightarrow> int \<Rightarrow> int \<times> string" where
  "source_budget source gpuBudget allocatable =
     (if source = budgetSourceGPULabels then (gpuBudget, budgetSourceGPULabels)
      else if source = budgetSourceAllocatable then (allocatable, budgetSourceAllocatable)
      else if gpuBudget > 0 then (gpuBudget, budgetSourceGPULabels)
      else (allocatable, budgetSourceAllocatable))"

definition budgetOf :: "kube_node \<Rightarrow> string \<Rightarrow> string \<Rightarrow> node_budget" where
  "budgetOf n gpuResource source =
     (let mem = gpu_memory n; count = gpu_count n gpuResource;
        gpuBudget = (if mem > 0 then mul64 mem (max count 1) else 0);
        allocatable = quantity (kn_allocatable n) ''memory'';
        (budget, from) = source_budget source gpuBudget allocatable;
        (budget, from, message) =
          (case budget_annotation n of
             None \<Rightarrow> (budget, from, [])
           | Some (Inr v) \<Rightarrow> (gibToBytes v, budgetSourceAnnotation, [])
           | Some (Inl raw) \<Rightarrow> (budget, from, ''ignoring annotation '' @ BudgetAnnotation @ ''='' @ quoted raw @
               '': want a positive number of GiB; budget taken from '' @ from))
      in \<lparr>nb_name = kn_name n, nb_ready = (kn_ready n \<noteq> [] \<and> last (kn_ready n)), nb_arch = kn_arch n,
          nb_labels = kn_labels n, nb_taints = kn_taints n, nb_allocatable = allocatable,
          nb_cpu = kn_cpuMillis n, nb_capacity = quantity (kn_capacity n) ''memory'',
          nb_gpuCount = count,
          nb_gpuAllocatable = max (quantity (kn_allocatable n) gpuResource) 0,
          nb_gpuMemory = mem, nb_gpuProduct = get_label (kn_labels n) labelGPUProduct,
          nb_gpusTaken = 0, nb_budget = budget, nb_source = from, nb_message = message,
          nb_eligible = False, nb_reason = [], nb_imageEligible = False, nb_created = kn_created n,
          nb_starting = False, nb_images = kn_images n\<rparr>)"

text \<open>A duration of whole seconds as Go prints it.\<close>

definition show_seconds :: "int \<Rightarrow> string" where
  "show_seconds d =
     (let a = \<bar>d\<bar>; h = a div 3600; m = a mod 3600 div 60; s = a mod 60
      in (if d < 0 then ''-'' else []) @ (if h > 0 then show_int h @ ''h'' else []) @
         (if a \<ge> 60 then show_int m @ ''m'' else []) @ show_int s @ ''s'')"

definition round_seconds :: "int \<Rightarrow> int" where
  "round_seconds ns = (if ns < 0 then - ((- ns + 500000000) div 10 ^ 9) else (ns + 500000000) div 10 ^ 9)"

definition judged_node :: "settings \<Rightarrow> cache_location \<Rightarrow> int \<Rightarrow> node_budget \<Rightarrow> node_budget" where
  "judged_node s loc now nb =
     (let (ok, why) = eligibility nb s loc;
        nb = nb\<lparr>nb_eligible := ok, nb_reason := why, nb_imageEligible := (servingReasons nb s = [])\<rparr>
      in if starting nb s loc now
         then nb\<lparr>nb_starting := True,
                 nb_reason := nb_reason nb @ ''; starting (created '' @
                   show_seconds (round_seconds (now - the (nb_created nb))) @ '' ago): a model waits for it''\<rparr>
         else nb)"

definition list_nodes :: "kube_node list \<Rightarrow> settings \<Rightarrow> string \<Rightarrow> int \<Rightarrow> cache_location \<Rightarrow> serving_preset option \<Rightarrow> node_budget list" where
  "list_nodes ks s source now loc p =
     (let s = forPreset s p; source = (if cpu p then budgetSourceAllocatable else source)
      in sort_key nb_name
           (map (\<lambda>n. judged_node s loc now (budgetOf n (s_gpuResource s) source))
             (filter (\<lambda>n. cpu p \<or> isAccelerator n (s_gpuResource s)) ks)))"

definition startingIn :: "node_budget list \<Rightarrow> (string \<times> string) list \<Rightarrow> node_budget list" where
  "startingIn nodes sel = filter (\<lambda>n. nb_starting n \<and> matchesSelector (nb_labels n) sel) nodes"

definition inPool :: "node_budget list \<Rightarrow> (string \<times> string) list \<Rightarrow> node_budget list" where
  "inPool nodes sel = filter (\<lambda>n. matchesSelector (nb_labels n) sel) nodes"

definition anyNodeMatches :: "node_budget list \<Rightarrow> (string \<times> string) list \<Rightarrow> bool" where
  "anyNodeMatches nodes sel \<longleftrightarrow> list_ex (\<lambda>n. matchesSelector (nb_labels n) sel) nodes"

text \<open>Devices: allocatable, else counted; those the running predictors leave.\<close>

definition gpuDevices :: "node_budget \<Rightarrow> int" where
  "gpuDevices n = (if nb_gpuAllocatable n > 0 then nb_gpuAllocatable n else nb_gpuCount n)"

definition discreteGPUs :: "node_budget \<Rightarrow> bool" where
  "discreteGPUs n \<longleftrightarrow> nb_gpuMemory n > 0 \<and> gpuDevices n > 0"

definition freeGPUs :: "node_budget \<Rightarrow> int" where
  "freeGPUs n = (if discreteGPUs n then max (sub64 (gpuDevices n) (nb_gpusTaken n)) 0 else gpuDevices n)"

definition takes :: "node_budget \<Rightarrow> int \<Rightarrow> bool" where
  "takes n k \<longleftrightarrow> nb_eligible n \<and> (gpuDevices n = 0 \<or> freeGPUs n \<ge> k)"

definition unifiedGPU :: "node_budget \<Rightarrow> bool" where
  "unifiedGPU n \<longleftrightarrow> nb_gpuCount n = 1 \<and> nb_gpuMemory n = 0"

end
