(* ===== verification/KVCache.thy ===== *)
theory KVCache
  imports Nodes
begin

text \<open>
  The KV cache check (\<open>internal/backend/kserve/kvcache.go\<close>): the layers of a checkpoint that
  keep a cache (\<open>kvLayersOf\<close>), what one sequence needs of it on each GPU (\<open>needBytes\<close>),
  and the verdict on a GPU with the longest sequence that fits (\<open>judge_kv\<close>). Bytes are
  \<open>int64\<close> and wrap. Decoding \<open>config.json\<close> is an argument; slicing
  \<open>layer_types\<close> out of its range, which panics in Go, is the error \<open>GoPanic\<close>.
\<close>

section \<open>Words for bytes\<close>

text \<open>\<open>humanBytes\<close>: \<open>%.1f\<close> of the unit that leaves less than 1024, up to exbibytes.\<close>

fun human_loop :: "int \<Rightarrow> int \<Rightarrow> nat \<Rightarrow> int \<times> nat" where
  "human_loop m d e = (if m < 1024 then (d, e) else human_loop (m div 1024) (mul64 d 1024) (Suc e))"

declare human_loop.simps [simp del]

definition humanBytes :: "int \<Rightarrow> string" where
  "humanBytes n =
     (if n < 1024 then show_int n @ '' B''
      else let (d, e) = human_loop (n div 1024) 1024 0
           in show_tenths (fdiv (of_int64 n) (of_int64 d)) @ '' '' @ [''KMGTPE'' ! e] @ ''iB'')"

definition trimFloat2 :: "gofloat \<Rightarrow> string" where
  "trimFloat2 f = show_hundredths (fdiv (fround (fmul f (of_int64 100))) (of_int64 100))"

definition plural :: "int \<Rightarrow> string \<Rightarrow> string" where
  "plural n noun = (if n = 1 then ''1 '' @ noun else show_int n @ '' '' @ noun @ ''s'')"

fun firstNonEmpty :: "string list \<Rightarrow> string" where
  "firstNonEmpty [] = []"
| "firstNonEmpty (v # vs) = (if v \<noteq> [] then v else firstNonEmpty vs)"

definition derefOr :: "'a option \<Rightarrow> 'a \<Rightarrow> 'a" where
  "derefOr p d = (case p of None \<Rightarrow> d | Some v \<Rightarrow> v)"

definition ceilDiv :: "int \<Rightarrow> int \<Rightarrow> int" where
  "ceilDiv a b = div64 (wrap64 (a + b - 1)) b"

section \<open>Layers\<close>

record kv_layers =
  kv_count :: int
  kv_heads :: int
  kv_headDim :: int
  kv_latent :: int
  kv_window :: int
  kv_tokensPerState :: int
  kv_elemBytes :: int

definition no_layers :: kv_layers where
  "no_layers = \<lparr>kv_count = 0, kv_heads = 0, kv_headDim = 0, kv_latent = 0, kv_window = 0,
     kv_tokensPerState = 0, kv_elemBytes = 0\<rparr>"

record kv_layout =
  lay_layers :: "kv_layers list"
  lay_dtype :: string
  lay_cache :: string

record hf_text_config =
  hf_modelType :: string
  hf_layers :: int
  hf_heads :: int
  hf_kvHeads :: "int option"
  hf_headDim :: "int option"
  hf_hidden :: int
  hf_layerTypes :: "string list"
  hf_window :: "int option"
  hf_useWindow :: "bool option"
  hf_globalKVHeads :: "int option"
  hf_globalHeadDim :: "int option"
  hf_shared :: int
  hf_loraRank :: "int option"
  hf_ropeDim :: int
  hf_pattern :: string
  hf_indexerHeads :: int
  hf_indexerDim :: int
  hf_indexerRatio :: int
  hf_dtype :: string
  hf_torchDType :: string

record 'q hf_config =
  cfg_text :: hf_text_config
  cfg_nested :: "hf_text_config option"
  cfg_quant :: 'q

definition kvModelTypes :: "string list" where
  "kvModelTypes =
     [''llama'', ''mistral'', ''mixtral'', ''ministral'',
      ''qwen2'', ''qwen2_moe'', ''qwen3'', ''qwen3_moe'', ''qwen3_vl_text'', ''qwen3_vl_moe_text'',
      ''qwen3_next'', ''qwen3_5_text'', ''qwen3_5_moe_text'', ''qwen4_exp_text'',
      ''phi3'', ''granite'', ''granitemoe'', ''granitemoehybrid'',
      ''glm4'', ''glm4_moe'', ''olmo2'', ''olmo3'',
      ''gemma2'', ''gemma3_text'', ''gemma4_text'', ''gemma4_unified_text'', ''cohere2'',
      ''gpt_oss'', ''deepseek_v2'', ''deepseek_v3'', ''kimi_k2'',
      ''nemotron_h'', ''lfm2'']"

definition layerTypesWithoutKV :: "string list" where
  "layerTypesWithoutKV = [''linear_attention'', ''mamba'', ''conv'']"

definition plain_err :: "string \<Rightarrow> err" where
  "plain_err m = Err [] m"

text \<open>The layers with a growing cache: the full and the sliding ones counted.\<close>

fun count_types :: "string list \<Rightarrow> int \<times> int \<Rightarrow> (int \<times> int) res" where
  "count_types [] fs = Inr fs"
| "count_types (t # ts) (f, s) =
     (if t = ''full_attention'' \<or> t = ''attention'' then count_types ts (f + 1, s)
      else if t = ''sliding_attention'' then count_types ts (f, s + 1)
      else if List.member layerTypesWithoutKV t then count_types ts (f, s)
      else Inl (plain_err (''config.json names the layer type '' @ quoted t)))"

text \<open>The layers that hold a cache. With layer types, a shared count above the layers slices below zero, which
  panics. A negative shared count reaches past the list: Go panics beyond the slice's capacity, which depends on
  how the decoder grew it, and within it meets an empty name it answers as an unknown layer type; the model
  panics, an error either way.\<close>

definition attention_layers :: "hf_text_config \<Rightarrow> kv_layers \<Rightarrow> kv_layers \<Rightarrow> (kv_layers \<times> kv_layers) res" where
  "attention_layers tc full sliding =
     (let owning = sub64 (hf_layers tc) (hf_shared tc)
      in if hf_pattern tc \<noteq> []
         then Inr (full\<lparr>kv_count := int (count_list (hf_pattern tc) CHR ''*'')\<rparr>, sliding)
         else if hf_layerTypes tc \<noteq> []
         then if int (length (hf_layerTypes tc)) \<noteq> hf_layers tc
              then Inl (plain_err (''config.json lists '' @ show_int (int (length (hf_layerTypes tc))) @
                     '' layer_types for '' @ show_int (hf_layers tc) @ '' layers''))
              else if owning < 0 \<or> int (length (hf_layerTypes tc)) < owning
              then Inl (Err [GoPanic] ''slice bounds out of range'')
              else (case count_types (take (nat owning) (hf_layerTypes tc)) (0, 0) of
                      Inl e \<Rightarrow> Inl e
                    | Inr (f, s) \<Rightarrow>
                        if s > 0
                        then (case hf_window tc of
                                Some w \<Rightarrow> if w \<le> 0
                                  then Inl (plain_err ''config.json has sliding-attention layers without a sliding_window'')
                                  else Inr (full\<lparr>kv_count := f\<rparr>, sliding\<lparr>kv_count := s, kv_window := w\<rparr>)
                              | None \<Rightarrow> Inl (plain_err ''config.json has sliding-attention layers without a sliding_window''))
                        else Inr (full\<lparr>kv_count := f\<rparr>, sliding))
         else if (case hf_window tc of Some w \<Rightarrow> w > 0 | None \<Rightarrow> False) \<and>
                 (case hf_useWindow tc of Some u \<Rightarrow> u | None \<Rightarrow> True)
         then Inl (plain_err ''config.json sets a sliding_window without layer_types'')
         else Inr (full\<lparr>kv_count := owning\<rparr>, sliding))"

definition kvLayersOf :: "hf_text_config \<Rightarrow> kv_layers list res" where
  "kvLayersOf tc =
     (if hf_layers tc \<le> 0 then Inl (plain_err ''config.json names no num_hidden_layers'')
      else if derefOr (hf_loraRank tc) 0 > 0
      then Inr [no_layers\<lparr>kv_count := hf_layers tc,
                          kv_latent := add64 (derefOr (hf_loraRank tc) 0) (hf_ropeDim tc)\<rparr>]
      else let heads = derefOr (hf_kvHeads tc) (hf_heads tc);
             dim = derefOr (hf_headDim tc) 0;
             dim = (if dim = 0 \<and> hf_heads tc > 0 then div64 (hf_hidden tc) (hf_heads tc) else dim)
           in if heads \<le> 0 \<or> dim \<le> 0
              then Inl (plain_err ''config.json names no attention heads or head dimension'')
              else case attention_layers tc
                          (no_layers\<lparr>kv_heads := derefOr (hf_globalKVHeads tc) heads,
                                     kv_headDim := derefOr (hf_globalHeadDim tc) dim\<rparr>)
                          (no_layers\<lparr>kv_heads := heads, kv_headDim := dim\<rparr>) of
                     Inl e \<Rightarrow> Inl e
                   | Inr (full, sliding) \<Rightarrow>
                       if hf_indexerDim tc > 0
                       then if hf_indexerHeads tc \<le> 0 \<or> hf_indexerRatio tc \<le> 0
                            then Inl (plain_err ''config.json names a sparse-attention indexer without indexer_kv_heads or indexer_compress_ratio'')
                            else Inr (filter (\<lambda>l. kv_count l > 0)
                                   [full, sliding,
                                    no_layers\<lparr>kv_count := kv_count full,
                                      kv_latent := mul64 (hf_indexerHeads tc) (hf_indexerDim tc),
                                      kv_tokensPerState := hf_indexerRatio tc, kv_elemBytes := 2\<rparr>])
                       else Inr (filter (\<lambda>l. kv_count l > 0) [full, sliding]))"

text \<open>The cache dtype of a checkpoint's \<open>quantization_config\<close>. Reading the JSON is
  the arguments: the block as \<open>Some\<close> when it unmarshals into the struct; the chosen algorithm
  (\<open>kv_cache_scheme\<close>, or \<open>kv_cache_quant_algo\<close> when that is absent or null) as the text
  it is, or as the scheme it is.\<close>

record kv_scheme =
  ks_dynamic :: "bool option"
  ks_bits :: int
  ks_type :: string

record kv_quant =
  kq_method :: string
  kq_text :: "string option"
  kq_scheme :: "kv_scheme option"

definition checkpointKVCacheDType :: "kv_quant option \<Rightarrow> string res" where
  "checkpointKVCacheDType quant =
     (case quant of
        None \<Rightarrow> Inr []
      | Some q \<Rightarrow>
          if \<not> prefix ''modelopt'' (kq_method q) then Inr []
          else let name =
                 (case kq_text q of
                    Some t \<Rightarrow> to_lower t
                  | None \<Rightarrow>
                      (case kq_scheme q of
                         Some s \<Rightarrow>
                           if ks_type s \<noteq> ''float'' then []
                           else if ks_bits s = 8 \<and> ks_dynamic s = Some False then ''fp8''
                           else if ks_bits s = 4 then ''nvfp4'' else []
                       | None \<Rightarrow> []))
               in if name = ''fp8'' then Inr ''fp8''
                  else if name = ''nvfp4''
                  then Inl (plain_err ''the checkpoint quantizes its KV cache to NVFP4, a layout the check does not compute'')
                  else Inr [])"

definition parseKVLayout :: "('raw \<Rightarrow> string + kv_quant option hf_config) \<Rightarrow> 'raw \<Rightarrow> kv_layout res" where
  "parseKVLayout decode raw =
     (case decode raw of
        Inl e \<Rightarrow> Inl (plain_err (''config.json does not parse: '' @ e))
      | Inr cfg \<Rightarrow>
          let tc = (case cfg_nested cfg of Some t \<Rightarrow> t | None \<Rightarrow> cfg_text cfg)
          in if \<not> List.member kvModelTypes (hf_modelType tc)
             then Inl (plain_err (''the architecture '' @ quoted (hf_modelType tc) @
                    '' is not one whose KV cache the check reads''))
             else case checkpointKVCacheDType (cfg_quant cfg) of
                    Inl e \<Rightarrow> Inl e
                  | Inr cache \<Rightarrow>
                      (case kvLayersOf tc of
                         Inl e \<Rightarrow> Inl e
                       | Inr ls \<Rightarrow>
                           Inr \<lparr>lay_layers = ls,
                                lay_dtype = firstNonEmpty [hf_dtype tc, hf_torchDType tc,
                                  hf_dtype (cfg_text cfg), hf_torchDType (cfg_text cfg)],
                                lay_cache = cache\<rparr>))"

section \<open>The check\<close>

record kv_check =
  kc_layout :: kv_layout
  kc_args :: vllm_args
  kc_weights :: int
  kc_skip :: string

record kv_verdict =
  kvv_skip :: string
  kvv_fits :: bool
  kvv_maxLen :: int
  kvv_need :: int
  kvv_available :: int
  kvv_estimated :: int
  kvv_memory :: int
  kvv_utilization :: gofloat
  kvv_gpus :: int
  kvv_unified :: bool

definition kv_skipped :: "string \<Rightarrow> kv_verdict" where
  "kv_skipped why = \<lparr>kvv_skip = why, kvv_fits = False, kvv_maxLen = 0, kvv_need = 0,
     kvv_available = 0, kvv_estimated = 0, kvv_memory = 0, kvv_utilization = Fin 0,
     kvv_gpus = 0, kvv_unified = False\<rparr>"

definition vllmReserveGiB :: gofloat where "vllmReserveGiB = fl (315 / 100)"
definition vllmLargeGPUBytes :: int where "vllmLargeGPUBytes = 70 * gib"

definition dtypeBytes :: "kv_check \<Rightarrow> string + int" where
  "dtypeBytes k =
     (let cache = (if KVCacheDType (kc_args k) = kvCacheDTypeAuto \<and> lay_cache (kc_layout k) \<noteq> []
                   then lay_cache (kc_layout k) else KVCacheDType (kc_args k))
      in if List.member [''fp8'', ''fp8_e4m3'', ''fp8_e5m2'', ''fp8_inc''] cache then Inr 1
         else if List.member [''bfloat16'', ''float16''] cache then Inr 2
         else if cache \<noteq> kvCacheDTypeAuto
         then Inl (flagKVCacheDType @ ''='' @ cache @ '' is a layout the check does not compute'')
         else let dtype = (if DType (kc_args k) = kvCacheDTypeAuto then to_lower (lay_dtype (kc_layout k))
                           else DType (kc_args k))
              in if List.member [''bfloat16'', ''float16'', ''half'', ''float32'', ''float'', []] dtype then Inr 2
                 else Inl (''the model dtype '' @ dtype @ '' is not one the check computes''))"

definition elem_bytes :: "int \<Rightarrow> kv_layers \<Rightarrow> int" where
  "elem_bytes bytes l = (if kv_elemBytes l > 0 then kv_elemBytes l else bytes)"

definition state_bytes :: "vllm_args \<Rightarrow> int \<Rightarrow> kv_layers \<Rightarrow> int" where
  "state_bytes a bytes l =
     (if kv_latent l = 0
      then mul64 (mul64 (mul64 2 (max (div64 (kv_heads l) (TensorParallel a)) 1)) (kv_headDim l))
             (elem_bytes bytes l)
      else mul64 (kv_latent l) (elem_bytes bytes l))"

definition layer_blocks :: "vllm_args \<Rightarrow> int \<Rightarrow> int \<Rightarrow> kv_layers \<Rightarrow> int" where
  "layer_blocks a maxLen batched l =
     (if kv_window l > 0
      then add64 (ceilDiv (min (wrap64 (kv_window l - 1 + batched)) maxLen) (BlockSize a)) 1
      else ceilDiv maxLen (BlockSize a))"

definition layer_bytes :: "vllm_args \<Rightarrow> int \<Rightarrow> int \<Rightarrow> int \<Rightarrow> kv_layers \<Rightarrow> int" where
  "layer_bytes a maxLen batched bytes l =
     mul64 (mul64 (mul64 (kv_count l) (layer_blocks a maxLen batched l))
             (div64 (BlockSize a) (max (kv_tokensPerState l) 1)))
       (state_bytes a bytes l)"

definition needBytes :: "kv_check \<Rightarrow> int \<Rightarrow> int \<Rightarrow> int \<Rightarrow> int" where
  "needBytes k batched bytes maxLen =
     (let a = kc_args k; batched = (if ChunkedPrefill a then batched else max batched maxLen)
      in foldl (\<lambda>total l. add64 total (layer_bytes a maxLen batched bytes l)) 0 (lay_layers (kc_layout k)))"

text \<open>vLLM's \<open>estimate_max_model_len\<close>: the search between \<open>lo\<close> and \<open>hi\<close>;
  \<open>est\<close> is the last length that fitted. The interval shrinks at every step. The middle is computed without
  wrap-around: the code's \<open>lo + hi\<close> fits an int64 below \<open>2^62\<close> tokens.\<close>

function estimate :: "(int \<Rightarrow> bool) \<Rightarrow> int \<Rightarrow> int \<Rightarrow> int \<Rightarrow> int" where
  "estimate fits lo hi est =
     (if lo \<le> hi
      then let mid = (lo + hi) div 2
           in if fits mid then estimate fits (mid + 1) hi mid else estimate fits lo (mid - 1) est
      else est)"
  by auto
termination
  by (relation "measure (\<lambda>(f, lo, hi, est). nat (hi - lo + 1))") auto

declare estimate.simps [simp del]

definition batched_tokens :: "vllm_args \<Rightarrow> int \<Rightarrow> string \<Rightarrow> int" where
  "batched_tokens a memory product =
     (if BatchedTokens a \<noteq> 0 then BatchedTokens a
      else if memory \<ge> vllmLargeGPUBytes \<and> \<not> contains_str ''a100'' (to_lower product) then 8192
      else 2048)"

definition kv_available :: "kv_check \<Rightarrow> int \<Rightarrow> int" where
  "kv_available k memory =
     wrap64 (to_int64 (fmul (Utilization (kc_args k)) (of_int64 memory))
             - div64 (kc_weights k) (TensorParallel (kc_args k)) - gibToBytes vllmReserveGiB)"

definition labelMemoryMissing :: string where
  "labelMemoryMissing = ''the node reports no GPU memory ('' @ labelGPUMemory @ '')''"

definition judge_kv :: "kv_check option \<Rightarrow> int \<Rightarrow> string \<Rightarrow> kv_verdict" where
  "judge_kv ko memory product =
     (case ko of
        None \<Rightarrow> kv_skipped ''no preset to read vLLM's arguments from''
      | Some k \<Rightarrow>
          if kc_skip k \<noteq> [] then kv_skipped (kc_skip k)
          else if memory \<le> 0 then kv_skipped labelMemoryMissing
          else case dtypeBytes k of
                 Inl e \<Rightarrow> kv_skipped e
               | Inr bytes \<Rightarrow>
                   let a = kc_args k; need = needBytes k (batched_tokens a memory product) bytes;
                     available = kv_available k memory;
                     fits = (available > 0 \<and> need (MaxModelLen a) \<le> available)
                   in \<lparr>kvv_skip = [], kvv_fits = fits, kvv_maxLen = MaxModelLen a,
                       kvv_need = need (MaxModelLen a), kvv_available = available,
                       kvv_estimated = (if \<not> fits \<and> available > 0
                          then estimate (\<lambda>len. need len \<le> available) 1 (MaxModelLen a) 0 else 0),
                       kvv_memory = memory, kvv_utilization = Utilization a,
                       kvv_gpus = TensorParallel a, kvv_unified = False\<rparr>)"

definition judgeOn :: "kv_check option \<Rightarrow> node_budget \<Rightarrow> kv_verdict" where
  "judgeOn k n =
     (if nb_gpuMemory n > 0 \<or> nb_gpuCount n = 0 then judge_kv k (nb_gpuMemory n) (nb_gpuProduct n)
      else if nb_gpuCount n > 1
      then kv_skipped (show_int (nb_gpuCount n) @ '' GPUs share the node's memory'')
      else if nb_capacity n \<le> 0
      then kv_skipped ''the unified-memory node reports no memory capacity''
      else let v = judge_kv k (nb_capacity n) (nb_gpuProduct n) in v\<lparr>kvv_unified := kvv_skip v = []\<rparr>)"

definition kv_clause :: "kv_verdict \<Rightarrow> string" where
  "kv_clause v =
     (if kvv_skip v \<noteq> [] then ''the KV cache is not checked: '' @ kvv_skip v
      else let gpus = (if kvv_gpus v > 1 then ''each of the '' @ show_int (kvv_gpus v) else ''the'');
             memory = (if kvv_unified v then ''the node's '' @ humanBytes (kvv_memory v) @ '' unified memory''
                       else gpus @ '' '' @ humanBytes (kvv_memory v) @ '' GPU'');
             left = humanBytes (max (kvv_available v) 0) @ '' left on '' @ memory @ '' at '' @
               flagGPUMemoryUtilization @ ''='' @ trimFloat2 (kvv_utilization v) @
               '' beside the weights and vLLM's '' @ trimFloat2 vllmReserveGiB @ '' GiB reserve'';
             seq = ''the KV cache of one '' @ show_int (kvv_maxLen v) @ ''-token sequence''
           in if kvv_fits v
              then seq @ '' ('' @ humanBytes (kvv_need v) @ '') fits the '' @ left
              else seq @ '' needs '' @ humanBytes (kvv_need v) @ '', more than the '' @ left @
                (if kvv_estimated v > 0
                 then '': the estimated maximum model length is '' @ show_int (kvv_estimated v) @
                      '' tokens (lower '' @ flagMaxModelLen @ '' or set '' @ flagKVCacheDType @ ''=fp8)''
                 else '': not one token fits''))"

text \<open>\<open>kvCheckFor\<close> of a preset and its sized weights, given what \<open>checkpointConfig\<close>
  answers: why there is no config.json, or the text.\<close>

definition no_layout :: kv_layout where
  "no_layout = \<lparr>lay_layers = [], lay_dtype = [], lay_cache = []\<rparr>"

definition kvCheckFor ::
  "('raw \<Rightarrow> string + kv_quant option hf_config) \<Rightarrow> string list \<Rightarrow> serving_preset option \<Rightarrow> int \<Rightarrow>
   string + 'raw \<Rightarrow> kv_check res" where
  "kvCheckFor decode order p weights config =
     (let k = \<lparr>kc_layout = no_layout, kc_args = default_args, kc_weights = residentBytes p weights, kc_skip = []\<rparr>
      in case p of
           None \<Rightarrow> Inr (k\<lparr>kc_skip := ''no serving preset names vLLM's '' @ flagMaxModelLen\<rparr>)
         | Some q \<Rightarrow>
             if cpu p then Inr (k\<lparr>kc_skip := ''the preset requests no GPU''\<rparr>)
             else case parseVLLMArgs order (sp_args q) of
                    Inl e \<Rightarrow> Inr (k\<lparr>kc_skip := e\<rparr>)
                  | Inr a \<Rightarrow>
                      (case config of
                         Inl skip \<Rightarrow> Inr (k\<lparr>kc_args := a, kc_skip := skip\<rparr>)
                       | Inr raw \<Rightarrow>
                           (case parseKVLayout decode raw of
                              Inl e \<Rightarrow> if err_is e GoPanic then Inl e
                                       else Inr (k\<lparr>kc_args := a, kc_skip := err_msg e\<rparr>)
                            | Inr l \<Rightarrow> Inr (k\<lparr>kc_args := a, kc_layout := l\<rparr>))))"

end
