(* ===== verification/VllmArgs_Correct.thy ===== *)
theory VllmArgs_Correct
  imports VllmArgs
begin

text \<open>
  What the readers of \<open>VllmArgs\<close> promise: a flag and value appended to an argument list
  is the one vLLM reads; a whole number up to \<open>2^53\<close> and a fraction in hundredths, as the
  driver writes them into arguments, read back as themselves.
\<close>

section \<open>Appended flags\<close>

definition is_flag :: "string \<Rightarrow> bool" where
  "is_flag f \<longleftrightarrow> prefix ''--'' f \<and> trim_space f = f \<and> CHR ''='' \<notin> set f \<and> flag_name f = f \<and>
     f \<noteq> flagNoEnableChunkedPrefill"

lemma cut_absent: "c \<notin> set s \<Longrightarrow> cut c s = (s, [], False)"
  by (induction s) auto

lemma is_flag_cut: "is_flag f \<Longrightarrow> cut (CHR ''='') (trim_space f) = (f, [], False)"
  by (simp add: is_flag_def cut_absent)

lemma prefix_dash: "prefix ''--'' f \<Longrightarrow> prefix ''-'' f"
  by (auto simp: prefix_def)

lemma flag_loop_append:
  assumes "is_flag f" "\<not> prefix ''-'' v"
  shows "flag_loop m (xs @ [f, v]) = (flag_loop m xs)(f \<mapsto> flag_value v)"
proof -
  have f: "flag_name f = f" "prefix ''--'' f" "prefix ''-'' f" "f \<noteq> flagNoEnableChunkedPrefill"
    using assms(1) prefix_dash by (auto simp: is_flag_def)
  show ?thesis
  proof (induction m xs rule: flag_loop.induct)
    case (1 m)
    then show ?case using f assms(2) by (simp add: is_flag_cut[OF assms(1)])
  next
    case (2 m a)
    then show ?case using f assms(2)
      by (auto simp: is_flag_cut[OF assms(1)] Let_def split: prod.splits)
  next
    case (3 m a b as)
    obtain g va has where c: "cut (CHR ''='') (trim_space a) = (g, va, has)"
      by (cases "cut (CHR ''='') (trim_space a)") auto
    show ?case
    proof (cases "prefix ''--'' g")
      case False
      then show ?thesis using "3.IH"(1)[OF c[symmetric] refl refl refl False] c by simp
    next
      case True
      let ?pair = "\<not> has \<and> flag_name g \<noteq> flagNoEnableChunkedPrefill \<and> \<not> prefix ''-'' b"
      show ?thesis
      proof (cases ?pair)
        case pair: True
        note IH = "3.IH"(2)[OF c[symmetric] refl refl refl _ this]
        show ?thesis using True c pair by (simp add: IH del: fun_upd_apply)
      next
        case pair: False
        have IH: "flag_loop (m(flag_name g \<mapsto> flag_value va)) ((b # as) @ [f, v]) =
            (flag_loop (m(flag_name g \<mapsto> flag_value va)) (b # as))(f \<mapsto> flag_value v)"
          by (rule "3.IH"(3)[OF c[symmetric] refl refl refl _ pair]) (simp add: True)
        have "flag_loop m ((a # b # as) @ r) = flag_loop (m(flag_name g \<mapsto> flag_value va)) ((b # as) @ r)" for r
          using pair True c by (simp only: append_Cons flag_loop.simps Let_def prod.case if_False if_True simp_thms)
        from this[of "[]"] this[of "[f, v]"] show ?thesis by (simp only: IH append_Nil2)
      qed
    qed
  qed
qed

lemma vllmFlagValues_append:
  "is_flag f \<Longrightarrow> \<not> prefix ''-'' v \<Longrightarrow>
     vllmFlagValues (xs @ [f, v]) = (vllmFlagValues xs)(f \<mapsto> flag_value v)"
  by (simp add: vllmFlagValues_def flag_loop_append)

lemma is_flag_tensor [simp]: "is_flag flagTensorParallelSize"
  by code_simp

lemma is_flag_utilization [simp]: "is_flag flagGPUMemoryUtilization"
  by code_simp

section \<open>Numbers read back\<close>

lemma digit_hex_value: "is_digit c \<Longrightarrow> hex_value c = int (digit_value c)"
  by (simp add: hex_value_def)

lemma digit_plain:
  assumes "is_digit c"
  shows "c \<noteq> CHR ''_''" "c \<noteq> CHR ''.''" "c \<noteq> CHR ''-''" "c \<noteq> CHR ''+''"
    "lower_char c = c" "\<not> is_space c" "\<not> is_quote c" "c \<noteq> CHR ''i''" "c \<noteq> CHR ''n''"
    "c \<noteq> CHR ''x''" "factor_of c = None"
  using assms
  by (auto simp: is_digit_def less_eq_char_def lower_char_def is_upper_def is_space_def
      is_quote_def factor_of_def)

lemma digits_unsigned:
  "ds \<noteq> [] \<Longrightarrow> list_all is_digit ds \<Longrightarrow> unsigned ds = (False, ds)"
  by (cases ds) (auto simp: unsigned_def dest: digit_plain(3,4))

definition digits_int :: "int \<Rightarrow> string \<Rightarrow> int" where
  "digits_int m ds = foldl (\<lambda>n c. 10 * n + int (digit_value c)) m ds"

lemma digits_int_0: "digits_int 0 ds = int (digits_value ds)"
proof -
  have "foldl (\<lambda>n c. 10 * n + int (digit_value c)) (int k) ds = int (foldl (\<lambda>n c. 10 * n + digit_value c) k ds)" for k
  proof (induction ds arbitrary: k)
    case (Cons c ds)
    show ?case using Cons[of "10 * k + digit_value c"] by simp
  qed simp
  from this[of 0] show ?thesis by (simp add: digits_int_def digits_value_def)
qed

lemma scan_digits_run:
  "list_all is_digit ds \<Longrightarrow>
     scan_digits False dot seen m k (ds @ rest) =
     scan_digits False dot (seen \<or> ds \<noteq> []) (digits_int m ds) (if dot then k + length ds else k) rest"
proof (induction ds arbitrary: seen m k)
  case Nil
  then show ?case by (simp add: digits_int_def)
next
  case (Cons c ds)
  then have c: "is_digit c" "c \<noteq> CHR ''_''" "c \<noteq> CHR ''.''" "hex_value c = int (digit_value c)"
    using digit_plain(1,2)[of c] digit_hex_value by auto
  show ?case using Cons c by (simp add: digits_int_def)
qed

lemma no_underscore: "list_all is_digit ds \<Longrightarrow> CHR ''_'' \<notin> set ds"
  using digit_plain(1) by (auto simp: list_all_iff)

lemma read_whole:
  assumes "ds \<noteq> []" "list_all is_digit ds"
  shows "read_float ds = Some (of_int (int (digits_value ds)))"
proof -
  have x: "\<not> (case ds of z # x # _ # _ \<Rightarrow> z = CHR ''0'' \<and> lower_char x = CHR ''x'' | _ \<Rightarrow> False)"
    using assms(2) digit_plain(5,10) by (auto split: list.splits)
  show ?thesis
    using assms x scan_digits_run[of ds False False 0 0 "[]"] no_underscore[of ds]
    by (simp add: read_float_def Let_def digits_unsigned digits_int_0 exponent_def rat_powi_def)
qed

lemma digits_not_word:
  assumes "ds \<noteq> []" "list_all is_digit (take 1 ds)"
  shows "to_lower ds \<noteq> ''inf''" "to_lower ds \<noteq> ''infinity''" "to_lower ds \<noteq> ''nan''"
  using assms digit_plain(5,8,9)[of "hd ds"] by (cases ds; auto simp: to_lower_def)+

lemma parse_whole:
  assumes "0 \<le> n" "n \<le> 2 ^ 53"
  shows "parse_float (show_int n) = Some (Fin (of_int n))"
proof -
  have d: "show_int n \<noteq> []" "list_all is_digit (show_int n)" "int (digits_value (show_int n)) = n"
    using show_nat_digits[of "nat n"] assms by (auto simp: show_int_def)
  moreover have "list_all is_digit (take 1 (show_int n))" using d by (cases "show_int n") auto
  ultimately show ?thesis
    using digits_not_word[OF d(1)] read_whole[OF d(1,2)] fl_int[OF assms]
    by (simp add: parse_float_def digits_unsigned)
qed

lemma readable_whole:
  assumes "0 \<le> n" "n \<le> 2 ^ 53"
  shows "humanReadableInt (show_int n) = Some n"
proof -
  have d: "show_int n \<noteq> []" "list_all is_digit (show_int n)"
    using show_nat_digits[of "nat n"] assms by (auto simp: show_int_def)
  then have "is_digit (last (show_int n))" by (simp add: list_all_iff)
  then have "factor_of (last (show_int n)) = None" by (rule digit_plain(11))
  moreover have "fmul (Fin (of_int n)) (of_int64 1) = Fin (of_int n)"
    using of_int64_exact[of 1] fl_int[OF assms] by simp
  moreover have "to_int64 (Fin (of_int n)) = n"
    using assms by (simp add: to_int64_def is_int64_def)
  ultimately show ?thesis
    using d(1) parse_whole[OF assms] by (simp add: humanReadableInt_def Let_def feq_def ftrunc_def)
qed

lemma digits_int_append: "digits_int m (ds @ es) = digits_int (digits_int m ds) es"
  by (simp add: digits_int_def)

lemma read_decimal:
  assumes "ds \<noteq> []" "list_all is_digit ds" "list_all is_digit es"
  shows "read_float (ds @ CHR ''.'' # es) = Some (of_int (digits_int 0 (ds @ es)) / 10 ^ length es)"
proof -
  let ?s = "ds @ CHR ''.'' # es"
  have u: "unsigned ?s = (False, ?s)"
    using assms(1,2) by (cases ds) (auto simp: unsigned_def dest: digit_plain(3,4))
  have x: "\<not> (case ?s of z # x # _ # _ \<Rightarrow> z = CHR ''0'' \<and> lower_char x = CHR ''x'' | _ \<Rightarrow> False)"
  proof -
    have "lower_char (CHR ''.'') = CHR ''.''" by (simp add: lower_char_def is_upper_def less_eq_char_def)
    then show ?thesis using assms(1,2) digit_plain(5,10)
      by (cases ds; cases "tl ds") (auto split: list.splits)
  qed
  have "scan_digits False False False 0 0 ?s = (True, digits_int 0 (ds @ es), length es, [])"
    using scan_digits_run[OF assms(2), of False False 0 0 "CHR ''.'' # es"]
      scan_digits_run[OF assms(3), of True True "digits_int 0 ds" 0 "[]"] assms(1)
    by (simp add: digits_int_append)
  then show ?thesis
    using x u no_underscore[OF assms(2)] no_underscore[OF assms(3)]
    by (cases "length es") (simp_all add: read_float_def Let_def exponent_def rat_powi_def nat_add_distrib)
qed

lemma show_digit: "0 \<le> d \<Longrightarrow> d < 10 \<Longrightarrow> show_int d = [digit_char (nat d)]"
  by (simp add: show_int_def show_nat.simps)

lemma digits_int_shown:
  "0 \<le> d \<Longrightarrow> d < 10 \<Longrightarrow> digits_int m (show_int d @ es) = digits_int (10 * m + d) es"
  "0 \<le> d \<Longrightarrow> d < 10 \<Longrightarrow> list_all is_digit (show_int d) \<and> length (show_int d) = 1"
  using digit_char_digit[of "nat d"] by (simp_all add: show_digit digits_int_def)

lemma round_even_close: "\<bar>x - of_int k\<bar> < 1 / 2 \<Longrightarrow> round_even x = k"
proof -
  assume "\<bar>x - of_int k\<bar> < 1 / 2"
  moreover have "\<bar>of_int (round_even x) - x\<bar> \<le> 1 / 2" by (rule round_even_near)
  ultimately have "\<bar>of_int (round_even x) - of_int k :: rat\<bar> < 1" by linarith
  then have "\<bar>of_int (round_even x - k) :: rat\<bar> < 1" by simp
  then have "\<bar>round_even x - k\<bar> < 1" by (metis of_int_abs of_int_less_1_iff)
  then show ?thesis by simp
qed

lemma parse_decimal:
  assumes "0 \<le> d" "d < 10" "list_all is_digit es"
    "fl (of_int (digits_int d es) / 10 ^ length es) = Fin a"
  shows "parse_float (show_int d @ CHR ''.'' # es) = Some (Fin a)"
proof -
  let ?s = "show_int d @ CHR ''.'' # es"
  have d: "show_int d = [digit_char (nat d)]" "is_digit (digit_char (nat d))"
    using assms(1,2) digit_char_digit[of "nat d"] by (simp_all add: show_digit)
  then have "read_float ?s = Some (of_int (digits_int d es) / 10 ^ length es)"
    using read_decimal[of "show_int d" es] digits_int_shown(1)[OF assms(1,2), of 0 es] assms(3) by simp
  moreover have "unsigned ?s = (False, ?s)"
    using d digit_plain(3,4)[OF d(2)] by (simp add: unsigned_def)
  moreover have "to_lower ?s \<noteq> ''inf''" "to_lower ?s \<noteq> ''infinity''" "to_lower ?s \<noteq> ''nan''"
    using digits_not_word[of ?s] d by simp_all
  ultimately show ?thesis using assms(4) by (simp add: parse_float_def)
qed

lemma fl_hundredths:
  assumes "1 \<le> k" "k \<le> 100"
  obtains a where "fl (of_int k / 100) = Fin a" "0 < a" "a \<le> 1" "\<bar>a - of_int k / 100\<bar> \<le> 1 / 2 ^ 53"
proof -
  let ?x = "of_int k / 100 :: rat"
  have k: "(1 :: rat) \<le> of_int k" "(of_int k :: rat) \<le> 100" using assms by simp_all
  have "pow2 (- 1022) \<le> pow2 (- 7)" by (rule pow2_mono) simp
  then have lo: "pow2 (- 1022) \<le> ?x" using k by simp
  have near: "\<bar>fl_abs ?x - ?x\<bar> \<le> ?x / 2 ^ 53" by (rule fl_abs_near[OF lo])
  have "?x < pow2 1023" using k pow2_less[of 0 1023] by simp
  then have "fl ?x = Fin (fl_abs ?x)" using k by (intro fl_finite) simp_all
  moreover have "?x / 2 ^ 53 \<le> 1 / 2 ^ 53" using k by simp
  moreover have "?x / 2 ^ 53 \<le> ?x / 2" using k by simp
  moreover have "fl_abs ?x \<le> fl_abs (of_int 1)" using k by (intro fl_abs_mono) simp_all
  moreover have "fl_abs (of_int 1) = 1" using fl_abs_int[of 1] by simp
  ultimately show ?thesis using near k by (intro that[of "fl_abs ?x"]) linarith+
qed

text \<open>A fraction in hundredths, printed and read back.\<close>

lemma hundredths_roundtrip:
  assumes "1 \<le> k" "k \<le> 100"
  shows "parse_float (show_hundredths (fl (of_int k / 100))) = Some (fl (of_int k / 100))"
proof -
  obtain a where a: "fl (of_int k / 100) = Fin a" "0 < a" "a \<le> 1" "\<bar>a - of_int k / 100\<bar> \<le> 1 / 2 ^ 53"
    using fl_hundredths[OF assms] by blast
  have r: "round_even (a * 100) = k"   proof (rule round_even_close)
    have "\<bar>a * 100 - of_int k\<bar> = 100 * \<bar>a - of_int k / 100\<bar>" by (simp add: abs_mult_pos' right_diff_distrib)
    also have "\<dots> \<le> 100 * (1 / 2 ^ 53)" using a(4) by (rule mult_left_mono) simp
    finally show "\<bar>a * 100 - of_int k\<bar> < 1 / 2" by (rule order.strict_trans1) simp
  qed
  have r10: "0 \<le> round_even (a * 10)" "round_even (a * 10) \<le> 10"
    using a round_even_nonneg[of "a * 10"] round_even_mono[of "a * 10" "of_int 10"] round_even_int[of 10] by simp_all
  have r1: "0 \<le> round_even a" "round_even a \<le> 1"
    using a round_even_nonneg[of a] round_even_mono[of a "of_int 1"] round_even_int[of 1] by simp_all
  let ?m = "round_even (a * 10)"
  consider "fl (of_int (round_even a)) = Fin a"
    | "fl (of_int (round_even a)) \<noteq> Fin a" "fl (of_int ?m / 10) = Fin a"
    | "fl (of_int (round_even a)) \<noteq> Fin a" "fl (of_int ?m / 10) \<noteq> Fin a" by blast
  then show ?thesis
  proof cases
    case 1
    then have "show_hundredths (Fin a) = show_int (round_even a)"
      using a by (simp add: show_hundredths_def)
    then show ?thesis using 1 a(1) r1 fl_int[of "round_even a"] parse_whole[of "round_even a"] by simp
  next
    case 2
    then have "show_hundredths (Fin a) = show_int (?m div 10) @ CHR ''.'' # show_int (?m mod 10)"
      using a by (simp add: show_hundredths_def)
    moreover have "digits_int (?m div 10) (show_int (?m mod 10)) = ?m"
      using digits_int_shown(1)[of "?m mod 10" "?m div 10" "[]"] by (simp add: digits_int_def)
    ultimately show ?thesis
      using 2 a(1) r10 digits_int_shown(2)[of "?m mod 10"]
        parse_decimal[of "?m div 10" "show_int (?m mod 10)" a] by simp
  next
    case 3
    let ?es = "show_int (k mod 100 div 10) @ show_int (k mod 10)"
    have "show_hundredths (Fin a) = show_int (k div 100) @ CHR ''.'' # ?es"
      using 3 a r by (simp add: show_hundredths_def)
    have b: "0 \<le> k mod 100 div 10" "k mod 100 div 10 < 10" "0 \<le> k mod 10" "k mod 10 < 10"
      by (simp_all add: pos_imp_zdiv_nonneg_iff div_less_iff_less_mult) 
    have "digits_int (k div 100) ?es = 10 * (10 * (k div 100) + k mod 100 div 10) + k mod 10"
      unfolding digits_int_shown(1)[OF b(1,2)]
      using digits_int_shown(1)[OF b(3,4), of "10 * (k div 100) + k mod 100 div 10" "[]"]
      by (simp only: append_Nil2 digits_int_def foldl.simps)
    moreover have "10 * (10 * (k div 100) + k mod 100 div 10) + k mod 10 = k"
      using assms by (cases "k = 100") simp_all
    ultimately have v: "digits_int (k div 100) ?es = k" by simp
    have es: "list_all is_digit ?es" "length ?es = 2"
      using digits_int_shown(2)[OF b(1,2)] digits_int_shown(2)[OF b(3,4)] by simp_all
    have "fl (of_int (digits_int (k div 100) ?es) / 10 ^ length ?es) = Fin a"
      unfolding v es(2) using a(1) by simp
    from parse_decimal[OF _ _ es(1) this] assms \<open>show_hundredths (Fin a) = _\<close> a(1)
    show ?thesis by simp
  qed
qed

end
