(* ===== verification/KVCache_Correct.thy ===== *)
theory KVCache_Correct
  imports KVCache VllmArgs_Correct
begin

text \<open>
  What the KV cache check promises: the parsed arguments never divide by zero, the need is
  vLLM's formula as long as the configuration is of modest size (\<open>modest\<close>: nothing of it
  overflows), the verdict compares the formula with what is left, and on a refusal the estimated
  length is the longest that fits.
\<close>

section \<open>Arguments\<close>

lemma set_count_positive:
  "f \<in> {flagMaxNumBatched, flagBlockSize, flagTensorParallelSize} \<Longrightarrow> 0 < n \<Longrightarrow>
     0 \<le> BatchedTokens a \<Longrightarrow> 0 < BlockSize a \<Longrightarrow> 0 < TensorParallel a \<Longrightarrow>
     0 \<le> BatchedTokens (set_count f n a) \<and> 0 < BlockSize (set_count f n a) \<and>
     0 < TensorParallel (set_count f n a) \<and> MaxModelLen (set_count f n a) = MaxModelLen a"
  by (auto simp: set_count_def)

lemma counts_positive:
  "counts m fs a = Inr b \<Longrightarrow> set fs \<subseteq> {flagMaxNumBatched, flagBlockSize, flagTensorParallelSize} \<Longrightarrow>
     0 \<le> BatchedTokens a \<Longrightarrow> 0 < BlockSize a \<Longrightarrow> 0 < TensorParallel a \<Longrightarrow>
     0 \<le> BatchedTokens b \<and> 0 < BlockSize b \<and> 0 < TensorParallel b \<and> MaxModelLen b = MaxModelLen a"
proof (induction m fs a rule: counts.induct)
  case (2 m f fs a)
  show ?case
  proof (cases "m f")
    case None
    then show ?thesis using 2 by simp
  next
    case (Some v)
    then obtain n where n: "humanReadableInt v = Some n" "0 < n" "counts m fs (set_count f n a) = Inr b"
      using 2(3) by (auto split: option.splits if_splits)
    have c: "0 \<le> BatchedTokens (set_count f n a)" "0 < BlockSize (set_count f n a)"
      "0 < TensorParallel (set_count f n a)" "MaxModelLen (set_count f n a) = MaxModelLen a"
      using set_count_positive[of f n a] n(2) 2(4-7) by auto
    show ?thesis using "2.IH"(2)[OF Some n(1) _ n(3) _ c(1-3)] n(2) 2(4) c(4) by simp
  qed
qed simp

text \<open>What \<open>parseVLLMArgs\<close> accepts asks for at least one token and never makes the check
  divide by zero: the length, the block size and the tensor parallel degree are positive, whatever
  the order in which a range over the map of count flags visits them.\<close>

theorem parsed_args_positive:
  assumes "set order = {flagMaxNumBatched, flagBlockSize, flagTensorParallelSize}"
    "parseVLLMArgs order args = Inr a"
  shows "0 < MaxModelLen a \<and> 0 < BlockSize a \<and> 0 < TensorParallel a \<and> 0 \<le> BatchedTokens a"
proof -
  let ?v = "vllmFlagValues args"
  let ?a = "default_args\<lparr>ChunkedPrefill := ?v flagNoEnableChunkedPrefill = None\<rparr>"
  have "\<exists>len b. 0 < len \<and> counts ?v order (?a\<lparr>MaxModelLen := len\<rparr>) = Inr b \<and>
      (a = set_dtypes ?v b \<or> (\<exists>u. a = set_dtypes ?v (b\<lparr>Utilization := u\<rparr>)))"
    using assms(2) unfolding parseVLLMArgs_def Let_def
    by (simp split: option.splits if_splits sum.splits) (metis not_le)+
  then obtain len b where c: "0 < len" "counts ?v order (?a\<lparr>MaxModelLen := len\<rparr>) = Inr b"
    and a: "a = set_dtypes ?v b \<or> (\<exists>u. a = set_dtypes ?v (b\<lparr>Utilization := u\<rparr>))" by blast
  from counts_positive[OF c(2)] assms(1)
  have "0 \<le> BatchedTokens b \<and> 0 < BlockSize b \<and> 0 < TensorParallel b \<and> MaxModelLen b = len"
    by (simp add: default_args_def)
  with a c(1) show ?thesis by (auto simp: set_dtypes_def)
qed

section \<open>The need\<close>

text \<open>vLLM's formula without machine integers.\<close>

definition cdiv :: "int \<Rightarrow> int \<Rightarrow> int" where
  "cdiv a b = (a + b - 1) div b"

definition state_need :: "vllm_args \<Rightarrow> int \<Rightarrow> kv_layers \<Rightarrow> int" where
  "state_need a bytes l =
     (if kv_latent l = 0
      then 2 * max (kv_heads l div TensorParallel a) 1 * kv_headDim l * elem_bytes bytes l
      else kv_latent l * elem_bytes bytes l)"

definition blocks_need :: "vllm_args \<Rightarrow> int \<Rightarrow> int \<Rightarrow> kv_layers \<Rightarrow> int" where
  "blocks_need a len batched l =
     (if kv_window l > 0 then cdiv (min (kv_window l - 1 + batched) len) (BlockSize a) + 1
      else cdiv len (BlockSize a))"

definition layer_need :: "vllm_args \<Rightarrow> int \<Rightarrow> int \<Rightarrow> int \<Rightarrow> kv_layers \<Rightarrow> int" where
  "layer_need a len batched bytes l =
     kv_count l * blocks_need a len batched l * (BlockSize a div max (kv_tokensPerState l) 1) *
     state_need a bytes l"

definition sequence_need :: "kv_check \<Rightarrow> int \<Rightarrow> int \<Rightarrow> int \<Rightarrow> int" where
  "sequence_need k batched bytes len =
     (let b = (if ChunkedPrefill (kc_args k) then batched else max batched len)
      in sum_list (map (layer_need (kc_args k) len b bytes) (lay_layers (kc_layout k))))"

definition modest_layer :: "kv_layers \<Rightarrow> bool" where
  "modest_layer l \<longleftrightarrow>
     kv_count l \<in> {0..2 ^ 10} \<and> kv_heads l \<in> {0..2 ^ 8} \<and> kv_headDim l \<in> {0..2 ^ 10} \<and>
     kv_latent l \<in> {0..2 ^ 18} \<and> kv_window l \<in> {0..2 ^ 26} \<and> kv_tokensPerState l \<in> {0..2 ^ 20} \<and>
     kv_elemBytes l \<in> {0..2}"

definition modest_args :: "vllm_args \<Rightarrow> bool" where
  "modest_args a \<longleftrightarrow> MaxModelLen a \<in> {1..2 ^ 26} \<and> BatchedTokens a \<in> {0..2 ^ 26} \<and>
     BlockSize a \<in> {1..2 ^ 10} \<and> 1 \<le> TensorParallel a"

definition modest :: "kv_check \<Rightarrow> bool" where
  "modest k \<longleftrightarrow> modest_args (kc_args k) \<and> list_all modest_layer (lay_layers (kc_layout k)) \<and>
     length (lay_layers (kc_layout k)) \<le> 4"

lemma cdiv_mono: "0 < b \<Longrightarrow> x \<le> y \<Longrightarrow> cdiv x b \<le> cdiv y b"
  by (simp add: cdiv_def zdiv_mono1)

lemma cdiv_nonneg: "0 < b \<Longrightarrow> 0 \<le> x \<Longrightarrow> 0 \<le> cdiv x b"
  by (simp add: cdiv_def pos_imp_zdiv_nonneg_iff)

lemma cdiv_times_le: "0 < b \<Longrightarrow> cdiv x b * b \<le> x + b - 1"
  unfolding cdiv_def using div_mult_mod_eq[of "x + b - 1" b] pos_mod_sign[of b "x + b - 1"] by linarith

lemma cdiv_le: "0 < b \<Longrightarrow> 0 \<le> x \<Longrightarrow> cdiv x b \<le> x"
proof (rule ccontr)
  assume b: "0 < b" "0 \<le> x" and "\<not> cdiv x b \<le> x"
  then have "(x + 1) * b \<le> cdiv x b * b" by (intro mult_right_mono) simp_all
  moreover have "x \<le> x * b" using b mult_left_mono[of 1 b x] by simp
  ultimately show False using cdiv_times_le[OF b(1), of x] by (simp add: distrib_right)
qed

lemma ceilDiv_cdiv: "0 < b \<Longrightarrow> 0 \<le> x \<Longrightarrow> is_int64 (x + b - 1) \<Longrightarrow> ceilDiv x b = cdiv x b"
  by (simp add: ceilDiv_def cdiv_def div64_nonneg)

lemma between_int64: "0 \<le> x \<Longrightarrow> x \<le> 2 ^ 62 \<Longrightarrow> is_int64 x"
  by (simp add: is_int64_def)

lemma mult_le_power:
  fixes a b :: int
  assumes "0 \<le> a" "a \<le> 2 ^ m" "0 \<le> b" "b \<le> 2 ^ n"
  shows "0 \<le> a * b" "a * b \<le> 2 ^ (m + n)"
  using mult_mono[of a "2 ^ m" b "2 ^ n"] assms by (auto simp: power_add)

lemma mult_le_power_int:
  fixes a b :: int
  assumes "0 \<le> a" "a \<le> 2 ^ m" "0 \<le> b" "b \<le> 2 ^ n" "m + n \<le> 62"
  shows "0 \<le> a * b" "a * b \<le> 2 ^ (m + n)" "is_int64 (a * b)"
proof -
  show p: "0 \<le> a * b" "a * b \<le> 2 ^ (m + n)" using mult_le_power[OF assms(1-4)] .
  have "(2 :: int) ^ (m + n) \<le> 2 ^ 62" using assms(5) by (intro power_increasing) simp_all
  with p show "is_int64 (a * b)" by (intro between_int64) simp_all
qed

lemma state_modest:
  assumes "modest_layer l" "1 \<le> TensorParallel a" "bytes \<in> {0..2}"
  shows "state_bytes a bytes l = state_need a bytes l" "0 \<le> state_need a bytes l"
    "state_need a bytes l \<le> 2 ^ 20"
proof -
  have e: "0 \<le> elem_bytes bytes l" "elem_bytes bytes l \<le> 2 ^ 1"
    using assms(1,3) by (auto simp: elem_bytes_def modest_layer_def)
  let ?h = "max (kv_heads l div TensorParallel a) 1"
  have hh: "0 \<le> kv_heads l" "kv_heads l \<le> 2 ^ 8" using assms(1) by (auto simp: modest_layer_def)
  have h: "0 \<le> ?h" "?h \<le> 2 ^ 8"
    using zdiv_mono2[of "kv_heads l" 1 "TensorParallel a"] hh assms(2) by auto
  have d: "div64 (kv_heads l) (TensorParallel a) = kv_heads l div TensorParallel a"
    using hh assms(2) by (intro div64_nonneg between_int64) simp_all
  have dim: "0 \<le> kv_headDim l" "kv_headDim l \<le> 2 ^ 10" and lat: "0 \<le> kv_latent l" "kv_latent l \<le> 2 ^ 18"
    using assms(1) by (auto simp: modest_layer_def)
  have one: "0 \<le> 2 * ?h" "2 * ?h \<le> 2 ^ 9" "is_int64 (2 * ?h)" using h by (auto intro: between_int64)
  have two: "0 \<le> 2 * ?h * kv_headDim l" "2 * ?h * kv_headDim l \<le> 2 ^ 19" "is_int64 (2 * ?h * kv_headDim l)"
    using mult_le_power_int[OF one(1,2) dim] by simp_all
  have three: "0 \<le> 2 * ?h * kv_headDim l * elem_bytes bytes l"
    "2 * ?h * kv_headDim l * elem_bytes bytes l \<le> 2 ^ 20"
    "is_int64 (2 * ?h * kv_headDim l * elem_bytes bytes l)"
    using mult_le_power_int[OF two(1,2) e] by simp_all
  have four: "0 \<le> kv_latent l * elem_bytes bytes l" "kv_latent l * elem_bytes bytes l \<le> 2 ^ 19"
    "is_int64 (kv_latent l * elem_bytes bytes l)"
    using mult_le_power_int[OF lat e] by simp_all
  show "state_bytes a bytes l = state_need a bytes l"
    by (simp only: state_bytes_def state_need_def mul64_def d wrap64_id one(3) two(3) three(3) four(3))
  show "0 \<le> state_need a bytes l" "state_need a bytes l \<le> 2 ^ 20"
    using three(1,2) four(1,2) by (auto simp: state_need_def)
qed

lemma blocks_modest:
  assumes "modest_layer l" "modest_args a" "batched \<in> {0..2 ^ 26}" "len \<in> {1..2 ^ 26}"
  shows "layer_blocks a len batched l = blocks_need a len batched l"
    "0 \<le> blocks_need a len batched l" "blocks_need a len batched l \<le> 2 ^ 27"
    "blocks_need a len batched l * BlockSize a \<le> 2 ^ 27"
proof -
  have b: "0 < BlockSize a" "BlockSize a \<le> 2 ^ 10" using assms(2) by (auto simp: modest_args_def)
  have w: "is_int64 (kv_window l - 1 + batched)"
    using assms(1,3) by (auto simp: modest_layer_def is_int64_def)
  have c: "ceilDiv x (BlockSize a) = cdiv x (BlockSize a)" "0 \<le> cdiv x (BlockSize a)"
    "cdiv x (BlockSize a) \<le> 2 ^ 26" "cdiv x (BlockSize a) * BlockSize a \<le> 2 ^ 26 + 2 ^ 10"
    if "0 \<le> x" "x \<le> 2 ^ 26" for x
    using that b cdiv_nonneg[OF b(1) that(1)] cdiv_le[OF b(1) that(1)] cdiv_times_le[OF b(1), of x]
    by (auto intro!: ceilDiv_cdiv between_int64)
  let ?m = "min (kv_window l - 1 + batched) len"
  have m: "0 \<le> ?m" "?m \<le> 2 ^ 26" if "kv_window l > 0" using that assms(3,4) by auto
  have len: "0 \<le> len" "len \<le> 2 ^ 26" using assms(4) by auto
  have a: "add64 (cdiv ?m (BlockSize a)) 1 = cdiv ?m (BlockSize a) + 1" if "kv_window l > 0"
    using c(2,3)[OF m[OF that]] by (simp add: add64_def between_int64)
  show "layer_blocks a len batched l = blocks_need a len batched l"
    using c(1)[OF len] c(1)[OF m] a by (simp add: layer_blocks_def blocks_need_def wrap64_id[OF w])
  show "0 \<le> blocks_need a len batched l" "blocks_need a len batched l \<le> 2 ^ 27"
    using c(2,3)[OF len] c(2,3)[OF m] by (auto simp: blocks_need_def)
  show "blocks_need a len batched l * BlockSize a \<le> 2 ^ 27"
    using c(4)[OF len] c(4)[OF m] b by (auto simp: blocks_need_def distrib_right)
qed

lemma layer_bytes_exact:
  assumes "modest_layer l" "modest_args a" "batched \<in> {0..2 ^ 26}" "len \<in> {1..2 ^ 26}" "bytes \<in> {0..2}"
  shows "layer_bytes a len batched bytes l = layer_need a len batched bytes l"
    "0 \<le> layer_need a len batched bytes l" "layer_need a len batched bytes l \<le> 2 ^ 57"
proof -
  have tp: "1 \<le> TensorParallel a" and bs: "0 < BlockSize a" "BlockSize a \<le> 2 ^ 10"
    using assms(2) by (auto simp: modest_args_def)
  let ?t = "max (kv_tokensPerState l) 1" and ?r = "blocks_need a len batched l"
  let ?q = "BlockSize a div ?t"
  have q: "0 \<le> ?q" "?q \<le> BlockSize a"
    using bs zdiv_mono2[of "BlockSize a" 1 ?t] by (auto simp: pos_imp_zdiv_nonneg_iff)
  have qd: "div64 (BlockSize a) ?t = ?q" using bs by (intro div64_nonneg between_int64) simp_all
  note P = state_modest[OF assms(1) tp assms(5)]
  note R = blocks_modest[OF assms(1-4)]
  have cnt: "0 \<le> kv_count l" "kv_count l \<le> 2 ^ 10" using assms(1) by (auto simp: modest_layer_def)
  have "?r * ?q \<le> ?r * BlockSize a" using R(2) q(2) by (rule mult_left_mono[rotated])
  then have rq: "0 \<le> ?r * ?q" "?r * ?q \<le> 2 ^ 27" using R(2,4) q(1) by (auto intro: mult_nonneg_nonneg)
  have one: "is_int64 (kv_count l * ?r)" using mult_le_power_int[OF cnt R(2,3)] by simp
  have two: "0 \<le> kv_count l * ?r * ?q" "kv_count l * ?r * ?q \<le> 2 ^ 37" "is_int64 (kv_count l * ?r * ?q)"
    using mult_le_power_int[OF cnt rq] by (simp_all add: mult.assoc)
  have three: "0 \<le> layer_need a len batched bytes l" "layer_need a len batched bytes l \<le> 2 ^ 57"
    "is_int64 (layer_need a len batched bytes l)"
    using mult_le_power_int[OF two(1,2) P(2,3)] by (simp_all add: layer_need_def)
  show "layer_bytes a len batched bytes l = layer_need a len batched bytes l"
    unfolding layer_bytes_def P(1) R(1) qd mul64_def wrap64_id[OF one] wrap64_id[OF two(3)]
    using wrap64_id[OF three(3)] by (simp add: layer_need_def)
  show "0 \<le> layer_need a len batched bytes l" "layer_need a len batched bytes l \<le> 2 ^ 57"
    using three(1,2) .
qed

lemma foldl_add64:
  assumes "\<forall>l\<in>set ls. f l = g l \<and> 0 \<le> g l \<and> g l \<le> 2 ^ 57" "0 \<le> t" "t \<le> 2 ^ 57 * int n" "n + length ls \<le> 4"
  shows "foldl (\<lambda>t l. add64 t (f l)) t ls = t + sum_list (map g ls)"
  using assms
proof (induction ls arbitrary: t n)
  case (Cons l ls)
  have l: "f l = g l" "0 \<le> g l" "g l \<le> 2 ^ 57" using Cons.prems(1) by auto
  have t: "0 \<le> t + g l" "t + g l \<le> 2 ^ 57 * int (Suc n)"
    using l(2,3) Cons.prems(2,3) by (simp_all add: distrib_left)
  have "Suc n \<le> 4" using Cons.prems(4) by simp
  then have "(2 :: int) ^ 57 * int (Suc n) \<le> 2 ^ 57 * 4" by (intro mult_left_mono) simp_all
  then have "is_int64 (t + g l)" using t by (simp add: is_int64_def)
  then have "add64 t (f l) = t + g l" by (simp add: add64_def l(1))
  then show ?case using Cons.IH[OF _ t, of] Cons.prems(1,4) by simp
qed simp

lemma needBytes_exact:
  assumes "modest k" "batched \<in> {0..2 ^ 26}" "bytes \<in> {0..2}" "len \<in> {1..MaxModelLen (kc_args k)}"
  shows "needBytes k batched bytes len = sequence_need k batched bytes len"
proof -
  let ?b = "if ChunkedPrefill (kc_args k) then batched else max batched len"
  have len: "len \<in> {1..2 ^ 26}" using assms(1,4) by (auto simp: modest_def modest_args_def)
  then have b: "?b \<in> {0..2 ^ 26}" using assms(2) by auto
  have "\<forall>l\<in>set (lay_layers (kc_layout k)).
      layer_bytes (kc_args k) len ?b bytes l = layer_need (kc_args k) len ?b bytes l \<and>
      0 \<le> layer_need (kc_args k) len ?b bytes l \<and> layer_need (kc_args k) len ?b bytes l \<le> 2 ^ 57"
    using layer_bytes_exact[OF _ _ b len assms(3), of _ "kc_args k"] assms(1)
    by (auto simp: modest_def list_all_iff)
  from foldl_add64[OF this, of 0 0] assms(1) show ?thesis
    by (simp add: needBytes_def sequence_need_def Let_def modest_def)
qed

text \<open>A longer sequence never needs less.\<close>

lemma layer_need_mono:
  assumes "modest_layer l" "modest_args a" "x \<le> y" "b \<le> c" "bytes \<in> {0..2}"
  shows "layer_need a x b bytes l \<le> layer_need a y c bytes l"
proof -
  have s: "0 \<le> state_need a bytes l"
    using assms by (intro state_modest) (auto simp: modest_args_def)
  have bs: "0 < BlockSize a" and cnt: "0 \<le> kv_count l"
    using assms by (auto simp: modest_args_def modest_layer_def)
  have "blocks_need a x b l \<le> blocks_need a y c l"
    using cdiv_mono[OF bs, of "min (kv_window l - 1 + b) x" "min (kv_window l - 1 + c) y"]
      cdiv_mono[OF bs assms(3)] assms(3,4) by (auto simp: blocks_need_def min_def)
  then show ?thesis unfolding layer_need_def
    using s bs cnt by (intro mult_right_mono mult_left_mono) (simp_all add: pos_imp_zdiv_nonneg_iff)
qed

lemma sequence_need_mono:
  assumes "modest k" "bytes \<in> {0..2}" "x \<le> y"
  shows "sequence_need k b bytes x \<le> sequence_need k b bytes y"
  unfolding sequence_need_def Let_def using assms
  by (intro sum_list_mono layer_need_mono) (auto simp: modest_def list_all_iff)

section \<open>The search\<close>

text \<open>On a bound that separates what fits from what does not, the search finds the bound.\<close>

lemma estimate_finds:
  assumes "lo \<le> hi + 1" "\<And>x y. lo \<le> x \<Longrightarrow> x \<le> y \<Longrightarrow> y \<le> hi \<Longrightarrow> fits y \<Longrightarrow> fits x" "est = lo - 1"
  shows "estimate fits lo hi est \<in> {lo - 1..hi} \<and>
     (\<forall>x\<in>{lo..hi}. fits x \<longleftrightarrow> x \<le> estimate fits lo hi est)"
  using assms
proof (induction fits lo hi est rule: estimate.induct)
  case (1 fits lo hi est)
  show ?case
  proof (cases "lo \<le> hi")
    case False
    then show ?thesis using 1(5) 1(3) by (simp add: estimate.simps)
  next
    case True
    let ?m = "(lo + hi) div 2"
    have m: "lo \<le> ?m" "?m \<le> hi" using True by simp_all
    show ?thesis
    proof (cases "fits ?m")
      case fits: True
      have e: "estimate fits lo hi est = estimate fits (?m + 1) hi ?m"
        using True fits by (subst estimate.simps) (simp add: Let_def)
      have IH: "estimate fits (?m + 1) hi ?m \<in> {?m..hi} \<and>
          (\<forall>x\<in>{?m + 1..hi}. fits x \<longleftrightarrow> x \<le> estimate fits (?m + 1) hi ?m)"
        using "1.IH"(1)[OF True refl fits] 1(4) m by simp
      have "fits x" if "lo \<le> x" "x \<le> ?m" for x using 1(4)[OF that m(2) fits] .
      then show ?thesis using IH m unfolding e by auto
    next
      case fits: False
      have e: "estimate fits lo hi est = estimate fits lo (?m - 1) est"
        using True fits by (subst estimate.simps) (simp add: Let_def)
      have IH: "estimate fits lo (?m - 1) est \<in> {lo - 1..?m - 1} \<and>
          (\<forall>x\<in>{lo..?m - 1}. fits x \<longleftrightarrow> x \<le> estimate fits lo (?m - 1) est)"
        using "1.IH"(2)[OF True refl fits] 1(4,5) m by simp
      have "\<not> fits x" if "?m \<le> x" "x \<le> hi" for x using 1(4)[OF m(1) that] fits by blast
      then show ?thesis using IH m unfolding e by auto
    qed
  qed
qed

section \<open>The verdict\<close>

lemma dtypeBytes_range: "dtypeBytes k = Inr n \<Longrightarrow> n \<in> {1, 2}"
  by (auto simp: dtypeBytes_def Let_def split: if_splits)

lemma batched_range: "modest k \<Longrightarrow> batched_tokens (kc_args k) memory product \<in> {0..2 ^ 26}"
  by (auto simp: batched_tokens_def modest_def modest_args_def)

text \<open>C5. The verdict of the KV cache check is vLLM's admission: without overflow (a configuration
  of modest size) its need is vLLM's formula for one sequence of \<open>--max-model-len\<close> tokens, it
  fits exactly when that is at most what is left, and on a refusal with anything left the estimated
  length is the longest that fits: the sequences of at most that many tokens, and no longer ones, need
  at most what is left.\<close>

theorem judge_estimates_longest:
  assumes "modest k" "kc_skip k = []" "0 < memory" "dtypeBytes k = Inr bytes"
  shows "let v = judge_kv (Some k) memory product; top = MaxModelLen (kc_args k);
            need = sequence_need k (batched_tokens (kc_args k) memory product) bytes
         in kvv_skip v = [] \<and> kvv_need v = need top \<and>
            (kvv_fits v \<longleftrightarrow> 0 < kvv_available v \<and> need top \<le> kvv_available v) \<and>
            (\<not> kvv_fits v \<longrightarrow> 0 < kvv_available v \<longrightarrow>
              0 \<le> kvv_estimated v \<and> kvv_estimated v < top \<and>
              (\<forall>len\<in>{1..top}. need len \<le> kvv_available v \<longleftrightarrow> len \<le> kvv_estimated v))"
proof -
  let ?b = "batched_tokens (kc_args k) memory product" and ?top = "MaxModelLen (kc_args k)"
  let ?need = "sequence_need k ?b bytes" and ?left = "kv_available k memory"
  let ?fits = "\<lambda>len. needBytes k ?b bytes len \<le> ?left"
  have bytes: "bytes \<in> {0..2}" using dtypeBytes_range[OF assms(4)] by auto
  note exact = needBytes_exact[OF assms(1) batched_range[OF assms(1)] bytes]
  have top: "1 \<le> ?top" using assms(1) by (simp add: modest_def modest_args_def)
  have mono: "?fits x" if "1 \<le> x" "x \<le> y" "y \<le> ?top" "?fits y" for x y
  proof -
    have "?need x \<le> ?need y" using assms(1) bytes that(2) by (rule sequence_need_mono)
    then show ?thesis using that exact[of x memory product] exact[of y memory product] by simp
  qed
  have est: "estimate ?fits 1 ?top 0 \<in> {0..?top}"
    "\<forall>x\<in>{1..?top}. ?fits x \<longleftrightarrow> x \<le> estimate ?fits 1 ?top 0"
    using estimate_finds[of 1 ?top ?fits 0] top mono by simp_all
  have j: "judge_kv (Some k) memory product = \<lparr>kvv_skip = [], kvv_fits = (?left > 0 \<and> ?fits ?top),
      kvv_maxLen = ?top, kvv_need = needBytes k ?b bytes ?top, kvv_available = ?left,
      kvv_estimated = (if \<not> (?left > 0 \<and> ?fits ?top) \<and> ?left > 0 then estimate ?fits 1 ?top 0 else 0),
      kvv_memory = memory, kvv_utilization = Utilization (kc_args k),
      kvv_gpus = TensorParallel (kc_args k), kvv_unified = False\<rparr>"
    using assms(2-4) by (simp add: judge_kv_def Let_def)
  have "?top \<in> {1..?top}" using top by simp
  then have "\<not> ?fits ?top \<Longrightarrow> estimate ?fits 1 ?top 0 < ?top" using est by force
  then show ?thesis
    using est exact top unfolding j Let_def by auto
qed

section \<open>Fractions\<close>

text \<open>What \<open>parseUtilization\<close> accepts is a fraction above 0 and at most 1, or NaN: the
  bounds are compared with a NaN, and both comparisons are false.\<close>

theorem utilization_fraction_or_nan:
  assumes "parseUtilization v = Inr u"
  shows "u = NaN \<or> (\<exists>x. u = Fin x \<and> 0 < x \<and> x \<le> 1)"
  using assms
  by (cases u; auto simp: parseUtilization_def fless_def feq_def split: option.splits if_splits)

lemma utilization_accepts_nan: "parseUtilization ''nan'' = Inr NaN"
  by (simp add: parseUtilization_def parse_float_def GoNum.unsigned_def to_lower_def lower_char_def
      is_upper_def less_eq_char_def fless_def)

lemma reserve_bytes: "gibToBytes vllmReserveGiB = 3382286746"
proof -
  have f: "vllmReserveGiB = Fin (7093169413108531 / 2251799813685248)"
    by (simp add: vllmReserveGiB_def fl_eval[where e = "- 51"] round_even_def Let_def)
  have g: "of_int64 gib = Fin (2 ^ 30)" using of_int64_exact[of gib] by (simp add: gib_def)
  have "fmul vllmReserveGiB (of_int64 gib) = Fin (7093169413108531 / 2097152)"
    unfolding f g by (simp add: fl_eval[where e = "- 21"] round_even_def Let_def)
  moreover have "\<not> fless_eq vllmReserveGiB (Fin 0)" by (simp add: f)
  ultimately show ?thesis
    by (simp add: gibToBytes_def fround_def to_int64_def is_int64_def)
qed

text \<open>With a NaN fraction the bytes vLLM may use are the least \<open>int64\<close> on amd64, and taking the
  weights and the reserve off it wraps around: every sequence fits.\<close>

lemma nan_utilization_fits:
  assumes "modest k" "kc_skip k = []" "dtypeBytes k = Inr bytes" "0 < memory"
    "Utilization (kc_args k) = NaN" "0 \<le> kc_weights k" "kc_weights k \<le> 2 ^ 61"
  shows "kvv_fits (judge_kv (Some k) memory product)"
proof -
  let ?b = "batched_tokens (kc_args k) memory product" and ?top = "MaxModelLen (kc_args k)"
  have b: "bytes \<in> {0..2}" using dtypeBytes_range[OF assms(3)] by auto
  have top: "1 \<le> ?top" and tp: "1 \<le> TensorParallel (kc_args k)"
    using assms(1) by (simp_all add: modest_def modest_args_def)
  let ?w = "kc_weights k div TensorParallel (kc_args k)"
  have w: "0 \<le> ?w" "?w \<le> 2 ^ 61"
    using zdiv_mono2[of "kc_weights k" 1 "TensorParallel (kc_args k)"] assms(6,7) tp
    by (simp_all add: pos_imp_zdiv_nonneg_iff)
  have "div64 (kc_weights k) (TensorParallel (kc_args k)) = ?w"
    using assms(6,7) tp by (intro div64_nonneg between_int64) simp_all
  then have "kv_available k memory = wrap64 (- (2 ^ 63) - ?w - 3382286746)"
    by (simp add: kv_available_def assms(5) to_int64_def reserve_bytes)
  also have "- (2 ^ 63) - ?w - 3382286746 + 2 ^ 63 = (2 ^ 64 - ?w - 3382286746) + (- 1) * 2 ^ 64" by simp
  then have "wrap64 (- (2 ^ 63) - ?w - 3382286746) = 2 ^ 63 - ?w - 3382286746"
    unfolding wrap64_def using w by (simp only: mod_mult_self1) simp
  finally have left: "2 ^ 62 \<le> kv_available k memory" using w by simp
  have "needBytes k ?b bytes ?top = sequence_need k ?b bytes ?top"
    using top by (intro needBytes_exact[OF assms(1) batched_range[OF assms(1)] b]) simp
  also have "\<dots> \<le> 2 ^ 62"
  proof -
    let ?c = "if ChunkedPrefill (kc_args k) then ?b else max ?b ?top"
    have t: "?top \<in> {1..2 ^ 26}" "?c \<in> {0..2 ^ 26}"
      using assms(1) batched_range[OF assms(1), of memory product] by (auto simp: modest_def modest_args_def)
    have "sum_list (map (layer_need (kc_args k) ?top ?c bytes) (lay_layers (kc_layout k))) \<le>
        sum_list (map (\<lambda>_. 2 ^ 57) (lay_layers (kc_layout k)))"
      using layer_bytes_exact(3)[OF _ _ t(2,1) b, of _ "kc_args k"] assms(1)
      by (intro sum_list_mono) (auto simp: modest_def list_all_iff)
    also have "\<dots> \<le> 2 ^ 57 * 4"
      using assms(1) by (simp add: sum_list_triv modest_def)
    finally show ?thesis by (simp add: sequence_need_def Let_def)
  qed
  finally have "needBytes k ?b bytes ?top \<le> kv_available k memory" using left by simp
  moreover have "kv_available k memory > 0" using left by simp
  ultimately show ?thesis using assms(2-4) by (simp add: judge_kv_def Let_def)
qed

section \<open>Layers\<close>

lemma count_types_counts:
  "count_types ts (f, s) = Inr (f', s') \<Longrightarrow>
     f' = f + int (length (filter (\<lambda>t. t = ''full_attention'' \<or> t = ''attention'') ts)) \<and>
     s' = s + int (length (filter (\<lambda>t. t = ''sliding_attention'') ts))"
proof (induction ts arbitrary: f s)
  case (Cons t ts)
  from Cons.prems show ?case
    using Cons.IH[of "f + 1" s] Cons.IH[of f "s + 1"] Cons.IH[of f s] by (simp split: if_splits)
qed simp

text \<open>C39. The layer list of a checkpoint is sliced to the layers that own a cache without a look at
  \<open>num_kv_shared_layers\<close>: a \<open>config.json\<close> that shares more layers than it has makes the slice
  bound negative, and reading it panics instead of skipping the check.\<close>

theorem shared_layers_panic:
  assumes "0 < hf_layers tc" "derefOr (hf_loraRank tc) 0 \<le> 0"
    "0 < derefOr (hf_kvHeads tc) (hf_heads tc)" "0 < derefOr (hf_headDim tc) 0"
    "hf_pattern tc = []" "hf_layerTypes tc \<noteq> []" "int (length (hf_layerTypes tc)) = hf_layers tc"
    "hf_layers tc < hf_shared tc" "is_int64 (hf_layers tc - hf_shared tc)"
  shows "\<exists>e. kvLayersOf tc = Inl e \<and> err_is e GoPanic"
proof -
  have "sub64 (hf_layers tc) (hf_shared tc) < 0" using assms(8,9) by (simp add: sub64_def)
  then have "attention_layers tc full sliding = Inl (Err [GoPanic] ''slice bounds out of range'')" for full sliding
    using assms(5-7) by (simp add: attention_layers_def)
  then show ?thesis
    using assms(1-4) by (simp add: kvLayersOf_def Let_def err_is_def)
qed

definition owned_types :: "hf_text_config \<Rightarrow> string list" where
  "owned_types tc = take (nat (hf_layers tc - hf_shared tc)) (hf_layerTypes tc)"

definition full_types :: "hf_text_config \<Rightarrow> int" where
  "full_types tc = int (length (filter (\<lambda>t. t = ''full_attention'' \<or> t = ''attention'') (owned_types tc)))"

definition sliding_types :: "hf_text_config \<Rightarrow> int" where
  "sliding_types tc = int (length (filter (\<lambda>t. t = ''sliding_attention'') (owned_types tc)))"

lemma attention_layers_counted:
  assumes "attention_layers tc full sliding = Inr (f, s)" "hf_pattern tc = []" "hf_layerTypes tc \<noteq> []"
    "is_int64 (hf_layers tc - hf_shared tc)"
  shows "f = full\<lparr>kv_count := full_types tc\<rparr> \<and>
     (if sliding_types tc > 0
      then \<exists>w>0. hf_window tc = Some w \<and> s = sliding\<lparr>kv_count := sliding_types tc, kv_window := w\<rparr>
      else s = sliding)"
proof -
  have own: "sub64 (hf_layers tc) (hf_shared tc) = hf_layers tc - hf_shared tc"
    using assms(4) by (simp add: sub64_def)
  obtain n m where "count_types (owned_types tc) (0, 0) = Inr (n, m)"
    and r: "(if m > 0 then \<exists>w>0. hf_window tc = Some w \<and> f = full\<lparr>kv_count := n\<rparr> \<and> s = sliding\<lparr>kv_count := m, kv_window := w\<rparr>
       else f = full\<lparr>kv_count := n\<rparr> \<and> s = sliding)"
    using assms(1-3) unfolding attention_layers_def owned_types_def own Let_def
    by (auto split: if_splits sum.splits prod.splits option.splits)
  then show ?thesis
    using count_types_counts[of "owned_types tc" 0 0 n m]
    by (auto simp: full_types_def sliding_types_def split: if_splits)
qed

text \<open>The layers the check counts: of a checkpoint with a \<open>layer_types\<close> list (no latent
  attention, no hybrid pattern, no sparse-attention index) the layers without a window are the
  full-attention entries among the layers that own a cache, and those with the configured window the
  sliding-attention entries.\<close>

theorem layer_types_counted:
  assumes "kvLayersOf tc = Inr ls" "derefOr (hf_loraRank tc) 0 \<le> 0" "hf_pattern tc = []"
    "hf_layerTypes tc \<noteq> []" "hf_indexerDim tc \<le> 0" "is_int64 (hf_layers tc - hf_shared tc)"
  shows "sum_list (map kv_count (filter (\<lambda>l. kv_window l = 0) ls)) = full_types tc \<and>
     sum_list (map kv_count (filter (\<lambda>l. kv_window l \<noteq> 0) ls)) = sliding_types tc \<and>
     (\<forall>l\<in>set ls. kv_window l \<noteq> 0 \<longrightarrow> hf_window tc = Some (kv_window l))"
proof -
  obtain h d h' d' f s where ls: "ls = filter (\<lambda>l. kv_count l > 0) [f, s]"
    and a: "attention_layers tc (no_layers\<lparr>kv_heads := h, kv_headDim := d\<rparr>)
        (no_layers\<lparr>kv_heads := h', kv_headDim := d'\<rparr>) = Inr (f, s)"
    using assms(1,2,5) unfolding kvLayersOf_def Let_def
    by (auto simp del: filter.simps split: if_splits sum.splits prod.splits)
  have n: "0 \<le> full_types tc" "0 \<le> sliding_types tc" by (simp_all add: full_types_def sliding_types_def)
  from attention_layers_counted[OF a assms(3,4,6)] n show ?thesis
    by (auto simp: ls no_layers_def split: if_splits)
qed

section \<open>Examples\<close>

definition w_gemma :: hf_text_config where
  "w_gemma = \<lparr>hf_modelType = ''gemma3_text'', hf_layers = 4, hf_heads = 8, hf_kvHeads = Some 4,
     hf_headDim = Some 256, hf_hidden = 2048,
     hf_layerTypes = [''sliding_attention'', ''sliding_attention'', ''full_attention'', ''sliding_attention''],
     hf_window = Some 1024, hf_useWindow = None, hf_globalKVHeads = None, hf_globalHeadDim = None,
     hf_shared = 0, hf_loraRank = None, hf_ropeDim = 0, hf_pattern = [], hf_indexerHeads = 0,
     hf_indexerDim = 0, hf_indexerRatio = 0, hf_dtype = ''bfloat16'', hf_torchDType = []\<rparr>"

definition w_layers :: "kv_layers list" where
  "w_layers = [no_layers\<lparr>kv_count := 1, kv_heads := 4, kv_headDim := 256\<rparr>,
     no_layers\<lparr>kv_count := 3, kv_heads := 4, kv_headDim := 256, kv_window := 1024\<rparr>]"

definition w_check :: kv_check where
  "w_check = \<lparr>kc_layout = \<lparr>lay_layers = w_layers, lay_dtype = ''bfloat16'', lay_cache = []\<rparr>,
     kc_args = default_args\<lparr>MaxModelLen := 131072\<rparr>, kc_weights = 2 ^ 33, kc_skip = []\<rparr>"

lemma w_gemma_layers: "kvLayersOf w_gemma = Inr w_layers"
  by (simp add: kvLayersOf_def w_gemma_def derefOr_def attention_layers_def sub64_def is_int64_def
      w_layers_def no_layers_def layerTypesWithoutKV_def Let_def numeral_eq_Suc)

lemma layer_types_counted_witness:
  "sum_list (map kv_count (filter (\<lambda>l. kv_window l = 0) w_layers)) = 1 \<and>
   sum_list (map kv_count (filter (\<lambda>l. kv_window l \<noteq> 0) w_layers)) = 3"
  using layer_types_counted[OF w_gemma_layers]
  by (simp add: w_gemma_def derefOr_def is_int64_def full_types_def sliding_types_def owned_types_def numeral_eq_Suc)

lemma shared_layers_panic_witness:
  "\<exists>e. kvLayersOf (w_gemma\<lparr>hf_shared := 5\<rparr>) = Inl e \<and> err_is e GoPanic"
  by (rule shared_layers_panic) (simp_all add: w_gemma_def derefOr_def is_int64_def)

lemma w_check_dtype: "dtypeBytes w_check = Inr 2"
  by (simp add: dtypeBytes_def w_check_def default_args_def kvCacheDTypeAuto_def Let_def to_lower_def
      lower_char_def is_upper_def less_eq_char_def)

lemma w_check_modest: "modest w_check"
  by (simp add: modest_def modest_args_def modest_layer_def w_check_def w_layers_def no_layers_def default_args_def)

text \<open>On a card of 12 GiB: one sequence of 131072 tokens needs 513 MiB and 24 blocks of the window,
  and what the verdict estimates on a refusal is the bound of the sequences that fit.\<close>

lemma judge_estimates_longest_witness:
  "let v = judge_kv (Some w_check) (12 * 2 ^ 30) ''L4'';
       need = sequence_need w_check (batched_tokens (kc_args w_check) (12 * 2 ^ 30) ''L4'') 2
   in kvv_skip v = [] \<and> kvv_need v = need 131072 \<and>
      (kvv_fits v \<longleftrightarrow> 0 < kvv_available v \<and> need 131072 \<le> kvv_available v)"
  using judge_estimates_longest[OF w_check_modest _ _ w_check_dtype, of "12 * 2 ^ 30" "''L4''"]
  by (simp add: w_check_def Let_def)

lemma w_args:
  "parseVLLMArgs [flagBlockSize, flagMaxNumBatched, flagTensorParallelSize] [''--max-model-len'', ''8192'']
     = Inr (default_args\<lparr>MaxModelLen := 8192\<rparr>)"
proof -
  have v: "vllmFlagValues [''--max-model-len'', ''8192''] = [flagMaxModelLen \<mapsto> ''8192'']"
    by (simp add: vllmFlagValues_def flag_name_def flag_value_def trim_quotes_def is_quote_def trim_space_def
        is_space_def flag_defs Let_def numeral_eq_Suc)
  have "show_int 8192 = ''8192''"
    by (simp add: show_int_def show_nat.simps digit_char_def char_of_def bit_0) 
  then have h: "humanReadableInt ''8192'' = Some 8192" using readable_whole[of 8192] by simp
  show ?thesis
    by (simp add: parseVLLMArgs_def v h Let_def parallel_error_def set_dtypes_def flag_defs default_args_def)
qed

lemma parsed_args_positive_witness:
  "0 < MaxModelLen (default_args\<lparr>MaxModelLen := 8192\<rparr>) \<and> 0 < BlockSize (default_args\<lparr>MaxModelLen := 8192\<rparr>) \<and>
   0 < TensorParallel (default_args\<lparr>MaxModelLen := 8192\<rparr>) \<and> 0 \<le> BatchedTokens (default_args\<lparr>MaxModelLen := 8192\<rparr>)"
  by (rule parsed_args_positive[OF _ w_args]) auto

lemma utilization_fraction_or_nan_witness: "Fin 1 = NaN \<or> (\<exists>x. Fin 1 = Fin x \<and> 0 < x \<and> x \<le> 1)"
proof (rule utilization_fraction_or_nan)
  show "parseUtilization ''1'' = Inr (Fin 1)"
    using parse_whole[of 1]
    by (simp add: parseUtilization_def show_int_def show_nat.simps digit_char_def char_of_def bit_0 fless_def feq_def)
qed

end
