(* ===== verification/Compute.thy ===== *)
theory Compute
  imports KVCache
begin

text \<open>
  The GPU generation check (\<open>internal/backend/kserve/compute.go\<close>): what compute capability
  a checkpoint's weights need (\<open>computeNeedOf\<close>, \<open>computeNeedOfParams\<close>), and the
  verdict on a node's GPU or on the GPU of a pool's size. Decoding the JSON is an argument. A range
  over a Go map of quantization groups only takes a maximum, so the groups are a list here.
\<close>

section \<open>Precisions\<close>

datatype precision = NoPrecision | BF16 | FP8 | FP4

fun precision_rank :: "precision \<Rightarrow> nat" where
  "precision_rank NoPrecision = 0"
| "precision_rank BF16 = 1"
| "precision_rank FP8 = 2"
| "precision_rank FP4 = 3"

lemma precision_rank_inj: "precision_rank p = precision_rank q \<Longrightarrow> p = q"
  by (cases p; cases q) auto

instantiation precision :: linorder
begin

definition less_eq_precision :: "precision \<Rightarrow> precision \<Rightarrow> bool" where
  "p \<le> q \<longleftrightarrow> precision_rank p \<le> precision_rank q"

definition less_precision :: "precision \<Rightarrow> precision \<Rightarrow> bool" where
  "p < q \<longleftrightarrow> precision_rank p < precision_rank q"

instance
  by intro_classes (auto simp: less_eq_precision_def less_precision_def dest: precision_rank_inj)

end

fun capability_of :: "precision \<Rightarrow> string" where
  "capability_of BF16 = ''8.0''"
| "capability_of FP8 = ''8.9''"
| "capability_of FP4 = ''8.9''"
| "capability_of NoPrecision = []"

fun remedy :: "precision \<Rightarrow> string" where
  "remedy FP8 = ''without native FP8 vLLM falls back to the weight-only FP8 Marlin kernel, which answers wrong for such a checkpoint; serve it on a GPU of 8.9 or above (Ada, Hopper, Blackwell) or serve a BF16 checkpoint here''"
| "remedy FP4 = ''NVFP4 runs natively on Blackwell and through vLLM's weight-only FP4 Marlin kernel on Ada and Hopper, which is proven from 8.9 and not below it; serve it on a GPU of 8.9 or above or serve a BF16 checkpoint here''"
| "remedy BF16 = ''bf16 needs a GPU of 8.0 or above; set --dtype=float16 for this GPU or serve it on a newer one''"
| "remedy NoPrecision = []"

section \<open>Capabilities\<close>

definition ParseComputeCapability :: "string \<Rightarrow> (int \<times> int) option" where
  "ParseComputeCapability s =
     (case cut (CHR ''.'') s of
        (a, b, ok) \<Rightarrow>
          if \<not> ok then None
          else case (parse_int64 a, parse_int64 b) of
                 (Some major, Some minor) \<Rightarrow> if major < 0 \<or> minor < 0 then None else Some (major, minor)
               | _ \<Rightarrow> None)"

definition parseCapability :: "string \<Rightarrow> gofloat option" where
  "parseCapability s =
     map_option (\<lambda>(major, minor). fadd (of_int64 major) (fdiv (of_int64 minor) (of_int64 100)))
       (ParseComputeCapability s)"

record gpu_generation =
  gg_gpu :: string
  gg_architecture :: string
  gg_capability :: string

definition awsGPUFamilies :: "(string \<times> gpu_generation) list" where
  "awsGPUFamilies = map (\<lambda>(f, g, a, c). (f, \<lparr>gg_gpu = g, gg_architecture = a, gg_capability = c\<rparr>))
     [(''g4dn'', ''T4'', ''Turing'', ''7.5''), (''g5'', ''A10G'', ''Ampere'', ''8.6''),
      (''g6'', ''L4'', ''Ada'', ''8.9''), (''g6e'', ''L40S'', ''Ada'', ''8.9''),
      (''p4d'', ''A100'', ''Ampere'', ''8.0''), (''p4de'', ''A100'', ''Ampere'', ''8.0''),
      (''p5'', ''H100'', ''Hopper'', ''9.0''), (''p5e'', ''H200'', ''Hopper'', ''9.0''),
      (''p5en'', ''H200'', ''Hopper'', ''9.0''), (''p6-b200'', ''B200'', ''Blackwell'', ''10.0'')]"

section \<open>What the weights need\<close>

record compute_need =
  cn_capability :: string
  cn_precision :: precision
  cn_why :: string
  cn_declared :: string
  cn_skip :: string

definition need_of :: "precision \<Rightarrow> string \<Rightarrow> compute_need" where
  "need_of p why = \<lparr>cn_capability = capability_of p, cn_precision = p, cn_why = why,
     cn_declared = [], cn_skip = []\<rparr>"

definition need_skipped :: "string \<Rightarrow> compute_need" where
  "need_skipped why = \<lparr>cn_capability = [], cn_precision = NoPrecision, cn_why = [],
     cn_declared = [], cn_skip = why\<rparr>"

definition skipNoConfig :: string where
  "skipNoConfig = ''the checkpoint has no config.json''"

text \<open>A group's weights: their type and bits, or none.\<close>

record hf_quantization =
  hq_method :: string
  hq_algo :: string
  hq_groups :: "(string \<times> int) option list"
  hq_layers :: "string list"

definition group_precision :: "(string \<times> int) option \<Rightarrow> precision" where
  "group_precision g =
     (case g of
        None \<Rightarrow> NoPrecision
      | Some (t, bits) \<Rightarrow>
          if to_lower t \<noteq> ''float'' then NoPrecision
          else if bits = 8 then FP8 else if bits = 4 then FP4 else NoPrecision)"

definition floatGroups :: "hf_quantization \<Rightarrow> precision" where
  "floatGroups q = foldl (\<lambda>p g. max p (group_precision g)) NoPrecision (hq_groups q)"

definition to_upper :: "string \<Rightarrow> string" where
  "to_upper s = map (\<lambda>c. if is_lower c then char_of (of_char c - 32 :: nat) else c) s"

definition algo_precision :: "string \<Rightarrow> precision" where
  "algo_precision a =
     (let a = to_upper a in if contains_str ''FP4'' a then FP4 else if a = ''FP8'' then FP8 else NoPrecision)"

definition modelOptAlgos :: "hf_quantization \<Rightarrow> precision" where
  "modelOptAlgos q = foldl (\<lambda>p a. max p (algo_precision a)) NoPrecision (hq_algo q # hq_layers q)"

text \<open>The block decoded: absent or null, not parsing, or read.\<close>

definition quantizedNeed :: "string + hf_quantization option \<Rightarrow> compute_need option" where
  "quantizedNeed raw =
     (case raw of
        Inr None \<Rightarrow> None
      | Inl e \<Rightarrow> Some (need_skipped (''quantization_config does not parse: '' @ e))
      | Inr (Some q) \<Rightarrow>
          let m = to_lower (hq_method q)
          in if m = ''fp8'' then Some (need_of FP8 ''FP8 weights (quant_method fp8)'')
             else if m = ''compressed-tensors''
             then (if floatGroups q = FP8 then Some (need_of FP8 ''FP8 weights (compressed-tensors)'')
                   else if floatGroups q = FP4 then Some (need_of FP4 ''FP4 weights (compressed-tensors)'')
                   else None)
             else if prefix ''modelopt'' m
             then let p = (if floatGroups q = NoPrecision then modelOptAlgos q else floatGroups q)
                  in if p = FP8 then Some (need_of FP8 ''FP8 weights (ModelOpt)'')
                     else if p = FP4 then Some (need_of FP4 ''NVFP4 weights (ModelOpt)'')
                     else if equal_fold (hq_algo q) ''MIXED_PRECISION''
                     then Some (need_skipped ''the ModelOpt checkpoint quantizes its layers in mixed precision and config.json does not say to what'')
                     else None
             else None)"

definition dtypeNeed :: "string \<Rightarrow> string \<Rightarrow> string \<Rightarrow> compute_need" where
  "dtypeNeed flag checkpoint source =
     (let d = to_lower (trim_space flag);
        d = (if d = [] \<or> d = ''auto'' then to_lower checkpoint else d)
      in if d = [] then need_skipped (source @ '' names no dtype'')
         else if d = ''bfloat16'' \<or> d = ''bf16'' then need_of BF16 ''bf16 weights''
         else need_skipped (d @ '' weights need no particular GPU generation''))"

record compute_config =
  cc_dtype :: string
  cc_torchDType :: string
  cc_quant :: "string + hf_quantization option"

definition computeNeedOf :: "(string \<Rightarrow> string + compute_config) \<Rightarrow> string \<Rightarrow> string \<Rightarrow> compute_need" where
  "computeNeedOf decode raw flag =
     (if raw = [] then need_skipped skipNoConfig
      else case decode raw of
             Inl e \<Rightarrow> need_skipped (''config.json does not parse: '' @ e)
           | Inr c \<Rightarrow>
               (case quantizedNeed (cc_quant c) of
                  Some n \<Rightarrow> n
                | None \<Rightarrow> dtypeNeed flag (firstNonEmpty [cc_dtype c, cc_torchDType c]) ''config.json''))"

record params_config =
  pc_quant :: "string + hf_quantization option"
  pc_qformat :: "string option"

definition computeNeedOfParams :: "(string \<Rightarrow> string + params_config) \<Rightarrow> string \<Rightarrow> string \<Rightarrow> compute_need" where
  "computeNeedOfParams decode raw flag =
     (case decode raw of
        Inl e \<Rightarrow> need_skipped (''params.json does not parse: '' @ e)
      | Inr c \<Rightarrow>
          (case quantizedNeed (pc_quant c) of
             Some n \<Rightarrow> n
           | None \<Rightarrow>
               (case pc_qformat c of
                  None \<Rightarrow> dtypeNeed flag [] ''params.json''
                | Some q \<Rightarrow>
                    let f = to_lower q
                    in if contains_str ''fp4'' f
                       then need_of FP4 (''FP4 weights (params.json qformat_weight '' @ f @ '')'')
                       else if prefix ''fp8'' f
                       then need_of FP8 (''FP8 weights (params.json qformat_weight '' @ f @ '')'')
                       else dtypeNeed flag [] ''params.json'')))"

text \<open>\<open>computeNeedFor\<close>, given what \<open>checkpointConfig\<close> and \<open>checkpointParams\<close> answer.\<close>

definition computeNeedFor ::
  "(string \<Rightarrow> string + compute_config) \<Rightarrow> (string \<Rightarrow> string + params_config) \<Rightarrow> serving_preset option \<Rightarrow>
   string + string \<Rightarrow> string option \<Rightarrow> compute_need" where
  "computeNeedFor decode decodeParams p config params =
     (if cpu p then need_skipped ''the preset requests no GPU''
      else let flag = (case p of None \<Rightarrow> [] | Some q \<Rightarrow> dtype_arg (sp_args q));
             need = (case config of
                       Inr raw \<Rightarrow> computeNeedOf decode raw flag
                     | Inl skip \<Rightarrow>
                         (case params of
                            Some raw \<Rightarrow> computeNeedOfParams decodeParams raw flag
                          | None \<Rightarrow> need_skipped skip))
           in case p of
                None \<Rightarrow> need
              | Some q \<Rightarrow> need\<lparr>cn_declared := trim_space (sp_minCompute q)\<rparr>)"

section \<open>The verdict\<close>

record compute_verdict =
  cv_skip :: string
  cv_fits :: bool
  cv_required :: string
  cv_precision :: precision
  cv_why :: string
  cv_declared :: string
  cv_capability :: string
  cv_gpu :: string

definition cv_unjudged :: "string \<Rightarrow> compute_verdict" where
  "cv_unjudged why = \<lparr>cv_skip = why, cv_fits = False, cv_required = [], cv_precision = NoPrecision,
     cv_why = [], cv_declared = [], cv_capability = [], cv_gpu = []\<rparr>"

definition cv_unknown :: "compute_need \<Rightarrow> string \<Rightarrow> compute_verdict" where
  "cv_unknown n why = \<lparr>cv_skip = why, cv_fits = False, cv_required = cn_capability n,
     cv_precision = cn_precision n, cv_why = cn_why n, cv_declared = cn_declared n,
     cv_capability = [], cv_gpu = []\<rparr>"

definition skipped_need :: "compute_need option \<Rightarrow> compute_verdict option" where
  "skipped_need n =
     (case n of
        None \<Rightarrow> Some (cv_unjudged ''no checkpoint config to read the weights' precision from'')
      | Some c \<Rightarrow> if cn_skip c \<noteq> [] then Some (cv_unjudged (cn_skip c)) else None)"

definition judge_capability :: "compute_need \<Rightarrow> string \<Rightarrow> string \<Rightarrow> compute_verdict" where
  "judge_capability n capability gpu =
     (case parseCapability capability of
        None \<Rightarrow> cv_unknown n (gpu @ '' names compute capability '' @ quoted capability @ '', which does not parse'')
      | Some have \<Rightarrow>
          let need = (case parseCapability (cn_capability n) of Some x \<Rightarrow> x | None \<Rightarrow> Fin 0)
          in \<lparr>cv_skip = [], cv_fits = fless_eq need have, cv_required = cn_capability n,
              cv_precision = cn_precision n, cv_why = cn_why n, cv_declared = cn_declared n,
              cv_capability = capability, cv_gpu = gpu\<rparr>)"

definition labelGPUComputeMajor :: string where "labelGPUComputeMajor = ''nvidia.com/gpu.compute.major''"
definition labelGPUComputeMinor :: string where "labelGPUComputeMinor = ''nvidia.com/gpu.compute.minor''"

definition compute_judgeNode :: "compute_need option \<Rightarrow> node_budget \<Rightarrow> compute_verdict" where
  "compute_judgeNode no nb =
     (case (skipped_need no, no) of
        (Some v, _) \<Rightarrow> v
      | (None, None) \<Rightarrow> cv_unjudged []
      | (None, Some n) \<Rightarrow>
          let major = trim_space (get_label (nb_labels nb) labelGPUComputeMajor);
            minor = trim_space (get_label (nb_labels nb) labelGPUComputeMinor)
          in if major = [] \<or> minor = []
             then cv_unknown n (''the GPU generation of node '' @ nb_name nb @ '' is unknown (no '' @
                    labelGPUComputeMajor @ ''/'' @ labelGPUComputeMinor @ '' label)'')
             else judge_capability n (major @ ''.'' @ minor)
                    (if nb_gpuProduct nb \<noteq> [] then ''the '' @ nb_gpuProduct nb @ '' of '' @ nb_name nb
                     else ''the GPU of '' @ nb_name nb))"

definition compute_judgeShape :: "compute_need option \<Rightarrow> instance_shape \<Rightarrow> compute_verdict" where
  "compute_judgeShape no s =
     (case (skipped_need no, no) of
        (Some v, _) \<Rightarrow> v
      | (None, None) \<Rightarrow> cv_unjudged []
      | (None, Some n) \<Rightarrow>
          let family = fst (cut (CHR ''.'') (is_type s))
          in case map_of awsGPUFamilies family of
               None \<Rightarrow>
                 if is_capability s = []
                 then cv_unknown n (''the GPU generation of a '' @ is_type s @ '' is unknown to the check'')
                 else judge_capability n (is_capability s) (''the GPU of a '' @ is_type s)
             | Some g \<Rightarrow>
                 let named = ''the '' @ gg_gpu g @ '' of a '' @ is_type s @ '' ('' @ gg_architecture g @ '')''
                 in if is_capability s = [] then judge_capability n (gg_capability g) named
                    else if gg_capability g = is_capability s then judge_capability n (is_capability s) named
                    else judge_capability n (is_capability s) (''the GPU of a '' @ is_type s))"

definition declaredDiffers :: "compute_verdict \<Rightarrow> string" where
  "declaredDiffers v =
     (if cv_declared v = [] then []
      else case parseCapability (cv_declared v) of
             None \<Rightarrow> '' (the preset declares requirements.minComputeCapability '' @ quoted (cv_declared v) @ '', which does not parse)''
           | Some d \<Rightarrow>
               if feq (case parseCapability (cv_required v) of Some x \<Rightarrow> x | None \<Rightarrow> Fin 0) d then []
               else '' (the preset declares requirements.minComputeCapability '' @ cv_declared v @
                    ''; the checkpoint needs '' @ cv_required v @ '')'')"

definition compute_clause :: "compute_verdict \<Rightarrow> string" where
  "compute_clause v =
     (let needs = ''its '' @ cv_why v @ '' need compute capability '' @ cv_required v
      in if cv_skip v \<noteq> [] \<and> cv_required v = [] then []
         else (if cv_skip v \<noteq> [] then needs @ ''; '' @ cv_skip v
               else needs @ '' and '' @ cv_gpu v @ '' has '' @ cv_capability v @
                 (if cv_fits v \<or> remedy (cv_precision v) = [] then [] else '': '' @ remedy (cv_precision v)))
              @ declaredDiffers v)"

end
