(* ===== verification/Answer.thy ===== *)
theory Answer
  imports Compute
begin

text \<open>
  The answer of a fit check (\<open>FitResult\<close> of \<open>internal/backend/backend.go\<close>) and the
  three checks that write into it: the KV cache (\<open>applyKV\<close>), the GPU generation
  (\<open>applyCompute\<close>) and, in \<open>Shape\<close>, the claim on unified memory and the shape. The
  fields the service sets (\<open>Backend\<close>, \<open>Verdict\<close>) are with the service.
\<close>

record node_fit =
  nf_node :: string
  nf_fits :: bool
  nf_reason :: string

record fit_sizes =
  fa_model :: string
  fa_preset :: string
  fa_presets :: "string list"
  fa_weights :: int
  fa_weightsSource :: string
  fa_declared :: int
  fa_overhead :: int
  fa_required :: int
  fa_download :: int
  fa_prePulled :: "string list"
  fa_serving :: "string list"
  fa_gated :: bool
  fa_private :: bool
  fa_token :: bool
  fa_cached :: bool
  fa_cacheSource :: string

record fit_place = fit_sizes +
  fa_fits :: bool
  fa_reason :: string
  fa_retryable :: bool
  fa_skipped :: "(string \<times> string) list"
  fa_node :: string
  fa_instance :: string
  fa_placement :: string
  fa_nodes :: "string list"
  fa_fastLink :: string
  fa_recommended :: string
  fa_recommendedNodes :: "string list"
  fa_copies :: "node_fit list"
  fa_pool :: string
  fa_budget :: int
  fa_budgetSource :: string
  fa_reserved :: int
  fa_free :: int
  fa_freeGPUs :: "int option"

record fit_answer = fit_place +
  fa_capRequired :: string
  fa_capability :: string
  fa_maxModelLen :: int
  fa_kvBytes :: int
  fa_kvAvailable :: int
  fa_estimated :: int
  fa_unified :: int
  fa_headroom :: int
  fa_fitUtilization :: gofloat
  fa_cpu :: int
  fa_memory :: int
  fa_devices :: int
  fa_tensorParallel :: int
  fa_utilization :: gofloat

definition no_answer :: fit_answer where
  "no_answer = \<lparr>fa_model = [], fa_preset = [], fa_presets = [], fa_weights = 0, fa_weightsSource = [],
     fa_declared = 0, fa_overhead = 0, fa_required = 0, fa_download = 0, fa_prePulled = [], fa_serving = [],
     fa_gated = False, fa_private = False, fa_token = False, fa_cached = False, fa_cacheSource = [],
     fa_fits = False, fa_reason = [], fa_retryable = False, fa_skipped = [], fa_node = [], fa_instance = [],
     fa_placement = [], fa_nodes = [], fa_fastLink = [], fa_recommended = [], fa_recommendedNodes = [],
     fa_copies = [], fa_pool = [], fa_budget = 0, fa_budgetSource = [], fa_reserved = 0, fa_free = 0,
     fa_freeGPUs = None, fa_capRequired = [], fa_capability = [], fa_maxModelLen = 0, fa_kvBytes = 0,
     fa_kvAvailable = 0, fa_estimated = 0, fa_unified = 0, fa_headroom = 0, fa_fitUtilization = Fin 0,
     fa_cpu = 0, fa_memory = 0, fa_devices = 0, fa_tensorParallel = 0, fa_utilization = Fin 0\<rparr>"

definition CheckDownloadSize :: string where "CheckDownloadSize = ''download-size''"
definition CheckKVCache :: string where "CheckKVCache = ''kv-cache''"
definition CheckComputeCapability :: string where "CheckComputeCapability = ''compute-capability''"

definition skip_check :: "string \<Rightarrow> string \<Rightarrow> fit_answer \<Rightarrow> fit_answer" where
  "skip_check check reason r =
     (if list_ex (\<lambda>(c, _). c = check) (fa_skipped r) then r
      else r\<lparr>fa_skipped := fa_skipped r @ [(check, reason)]\<rparr>)"

text \<open>A clause of the reason: \<open>add_note\<close> beside the verdict, \<open>refuse\<close> turning it.\<close>

definition add_note :: "string \<Rightarrow> fit_answer \<Rightarrow> fit_answer" where
  "add_note clause r = r\<lparr>fa_reason := fa_reason r @ ''; '' @ clause\<rparr>"

definition refuse_fit :: "string \<Rightarrow> fit_answer \<Rightarrow> fit_answer" where
  "refuse_fit clause r = r\<lparr>fa_fits := False, fa_reason := fa_reason r @ '', but '' @ clause\<rparr>"

definition applyKV :: "kv_verdict \<Rightarrow> fit_answer \<Rightarrow> fit_answer" where
  "applyKV v r =
     (let r = r\<lparr>fa_maxModelLen := kvv_maxLen v, fa_kvBytes := kvv_need v,
                fa_kvAvailable := max (kvv_available v) 0, fa_estimated := kvv_estimated v\<rparr>;
        r = (if kvv_skip v \<noteq> [] then skip_check CheckKVCache (kvv_skip v) r else r)
      in if fa_fits r \<and> kvv_skip v = [] \<and> \<not> kvv_fits v then refuse_fit (kv_clause v) r
         else add_note (kv_clause v) r)"

definition applyCompute :: "compute_verdict \<Rightarrow> fit_answer \<Rightarrow> fit_answer" where
  "applyCompute v r =
     (let r = (if cv_skip v \<noteq> [] then skip_check CheckComputeCapability (cv_skip v) r else r);
        clause = compute_clause v
      in if clause = [] then r
         else let r = r\<lparr>fa_capRequired := cv_required v, fa_capability := cv_capability v\<rparr>
              in if fa_fits r \<and> cv_skip v = [] \<and> \<not> cv_fits v then refuse_fit clause r
                 else add_note clause r)"

section \<open>What they change\<close>

lemma skip_check_keeps [simp]:
  "fa_fits (skip_check c w r) = fa_fits r" "fa_reason (skip_check c w r) = fa_reason r"
  "fa_free (skip_check c w r) = fa_free r" "fa_required (skip_check c w r) = fa_required r"
  "fa_node (skip_check c w r) = fa_node r" "fa_freeGPUs (skip_check c w r) = fa_freeGPUs r"
  by (simp_all add: skip_check_def)

lemma skip_check_skipped:
  "set (fa_skipped (skip_check c w r)) \<supseteq> set (fa_skipped r) \<and>
   (\<exists>w'. (c, w') \<in> set (fa_skipped (skip_check c w r)))"
  by (auto simp: skip_check_def list_ex_iff)

lemma skip_check_distinct:
  "distinct (map fst (fa_skipped r)) \<Longrightarrow> distinct (map fst (fa_skipped (skip_check c w r)))"
  by (auto simp: skip_check_def list_ex_iff)

lemma applyKV_fits [simp]: "fa_fits (applyKV v r) \<longleftrightarrow> fa_fits r \<and> (kvv_skip v \<noteq> [] \<or> kvv_fits v)"
  by (auto simp: applyKV_def Let_def refuse_fit_def add_note_def)

lemma applyCompute_fits [simp]:
  "fa_fits (applyCompute v r) \<longleftrightarrow> fa_fits r \<and> (compute_clause v = [] \<or> cv_skip v \<noteq> [] \<or> cv_fits v)"
  by (auto simp: applyCompute_def Let_def refuse_fit_def add_note_def)

lemma compute_clause_judged: "cv_skip v = [] \<Longrightarrow> compute_clause v \<noteq> []"
  by (simp add: compute_clause_def Let_def)

end
