(* ===== verification/Shape.thy ===== *)
theory Shape
  imports Answer
begin

text \<open>
  How a preset runs where it is placed (\<open>internal/backend/kserve/shape.go\<close>,
  \<open>requests.go\<close>) and what vLLM claims on unified memory (\<open>fit.go\<close>). Kubernetes
  quantities are read and printed by a library: the argument \<open>quantities\<close> says how.
  \<open>devicesOn\<close> doubles until the cards hold the share; with a wrapped product it may not end,
  so it answers an option and \<^const>\<open>None\<close> is not returning.
\<close>

section \<open>Requests\<close>

text \<open>\<open>resource.ParseQuantity\<close> (an error, or the milli value and the value) and
  \<open>NewMilliQuantity(m, DecimalSI).String\<close>.\<close>

record quantities =
  qt_parse :: "string \<Rightarrow> string + int \<times> int"
  qt_milli :: "int \<Rightarrow> string"

definition requestOf :: "quantities \<Rightarrow> serving_preset \<Rightarrow> string \<Rightarrow> (int \<times> int \<Rightarrow> gofloat) \<Rightarrow> gofloat res" where
  "requestOf qs p nm as =
     (case sp_requests p nm of
        None \<Rightarrow> Inr (Fin 0)
      | Some v \<Rightarrow>
          (case qt_parse qs v of
             Inl e \<Rightarrow> Inl (errw ErrInvalid (''preset '' @ sp_name p @ '': resources.requests.'' @ nm @ '' '' @
                        quoted v @ '': '' @ e))
           | Inr q \<Rightarrow> Inr (as q)))"

definition presetRequests :: "quantities \<Rightarrow> serving_preset \<Rightarrow> int \<times> int" where
  "presetRequests qs p =
     ((case requestOf qs p ''cpu'' (\<lambda>(milli, _). of_int64 milli) of Inr v \<Rightarrow> to_int64 v | Inl _ \<Rightarrow> 0),
      (case requestOf qs p ''memory'' (\<lambda>(_, v). of_int64 v) of Inr v \<Rightarrow> to_int64 v | Inl _ \<Rightarrow> 0))"

text \<open>A pod: its CPU (milli) and memory requests per container.\<close>

record kube_pod =
  po_namespace :: string
  po_labels :: "string \<rightharpoonup> string"
  po_node :: string
  po_phase :: string
  po_containers :: "(int \<times> int) list"
  po_init :: "(int \<times> int) list"
  po_overhead :: "int \<times> int"

definition podRequests :: "kube_pod \<Rightarrow> int \<times> int" where
  "podRequests pod =
     (let (cpu, mem) = foldl (\<lambda>(c, m) (dc, dm). (add64 c dc, add64 m dm)) (0, 0) (po_containers pod);
        (cpu, mem) = foldl (\<lambda>(c, m) (dc, dm). (max c dc, max m dm)) (cpu, mem) (po_init pod)
      in (add64 cpu (fst (po_overhead pod)), add64 mem (snd (po_overhead pod))))"

record pod_room =
  pr_cpu :: int
  pr_mem :: int
  pr_known :: bool
  pr_why :: string

definition no_room :: "string \<Rightarrow> pod_room" where
  "no_room why = \<lparr>pr_cpu = 0, pr_mem = 0, pr_known = False, pr_why = why\<rparr>"

definition llmisvcPodLabel :: string where "llmisvcPodLabel = ''app.kubernetes.io/name''"

definition counted_pod :: "string \<Rightarrow> node_budget \<Rightarrow> serving_preset \<Rightarrow> kube_pod \<Rightarrow> bool" where
  "counted_pod ns n p pod \<longleftrightarrow>
     po_node pod = nb_name n \<and> po_phase pod \<noteq> ''Succeeded'' \<and> po_phase pod \<noteq> ''Failed'' \<and>
     \<not> (po_namespace pod = ns \<and> get_label (po_labels pod) llmisvcPodLabel = sp_name p)"

text \<open>\<open>roomOn\<close>, given the pods the API server lists for the node or its error.\<close>

definition roomOn :: "string + kube_pod list \<Rightarrow> string \<Rightarrow> node_budget \<Rightarrow> serving_preset option \<Rightarrow> pod_room" where
  "roomOn pods ns n p =
     (case p of
        None \<Rightarrow> no_room []
      | Some q \<Rightarrow>
          (case pods of
             Inl e \<Rightarrow> no_room (''listing its pods failed: '' @ e)
           | Inr ps \<Rightarrow>
               foldl (\<lambda>r pod. let (c, m) = podRequests pod
                        in r\<lparr>pr_cpu := sub64 (pr_cpu r) c, pr_mem := sub64 (pr_mem r) m\<rparr>)
                 \<lparr>pr_cpu = nb_cpu n, pr_mem = nb_allocatable n, pr_known = True, pr_why = []\<rparr>
                 (filter (counted_pod ns n q) ps)))"

section \<open>The shape\<close>

record serving_shape =
  sh_devices :: int
  sh_tensor :: int
  sh_util :: gofloat
  sh_cpu :: int
  sh_mem :: int

definition presetTensorParallel :: "serving_preset \<Rightarrow> int" where
  "presetTensorParallel p = tensor_parallel (sp_args p)"

definition pipelineParallel :: "serving_preset \<Rightarrow> bool" where
  "pipelineParallel p = pipeline_parallel (sp_args p)"

definition no_shape :: serving_shape where
  "no_shape = \<lparr>sh_devices = 0, sh_tensor = 0, sh_util = Fin 0, sh_cpu = 0, sh_mem = 0\<rparr>"

definition referenceShape :: "serving_preset \<Rightarrow> serving_shape" where
  "referenceShape p = no_shape\<lparr>sh_devices := gpus p, sh_tensor := presetTensorParallel p\<rparr>"

partial_function (option) doubled :: "int \<Rightarrow> int \<Rightarrow> int \<Rightarrow> int option" where
  "doubled mem share d = (if mul64 d mem < share then doubled mem share (mul64 d 2) else Some d)"

definition devicesOn :: "serving_preset \<Rightarrow> node_budget \<Rightarrow> int \<Rightarrow> int option" where
  "devicesOn p n share =
     (if cpu (Some p) then Some 0
      else if unifiedGPU n then Some 1
      else if nb_gpuMemory n \<le> 0 then Some (gpus p)
      else doubled (nb_gpuMemory n) share 1)"

definition devicesClause :: "int \<Rightarrow> node_budget \<Rightarrow> string" where
  "devicesClause devices n =
     (if nb_gpuAllocatable n \<le> 0 \<or> devices \<le> nb_gpuAllocatable n then []
      else ''each serving pod needs '' @ show_int devices @ '' GPU devices there, and '' @ nb_name n @
        '' has '' @ show_int (nb_gpuAllocatable n) @ '' allocatable'')"

definition shapeArgs :: "serving_preset \<Rightarrow> serving_shape \<Rightarrow> string list" where
  "shapeArgs p sh =
     (let args = sp_args p;
        args = (if sh_tensor sh > 0 \<and> sh_tensor sh \<noteq> presetTensorParallel p
                then withoutFlag args flagTensorParallelSize @ [flagTensorParallelSize, show_int (sh_tensor sh)]
                else args)
      in if fless (Fin 0) (sh_util sh) \<and> \<not> feq (sh_util sh) (utilization p)
         then withoutFlag args flagGPUMemoryUtilization @ [flagGPUMemoryUtilization, trimFloat2 (sh_util sh)]
         else args)"

definition shaped :: "serving_shape \<Rightarrow> kv_check option \<Rightarrow> kv_check option" where
  "shaped sh = map_option (\<lambda>k. k\<lparr>kc_args := (kc_args k)
     \<lparr>TensorParallel := (if sh_tensor sh > 0 then sh_tensor sh else TensorParallel (kc_args k)),
      Utilization := (if fless (Fin 0) (sh_util sh) then sh_util sh else Utilization (kc_args k))\<rparr>\<rparr>)"

text \<open>The requests, capped to whole tenths of a CPU and whole MiB: the shape, and the refusal.\<close>

definition fitRequests :: "quantities \<Rightarrow> serving_preset \<Rightarrow> node_budget \<Rightarrow> pod_room \<Rightarrow> serving_shape \<Rightarrow> serving_shape \<times> string" where
  "fitRequests qs p n room sh =
     (let (c, m) = presetRequests qs p; sh = sh\<lparr>sh_cpu := c, sh_mem := m\<rparr>
      in if \<not> pr_known room then (sh, [])
         else if c > pr_cpu room \<and> pr_cpu room < 100
         then (sh, ''each serving pod requests '' @ qt_milli qs c @ '' CPU and '' @ nb_name n @ '' has '' @
                qt_milli qs (max (pr_cpu room) 0) @ '' left beside the requests of its other pods'')
         else let sh = (if c > pr_cpu room then sh\<lparr>sh_cpu := mul64 (div64 (pr_cpu room) 100) 100\<rparr> else sh)
              in if m > pr_mem room \<and> pr_mem room < mib
                 then (sh, ''each serving pod requests '' @ humanBytes m @ '' of memory and '' @ nb_name n @
                        '' has '' @ humanBytes (max (pr_mem room) 0) @ '' left beside the requests of its other pods'')
                 else (if m > pr_mem room then sh\<lparr>sh_mem := mul64 (div64 (pr_mem room) mib) mib\<rparr> else sh, []))"

definition requestsNote :: "quantities \<Rightarrow> serving_preset \<Rightarrow> serving_shape \<Rightarrow> string \<Rightarrow> string" where
  "requestsNote qs p sh node =
     (let (c, m) = presetRequests qs p;
        out = (if sh_cpu sh > 0 \<and> sh_cpu sh < c
               then ''requests '' @ qt_milli qs (sh_cpu sh) @ '' CPU there, capped from the preset's '' @
                 qt_milli qs c @ '' to what '' @ node @ '' has left'' else [])
      in if sh_mem sh > 0 \<and> sh_mem sh < m
         then out @ (if out \<noteq> [] then ''; '' else []) @ ''requests '' @ humanBytes (sh_mem sh) @
           '' of memory there, capped from the preset's '' @ humanBytes m @ '' to what '' @ node @ '' has left''
         else out)"

definition shapeNote :: "serving_preset \<Rightarrow> serving_shape \<Rightarrow> string" where
  "shapeNote p sh =
     (let r = referenceShape p
      in if sh_devices sh = sh_devices r \<and> sh_tensor sh = sh_tensor r then []
         else ''runs with '' @ plural (sh_devices sh) ''GPU device'' @ '' per pod and tensor parallel '' @
           show_int (sh_tensor sh) @ '' there (the preset's reference shape: '' @
           plural (sh_devices r) ''GPU device'' @ '', tensor parallel '' @ show_int (sh_tensor r) @ '')'')"

definition shapeOf :: "serving_preset \<Rightarrow> fit_answer \<Rightarrow> serving_shape" where
  "shapeOf p r =
     (let sh = (if fa_devices r > 0
                then no_shape\<lparr>sh_devices := fa_devices r, sh_tensor := fa_tensorParallel r, sh_util := fa_utilization r\<rparr>
                else referenceShape p)
      in sh\<lparr>sh_cpu := fa_cpu r, sh_mem := fa_memory r\<rparr>)"

section \<open>Unified memory\<close>

definition reservedNote :: "int \<Rightarrow> string" where
  "reservedNote reserved =
     (if reserved \<le> 0 then [] else '', '' @ humanBytes reserved @ '' reserved by running models'')"

text \<open>What vLLM claims, and of how much: \<^const>\<open>None\<close> where the code answers not ok.\<close>

definition vllmClaim :: "serving_preset option \<Rightarrow> node_budget \<Rightarrow> (int \<times> int) option" where
  "vllmClaim p n =
     (case p of
        None \<Rightarrow> None
      | Some q \<Rightarrow>
          if cpu p \<or> nb_gpuCount n = 0 \<or> nb_gpuMemory n > 0 then None
          else let memory = (if nb_capacity n \<le> 0 then nb_budget n else nb_capacity n)
               in if memory \<le> 0 then None
                  else Some (to_int64 (fmul (utilization q) (of_int64 memory)), memory))"

definition presetShare :: "serving_preset \<Rightarrow> node_budget \<Rightarrow> gofloat \<Rightarrow> int \<Rightarrow> gofloat \<Rightarrow> int" where
  "presetShare p n overhead parts util =
     (let need = add64 (ceilDiv (weightsBytes p) (max parts 1)) (overheadBytes p overhead)
      in case vllmClaim (Some p) n of
           None \<Rightarrow> need
         | Some (claim, memory) \<Rightarrow>
             max need (if fless (Fin 0) util then to_int64 (fmul util (of_int64 memory)) else claim))"

definition presetReserve :: "serving_preset \<Rightarrow> node_budget \<Rightarrow> gofloat \<Rightarrow> int" where
  "presetReserve p n overhead = presetShare p n overhead 1 (Fin 0)"

record unified_verdict =
  uv_checked :: bool
  uv_fits :: bool
  uv_util :: gofloat
  uv_preset :: gofloat
  uv_claim :: int
  uv_memory :: int
  uv_headroom :: int
  uv_available :: int
  uv_reserved :: int
  uv_fit :: gofloat
  uv_need :: int
  uv_holds :: gofloat

definition no_claim :: unified_verdict where
  "no_claim = \<lparr>uv_checked = False, uv_fits = False, uv_util = Fin 0, uv_preset = Fin 0, uv_claim = 0,
     uv_memory = 0, uv_headroom = 0, uv_available = 0, uv_reserved = 0, uv_fit = Fin 0, uv_need = 0,
     uv_holds = Fin 0\<rparr>"

definition short :: "unified_verdict \<Rightarrow> bool" where
  "short v \<longleftrightarrow> uv_checked v \<and> uv_claim v \<le> uv_available v \<and> uv_claim v < uv_need v"

text \<open>The fraction of the memory in hundredths, down and up, and the bytes of a fraction.\<close>

definition hundredths_down :: "int \<Rightarrow> int \<Rightarrow> gofloat" where
  "hundredths_down a memory = fdiv (ffloor (fmul (fdiv (of_int64 a) (of_int64 memory)) (of_int64 100))) (of_int64 100)"

definition hundredths_up :: "int \<Rightarrow> int \<Rightarrow> gofloat" where
  "hundredths_up a memory = fdiv (fceil (fmul (fdiv (of_int64 a) (of_int64 memory)) (of_int64 100))) (of_int64 100)"

definition claim_at :: "gofloat \<Rightarrow> int \<Rightarrow> int" where
  "claim_at u memory = to_int64 (fmul u (of_int64 memory))"

definition unifiedClaimOn :: "gofloat \<Rightarrow> serving_preset option \<Rightarrow> node_budget \<Rightarrow> int \<Rightarrow> int \<Rightarrow> unified_verdict" where
  "unifiedClaimOn hostHeadroom p n reserved need =
     (case (vllmClaim p n, p) of
        (Some (claim, memory), Some q) \<Rightarrow>
          let headroom = gibToBytes hostHeadroom;
            available = max (sub64 (min (nb_budget n) (sub64 memory headroom)) reserved) 0;
            v = no_claim\<lparr>uv_checked := True, uv_util := utilization q, uv_claim := claim, uv_memory := memory,
                  uv_headroom := headroom, uv_reserved := reserved, uv_need := need, uv_available := available,
                  uv_fits := (claim \<le> available \<and> claim \<ge> need)\<rparr>;
            down = hundredths_down available memory; up = hundredths_up need memory
          in if claim > available
             then (if fless (Fin 0) down \<and> claim_at down memory \<ge> need then v\<lparr>uv_fit := down\<rparr> else v)
             else if claim < need \<and> fless_eq up (Fin 1)
             then v\<lparr>uv_holds := up, uv_fit := (if claim_at up memory \<le> available then up else uv_fit v)\<rparr>
             else v
      | _ \<Rightarrow> no_claim)"

definition unified_clause :: "unified_verdict \<Rightarrow> string" where
  "unified_clause v =
     (let flag = flagGPUMemoryUtilization @ ''='';
        sizedFrom = (if fless (Fin 0) (uv_preset v)
                     then '', sized down from the preset's '' @ trimFloat2 (uv_preset v) @ '','' else []);
        claim = ''vLLM claims '' @ humanBytes (uv_claim v) @ '' at start ('' @ flag @ trimFloat2 (uv_util v) @
          sizedFrom @ '' of the node's '' @ humanBytes (uv_memory v) @ '' unified memory)'';
        left = ''the '' @ humanBytes (uv_available v) @ '' the node leaves models beside its '' @
          humanBytes (uv_headroom v) @ '' host headroom'' @ reservedNote (uv_reserved v)
      in if uv_fits v then claim @ '', within '' @ left
         else if short v
         then claim @ '', less than the '' @ humanBytes (uv_need v) @ '' of weights and overhead it must hold'' @
           (if fless (Fin 0) (uv_fit v) then '': '' @ flag @ trimFloat2 (uv_fit v) @ '' holds them''
            else if fless (Fin 0) (uv_holds v)
            then '': '' @ flag @ trimFloat2 (uv_holds v) @ '' would, more than '' @ left
            else '', more than the node's memory'')
         else claim @ '', more than '' @ left @
           (if fless (Fin 0) (uv_fit v) then '': '' @ flag @ trimFloat2 (uv_fit v) @ '' fits'' else []))"

definition sized :: "unified_verdict \<Rightarrow> unified_verdict" where
  "sized v =
     (let u = hundredths_up (uv_need v) (uv_memory v); claim = claim_at u (uv_memory v)
      in if \<not> uv_checked v \<or> uv_fits v \<or> short v \<or> uv_memory v \<le> 0 then v
         else if fless_eq u (Fin 0) \<or> fless (Fin 1) u \<or> claim > uv_available v then v
         else v\<lparr>uv_preset := uv_util v, uv_util := u, uv_claim := claim, uv_fits := True\<rparr>)"

definition applyUnified :: "unified_verdict \<Rightarrow> fit_answer \<Rightarrow> fit_answer" where
  "applyUnified v r =
     (if \<not> uv_checked v then r
      else let r = r\<lparr>fa_unified := uv_claim v, fa_headroom := uv_headroom v\<rparr>;
             r = (if uv_fits v then r else r\<lparr>fa_fitUtilization := uv_fit v\<rparr>)
           in if fa_fits r \<and> \<not> uv_fits v then refuse_fit (unified_clause v) r
              else add_note (unified_clause v) r)"

section \<open>The shape on a node\<close>

definition shapeOn ::
  "gofloat \<Rightarrow> serving_preset option \<Rightarrow> node_budget \<Rightarrow> int \<Rightarrow> int \<Rightarrow> int \<Rightarrow> (serving_shape \<times> unified_verdict) option" where
  "shapeOn hostHeadroom p n reserved share nodes =
     (let uv = sized (unifiedClaimOn hostHeadroom p n reserved share)
      in case p of
           None \<Rightarrow> Some (no_shape, uv)
         | Some q \<Rightarrow>
             if cpu p \<or> pipelineParallel q then Some (referenceShape q, uv)
             else let sh = (referenceShape q)\<lparr>sh_util := (if uv_checked uv then uv_util uv else utilization q)\<rparr>
                  in if unifiedGPU n \<or> nb_gpuMemory n > 0
                     then map_option (\<lambda>d. (sh\<lparr>sh_devices := d, sh_tensor := mul64 d nodes\<rparr>, uv)) (devicesOn q n share)
                     else Some (sh, uv))"

definition applyShape ::
  "quantities \<Rightarrow> serving_preset option \<Rightarrow> serving_shape \<Rightarrow> node_budget \<Rightarrow> pod_room \<Rightarrow> fit_answer \<Rightarrow> fit_answer" where
  "applyShape qs p sh n room r =
     (case p of
        None \<Rightarrow> r
      | Some q \<Rightarrow>
          let (sh, refusal) = fitRequests qs q n room sh;
            r = r\<lparr>fa_cpu := sh_cpu sh, fa_memory := sh_mem sh\<rparr>;
            r = (if cpu p then r
                 else r\<lparr>fa_devices := sh_devices sh, fa_tensorParallel := sh_tensor sh, fa_utilization := sh_util sh\<rparr>);
            refusal = (if \<not> cpu p \<and> refusal = [] then devicesClause (sh_devices sh) n else refusal)
          in if refusal \<noteq> [] \<and> fa_fits r then refuse_fit refusal r
             else let r = foldl (\<lambda>r c. if c \<noteq> [] then add_note c r else r) r
                            [shapeNote q sh, requestsNote qs q sh (nb_name n)]
                  in if \<not> pr_known room \<and> pr_why room \<noteq> []
                     then add_note (''the CPU and memory '' @ nb_name n @ '' has left are not checked: '' @ pr_why room) r
                     else r)"

end
