(* ===== verification/Hub.thy ===== *)
theory Hub
  imports Answer
begin

text \<open>
  The Hugging Face Hub and model images (\<open>internal/backend/kserve/hub.go\<close>,
  \<open>modelimage.go\<close>): requests of the Hub's API, the sizes read from a repository's files,
  and the sizing of a model (\<open>sizeModel\<close> and its helpers, \<open>fit.go\<close>). HTTP and JSON are
  arguments: what a path answers and how a body decodes. A failed lookup is an error and whether
  it was the deadline.
\<close>

type_synonym hub_failure = "err \<times> bool"

section \<open>Requests\<close>

text \<open>\<open>url.PathEscape\<close> of bytes.\<close>

definition path_plain :: "char \<Rightarrow> bool" where
  "path_plain c \<longleftrightarrow> is_digit c \<or> is_lower c \<or> is_upper c \<or> List.member ''-_.~$&+=:@'' c"

definition upper_hex :: "nat \<Rightarrow> char" where
  "upper_hex d = ''0123456789ABCDEF'' ! d"

definition path_escape :: "string \<Rightarrow> string" where
  "path_escape s = concat (map (\<lambda>c. if path_plain c then [c]
     else [CHR ''%'', upper_hex (of_char c div 16), upper_hex (of_char c mod 16)]) s)"

definition escapeRepo :: "string \<Rightarrow> string" where
  "escapeRepo repo =
     (case cut (CHR ''/'') repo of
        (a, b, ok) \<Rightarrow> if ok then path_escape a @ ''/'' @ path_escape b else path_escape repo)"

datatype gated = GatedBool bool | GatedText string | GatedOther

definition isGated :: "gated \<Rightarrow> bool" where
  "isGated g = (case g of GatedBool v \<Rightarrow> v | GatedText v \<Rightarrow> v \<noteq> [] \<and> v \<noteq> ''false'' | GatedOther \<Rightarrow> False)"

record hub_model =
  hm_gated :: gated
  hm_private :: bool

record hub_file =
  hf_type :: string
  hf_path :: string
  hf_size :: int
  hf_lfs :: "int option"

definition file_bytes :: "hub_file \<Rightarrow> int" where
  "file_bytes f = (case hf_lfs f of Some n \<Rightarrow> if n > 0 then n else hf_size f | None \<Rightarrow> hf_size f)"

record safetensors_index =
  si_total :: int
  si_shards :: "string list"

text \<open>The Hub: a transport error (and whether it is the deadline) or a status and a body; the
  decoders of the documents, an error being its text.\<close>

record hub_client =
  hc_get :: "string \<Rightarrow> (string \<times> bool) + (int \<times> string)"
  hc_model :: "string \<Rightarrow> string + hub_model"
  hc_tree :: "string \<Rightarrow> string + hub_file list"
  hc_index :: "string \<Rightarrow> string + (int \<times> string list)"
  hc_raw :: "string \<Rightarrow> string + string"

datatype hub_error = HubStatus int string | HubOther string bool

definition getJSON :: "hub_client \<Rightarrow> (string \<Rightarrow> string + 'a) \<Rightarrow> string \<Rightarrow> hub_error + 'a" where
  "getJSON c decode p =
     (case hc_get c p of
        Inl (e, late) \<Rightarrow> Inl (HubOther (''hugging face hub: '' @ e) late)
      | Inr (status, body) \<Rightarrow>
          if status < 200 \<or> status \<ge> 300 then Inl (HubStatus status body)
          else case decode body of
                 Inl e \<Rightarrow> Inl (HubOther (''hugging face hub: decode '' @ p @ '': '' @ e) False)
               | Inr v \<Rightarrow> Inr v)"

definition mapHubErr :: "string \<Rightarrow> hub_error \<Rightarrow> hub_failure" where
  "mapHubErr repo e =
     (case e of
        HubStatus n body \<Rightarrow>
          if n = 404 then (errw ErrNotFound (repo @ '' is not on the hub''), False)
          else if n = 401 \<or> n = 403
          then (errw ErrInvalid (repo @ '' is gated or private; configure a hub token with access (HTTP '' @
                  show_int n @ '')''), False)
          else (Err [] (''hugging face hub: HTTP '' @ show_int n @ '': '' @ trim_space body), False)
      | HubOther m late \<Rightarrow> (Err [] m, late))"

definition on_hub :: "string \<Rightarrow> hub_error + 'a \<Rightarrow> hub_failure + 'a" where
  "on_hub repo r = (case r of Inl e \<Rightarrow> Inl (mapHubErr repo e) | Inr v \<Rightarrow> Inr v)"

definition revision_or_main :: "string \<Rightarrow> string" where
  "revision_or_main rv = (if rv = [] then ''main'' else rv)"

definition Model :: "hub_client \<Rightarrow> string \<Rightarrow> hub_failure + hub_model" where
  "Model c repo = on_hub repo (getJSON c (hc_model c) (''/api/models/'' @ escapeRepo repo))"

definition Tree :: "hub_client \<Rightarrow> string \<Rightarrow> string \<Rightarrow> hub_failure + hub_file list" where
  "Tree c repo rv =
     map_sum id (filter (\<lambda>f. hf_type f = ''file''))
       (on_hub repo (getJSON c (hc_tree c) (''/api/models/'' @ escapeRepo repo @ ''/tree/'' @
          path_escape (revision_or_main rv) @ ''?recursive=true'')))"

definition resolve_path :: "string \<Rightarrow> string \<Rightarrow> string \<Rightarrow> string" where
  "resolve_path repo rv file =
     CHR ''/'' # escapeRepo repo @ ''/resolve/'' @ path_escape (revision_or_main rv) @ ''/'' @ file"

definition SafetensorsIndex :: "hub_client \<Rightarrow> string \<Rightarrow> string \<Rightarrow> hub_file list \<Rightarrow> hub_failure + safetensors_index option" where
  "SafetensorsIndex c repo rv files =
     (if list_ex (\<lambda>f. hf_path f = ''model.safetensors.index.json'') files
      then map_sum id (\<lambda>(total, shards). Some \<lparr>si_total = total, si_shards = sort (remdups shards)\<rparr>)
             (on_hub repo (getJSON c (hc_index c) (resolve_path repo rv ''model.safetensors.index.json'')))
      else Inr None)"

definition modelJSON :: "hub_client \<Rightarrow> string \<Rightarrow> string \<Rightarrow> hub_file list \<Rightarrow> string \<Rightarrow> hub_failure + string option" where
  "modelJSON c repo rv files file =
     (if list_ex (\<lambda>f. hf_path f = file) files
      then map_sum id Some (on_hub repo (getJSON c (hc_raw c) (resolve_path repo rv file)))
      else Inr None)"

section \<open>Sizes\<close>

definition sum64 :: "int list \<Rightarrow> int" where
  "sum64 xs = foldl add64 0 xs"

definition size_of_path :: "hub_file list \<Rightarrow> string \<Rightarrow> int" where
  "size_of_path files p = (case find (\<lambda>f. hf_path f = p) (rev files) of Some f \<Rightarrow> file_bytes f | None \<Rightarrow> 0)"

definition shardBytes :: "safetensors_index \<Rightarrow> hub_file list \<Rightarrow> int" where
  "shardBytes idx files = sum64 (map (size_of_path files) (si_shards idx))"

definition withinOnePercent :: "int \<Rightarrow> int \<Rightarrow> bool" where
  "withinOnePercent a b =
     (let d = sub64 a b; d = (if d < 0 then wrap64 (- d) else d) in mul64 d 100 \<le> b)"

definition weightsSourceIndex :: string where "weightsSourceIndex = ''safetensors-index''"
definition weightsSourceShards :: string where "weightsSourceShards = ''safetensors-shards''"
definition weightsSourceTree :: string where "weightsSourceTree = ''tree''"
definition weightsSourcePreset :: string where "weightsSourcePreset = ''preset''"
definition weightsSourceModelImage :: string where "weightsSourceModelImage = ''model-image''"

definition weightsFromIndex :: "safetensors_index option \<Rightarrow> hub_file list \<Rightarrow> int \<times> string" where
  "weightsFromIndex idx files =
     (case idx of
        None \<Rightarrow> (0, [])
      | Some i \<Rightarrow>
          let shards = shardBytes i files
          in if shards = 0 \<or> withinOnePercent (si_total i) shards then (si_total i, weightsSourceIndex)
             else (shards, weightsSourceShards))"

text \<open>\<open>path.Ext\<close> and \<open>path.Base\<close>.\<close>

definition path_ext :: "string \<Rightarrow> string" where
  "path_ext p =
     (let tail = takeWhile (\<lambda>c. c \<noteq> CHR ''.'' \<and> c \<noteq> CHR ''/'') (rev p)
      in case drop (length tail) (rev p) of
           c # _ \<Rightarrow> if c = CHR ''.'' then c # rev tail else []
         | [] \<Rightarrow> [])"

definition path_base :: "string \<Rightarrow> string" where
  "path_base p =
     (if p = [] then ''.''
      else let b = rev (takeWhile (\<lambda>c. c \<noteq> CHR ''/'') (dropWhile (\<lambda>c. c = CHR ''/'') (rev p)))
           in if b = [] then ''/'' else b)"

definition weightsFromTree :: "hub_file list \<Rightarrow> int" where
  "weightsFromTree files =
     (let ext = (\<lambda>f. to_lower (path_ext (hf_path f)));
        safetensors = sum64 (map file_bytes (filter (\<lambda>f. ext f = ''.safetensors'') files));
        other = sum64 (map file_bytes (filter (\<lambda>f. List.member
          [''.bin'', ''.pt'', ''.pth'', ''.gguf'', ''.ckpt'', ''.msgpack'', ''.h5'', ''.onnx''] (ext f)) files))
      in if safetensors > 0 then safetensors else other)"

text \<open>\<open>path.Match\<close> of bytes: a malformed pattern matches nothing. \<open>class_loop\<close> reads a class up
  to its bracket: whether a range held the byte, and the pattern behind.\<close>

fun class_char :: "string \<Rightarrow> (char \<times> string) option" where
  "class_char [] = None"
| "class_char (c # p) =
     (if c = CHR ''-'' \<or> c = CHR '']'' then None
      else if c = CHR 0x5C then (case p of [] \<Rightarrow> None | [d] \<Rightarrow> None | d # q \<Rightarrow> Some (d, q))
      else if p = [] then None else Some (c, p))"

lemma class_char_shorter: "class_char p = Some (c, q) \<Longrightarrow> length q < length p"
  by (cases p) (auto split: if_splits list.splits)

function class_loop :: "char \<Rightarrow> bool \<Rightarrow> bool \<Rightarrow> string \<Rightarrow> (bool \<times> string) option" where
  "class_loop r hit some p =
     (if some \<and> p \<noteq> [] \<and> hd p = CHR '']'' then Some (hit, tl p)
      else case class_char p of
             None \<Rightarrow> None
           | Some (lo, q) \<Rightarrow>
               if q \<noteq> [] \<and> hd q = CHR ''-''
               then (case class_char (tl q) of
                       None \<Rightarrow> None
                     | Some (hi, q') \<Rightarrow>
                         class_loop r (hit \<or> (of_char lo :: nat) \<le> of_char r \<and> (of_char r :: nat) \<le> of_char hi) True q')
               else class_loop r (hit \<or> r = lo) True q)"
  by pat_completeness auto
termination
  by (relation "measure (\<lambda>(_, _, _, p). length p)") (auto dest!: class_char_shorter)

declare class_loop.simps [simp del]

lemma class_loop_shorter: "class_loop r hit some p = Some (b, q) \<Longrightarrow> length q < length p"
proof (induction r hit some p rule: class_loop.induct)
  case (1 r hit some p)
  show ?case
  proof (cases "some \<and> p \<noteq> [] \<and> hd p = CHR '']''")
    case True
    with "1.prems" show ?thesis by (subst (asm) class_loop.simps) auto
  next
    case False
    with "1.prems" obtain lo t where lo: "class_char p = Some (lo, t)"
      by (subst (asm) class_loop.simps) (auto split: option.splits)
    note [dest!] = class_char_shorter
    show ?thesis
    proof (cases "t \<noteq> [] \<and> hd t = CHR ''-''")
      case True
      with "1.prems" False lo obtain hi u where hi: "class_char (tl t) = Some (hi, u)"
        by (subst (asm) class_loop.simps) (auto split: option.splits)
      have "class_loop r (hit \<or> (of_char lo :: nat) \<le> of_char r \<and> (of_char r :: nat) \<le> of_char hi) True u = Some (b, q)"
        using "1.prems" False lo hi True by (subst (asm) class_loop.simps) simp
      from "1.IH"(1)[OF False lo refl True hi refl this] lo hi show ?thesis by auto
    next
      case no_range: False
      have "class_loop r (hit \<or> r = lo) True t = Some (b, q)"
        using "1.prems" False lo no_range by (subst (asm) class_loop.simps) auto
      from "1.IH"(2)[OF False lo refl no_range this] lo show ?thesis by auto
    qed
  qed
qed

function glob :: "string \<Rightarrow> string \<Rightarrow> bool" where
  "glob [] s = (s = [])"
| "glob (c # p) s =
     (if c = CHR ''*'' then glob p s \<or> (case s of [] \<Rightarrow> False | x # t \<Rightarrow> x \<noteq> CHR ''/'' \<and> glob (c # p) t)
      else if c = CHR ''?'' then s \<noteq> [] \<and> hd s \<noteq> CHR ''/'' \<and> glob p (tl s)
      else if c = CHR ''[''
      then s \<noteq> [] \<and>
        (let negated = (p \<noteq> [] \<and> hd p = CHR ''^'')
         in case class_loop (hd s) False False (if negated then tl p else p) of
              None \<Rightarrow> False
            | Some (hit, q) \<Rightarrow> hit \<noteq> negated \<and> glob q (tl s))
      else if c = CHR 0x5C
      then (case p of [] \<Rightarrow> False | d # q \<Rightarrow> s \<noteq> [] \<and> hd s = d \<and> glob q (tl s))
      else s \<noteq> [] \<and> hd s = c \<and> glob p (tl s))"
  by pat_completeness auto
termination
  by (relation "measures [\<lambda>(p, s). length p + length s]")
    (auto simp: neq_Nil_conv split: if_splits dest!: class_loop_shorter)

declare glob.simps [simp del]

definition matchesAny :: "string \<Rightarrow> string list \<Rightarrow> bool" where
  "matchesAny nm patterns =
     list_ex (\<lambda>p. trim_space p \<noteq> [] \<and> (glob (trim_space p) nm \<or> glob (trim_space p) (path_base nm))) patterns"

definition downloadTotal :: "hub_file list \<Rightarrow> string list \<Rightarrow> int" where
  "downloadTotal files ignore = sum64 (map file_bytes (filter (\<lambda>f. \<not> matchesAny (hf_path f) ignore) files))"

section \<open>The plan of a fit\<close>

record model_image =
  mi_bytes :: int
  mi_weights :: int
  mi_config :: "string option"
  mi_params :: "string option"

text \<open>\<open>fitPlan\<close>; \<open>pl_hub\<close> says the Hub answered for the repository.\<close>

record fit_plan =
  pl_result :: fit_answer
  pl_preset :: "serving_preset option"
  pl_repo :: string
  pl_revision :: string
  pl_hub :: bool
  pl_files :: "hub_file list"
  pl_dir :: string
  pl_cacheLocal :: bool
  pl_cache :: cache_location
  pl_kv :: "kv_check option"
  pl_compute :: "compute_need option"
  pl_config :: "string option"
  pl_configSkip :: string
  pl_image :: "model_image option"
  pl_nodes :: "node_budget list"
  pl_own :: "(string \<times> int) list"

definition describeHubFailure :: "hub_failure \<Rightarrow> string \<Rightarrow> string" where
  "describeHubFailure f timeout =
     (if snd f then ''the Hugging Face Hub did not answer within '' @ timeout
      else if err_is (fst f) ErrInvalid
      then ''the Hugging Face Hub refused the repository metadata (gated or private)''
      else ''the Hugging Face Hub lookup failed ('' @ err_msg (fst f) @ '')'')"

definition hubFailure :: "hub_failure \<Rightarrow> string \<Rightarrow> err" where
  "hubFailure f timeout =
     (if snd f then wrap_err (describeHubFailure f timeout @ '': '') (fst f) [] else fst f)"

definition describeRegistryFailure :: "hub_failure \<Rightarrow> string \<Rightarrow> string" where
  "describeRegistryFailure f budget =
     (let m = err_msg (fst f)
      in if snd f \<or> contains_str ''timeout'' m \<or> contains_str ''context deadline exceeded'' m
         then ''the registry did not answer within '' @ budget @ '', timed-out requests retried ('' @ m @ '')''
         else m)"

definition addOverhead :: "gofloat \<Rightarrow> serving_preset option \<Rightarrow> fit_answer \<Rightarrow> fit_answer" where
  "addOverhead dflt p r =
     (let r = (case p of
                 Some q \<Rightarrow> r\<lparr>fa_declared := weightsBytes q, fa_overhead := overheadBytes q dflt\<rparr>
               | None \<Rightarrow> r\<lparr>fa_overhead := gibToBytes dflt\<rparr>)
      in r\<lparr>fa_required := add64 (fa_weights r) (fa_overhead r)\<rparr>)"

text \<open>What the lookups of one fit answer: the Hub, the model image's registry (an error may
  come with what was read), the printed lookup budget, and two options.\<close>

record sizing_env =
  se_hub :: hub_client
  se_image :: "string \<Rightarrow> hub_failure + model_image"
  se_budget :: string
  se_ignore :: "string list"
  se_overhead :: gofloat

definition sizeModelImage :: "sizing_env \<Rightarrow> serving_preset \<Rightarrow> fit_plan \<Rightarrow> (fit_plan \<times> string) res" where
  "sizeModelImage env p plan =
     (let read = se_image env (sp_storageURI p); r = pl_result plan;
        (plan, r, noted, weights) =
          (case read of
             Inl f \<Rightarrow> let why = describeRegistryFailure f (se_budget env)
                      in (plan, skip_check CheckDownloadSize why r, ''the download size is unknown: '' @ why, 0)
           | Inr img \<Rightarrow> (plan\<lparr>pl_image := Some img\<rparr>, r\<lparr>fa_download := mi_bytes img\<rparr>, [], mi_weights img));
        r = (if weights > 0 then r\<lparr>fa_weights := weights, fa_weightsSource := weightsSourceModelImage\<rparr>
             else r\<lparr>fa_weights := weightsBytes p, fa_weightsSource := weightsSourcePreset\<rparr>)
      in if fa_weights r \<le> 0
         then Inl (errw ErrInvalid (''cannot determine the weight size of '' @ pl_repo plan @ '' (the model image '' @
                sp_storageURI p @ '' carries no weights label and the preset declares no requirements.weightsGiB)''))
         else Inr (plan\<lparr>pl_result := addOverhead (se_overhead env) (Some p) r\<rparr>, noted))"

definition size_from_hub :: "sizing_env \<Rightarrow> serving_preset option \<Rightarrow> fit_plan \<Rightarrow> hub_file list \<Rightarrow> fit_answer \<Rightarrow> fit_answer" where
  "size_from_hub env p plan files r =
     (let idx = (case SafetensorsIndex (se_hub env) (pl_repo plan) (pl_revision plan) files of Inr i \<Rightarrow> i | Inl _ \<Rightarrow> None);
        (fromIndex, source) = weightsFromIndex idx files;
        r = r\<lparr>fa_download := downloadTotal files (se_ignore env)\<rparr>
      in if fromIndex > 0 then r\<lparr>fa_weights := fromIndex, fa_weightsSource := source\<rparr>
         else if weightsFromTree files > 0
         then r\<lparr>fa_weights := weightsFromTree files, fa_weightsSource := weightsSourceTree\<rparr>
         else case p of
                Some q \<Rightarrow> r\<lparr>fa_weights := weightsBytes q, fa_weightsSource := weightsSourcePreset\<rparr>
              | None \<Rightarrow> r)"

definition size_checked :: "sizing_env \<Rightarrow> fit_plan \<Rightarrow> fit_answer \<Rightarrow> string \<Rightarrow> (fit_plan \<times> string) res" where
  "size_checked env plan r noted =
     (if fa_weights r \<le> 0
      then Inl (errw ErrInvalid (''cannot determine the weight size of '' @ pl_repo plan @
             '' (no safetensors index, no weight files, no preset)''))
      else Inr (plan\<lparr>pl_result := addOverhead (se_overhead env) (pl_preset plan) r\<rparr>, noted))"

definition size_with_hub :: "sizing_env \<Rightarrow> hub_model \<Rightarrow> fit_plan \<Rightarrow> (fit_plan \<times> string) res" where
  "size_with_hub env hub plan =
     (let r = (pl_result plan)\<lparr>fa_gated := isGated (hm_gated hub), fa_private := hm_private hub\<rparr>
      in case Tree (se_hub env) (pl_repo plan) (pl_revision plan) of
           Inl f \<Rightarrow> Inl (hubFailure f (se_budget env))
         | Inr files \<Rightarrow>
             size_checked env (plan\<lparr>pl_hub := True, pl_files := files\<rparr>)
               (size_from_hub env (pl_preset plan) plan files r) [])"

definition sizeModel :: "sizing_env \<Rightarrow> fit_plan \<Rightarrow> (fit_plan \<times> string) res" where
  "sizeModel env plan =
     (let r = pl_result plan; p = pl_preset plan
      in case p of
           Some q \<Rightarrow>
             if \<not> storesInCache p then sizeModelImage env q plan
             else (case Model (se_hub env) (pl_repo plan) of
                     Inr hub \<Rightarrow> size_with_hub env hub plan
                   | Inl f \<Rightarrow>
                       let why = describeHubFailure f (se_budget env)
                       in size_checked env plan
                            (skip_check CheckDownloadSize why
                              (r\<lparr>fa_weights := weightsBytes q, fa_weightsSource := weightsSourcePreset,
                                 fa_gated := err_is (fst f) ErrInvalid\<rparr>))
                            (''weights from the preset's requirements: '' @ why))
         | None \<Rightarrow>
             (case Model (se_hub env) (pl_repo plan) of
                Inr hub \<Rightarrow> size_with_hub env hub plan
              | Inl f \<Rightarrow> Inl (hubFailure f (se_budget env))))"

section \<open>The checkpoint's config\<close>

definition skipNoAnswer :: string where
  "skipNoAnswer = ''the Hugging Face Hub did not answer for the checkpoint's config.json''"

definition checkpointConfig :: "sizing_env \<Rightarrow> fit_plan \<Rightarrow> fit_plan" where
  "checkpointConfig env plan =
     (let got = (\<lambda>raw. plan\<lparr>pl_config := raw, pl_configSkip := (if raw = None then skipNoConfig else [])\<rparr>)
      in if pl_config plan \<noteq> None \<or> pl_configSkip plan \<noteq> [] then plan
         else if \<not> storesInCache (pl_preset plan)
         then (case pl_image plan of
                 None \<Rightarrow> plan\<lparr>pl_configSkip := ''the model image's registry did not answer for the checkpoint's config.json''\<rparr>
               | Some img \<Rightarrow> got (mi_config img))
         else if \<not> pl_hub plan then plan\<lparr>pl_configSkip := skipNoAnswer\<rparr>
         else case modelJSON (se_hub env) (pl_repo plan) (pl_revision plan) (pl_files plan) ''config.json'' of
                Inl f \<Rightarrow> plan\<lparr>pl_configSkip := ''reading config.json failed: '' @ describeHubFailure f (se_budget env)\<rparr>
              | Inr raw \<Rightarrow> got raw)"

definition checkpointParams :: "sizing_env \<Rightarrow> fit_plan \<Rightarrow> string option" where
  "checkpointParams env plan =
     (if pl_configSkip plan \<noteq> skipNoConfig then None
      else if \<not> storesInCache (pl_preset plan) then Option.bind (pl_image plan) mi_params
      else if \<not> pl_hub plan then None
      else case modelJSON (se_hub env) (pl_repo plan) (pl_revision plan) (pl_files plan) ''params.json'' of
             Inl _ \<Rightarrow> None
           | Inr raw \<Rightarrow> raw)"

text \<open>What \<open>kvCheckFor\<close> and \<open>computeNeedFor\<close> read of a plan.\<close>

definition config_answer :: "fit_plan \<Rightarrow> string + string" where
  "config_answer plan =
     (case pl_config plan of Some raw \<Rightarrow> Inr raw | None \<Rightarrow> Inl (pl_configSkip plan))"

end
