(* ===== verification/PoolFit.thy ===== *)
theory PoolFit
  imports Shape Hub
begin

text \<open>
  The fit of a model against a GPU pool that has no node for it
  (\<open>internal/backend/kserve/poolfit.go\<close>, and \<open>launchingPool\<close> of \<open>fit.go\<close>): what
  the predictor needs, which size of a pool hosts it, which pool launches a node, and the verdict.
  A pool map is an association list; the code visits its names in order.
\<close>

definition plannedGPUs :: "fit_plan \<Rightarrow> int" where
  "plannedGPUs plan = (case pl_preset plan of None \<Rightarrow> 1 | Some p \<Rightarrow> max (gpus p) 1)"

section \<open>What the predictor needs\<close>

record predictor_needs =
  pn_vcpu :: gofloat
  pn_memory :: gofloat
  pn_gpus :: int
  pn_gpuMemory :: gofloat
  pn_kv :: "kv_check option"
  pn_compute :: "compute_need option"

definition needsOf :: "quantities \<Rightarrow> fit_plan \<Rightarrow> predictor_needs res" where
  "needsOf qs plan =
     (let n = \<lparr>pn_vcpu = Fin 0, pn_memory = Fin 0, pn_gpus = 1,
               pn_gpuMemory = fdiv (of_int64 (fa_required (pl_result plan))) (of_int64 gib),
               pn_kv = pl_kv plan, pn_compute = pl_compute plan\<rparr>
      in case pl_preset plan of
           None \<Rightarrow> Inr n
         | Some p \<Rightarrow>
             (case requestOf qs p ''cpu'' (\<lambda>(milli, _). fdiv (of_int64 milli) (of_int64 1000)) of
                Inl e \<Rightarrow> Inl e
              | Inr c \<Rightarrow>
                  (case requestOf qs p ''memory'' (\<lambda>(_, v). fdiv (of_int64 v) (of_int64 gib)) of
                     Inl e \<Rightarrow> Inl e
                   | Inr m \<Rightarrow> Inr (n\<lparr>pn_gpus := gpus p, pn_vcpu := c, pn_memory := m\<rparr>))))"

definition requestedGPUs :: "predictor_needs \<Rightarrow> int" where
  "requestedGPUs n = max (pn_gpus n) 1"

definition shapeGPUMemory :: "instance_shape \<Rightarrow> int" where
  "shapeGPUMemory s = mul64 (is_gpuMemory s) (10 ^ 9)"

definition gpuBudgetGiB :: "instance_shape \<Rightarrow> predictor_needs \<Rightarrow> gofloat" where
  "gpuBudgetGiB s n = of_int64 (mul64 (is_gpuMemory s) (requestedGPUs n))"

definition hosts :: "instance_shape \<Rightarrow> predictor_needs \<Rightarrow> bool" where
  "hosts s n \<longleftrightarrow>
     (let kv = judge_kv (pn_kv n) (shapeGPUMemory s) []; cc = compute_judgeShape (pn_compute n) s
      in fless_eq (pn_vcpu n) (is_usableVCPU s) \<and> fless_eq (pn_memory n) (is_usableMemory s) \<and>
         pn_gpus n \<le> is_gpus s \<and> fless_eq (pn_gpuMemory n) (gpuBudgetGiB s n) \<and>
         (kvv_skip kv \<noteq> [] \<or> kvv_fits kv) \<and> (cv_skip cc \<noteq> [] \<or> cv_fits cc))"

section \<open>Sizes, smallest first\<close>

definition smallerShape :: "instance_shape \<Rightarrow> instance_shape \<Rightarrow> bool" where
  "smallerShape a b = (if is_vcpu a \<noteq> is_vcpu b then is_vcpu a < is_vcpu b else is_memory a < is_memory b)"

text \<open>\<open>sort.SliceStable\<close> by \<open>smallerShape\<close>: an insertion sort.\<close>

fun insert_shape :: "instance_shape \<Rightarrow> instance_shape list \<Rightarrow> instance_shape list" where
  "insert_shape x [] = [x]"
| "insert_shape x (y # ys) = (if smallerShape y x then y # insert_shape x ys else x # y # ys)"

definition sortedShapes :: "instance_shape list \<Rightarrow> instance_shape list" where
  "sortedShapes shapes = foldr insert_shape shapes []"

section \<open>The words of the verdict\<close>

definition trimFloat :: "gofloat \<Rightarrow> string" where
  "trimFloat f =
     (let s = show_tenths f in if suffix ''.0'' s then take (length s - 2) s else s)"

definition times_sign :: string where
  "times_sign = [CHR 0xC3, CHR 0x97]"

definition weightsNeed :: "fit_answer \<Rightarrow> string" where
  "weightsNeed r = humanBytes (fa_weights r) @ '' weights ('' @ fa_weightsSource r @ '') + '' @
     humanBytes (fa_overhead r) @ '' overhead = '' @ humanBytes (fa_required r)"

definition describeStarting :: "node_budget list \<Rightarrow> string" where
  "describeStarting nodes = join ''; '' (map (\<lambda>n. ''node '' @ nb_name n @ '' is starting ('' @
     join '', '' ((if nb_ready n then [] else [''not ready'']) @
       map formatTaint (filter isStartupTaint (nb_taints n))) @ '')'') nodes)"

definition describeDevices :: "node_budget \<Rightarrow> string" where
  "describeDevices n =
     (if freeGPUs n < gpuDevices n
      then show_int (freeGPUs n) @ '' of '' @ plural (gpuDevices n) ''GPU'' @ '' free''
      else plural (gpuDevices n) ''GPU'')"

definition describeHeld :: "node_budget list \<Rightarrow> int \<Rightarrow> string" where
  "describeHeld nodes k = join ''; '' (map (\<lambda>n.
     if nb_starting n then describeStarting [n]
     else if \<not> nb_eligible n then ''node '' @ nb_name n @ '': '' @ nb_reason n
     else ''node '' @ nb_name n @ '' has '' @ describeDevices n @ '', the predictor requests '' @ show_int k) nodes)"

definition allStarting :: "node_budget list \<Rightarrow> bool" where
  "allStarting nodes \<longleftrightarrow> list_all nb_starting nodes"

definition poolWhere :: "gpu_pool \<Rightarrow> node_budget list \<Rightarrow> int \<Rightarrow> string" where
  "poolWhere pool nodes k =
     (let selector = formatSelector (gp_selector pool)
      in if nodes = [] then ''no node in the GPU pool yet ('' @ selector @ ''): the pool scales from zero''
         else if \<not> allStarting nodes
         then ''no node of the GPU pool ('' @ selector @ '') takes the predictor ('' @ describeHeld nodes k @
           ''): the pool launches one''
         else if gp_selector pool \<noteq> []
         then ''no ready node in the GPU pool yet ('' @ selector @ ''): '' @ describeStarting nodes
         else ''no ready node yet: '' @ describeStarting nodes)"

definition declarationNote :: "fit_plan \<Rightarrow> string" where
  "declarationNote plan =
     (let r = pl_result plan; declared = humanBytes (fa_declared r); hub = humanBytes (fa_weights r)
      in if pl_preset plan = None \<or> fa_weights r \<le> fa_declared r then []
         else if fa_fits r
         then ''; the preset declares '' @ declared @ '' of weights, the Hub holds '' @ hub
         else ''; the preset declares '' @ declared @ '' of weights; the Hub holds '' @ hub @
           '', which is what does not fit '' @ em_dash @ '' correct the preset'')"

definition describeNeeds :: "predictor_needs \<Rightarrow> serving_preset option \<Rightarrow> string" where
  "describeNeeds n p =
     (case p of
        None \<Rightarrow> trimFloat (pn_gpuMemory n) @ '' GiB of GPU memory on '' @ show_int (pn_gpus n) @
          '' GPU (no preset: weights and default overhead only)''
      | Some _ \<Rightarrow> trimFloat (pn_vcpu n) @ '' vCPU / '' @ trimFloat (pn_memory n) @ '' GiB requested, '' @
          show_int (pn_gpus n) @ '' GPU, '' @ trimFloat (pn_gpuMemory n) @ '' GiB of GPU memory'')"

definition presetOrModel :: "fit_plan \<Rightarrow> string" where
  "presetOrModel plan = (case pl_preset plan of Some p \<Rightarrow> ''preset '' @ sp_name p | None \<Rightarrow> pl_repo plan)"

definition sizeNames :: "instance_shape list \<Rightarrow> string" where
  "sizeNames shapes = join '', '' (map sizeName shapes)"

section \<open>The verdict\<close>

definition budgetSourcePoolScaleFromZero :: string where
  "budgetSourcePoolScaleFromZero = ''pool-scale-from-zero''"

text \<open>The answer without anything of a node.\<close>

definition off_node :: "fit_answer \<Rightarrow> fit_answer" where
  "off_node r = r\<lparr>fa_node := [], fa_instance := [], fa_reserved := 0, fa_free := 0, fa_unified := 0,
     fa_headroom := 0, fa_fitUtilization := Fin 0, fa_cpu := 0, fa_memory := 0, fa_devices := 0,
     fa_tensorParallel := 0, fa_utilization := Fin 0, fa_budgetSource := budgetSourcePoolScaleFromZero\<rparr>"

definition on_size :: "fit_plan \<Rightarrow> predictor_needs \<Rightarrow> string \<Rightarrow> instance_shape \<Rightarrow> fit_answer \<Rightarrow> fit_answer" where
  "on_size plan needs place s r =
     (let budget = gibToBytes (gpuBudgetGiB s needs); need = weightsNeed r;
        r = r\<lparr>fa_fits := True, fa_instance := is_type s, fa_budget := budget, fa_free := budget\<rparr>
      in r\<lparr>fa_reason := place @ '' '' @ em_dash @ '' the node comes as '' @ sizeName s @ '' ('' @ is_type s @ '': '' @
           trimFloat (is_usableVCPU s) @ '' vCPU / '' @ trimFloat (is_usableMemory s) @ '' GiB for the predictor, '' @
           show_int (is_gpus s) @ '' '' @ times_sign @ '' '' @ show_int (is_gpuMemory s) @ '' GiB GPU); '' @
           need @ '' fit within '' @ humanBytes budget @ '' on the '' @ show_int (requestedGPUs needs) @
           '' GPU the predictor requests, and '' @ sizeName s @ '' hosts '' @ describeNeeds needs (pl_preset plan) @
           declarationNote (plan\<lparr>pl_result := r\<rparr>)\<rparr>)"

definition on_no_size :: "fit_plan \<Rightarrow> predictor_needs \<Rightarrow> string \<Rightarrow> instance_shape list \<Rightarrow> fit_answer \<Rightarrow> fit_answer" where
  "on_no_size plan needs place shapes r =
     (let s = last shapes; budget = gibToBytes (gpuBudgetGiB s needs); need = weightsNeed r;
        r = r\<lparr>fa_fits := False, fa_budget := budget\<rparr>
      in r\<lparr>fa_reason := place @ '' '' @ em_dash @ '' no size of the pool ('' @ sizeNames shapes @ '') hosts '' @
           presetOrModel plan @ '': '' @ describeNeeds needs (pl_preset plan) @ ''; '' @ sizeName s @
           '', the largest, leaves a predictor '' @ trimFloat (is_usableVCPU s) @ '' vCPU / '' @
           trimFloat (is_usableMemory s) @ '' GiB after the node's kubelet reservations and daemonsets and carries '' @
           show_int (is_gpus s) @ '' '' @ times_sign @ '' '' @ show_int (is_gpuMemory s) @ '' GiB GPU, '' @
           humanBytes budget @ '' on the '' @ show_int (requestedGPUs needs) @ '' GPU the predictor requests ('' @
           need @ '' needed); widen the pool's sizes or pick a smaller preset'' @
           declarationNote (plan\<lparr>pl_result := r\<rparr>)\<rparr>)"

definition judge_size :: "predictor_needs \<Rightarrow> instance_shape \<Rightarrow> fit_answer \<Rightarrow> fit_answer" where
  "judge_size needs s r =
     applyCompute (compute_judgeShape (pn_compute needs) s) (applyKV (judge_kv (pn_kv needs) (shapeGPUMemory s) []) r)"

definition placeOnPool :: "quantities \<Rightarrow> fit_plan \<Rightarrow> gpu_pool \<Rightarrow> node_budget list \<Rightarrow> fit_answer res" where
  "placeOnPool qs plan pool nodes =
     (let r = off_node (pl_result plan); plan = plan\<lparr>pl_result := r\<rparr>;
        place = poolWhere pool nodes (plannedGPUs plan); shapes = sortedShapes (gp_instances pool)
      in if gp_instances pool = []
         then Inr (r\<lparr>fa_fits := True, fa_reason := place @ '' '' @ em_dash @
                '' the predictor waits for its node; the fit of '' @ weightsNeed r @
                '' against the pool's accelerator is unverified''\<rparr>)
         else case needsOf qs plan of
                Inl e \<Rightarrow> Inl e
              | Inr needs \<Rightarrow>
                  (case find (\<lambda>s. hosts s needs) shapes of
                     Some s \<Rightarrow> Inr (judge_size needs s (on_size plan needs place s r))
                   | None \<Rightarrow> Inr (judge_size needs (last shapes) (on_no_size plan needs place shapes r))))"

section \<open>The pool that launches\<close>

definition anyTakes :: "node_budget list \<Rightarrow> int \<Rightarrow> bool" where
  "anyTakes nodes k \<longleftrightarrow> list_ex (\<lambda>n. takes n k) nodes"

definition takenIn :: "node_budget list \<Rightarrow> int \<Rightarrow> string \<Rightarrow> bool" where
  "takenIn nodes k name \<longleftrightarrow> anyTakes (inPool nodes [(labelMachinePool, name)]) k"

text \<open>Pools in name order: the one whose smallest hosting size is the smallest.\<close>

fun best_pool ::
  "node_budget list \<Rightarrow> int \<Rightarrow> predictor_needs \<Rightarrow> (string \<times> gpu_pool) list \<Rightarrow>
   (string \<times> instance_shape) option \<Rightarrow> (string \<times> instance_shape) option" where
  "best_pool nodes k needs [] best = best"
| "best_pool nodes k needs ((name, pool) # ps) best =
     (if takenIn nodes k name then best_pool nodes k needs ps best
      else case find (\<lambda>s. hosts s needs) (sortedShapes (gp_instances pool)) of
             None \<Rightarrow> best_pool nodes k needs ps best
           | Some s \<Rightarrow>
               (case best of
                  None \<Rightarrow> best_pool nodes k needs ps (Some (name, s))
                | Some (_, b) \<Rightarrow> best_pool nodes k needs ps (if smallerShape s b then Some (name, s) else best)))"

fun closestPool :: "node_budget list \<Rightarrow> int \<Rightarrow> (string \<times> gpu_pool) list \<Rightarrow> string \<Rightarrow> int \<Rightarrow> string" where
  "closestPool nodes k [] best memory = best"
| "closestPool nodes k ((name, pool) # ps) best memory =
     (if gp_instances pool = [] \<or> takenIn nodes k name then closestPool nodes k ps best memory
      else let s = last (sortedShapes (gp_instances pool)); m = mul64 (is_gpus s) (is_gpuMemory s)
           in if best = [] \<or> m > memory then closestPool nodes k ps name m
              else closestPool nodes k ps best memory)"

text \<open>The pool's name (empty for the pinning one) and the pool, when one qualifies.\<close>

definition launchingPool ::
  "quantities \<Rightarrow> fit_plan \<Rightarrow> settings \<Rightarrow> node_budget list \<Rightarrow> string \<Rightarrow> (string \<times> gpu_pool) option res" where
  "launchingPool qs plan s nodes explicit =
     (let k = plannedGPUs plan; pools = sort_key fst (s_pools s)
      in if explicit \<noteq> [] then Inr None
         else if gp_selector (s_pool s) \<noteq> []
         then Inr (if gp_instances (s_pool s) \<noteq> [] \<and> \<not> anyTakes (inPool nodes (gp_selector (s_pool s))) k
                   then Some ([], s_pool s) else None)
         else if s_pools s = [] then Inr None
         else case needsOf qs plan of
                Inl e \<Rightarrow> Inl e
              | Inr needs \<Rightarrow>
                  let name = (case best_pool nodes k needs pools None of
                                Some (n, _) \<Rightarrow> Some n
                              | None \<Rightarrow> let c = closestPool nodes k pools [] 0 in if c = [] then None else Some c)
                  in Inr (Option.bind name (\<lambda>n.
                       map_option (\<lambda>p. (n, p\<lparr>gp_selector := [(labelMachinePool, n)],
                         gp_taint := gp_taint (s_pool s)\<rparr>)) (map_of pools n))))"

end
