(* ===== verification/Fit.thy ===== *)
theory Fit
  imports PoolFit
begin

text \<open>
  The fit check (\<open>internal/backend/kserve/fit.go\<close>): what the running models reserve, the
  nodes a model may go to, the verdict on a node and the choice among them, the pools behind
  them, and the whole check. The API server, the cache and the Hub answer through \<open>fit_env\<close>; a
  check that never returns is \<^const>\<open>None\<close>.
\<close>

section \<open>What is served\<close>

record served =
  sd_name :: string
  sd_namespace :: string
  sd_model :: string
  sd_preset :: string
  sd_managed :: bool
  sd_presetLabelled :: bool
  sd_storageURI :: string
  sd_gpus :: int
  sd_utilization :: gofloat
  sd_node :: string
  sd_placement :: string
  sd_nodes :: "string list"
  sd_deleting :: bool

definition placementCopies :: string where "placementCopies = ''copies''"
definition placementSplit :: string where "placementSplit = ''split''"

definition onNodes :: "served \<Rightarrow> string list" where
  "onNodes sv = (if sd_nodes sv \<noteq> [] then sd_nodes sv else if sd_node sv \<noteq> [] then [sd_node sv] else [])"

text \<open>Amounts per node, as the code sums them into a map.\<close>

definition amount :: "(string \<times> int) list \<Rightarrow> string \<Rightarrow> int" where
  "amount m k = (case map_of m k of Some v \<Rightarrow> v | None \<Rightarrow> 0)"

definition add_amount :: "string \<Rightarrow> int \<Rightarrow> (string \<times> int) list \<Rightarrow> (string \<times> int) list" where
  "add_amount k v m = AList.update k (add64 (amount m k) v) m"

definition add_amounts :: "(string \<Rightarrow> int) \<Rightarrow> string list \<Rightarrow> (string \<times> int) list \<Rightarrow> (string \<times> int) list" where
  "add_amounts f ks m = foldl (\<lambda>m k. add_amount k (f k) m) m ks"

record reservation =
  rs_reserved :: "(string \<times> int) list"
  rs_own :: "(string \<times> int) list"
  rs_taken :: "(string \<times> int) list"

definition zero_node :: node_budget where
  "zero_node = \<lparr>nb_name = [], nb_ready = False, nb_arch = [], nb_labels = Map.empty, nb_taints = [],
     nb_allocatable = 0, nb_cpu = 0, nb_capacity = 0, nb_gpuCount = 0, nb_gpuAllocatable = 0,
     nb_gpuMemory = 0, nb_gpuProduct = [], nb_gpusTaken = 0, nb_budget = 0, nb_source = [],
     nb_message = [], nb_eligible = False, nb_reason = [], nb_imageEligible = False,
     nb_created = None, nb_starting = False, nb_images = []\<rparr>"

definition node_named :: "node_budget list \<Rightarrow> string \<Rightarrow> node_budget" where
  "node_named nodes k = (case find (\<lambda>n. nb_name n = k) (rev nodes) of Some n \<Rightarrow> n | None \<Rightarrow> zero_node)"

definition served_parts :: "served \<Rightarrow> int" where
  "served_parts sv = (if sd_placement sv = placementSplit then int (length (onNodes sv)) else 1)"

definition served_preset :: "preset_index \<Rightarrow> served \<Rightarrow> serving_preset option" where
  "served_preset idx sv =
     (case byName idx (sd_preset sv) of
        Some p \<Rightarrow> Some p
      | None \<Rightarrow> (case forModel idx (sd_model sv) of [p] \<Rightarrow> Some p | _ \<Rightarrow> None))"

definition share_of :: "gofloat \<Rightarrow> node_budget list \<Rightarrow> served \<Rightarrow> serving_preset \<Rightarrow> string \<Rightarrow> int" where
  "share_of overhead nodes sv p n =
     presetShare p (node_named nodes n) overhead (served_parts sv) (sd_utilization sv)"

definition reserve_served ::
  "gofloat \<Rightarrow> preset_index \<Rightarrow> serving_preset option \<Rightarrow> node_budget list \<Rightarrow> served \<Rightarrow> reservation \<Rightarrow> reservation" where
  "reserve_served overhead idx loading nodes sv r =
     (let on = onNodes sv; share = share_of overhead nodes sv
      in if on = [] \<or> sd_deleting sv then r
         else if map_option sp_name loading = Some (sd_name sv)
         then r\<lparr>rs_own := add_amounts (share (the loading)) on (rs_own r)\<rparr>
         else let r = r\<lparr>rs_taken := add_amounts (\<lambda>_. sd_gpus sv) on (rs_taken r)\<rparr>
              in case served_preset idx sv of
                   None \<Rightarrow> r
                 | Some p \<Rightarrow> r\<lparr>rs_reserved := add_amounts (share p) on (rs_reserved r)\<rparr>)"

text \<open>\<open>reservedByNode\<close> of what is served; nothing when the list failed.\<close>

definition reservedByNode ::
  "gofloat \<Rightarrow> preset_index \<Rightarrow> serving_preset option \<Rightarrow> node_budget list \<Rightarrow> served list option \<Rightarrow> reservation" where
  "reservedByNode overhead idx loading nodes servedList =
     foldl (\<lambda>r sv. reserve_served overhead idx loading nodes sv r)
       \<lparr>rs_reserved = [], rs_own = [], rs_taken = []\<rparr> (case servedList of Some l \<Rightarrow> l | None \<Rightarrow> [])"

definition withTaken :: "node_budget list \<Rightarrow> (string \<times> int) list \<Rightarrow> node_budget list" where
  "withTaken nodes taken = map (\<lambda>n. n\<lparr>nb_gpusTaken := amount taken (nb_name n)\<rparr>) nodes"

section \<open>The cache's say\<close>

text \<open>A scan of the cache: per directory its files and the model its marker names.\<close>

record cache_entry =
  ce_dir :: string
  ce_files :: int
  ce_marker :: "string option"

record cache_snapshot =
  cs_entries :: "cache_entry list"
  cs_pending :: bool

record index_entry =
  ix_model :: string
  ix_revision :: string
  ix_dir :: string
  ix_preset :: string
  ix_claim :: string
  ix_volume :: string

definition boundTo :: "index_entry \<Rightarrow> cache_location \<Rightarrow> bool" where
  "boundTo e l \<longleftrightarrow> ix_claim e \<noteq> [] \<and> ix_claim e = cl_claim l \<and> ix_volume e = cl_volume l"

definition CacheSourceScan :: string where "CacheSourceScan = ''scan''"
definition CacheSourceIndex :: string where "CacheSourceIndex = ''index''"
definition CacheSourceUnknown :: string where "CacheSourceUnknown = ''unknown''"
definition CacheSourceOCIImage :: string where "CacheSourceOCIImage = ''oci-image''"

definition entry_holds :: "string \<Rightarrow> string \<Rightarrow> cache_entry \<Rightarrow> bool" where
  "entry_holds dir repo e \<longleftrightarrow>
     ce_files e > 0 \<and> (ce_dir e = dir \<or> (case ce_marker e of Some m \<Rightarrow> equal_fold m repo | None \<Rightarrow> False))"

definition isCached ::
  "(string \<Rightarrow> cache_snapshot) \<Rightarrow> (string \<rightharpoonup> index_entry) \<Rightarrow> string \<Rightarrow> string \<Rightarrow> string \<Rightarrow> cache_location \<Rightarrow> bool \<times> string" where
  "isCached snapshot index node dir repo l =
     (if cl_missing l \<or> \<not> cl_bound l \<and> cl_nodes l = [] then (False, CacheSourceUnknown)
      else if node \<noteq> [] \<and> \<not> hasCacheOn l node then (False, CacheSourceScan)
      else let scan = (if cl_shared l then [] else if node = [] \<and> cl_nodes l \<noteq> [] then hd (cl_nodes l) else node);
             snap = snapshot scan
           in if list_ex (entry_holds dir repo) (cs_entries snap) then (True, CacheSourceScan)
              else if cs_pending snap \<and> cs_entries snap = []
              then (case index dir of
                      Some e \<Rightarrow> if equal_fold (ix_model e) repo \<and> boundTo e l then (True, CacheSourceIndex)
                                else (False, CacheSourceUnknown)
                    | None \<Rightarrow> (False, CacheSourceUnknown))
              else (False, CacheSourceScan))"

section \<open>What a check reads\<close>

text \<open>The settings and the nodes the API server lists, together: \<open>recheckDiscovery\<close> may bring a
  newer view. \<open>fe_refName\<close> is the registry library's reading of an image reference.\<close>

record cluster_view =
  cw_settings :: settings
  cw_nodes :: "err + kube_node list"

record fit_env =
  fe_sizing :: sizing_env
  fe_headroom :: gofloat
  fe_source :: string
  fe_discovery :: "string \<times> string"
  fe_now :: int
  fe_quantities :: quantities
  fe_refName :: "string \<Rightarrow> string option"
  fe_presets :: "serving_preset list res"
  fe_token :: bool
  fe_cache :: "cache_location res"
  fe_view :: cluster_view
  fe_recheck :: "cluster_view option"
  fe_served :: "served list option"
  fe_pods :: "string \<Rightarrow> string + kube_pod list"
  fe_snapshot :: "string \<Rightarrow> cache_snapshot"
  fe_index :: "string \<rightharpoonup> index_entry"
  fe_order :: "string list"
  fe_decodeKV :: "string \<Rightarrow> string + kv_quant option hf_config"
  fe_decodeCompute :: "string \<Rightarrow> string + compute_config"
  fe_decodeParams :: "string \<Rightarrow> string + params_config"

abbreviation fe_overhead :: "fit_env \<Rightarrow> gofloat" where
  "fe_overhead env \<equiv> se_overhead (fe_sizing env)"

definition nodes_of :: "fit_env \<Rightarrow> cluster_view \<Rightarrow> cache_location \<Rightarrow> serving_preset option \<Rightarrow> node_budget list res" where
  "nodes_of env cw l p =
     (case cw_nodes cw of
        Inl e \<Rightarrow> Inl (wrap_err ''list nodes: '' e [])
      | Inr ks \<Rightarrow> Inr (list_nodes ks (cw_settings cw) (fe_source env) (fe_now env) l p))"

definition cacheVerdict :: "fit_env \<Rightarrow> string \<Rightarrow> fit_plan \<Rightarrow> cache_location \<Rightarrow> bool \<times> string" where
  "cacheVerdict env node plan l =
     (if \<not> storesInCache (pl_preset plan) then (False, CacheSourceOCIImage)
      else isCached (fe_snapshot env) (fe_index env) node (pl_dir plan) (pl_repo plan) l)"

section \<open>The nodes a model may go to\<close>

definition presetSelector :: "serving_preset option \<Rightarrow> (string \<times> string) list" where
  "presetSelector p = (case p of Some q \<Rightarrow> sp_nodeSelector q | None \<Rightarrow> [])"

definition candidateNodes ::
  "settings \<Rightarrow> node_budget list \<Rightarrow> string \<Rightarrow> cache_location \<Rightarrow> serving_preset option \<Rightarrow> node_budget list \<times> string" where
  "candidateNodes s nodes explicit l p =
     (let eligible = filter (\<lambda>n. nb_eligible n \<and> matchesSelector (nb_labels n) (presetSelector p)) nodes;
        onCache = filter (\<lambda>n. List.member (cl_nodes l) (nb_name n)) eligible
      in if explicit \<noteq> [] then
           (case find (\<lambda>n. nb_name n = explicit) nodes of
              Some n \<Rightarrow>
                if nb_eligible n then ([n], [])
                else ([], ''node '' @ nb_name n @ '' is not a serving target: '' @ nb_reason n)
            | None \<Rightarrow>
                ([], ''node '' @ quoted explicit @
                   (if cpu p then '' not found''
                    else '' not found: it does not exist or is not an accelerator node (no '' @ s_gpuResource s @
                      '' resource, no '' @ labelGPUPresent @ '' label)'')))
         else if eligible = [] then
           ([], if nodes = [] then
                  (if cpu p then ''no node: the cluster reports none''
                   else ''no accelerator node: no node advertises '' @ s_gpuResource s @ '' or carries the '' @
                     labelGPUPresent @ '' label'')
                else ''no eligible node: '' @ join ''; '' (map (\<lambda>n. nb_name n @ '': '' @
                  (if nb_reason n = []
                   then ''outside the preset's node selector ('' @ formatSelector (presetSelector p) @ '')''
                   else nb_reason n)) nodes))
         else if cl_nodes l \<noteq> [] \<and> onCache \<noteq> [] then (onCache, [])
         else (eligible, []))"

section \<open>The verdict on a node\<close>

definition gpus_free :: "fit_plan \<Rightarrow> node_budget \<Rightarrow> fit_answer \<Rightarrow> fit_answer" where
  "gpus_free plan n r =
     (let free = freeGPUs n; k = plannedGPUs plan; r = r\<lparr>fa_freeGPUs := Some free\<rparr>
      in if free < k
         then r\<lparr>fa_fits := False, fa_reason := ''node '' @ nb_name n @ '' has '' @ plural free ''GPU'' @
                '' free of its '' @ plural (gpuDevices n) ''GPU'' @ '' ('' @ plural (nb_gpusTaken n) ''GPU'' @
                '' taken by running models), the predictor requests '' @ show_int k @ ''; '' @ fa_reason r\<rparr>
         else r)"

definition on_budget :: "bool \<Rightarrow> node_budget \<Rightarrow> int \<Rightarrow> fit_answer \<Rightarrow> fit_answer" where
  "on_budget forServe n reserved r =
     (let limit = (if forServe then fa_free r else fa_budget r); fits = (fa_required r \<le> limit)
      in r\<lparr>fa_fits := fits, fa_reason :=
           (if fits
            then weightsNeed r @ '' fit within '' @ humanBytes limit @ '' on '' @ nb_name n @ '' ('' @ nb_source n @
              reservedNote reserved @ '')''
            else weightsNeed r @ '' exceed the '' @ humanBytes limit @ '' available on '' @ nb_name n @ '' ('' @
              nb_source n @ '' budget '' @ humanBytes (nb_budget n) @ reservedNote reserved @ '')'')\<rparr>)"

definition judgeNode ::
  "fit_env \<Rightarrow> cluster_view \<Rightarrow> fit_plan \<Rightarrow> bool \<Rightarrow> node_budget \<Rightarrow> int \<Rightarrow> fit_answer option" where
  "judgeNode env cw plan forServe n reserved =
     (let p = pl_preset plan;
        r = (pl_result plan)\<lparr>fa_node := nb_name n, fa_budget := nb_budget n, fa_budgetSource := nb_source n,
              fa_reserved := reserved, fa_free := max (sub64 (nb_budget n) reserved) 0\<rparr>
      in if nb_budget n \<le> 0
         then Some (r\<lparr>fa_fits := False, fa_reason := ''node '' @ nb_name n @ '' reports no memory budget ('' @
                nb_source n @ '')''\<rparr>)
         else map_option (\<lambda>(sh, uv).
           let r = applyUnified uv (on_budget forServe n reserved r);
             r = applyShape (fe_quantities env) p sh n
                   (roomOn (fe_pods env (nb_name n)) (s_namespace (cw_settings cw)) n p) r;
             r = applyKV (judgeOn (shaped sh (pl_kv plan)) n) r;
             r = applyCompute (compute_judgeNode (pl_compute plan) n) r
           in if forServe \<and> discreteGPUs n \<and> \<not> cpu p then gpus_free plan n r else r)
         (shapeOn (fe_headroom env) p n (if forServe then reserved else 0)
            (add64 (residentBytes p (fa_weights r)) (fa_overhead r)) 1))"

text \<open>A candidate, its verdict and its free budget; the choice among them.\<close>

fun choose_loop ::
  "node_budget \<times> fit_answer \<times> int \<Rightarrow> (node_budget \<times> fit_answer \<times> int) option \<Rightarrow>
   (node_budget \<times> fit_answer \<times> int) list \<Rightarrow> node_budget \<times> fit_answer \<times> int" where
  "choose_loop most fit [] = (case fit of Some c \<Rightarrow> c | None \<Rightarrow> most)"
| "choose_loop most fit ((n, v, free) # cs) =
     choose_loop (if free > snd (snd most) then (n, v, free) else most)
       (if \<not> fa_fits v then fit
        else case fit of
               None \<Rightarrow> Some (n, v, free)
             | Some (m, w, f) \<Rightarrow>
                 if nb_budget n < nb_budget m \<or> nb_budget n = nb_budget m \<and> free > f
                 then Some (n, v, free) else fit)
       cs"

definition judged_candidates ::
  "fit_env \<Rightarrow> cluster_view \<Rightarrow> fit_plan \<Rightarrow> bool \<Rightarrow> (string \<times> int) list \<Rightarrow> node_budget list \<Rightarrow>
   (node_budget \<times> fit_answer \<times> int) list option" where
  "judged_candidates env cw plan forServe reserved candidates =
     those (map (\<lambda>n. map_option (\<lambda>v. (n, v, sub64 (nb_budget n) (amount reserved (nb_name n))))
       (judgeNode env cw plan forServe n (amount reserved (nb_name n)))) candidates)"

definition chooseNode ::
  "fit_env \<Rightarrow> cluster_view \<Rightarrow> fit_plan \<Rightarrow> bool \<Rightarrow> (string \<times> int) list \<Rightarrow> node_budget list \<Rightarrow>
   (node_budget \<times> fit_answer) option" where
  "chooseNode env cw plan forServe reserved candidates =
     map_option (\<lambda>cs. let (n, v, _) = choose_loop (hd cs) None cs in (n, v))
       (judged_candidates env cw plan forServe reserved candidates)"

section \<open>Placing the model\<close>

definition with_cache :: "bool \<times> string \<Rightarrow> fit_plan \<Rightarrow> fit_plan" where
  "with_cache c plan = plan\<lparr>pl_result := (pl_result plan)\<lparr>fa_cached := fst c, fa_cacheSource := snd c\<rparr>\<rparr>"

definition in_pool :: "string \<Rightarrow> fit_plan \<Rightarrow> fit_plan" where
  "in_pool name plan = plan\<lparr>pl_result := (pl_result plan)\<lparr>fa_pool := name\<rparr>\<rparr>"

definition answered :: "fit_plan \<Rightarrow> fit_answer res \<Rightarrow> fit_plan res" where
  "answered plan r = (case r of Inl e \<Rightarrow> Inl e | Inr a \<Rightarrow> Inr (plan\<lparr>pl_result := a\<rparr>))"

text \<open>No candidate: the pool no node belongs to, a pool that launches, a node that starts, or why.\<close>

definition place_arriving :: "fit_env \<Rightarrow> settings \<Rightarrow> fit_plan \<Rightarrow> cache_location \<Rightarrow> node_budget list \<Rightarrow> fit_plan res" where
  "place_arriving env s plan l arriving =
     (let name = get_label (nb_labels (hd arriving)) labelMachinePool;
        known = (if gp_selector (s_pool s) = [] \<and> name \<noteq> [] then map_of (s_pools s) name else None);
        (pool, plan, arriving) =
          (case known of
             None \<Rightarrow> (s_pool s, plan, arriving)
           | Some k \<Rightarrow>
               let sel = [(labelMachinePool, name)]
               in (k\<lparr>gp_selector := sel, gp_taint := gp_taint (s_pool s)\<rparr>, in_pool name plan, startingIn arriving sel));
        plan = with_cache (cacheVerdict env [] plan l) plan
      in answered plan (placeOnPool (fe_quantities env) plan pool arriving))"

definition place_refused :: "fit_env \<Rightarrow> settings \<Rightarrow> fit_plan \<Rightarrow> node_budget list \<Rightarrow> string \<Rightarrow> string \<Rightarrow> fit_plan" where
  "place_refused env s plan nodes explicit why =
     (let missing = discoveryMissing (fe_discovery env) s; r = (pl_result plan)\<lparr>fa_fits := False, fa_reason := why\<rparr>
      in plan\<lparr>pl_result :=
           (if explicit = [] \<and> missing \<noteq> []
            then r\<lparr>fa_reason := missing @ (if nodes \<noteq> [] then ''; '' @ why else []), fa_retryable := True\<rparr>
            else r)\<rparr>)"

definition place_off_nodes ::
  "fit_env \<Rightarrow> settings \<Rightarrow> fit_plan \<Rightarrow> node_budget list \<Rightarrow> string \<Rightarrow> cache_location \<Rightarrow> string \<Rightarrow> fit_plan res" where
  "place_off_nodes env s plan nodes explicit l why =
     (let pool = s_pool s; cached = with_cache (cacheVerdict env [] plan l) plan;
        arriving = startingIn nodes (presetSelector (pl_preset plan))
      in if explicit = [] \<and> gp_selector pool \<noteq> [] \<and> \<not> anyNodeMatches nodes (gp_selector pool)
         then answered cached (placeOnPool (fe_quantities env) cached pool [])
         else case launchingPool (fe_quantities env) plan s nodes explicit of
                Inl e \<Rightarrow> Inl e
              | Inr (Some (name, launching)) \<Rightarrow>
                  let plan = in_pool name cached
                  in answered plan (placeOnPool (fe_quantities env) plan launching (inPool nodes (gp_selector launching)))
              | Inr None \<Rightarrow>
                  if explicit = [] \<and> arriving \<noteq> [] then place_arriving env s plan l arriving
                  else Inr (place_refused env s plan nodes explicit why))"

text \<open>The chosen node's verdict; a pool none of whose nodes takes the predictor when it refuses.\<close>

definition place_on_node ::
  "fit_env \<Rightarrow> settings \<Rightarrow> fit_plan \<Rightarrow> node_budget list \<Rightarrow> string \<Rightarrow> cache_location \<Rightarrow> node_budget \<Rightarrow> fit_plan res" where
  "place_on_node env s plan nodes explicit l best =
     (if nb_budget best \<le> 0 then Inr plan
      else let r = pl_result plan;
             r = (if fa_gated r \<and> \<not> fa_token r
                  then add_note ''the repository is gated and no hub token is configured'' r else r);
             plan = with_cache (cacheVerdict env (nb_name best) plan l) (plan\<lparr>pl_result := r\<rparr>);
             plan = (if gp_selector (s_pool s) = [] \<and> s_pools s \<noteq> []
                     then in_pool (get_label (nb_labels best) labelMachinePool) plan else plan)
           in if fa_fits (pl_result plan) then Inr plan
              else case launchingPool (fe_quantities env) plan s nodes explicit of
                     Inl e \<Rightarrow> Inl e
                   | Inr None \<Rightarrow> Inr plan
                   | Inr (Some (name, pool)) \<Rightarrow>
                       let r = pl_result plan; plan = in_pool name (with_cache (cacheVerdict env [] plan l) plan)
                       in case placeOnPool (fe_quantities env) plan pool (inPool nodes (gp_selector pool)) of
                            Inl e \<Rightarrow> Inl e
                          | Inr a \<Rightarrow> Inr (plan\<lparr>pl_result := add_note (''the ready node '' @ fa_node r @
                              '' does not host it ('' @ fa_reason r @ '')'') a\<rparr>))"

definition placed_in ::
  "fit_env \<Rightarrow> cluster_view \<Rightarrow> fit_plan \<Rightarrow> reservation \<Rightarrow> node_budget list \<Rightarrow> string \<Rightarrow> bool \<Rightarrow> fit_plan res option" where
  "placed_in env cw plan rs nodes explicit forServe =
     (let s = forPreset (cw_settings cw) (pl_preset plan); l = pl_cache plan;
        plan = plan\<lparr>pl_nodes := nodes\<rparr>;
        (candidates, why) = candidateNodes (cw_settings cw) nodes explicit l (pl_preset plan)
      in if candidates = [] then Some (place_off_nodes env s plan nodes explicit l why)
         else map_option (\<lambda>(best, v). place_on_node env s (plan\<lparr>pl_result := v\<rparr>) nodes explicit l best)
                (chooseNode env cw plan forServe (rs_reserved rs) candidates))"

definition cache_of :: "fit_env \<Rightarrow> serving_preset option \<Rightarrow> cache_location res" where
  "cache_of env p = (if storesInCache p then fe_cache env else Inr no_cache)"

definition placeModel :: "fit_env \<Rightarrow> fit_plan \<Rightarrow> preset_index \<Rightarrow> string \<Rightarrow> bool \<Rightarrow> fit_plan res option" where
  "placeModel env plan idx explicit forServe =
     (let p = pl_preset plan; serve = (\<lambda>rs nodes. if forServe then withTaken nodes (rs_taken rs) else nodes)
      in case cache_of env p of
           Inl e \<Rightarrow> Some (Inl e)
         | Inr l \<Rightarrow>
             (case nodes_of env (fe_view env) l p of
                Inl e \<Rightarrow> Some (Inl e)
              | Inr listed \<Rightarrow>
                  let rs = reservedByNode (fe_overhead env) idx p listed (fe_served env);
                    nodes = serve rs listed;
                    plan = plan\<lparr>pl_cacheLocal := cl_nodes l \<noteq> [], pl_cache := l, pl_own := rs_own rs\<rparr>;
                    none = fst (candidateNodes (cw_settings (fe_view env)) nodes explicit l p) = []
                  in case (if none then fe_recheck env else None) of
                       None \<Rightarrow> placed_in env (fe_view env) plan rs nodes explicit forServe
                     | Some cw \<Rightarrow>
                         (case nodes_of env cw l p of
                            Inl e \<Rightarrow> Some (Inl e)
                          | Inr again \<Rightarrow> placed_in env cw plan rs (serve rs again) explicit forServe)))"

section \<open>The check\<close>

definition imageOnNode :: "(string \<Rightarrow> string option) \<Rightarrow> string \<Rightarrow> string list \<Rightarrow> bool" where
  "imageOnNode refName uri images =
     (let want = trim_prefix ''oci://'' uri
      in list_ex (\<lambda>img. img = want \<or> (case (refName want, refName img) of
           (Some a, Some b) \<Rightarrow> a = b | _ \<Rightarrow> False)) images)"

definition joinNotes :: "string list \<Rightarrow> string" where
  "joinNotes notes = join ''; '' (filter (\<lambda>n. n \<noteq> []) notes)"

definition image_note :: "fit_env \<Rightarrow> fit_plan \<Rightarrow> fit_answer \<times> string" where
  "image_note env plan =
     (let r = pl_result plan
      in case pl_preset plan of
           None \<Rightarrow> (r, [])
         | Some p \<Rightarrow>
             if storesInCache (Some p) then (r, [])
             else let on = map nb_name (filter (\<lambda>n. imageOnNode (fe_refName env) (sp_storageURI p) (nb_images n)) (pl_nodes plan));
                    r = r\<lparr>fa_prePulled := on\<rparr>; named = join '', '' on
                  in if fa_node r \<noteq> [] \<and> List.member on (fa_node r)
                     then (r\<lparr>fa_download := 0\<rparr>, ''served from the model image, pre-pulled on '' @ named)
                     else if on \<noteq> []
                     then (r, ''the model image is pre-pulled on '' @ named @ '', not on the node it goes to'')
                     else (r, []))"

definition placementNote :: "fit_env \<Rightarrow> fit_plan \<Rightarrow> fit_plan \<times> string" where
  "placementNote env plan =
     (let (r, image) = image_note env plan; serving = sort (map fst (pl_own plan));
        name = (case pl_preset plan of Some p \<Rightarrow> sp_name p | None \<Rightarrow> [])
      in (plan\<lparr>pl_result := r\<lparr>fa_serving := serving\<rparr>\<rparr>,
          joinNotes (image # map (\<lambda>n. name @ '' already serves on '' @ n @ '', holding '' @
            humanBytes (amount (pl_own plan) n) @
            '' there (left out of this answer: serving it again is a no-op)'') serving)))"

definition noted_plan :: "fit_env \<Rightarrow> string \<Rightarrow> fit_plan \<Rightarrow> fit_plan" where
  "noted_plan env sizing plan =
     (let (plan, placed) = placementNote env plan; notes = joinNotes [sizing, placed]
      in if notes = [] then plan else plan\<lparr>pl_result := add_note notes (pl_result plan)\<rparr>)"

definition new_plan :: "serving_preset option \<Rightarrow> string \<Rightarrow> string \<Rightarrow> fit_answer \<Rightarrow> fit_plan" where
  "new_plan p repo rv r =
     \<lparr>pl_result = r, pl_preset = p, pl_repo = repo, pl_revision = rv, pl_hub = False, pl_files = [],
      pl_dir = (case p of Some q \<Rightarrow> sp_name q | None \<Rightarrow> dnsLabel repo), pl_cacheLocal = False,
      pl_cache = no_cache, pl_kv = None, pl_compute = None, pl_config = None, pl_configSkip = [],
      pl_image = None, pl_nodes = [], pl_own = []\<rparr>"

definition resolveFit :: "fit_env \<Rightarrow> string \<Rightarrow> string \<Rightarrow> (fit_plan \<times> preset_index) res" where
  "resolveFit env reqModel reqPreset =
     (let model = trim_space reqModel; (repo, rv) = splitRevision model
      in if model = [] \<and> reqPreset = [] then Inl (errw ErrInvalid ''model or preset is required'')
         else case fe_presets env of
                Inl e \<Rightarrow> Inl e
              | Inr presets \<Rightarrow>
                  let idx = indexPresets presets
                  in case resolve_preset idx repo reqPreset of
                       Inl e \<Rightarrow> Inl e
                     | Inr p \<Rightarrow>
                         let repo = (case p of Some q \<Rightarrow> if repo = [] \<or> repo = sp_name q then sp_model q else repo
                                             | None \<Rightarrow> repo)
                         in if \<not> isRepoID repo
                            then Inl (errw ErrInvalid (quoted model @
                                   '' is neither a Hugging Face repository (owner/name) nor a preset name''))
                            else Inr (new_plan p repo rv (no_answer\<lparr>fa_model := repo, fa_token := fe_token env,
                                        fa_presets := map sp_name (forModel idx repo),
                                        fa_preset := (case p of Some q \<Rightarrow> sp_name q | None \<Rightarrow> [])\<rparr>), idx))"

text \<open>The plan sized, its KV cache layout and the GPU generation read; the sizing's note.\<close>

definition with_checks :: "fit_env \<Rightarrow> fit_plan \<Rightarrow> fit_plan res" where
  "with_checks env plan =
     (let p = pl_preset plan; plan = (if cpu p then plan else checkpointConfig (fe_sizing env) plan)
      in case kvCheckFor (fe_decodeKV env) (fe_order env) p (fa_weights (pl_result plan)) (config_answer plan) of
           Inl e \<Rightarrow> Inl e
         | Inr kv \<Rightarrow>
             Inr (plan\<lparr>pl_kv := Some kv, pl_compute := Some (computeNeedFor (fe_decodeCompute env)
               (fe_decodeParams env) p (config_answer plan) (checkpointParams (fe_sizing env) plan))\<rparr>))"

definition sized_plan :: "fit_env \<Rightarrow> fit_plan \<Rightarrow> (fit_plan \<times> string) res" where
  "sized_plan env plan =
     (case sizeModel (fe_sizing env) plan of
        Inl e \<Rightarrow> Inl e
      | Inr (plan, noted) \<Rightarrow> (case with_checks env plan of Inl e \<Rightarrow> Inl e | Inr plan \<Rightarrow> Inr (plan, noted)))"

definition judgeFit :: "fit_env \<Rightarrow> fit_plan \<Rightarrow> preset_index \<Rightarrow> string \<Rightarrow> bool \<Rightarrow> fit_plan res option" where
  "judgeFit env plan idx explicit forServe =
     (case sized_plan env plan of
        Inl e \<Rightarrow> Some (Inl e)
      | Inr (plan, noted) \<Rightarrow>
          map_option (map_sum id (noted_plan env noted)) (placeModel env plan idx explicit forServe))"

definition fitCheck :: "fit_env \<Rightarrow> string \<Rightarrow> string \<Rightarrow> string \<Rightarrow> fit_plan res option" where
  "fitCheck env reqModel reqPreset explicit =
     (case resolveFit env reqModel reqPreset of
        Inl e \<Rightarrow> Some (Inl e)
      | Inr (plan, idx) \<Rightarrow> judgeFit env plan idx explicit True)"

end
