(* ===== verification/Placement.thy ===== *)
theory Placement
  imports Fit
begin

text \<open>
  Placements (\<open>internal/backend/kserve/placement.go\<close>, \<open>copies.go\<close>): a model split across
  the nodes of a fast link, or served as copies. The judgement of one link (\<open>judgeSplit\<close>), the
  choice of the link, the verdicts of one copy per node, what is recommended, and what an object
  records of its placement.
\<close>

section \<open>Requests\<close>

fun named_twice :: "string list \<Rightarrow> string list \<Rightarrow> string option" where
  "named_twice seen [] = None"
| "named_twice seen (n # ns) = (if List.member seen n then Some n else named_twice (n # seen) ns)"

definition validatePlacement :: "string \<Rightarrow> string list \<Rightarrow> string res" where
  "validatePlacement placement nodes =
     (let p = (if trim_space placement = [] then placementCopies else trim_space placement)
      in if p \<noteq> placementCopies \<and> p \<noteq> placementSplit
         then Inl (errw ErrInvalid (''placement '' @ quoted placement @ '': want '' @ placementSplit @ '' or '' @ placementCopies))
         else case named_twice [] nodes of
                Some n \<Rightarrow> Inl (errw ErrInvalid (''node '' @ n @ '' is named twice''))
              | None \<Rightarrow>
                  if p = placementSplit \<and> length nodes = 1
                  then Inl (errw ErrInvalid ''a split needs two or more nodes'')
                  else Inr p)"

definition fastLinkOf :: "settings \<Rightarrow> string \<Rightarrow> fast_link option" where
  "fastLinkOf s node = find (\<lambda>l. has_node l node) (s_fastLinks s)"

definition splitLinks :: "settings \<Rightarrow> string list \<Rightarrow> string + fast_link list" where
  "splitLinks s nodes =
     (if s_fastLinks s = []
      then Inl ''no fast link joins nodes on this cluster: a split runs only across nodes that share one (the discovery document's spec.fastLinks)''
      else case nodes of
             [] \<Rightarrow> Inr (s_fastLinks s)
           | n # ns \<Rightarrow>
               (case fastLinkOf s n of
                  None \<Rightarrow> Inl (''node '' @ n @ '' shares no fast link with another node; a split runs only across nodes of one fast link, never over the cluster network'')
                | Some l \<Rightarrow>
                    (case find (\<lambda>m. \<not> has_node l m) ns of
                       Some m \<Rightarrow> Inl (''nodes '' @ n @ '' and '' @ m @ '' share no fast link; a split runs only across nodes of one fast link ('' @
                                   fl_name l @ '': '' @ join '', '' (fl_nodes l) @ '')'')
                     | None \<Rightarrow> Inr [l\<lparr>fl_nodes := nodes\<rparr>])))"

section \<open>The judgement of one link\<close>

record split_verdict =
  lv_link :: fast_link
  lv_fits :: bool
  lv_reason :: string
  lv_tight :: node_budget
  lv_reserved :: int
  lv_required :: int
  lv_limit :: int
  lv_kv :: kv_verdict
  lv_shape :: serving_shape
  lv_cached :: bool
  lv_source :: string

definition split_start :: "fast_link \<Rightarrow> split_verdict" where
  "split_start l = \<lparr>lv_link = l, lv_fits = False, lv_reason = [], lv_tight = zero_node, lv_reserved = 0,
     lv_required = 0, lv_limit = 0, lv_kv = kv_skipped [], lv_shape = no_shape, lv_cached = False, lv_source = []\<rparr>"

definition apply_split :: "split_verdict \<Rightarrow> fit_answer \<Rightarrow> fit_answer" where
  "apply_split v r =
     (let r = r\<lparr>fa_placement := placementSplit, fa_fastLink := fl_name (lv_link v),
              fa_nodes := fl_nodes (lv_link v), fa_fits := lv_fits v, fa_reason := lv_reason v\<rparr>
      in if nb_name (lv_tight v) = [] then r
         else let r = r\<lparr>fa_node := hd (fl_nodes (lv_link v)), fa_budget := nb_budget (lv_tight v),
                      fa_budgetSource := nb_source (lv_tight v), fa_reserved := lv_reserved v,
                      fa_required := (if lv_required v > 0 then lv_required v else fa_required r),
                      fa_free := max (sub64 (nb_budget (lv_tight v)) (lv_reserved v)) 0\<rparr>;
                r = (if kvv_skip (lv_kv v) \<noteq> [] \<or> kvv_maxLen (lv_kv v) > 0 then applyKV (lv_kv v) r else r);
                r = r\<lparr>fa_cached := lv_cached v, fa_cacheSource := lv_source v\<rparr>; sh = lv_shape v
              in if lv_fits v \<and> sh_devices sh > 0
                 then r\<lparr>fa_devices := sh_devices sh, fa_tensorParallel := sh_tensor sh, fa_utilization := sh_util sh,
                        fa_cpu := sh_cpu sh, fa_memory := sh_mem sh\<rparr>
                 else r)"

text \<open>The walk over a link's nodes: the verdict so far, the tightest limit (negative before the
  first), the nodes judged, their shape, and the ones whose cache lacks the weights.\<close>

record split_walk =
  wk_verdict :: split_verdict
  wk_tightFree :: int
  wk_judged :: "node_budget list"
  wk_shape :: serving_shape
  wk_missing :: "string list"

definition refuse_link :: "string \<Rightarrow> split_verdict \<Rightarrow> split_verdict" where
  "refuse_link why v = v\<lparr>lv_reason := why\<rparr>"

definition widest :: "bool \<Rightarrow> serving_shape \<Rightarrow> serving_shape \<Rightarrow> serving_shape" where
  "widest first sh n =
     (let sh = (if first then n else sh)
      in sh\<lparr>sh_devices := max (sh_devices sh) (sh_devices n), sh_util := fmin (sh_util sh) (sh_util n),
            sh_cpu := min (sh_cpu sh) (sh_cpu n), sh_mem := min (sh_mem sh) (sh_mem n)\<rparr>)"

definition split_share :: "fit_plan \<Rightarrow> int \<Rightarrow> int" where
  "split_share plan n = add64 (ceilDiv (fa_weights (pl_result plan)) n) (fa_overhead (pl_result plan))"

definition judged_on ::
  "fit_env \<Rightarrow> cluster_view \<Rightarrow> fit_plan \<Rightarrow> serving_preset \<Rightarrow> fast_link \<Rightarrow> (string \<times> int) list \<Rightarrow> bool \<Rightarrow>
   node_budget \<Rightarrow> split_walk \<Rightarrow> (split_verdict + split_walk) option" where
  "judged_on env cw plan p link reserved forServe node w =
     (let name = nb_name node; n = int (length (fl_nodes link)); r = pl_result plan; l = pl_cache plan;
        across = ''a split across '' @ join '', '' (fl_nodes link) @ '' fits the weights, but '';
        held = amount reserved name; limit = (if forServe then sub64 (nb_budget node) held else nb_budget node);
        v = wk_verdict w; tight = (wk_tightFree w < 0 \<or> limit < wk_tightFree w);
        v = (if tight then v\<lparr>lv_tight := node, lv_reserved := held, lv_limit := limit\<rparr> else v);
        share = split_share plan n;
        here = v\<lparr>lv_tight := node, lv_reserved := held, lv_limit := limit, lv_required := share\<rparr>
      in if share > limit
         then Some (Inl (refuse_link (''its share of a split across '' @ join '', '' (fl_nodes link) @ '' '' @ em_dash @ '' '' @
                humanBytes (ceilDiv (fa_weights r) n) @ '' of weights and '' @ humanBytes (fa_overhead r) @ '' overhead '' @
                em_dash @ '' exceeds the '' @ humanBytes limit @ '' available on '' @ name @ '' ('' @ nb_source node @
                '' budget '' @ humanBytes (nb_budget node) @ reservedNote held @ '')'') here))
         else map_option (\<lambda>(sh, uv).
           let (sh, refusal) = fitRequests (fe_quantities env) p node
                 (roomOn (fe_pods env name) (s_namespace (cw_settings cw)) node (Some p)) sh;
             (cached, source) = cacheVerdict env name plan l
           in if uv_checked uv \<and> \<not> uv_fits uv
              then Inl (refuse_link (''a split across '' @ join '', '' (fl_nodes link) @ '' fits the weights, but on '' @
                     name @ '' '' @ unified_clause uv) here)
              else if refusal \<noteq> [] then Inl (refuse_link (across @ refusal) v)
              else Inr \<lparr>wk_verdict = (if name = hd (fl_nodes link) \<or> \<not> cached
                          then v\<lparr>lv_cached := cached, lv_source := source\<rparr> else v),
                        wk_tightFree = (if tight then limit else wk_tightFree w),
                        wk_judged = wk_judged w @ [node], wk_shape = widest (wk_judged w = []) (wk_shape w) sh,
                        wk_missing = wk_missing w @
                          (if perNode l \<and> \<not> cached \<and> source = CacheSourceScan then [name] else [])\<rparr>)
         (shapeOn (fe_headroom env) (Some p) node (if forServe then held else 0)
            (add64 (ceilDiv (residentBytes (Some p) (fa_weights r)) n) (fa_overhead r)) n))"

fun walk_link ::
  "fit_env \<Rightarrow> cluster_view \<Rightarrow> fit_plan \<Rightarrow> serving_preset \<Rightarrow> fast_link \<Rightarrow> node_budget list \<Rightarrow> (string \<times> int) list \<Rightarrow>
   bool \<Rightarrow> string list \<Rightarrow> split_walk \<Rightarrow> (split_verdict + split_walk) option" where
  "walk_link env cw plan p link nodes reserved forServe [] w = Some (Inr w)"
| "walk_link env cw plan p link nodes reserved forServe (name # names) w =
     (let l = pl_cache plan
      in case candidateNodes (cw_settings cw) nodes name l (Some p) of
           ([], why) \<Rightarrow> Some (Inl (refuse_link why (wk_verdict w)))
         | (node # _, _) \<Rightarrow>
             if pl_cacheLocal plan \<and> \<not> perNode l \<and> \<not> List.member (cl_nodes l) name
             then Some (Inl (refuse_link (''node '' @ name @ '' cannot mount the cache claim '' @
                    s_cacheClaim (cw_settings cw) @ '', which holds the weights on '' @ join '', '' (cl_nodes l) @
                    ''; a split needs the weights on every node'') (wk_verdict w)))
             else if nb_budget node \<le> 0
             then Some (Inl (refuse_link (''node '' @ name @ '' reports no memory budget ('' @ nb_source node @ '')'') (wk_verdict w)))
             else case judged_on env cw plan p link reserved forServe node w of
                    None \<Rightarrow> None
                  | Some (Inl v) \<Rightarrow> Some (Inl v)
                  | Some (Inr w) \<Rightarrow> walk_link env cw plan p link nodes reserved forServe names w)"

text \<open>The split's shape must be schedulable on every node and fit its KV cache there.\<close>

fun shape_fits :: "fast_link \<Rightarrow> serving_shape \<Rightarrow> kv_check option \<Rightarrow> node_budget list \<Rightarrow> split_verdict \<Rightarrow> split_verdict \<times> bool" where
  "shape_fits link sh kv [] v = (v, True)"
| "shape_fits link sh kv (n # ns) v =
     (let across = ''a split across '' @ join '', '' (fl_nodes link) @ '' fits the weights, but '';
        clause = devicesClause (sh_devices sh) n; k = judgeOn kv n
      in if clause \<noteq> [] then (refuse_link (across @ clause) v, False)
         else if kvv_skip k = [] \<and> \<not> kvv_fits k
         then (refuse_link (across @ ''on '' @ nb_name n @ '' '' @ kv_clause k) (v\<lparr>lv_kv := k\<rparr>), False)
         else shape_fits link sh kv ns (v\<lparr>lv_kv := k\<rparr>))"

definition split_accepted ::
  "quantities \<Rightarrow> fit_plan \<Rightarrow> serving_preset \<Rightarrow> fast_link \<Rightarrow> serving_shape \<Rightarrow> string \<Rightarrow> split_verdict \<Rightarrow> split_verdict" where
  "split_accepted qs plan p link sh pullFirst v =
     (let n = int (length (fl_nodes link)); r = pl_result plan; noted = requestsNote qs p sh ''the tightest node''
      in v\<lparr>lv_fits := True, lv_required := split_share plan n, lv_reason :=
           ''split across '' @ join '', '' (fl_nodes link) @ '' (fast link '' @ fl_name link @ ''): '' @
           humanBytes (ceilDiv (fa_weights r) n) @ '' of weights and '' @ humanBytes (fa_overhead r) @
           '' overhead per node fit within '' @ humanBytes (lv_limit v) @ '' on the tightest node '' @
           nb_name (lv_tight v) @ '' ('' @ nb_source (lv_tight v) @ reservedNote (lv_reserved v) @ '')'' @
           (if fless (Fin 0) (sh_util sh) \<and> \<not> feq (sh_util sh) (utilization p)
            then ''; '' @ flagGPUMemoryUtilization @ ''='' @ trimFloat2 (sh_util sh) @ '', sized down from the preset's '' @
              trimFloat2 (utilization p) @ '' so the unified-memory nodes keep their host headroom'' else []) @
           (if noted \<noteq> [] then ''; '' @ noted else []) @ (if pullFirst \<noteq> [] then ''; '' @ pullFirst else [])\<rparr>)"

definition pull_first :: "fit_plan \<Rightarrow> fast_link \<Rightarrow> string list \<Rightarrow> string" where
  "pull_first plan link missing =
     (if missing = [] then []
      else ''a split across '' @ join '', '' (fl_nodes link) @ '' needs the weights in every node's cache, and the cache of '' @
        join '', '' missing @ '' holds none: '' @
        join '' and '' (map (\<lambda>m. ''pull_model '' @ pl_repo plan @ '' with node '' @ m) missing) @ '' first'')"

definition judge_walked ::
  "fit_env \<Rightarrow> fit_plan \<Rightarrow> serving_preset \<Rightarrow> fast_link \<Rightarrow> bool \<Rightarrow> split_walk \<Rightarrow> split_verdict" where
  "judge_walked env plan p link forServe w =
     (let v = wk_verdict w; missing = pull_first plan link (wk_missing w);
        sh = (wk_shape w)\<lparr>sh_tensor := mul64 (sh_devices (wk_shape w)) (int (length (fl_nodes link)))\<rparr>
      in if missing \<noteq> [] \<and> forServe then refuse_link missing v
         else if \<not> sameClaim (pl_cache plan) (tl (fl_nodes link))
         then refuse_link (''a split across '' @ join '', '' (fl_nodes link) @ '' puts its workers on nodes with cache claims of their own, and the workers share one pod template, which mounts one claim: split across two nodes, or give the cache a claim every node mounts'') v
         else case shape_fits link sh (shaped sh (pl_kv plan)) (wk_judged w) (v\<lparr>lv_shape := sh\<rparr>) of
                (v, ok) \<Rightarrow> if ok then split_accepted (fe_quantities env) plan p link sh missing v else v)"

definition judgeSplit ::
  "fit_env \<Rightarrow> cluster_view \<Rightarrow> fit_plan \<Rightarrow> serving_preset \<Rightarrow> fast_link \<Rightarrow> node_budget list \<Rightarrow> (string \<times> int) list \<Rightarrow>
   bool \<Rightarrow> split_verdict option" where
  "judgeSplit env cw plan p link nodes reserved forServe =
     map_option (case_sum id (judge_walked env plan p link forServe))
       (walk_link env cw plan p link nodes reserved forServe (fl_nodes link)
          \<lparr>wk_verdict = split_start link, wk_tightFree = - 1, wk_judged = [], wk_shape = no_shape, wk_missing = []\<rparr>)"

section \<open>The split\<close>

fun first_link ::
  "(fast_link \<Rightarrow> split_verdict option) \<Rightarrow> bool \<Rightarrow> fast_link list \<Rightarrow> string list \<Rightarrow> (string list + split_verdict) option" where
  "first_link judge only [] refusals = Some (Inl refusals)"
| "first_link judge only (l # ls) refusals =
     (case judge l of
        None \<Rightarrow> None
      | Some v \<Rightarrow>
          if lv_fits v \<or> only then Some (Inr v)
          else first_link judge only ls (refusals @ [fl_name l @ '': '' @ lv_reason v]))"

definition split_refused :: "fit_plan \<Rightarrow> string \<Rightarrow> fit_plan" where
  "split_refused plan why = plan\<lparr>pl_result := (pl_result plan)\<lparr>fa_reason := why\<rparr>\<rparr>"

definition split_chosen :: "fit_plan \<Rightarrow> string list + split_verdict \<Rightarrow> fit_plan" where
  "split_chosen plan chosen =
     (case chosen of
        Inr v \<Rightarrow>
          let r = apply_split v (pl_result plan)
          in plan\<lparr>pl_result := (if fa_fits r \<and> fa_gated r \<and> \<not> fa_token r
               then add_note ''the repository is gated and no hub token is configured'' r else r)\<rparr>
      | Inl refusals \<Rightarrow>
          plan\<lparr>pl_result := (pl_result plan)\<lparr>fa_fits := False,
            fa_reason := ''no fast link hosts a split: '' @ join ''; '' refusals\<rparr>\<rparr>)"

definition placeSplit :: "fit_env \<Rightarrow> fit_plan \<Rightarrow> preset_index \<Rightarrow> string list \<Rightarrow> bool \<Rightarrow> fit_plan res option" where
  "placeSplit env plan idx asked forServe =
     (let plan = plan\<lparr>pl_result := (pl_result plan)\<lparr>fa_placement := placementSplit\<rparr>\<rparr>; cw = fe_view env
      in case pl_preset plan of
           None \<Rightarrow> Some (Inr (split_refused plan (''a split is composed from a serving preset; no preset serves '' @ pl_repo plan)))
         | Some p \<Rightarrow>
             if cpu (Some p)
             then Some (Inr (split_refused plan (''preset '' @ sp_name p @ '' requests no GPU; a split runs tensor parallel across GPUs'')))
             else case splitLinks (forPreset (cw_settings cw) (Some p)) asked of
                    Inl e \<Rightarrow> Some (Inr (split_refused plan e))
                  | Inr links \<Rightarrow>
                      (case cache_of env (Some p) of
                         Inl e \<Rightarrow> Some (Inl e)
                       | Inr l \<Rightarrow>
                           (case nodes_of env cw l (Some p) of
                              Inl e \<Rightarrow> Some (Inl e)
                            | Inr nodes \<Rightarrow>
                                let rs = reservedByNode (fe_overhead env) idx (Some p) nodes (fe_served env);
                                  plan = plan\<lparr>pl_cacheLocal := cl_nodes l \<noteq> [], pl_cache := l, pl_nodes := nodes, pl_own := rs_own rs\<rparr>
                                in map_option (\<lambda>c. Inr (split_chosen plan c))
                                     (first_link (\<lambda>link. judgeSplit env cw plan p link nodes (rs_reserved rs) forServe)
                                        (length links = 1) links []))))"

definition splitCheck :: "fit_env \<Rightarrow> string \<Rightarrow> string \<Rightarrow> string list \<Rightarrow> bool \<Rightarrow> fit_plan res option" where
  "splitCheck env reqModel reqPreset nodes forServe =
     (case resolveFit env reqModel reqPreset of
        Inl e \<Rightarrow> Some (Inl e)
      | Inr (plan, idx) \<Rightarrow>
          (case sized_plan env plan of
             Inl e \<Rightarrow> Some (Inl e)
           | Inr (plan, noted) \<Rightarrow> map_option (map_sum id (noted_plan env noted)) (placeSplit env plan idx nodes forServe)))"

section \<open>Copies\<close>

text \<open>One copy of a sized plan on each node.\<close>

fun judgeEach :: "fit_env \<Rightarrow> fit_plan \<Rightarrow> preset_index \<Rightarrow> bool \<Rightarrow> string list \<Rightarrow> fit_plan list res option" where
  "judgeEach env plan idx forServe [] = Some (Inr [])"
| "judgeEach env plan idx forServe (n # ns) =
     (case placeModel env plan idx n forServe of
        None \<Rightarrow> None
      | Some (Inl e) \<Rightarrow> Some (Inl e)
      | Some (Inr per) \<Rightarrow> map_option (map_sum id (\<lambda>each. per # each)) (judgeEach env plan idx forServe ns))"

definition nodeFits :: "string list \<Rightarrow> fit_plan list \<Rightarrow> node_fit list" where
  "nodeFits nodes each = map (\<lambda>(n, per). \<lparr>nf_node = n, nf_fits = fa_fits (pl_result per),
     nf_reason = fa_reason (pl_result per)\<rparr>) (zip nodes each)"

definition tighter :: "fit_answer \<Rightarrow> fit_answer \<Rightarrow> bool" where
  "tighter a b =
     (if fa_fits a \<noteq> fa_fits b then \<not> fa_fits a
      else sub64 (fa_free a) (fa_required a) < sub64 (fa_free b) (fa_required b))"

fun tightest :: "string \<times> fit_plan \<Rightarrow> (string \<times> fit_plan) list \<Rightarrow> string \<times> fit_plan" where
  "tightest t [] = t"
| "tightest t (x # xs) = tightest (if tighter (pl_result (snd x)) (pl_result (snd t)) then x else t) xs"

text \<open>The shapes of the copies' nodes, each with its nodes.\<close>

definition add_shape :: "(int \<times> int) \<times> string \<Rightarrow> ((int \<times> int) \<times> string list) list \<Rightarrow> ((int \<times> int) \<times> string list) list" where
  "add_shape x m = AList.update (fst x) ((case map_of m (fst x) of Some ns \<Rightarrow> ns | None \<Rightarrow> []) @ [snd x]) m"

definition copy_shapes :: "string list \<Rightarrow> fit_plan list \<Rightarrow> ((int \<times> int) \<times> string list) list" where
  "copy_shapes nodes each =
     foldl (\<lambda>m (n, per). add_shape ((fa_devices (pl_result per), fa_tensorParallel (pl_result per)), n) m) [] (zip nodes each)"

definition describeShapes :: "((int \<times> int) \<times> string list) list \<Rightarrow> string" where
  "describeShapes m = join ''; '' (sort (map (\<lambda>((d, t), on). join '', '' on @ '': '' @ plural d ''GPU device'' @
     '', tensor parallel '' @ show_int t) m))"

text \<open>The copies run with the lowest utilization and requests a node leaves.\<close>

definition lowest :: "fit_answer \<Rightarrow> fit_answer \<Rightarrow> fit_answer" where
  "lowest r per = r\<lparr>fa_utilization := (if fless (Fin 0) (fa_utilization per) then fmin (fa_utilization r) (fa_utilization per)
       else fa_utilization r),
     fa_cpu := min (fa_cpu r) (fa_cpu per), fa_memory := min (fa_memory r) (fa_memory per)\<rparr>"

definition copies_verdict :: "fit_plan \<Rightarrow> string list \<Rightarrow> fit_plan list \<Rightarrow> fit_answer \<Rightarrow> fit_answer" where
  "copies_verdict plan nodes each r =
     (let refusals = map (\<lambda>(n, per). n @ '': '' @ fa_reason (pl_result per))
            (filter (\<lambda>(_, per). \<not> fa_fits (pl_result per)) (zip nodes each));
        shapes = copy_shapes nodes each
      in if refusals \<noteq> []
         then r\<lparr>fa_fits := False, fa_reason := show_int (int (length refusals)) @ '' of '' @ show_int (int (length nodes)) @
                '' nodes cannot host a copy '' @ em_dash @ '' '' @ join ''; '' refusals\<rparr>
         else if \<not> sameClaim (pl_cache plan) nodes
         then r\<lparr>fa_fits := False, fa_reason := ''the nodes' pods mount different cache claims ('' @
                claimsOf (pl_cache plan) nodes @ '') and copies share one pod template, which mounts one claim; serve copies on nodes of one cache''\<rparr>
         else if length shapes > 1
         then r\<lparr>fa_fits := False, fa_reason := ''the nodes need different serving shapes ('' @ describeShapes shapes @
                '') and copies share one; serve copies on nodes of one shape''\<rparr>
         else r\<lparr>fa_fits := True, fa_reason := show_int (int (length nodes)) @ '' copies on '' @ join '', '' nodes @
                ''; the tightest, '' @ fa_node r @ '': '' @ fa_reason r\<rparr>)"

definition judge_copies :: "string list \<Rightarrow> fit_plan list \<Rightarrow> fit_plan" where
  "judge_copies nodes each =
     (let (name, plan) = tightest (hd (zip nodes each)) (zip nodes each);
        r = (pl_result plan)\<lparr>fa_placement := placementCopies, fa_nodes := nodes, fa_copies := nodeFits nodes each\<rparr>;
        r = (if fa_node r = [] then r\<lparr>fa_node := name\<rparr> else r);
        r = (if length (remdups (map (\<lambda>per. fa_pool (pl_result per)) each)) > 1 then r\<lparr>fa_pool := []\<rparr> else r);
        r = foldl (\<lambda>r per. lowest r (pl_result per)) r each
      in plan\<lparr>pl_result := copies_verdict plan nodes each r\<rparr>)"

definition judgeCopies :: "fit_env \<Rightarrow> fit_plan \<Rightarrow> preset_index \<Rightarrow> string list \<Rightarrow> bool \<Rightarrow> fit_plan res option" where
  "judgeCopies env plan idx nodes forServe =
     map_option (map_sum id (judge_copies nodes)) (judgeEach env plan idx forServe nodes)"

definition place_copies ::
  "fit_env \<Rightarrow> fit_plan \<Rightarrow> preset_index \<Rightarrow> string \<Rightarrow> string list \<Rightarrow> bool \<Rightarrow> bool \<Rightarrow> fit_plan res option" where
  "place_copies env sz idx node nodes forServe verdicts =
     (if nodes \<noteq> [] then judgeCopies env sz idx nodes forServe
      else case placeModel env sz idx node forServe of
             None \<Rightarrow> None
           | Some (Inl e) \<Rightarrow> Some (Inl e)
           | Some (Inr plan) \<Rightarrow>
               let names = map nb_name (pl_nodes plan)
               in if verdicts \<and> node = [] \<and> length names > 1
                  then map_option (map_sum id (\<lambda>each. plan\<lparr>pl_result := (pl_result plan)\<lparr>fa_copies := nodeFits names each\<rparr>\<rparr>))
                         (judgeEach env sz idx forServe names)
                  else Some (Inr plan))"

definition copiesCheck :: "fit_env \<Rightarrow> string \<Rightarrow> string \<Rightarrow> string \<Rightarrow> string list \<Rightarrow> bool \<Rightarrow> bool \<Rightarrow> fit_plan res option" where
  "copiesCheck env reqModel reqPreset node nodes forServe verdicts =
     (case resolveFit env reqModel reqPreset of
        Inl e \<Rightarrow> Some (Inl e)
      | Inr (plan, idx) \<Rightarrow>
          (case sized_plan env plan of
             Inl e \<Rightarrow> Some (Inl e)
           | Inr (plan, noted) \<Rightarrow>
               map_option (map_sum id (noted_plan env noted)) (place_copies env plan idx node nodes forServe verdicts)))"

text \<open>\<open>addCopies\<close>: the nodes an object grows to, refused when their claims differ.\<close>

fun union_nodes :: "string list \<Rightarrow> string list \<Rightarrow> string list" where
  "union_nodes current [] = current"
| "union_nodes current (n # ns) = union_nodes (if List.member current n then current else current @ [n]) ns"

definition addCopies :: "cache_location \<Rightarrow> string list \<Rightarrow> string list \<Rightarrow> string list res" where
  "addCopies l current asked =
     (let nodes = union_nodes current asked
      in if sameClaim l nodes then Inr nodes
         else Inl (errw ErrUnfit (''the nodes' pods mount different cache claims ('' @ claimsOf l nodes @
                '') and copies share one pod template, which mounts one claim; serve copies on nodes of one cache'')))"

section \<open>The recommendation\<close>

definition recommend :: "fit_env \<Rightarrow> string \<Rightarrow> string \<Rightarrow> fit_answer \<Rightarrow> fit_answer option" where
  "recommend env reqModel reqPreset r =
     (let copies = r\<lparr>fa_recommended := placementCopies,
                   fa_recommendedNodes := (if fa_node r \<noteq> [] then [fa_node r] else fa_recommendedNodes r)\<rparr>
      in if fa_placement r = placementSplit \<and> fa_fits r
         then Some (r\<lparr>fa_recommended := placementSplit, fa_recommendedNodes := fa_nodes r\<rparr>)
         else if s_fastLinks (cw_settings (fe_view env)) = [] then Some copies
         else map_option (\<lambda>check. case check of
                Inr plan \<Rightarrow>
                  if fa_fits (pl_result plan)
                  then r\<lparr>fa_recommended := placementSplit, fa_recommendedNodes := fa_nodes (pl_result plan)\<rparr> else copies
              | Inl _ \<Rightarrow> copies) (splitCheck env reqModel reqPreset [] False))"

section \<open>What an object records\<close>

definition PlacementAnnotation :: string where "PlacementAnnotation = ''model-manager.giantswarm.io/placement''"
definition NodesAnnotation :: string where "NodesAnnotation = ''model-manager.giantswarm.io/nodes''"

definition placement_annotations :: "string \<Rightarrow> string list \<Rightarrow> (string \<rightharpoonup> string) \<Rightarrow> (string \<rightharpoonup> string)" where
  "placement_annotations placement nodes a = a(PlacementAnnotation \<mapsto> placement, NodesAnnotation \<mapsto> join '','' nodes)"

definition servedPlacement :: "(string \<rightharpoonup> string) \<Rightarrow> string \<times> string list" where
  "servedPlacement a =
     (if get_label a PlacementAnnotation = placementSplit then placementSplit else placementCopies,
      filter (\<lambda>n. n \<noteq> []) (map trim_space (split_at (CHR '','') (get_label a NodesAnnotation))))"

text \<open>\<open>mergeEnv\<close>: entries by name, replaced in place or appended; the place of a name is its last.\<close>

fun replace_last :: "string \<Rightarrow> 'v \<Rightarrow> (string \<times> 'v) list \<Rightarrow> (string \<times> 'v) list option" where
  "replace_last k v [] = None"
| "replace_last k v (e # es) =
     (case replace_last k v es of
        Some r \<Rightarrow> Some (e # r)
      | None \<Rightarrow> if fst e = k then Some ((k, v) # es) else None)"

definition merge_entry :: "(string \<times> 'v) list \<Rightarrow> string \<times> 'v \<Rightarrow> (string \<times> 'v) list" where
  "merge_entry es e = (case replace_last (fst e) (snd e) es of Some r \<Rightarrow> r | None \<Rightarrow> es @ [e])"

definition mergeEnv :: "(string \<times> 'v) list \<Rightarrow> (string \<times> 'v) list \<Rightarrow> (string \<times> 'v) list" where
  "mergeEnv es env = foldl merge_entry es env"

end
