(* ===== verification/Fit_Correct.thy ===== *)
theory Fit_Correct
  imports Placement VllmArgs_Correct
begin

text \<open>
  What the fit check promises: a node's verdict is the conjunction of its checks, the smallest
  hosting node is chosen, and the shape it derives is the smallest that holds the model.
\<close>

section \<open>The verdict on a node\<close>

lemma add_note_fits [simp]: "fa_fits (add_note c r) = fa_fits r"
  by (simp add: add_note_def)

lemma refuse_fit_fits [simp]: "\<not> fa_fits (refuse_fit c r)"
  by (simp add: refuse_fit_def)

lemma applyUnified_fits [simp]:
  "fa_fits (applyUnified v r) \<longleftrightarrow> fa_fits r \<and> (uv_checked v \<longrightarrow> uv_fits v)"
  by (auto simp: applyUnified_def Let_def)

definition requests_refusal :: "quantities \<Rightarrow> serving_preset option \<Rightarrow> serving_shape \<Rightarrow> node_budget \<Rightarrow> pod_room \<Rightarrow> string" where
  "requests_refusal qs p sh n room =
     (case p of
        None \<Rightarrow> []
      | Some q \<Rightarrow>
          let (sh, refusal) = fitRequests qs q n room sh
          in if \<not> cpu p \<and> refusal = [] then devicesClause (sh_devices sh) n else refusal)"

lemma applyShape_fits [simp]:
  "fa_fits (applyShape qs p sh n room r) \<longleftrightarrow> fa_fits r \<and> requests_refusal qs p sh n room = []"
  by (auto simp: applyShape_def requests_refusal_def Let_def split: option.splits prod.splits)

lemma gpus_free_fits [simp]:
  "fa_fits (gpus_free plan n r) \<longleftrightarrow> fa_fits r \<and> plannedGPUs plan \<le> freeGPUs n"
  by (auto simp: gpus_free_def Let_def)

text \<open>C22. The verdict on a node with a positive budget is the conjunction of the checks: the weights and overhead within the
  budget (within what the running models leave, for a serve), vLLM's claim on unified memory, the pod's
  requests and devices, one sequence of the KV cache in the shape the model runs with, the GPU generation,
  and, for a serve on GPUs with memory of their own, enough free devices. A check that was skipped does
  not refuse.\<close>

theorem node_verdict:
  assumes "judgeNode env cw plan forServe n reserved = Some v" "nb_budget n > 0"
  shows "\<exists>sh uv.
     shapeOn (fe_headroom env) (pl_preset plan) n (if forServe then reserved else 0)
       (add64 (residentBytes (pl_preset plan) (fa_weights (pl_result plan))) (fa_overhead (pl_result plan))) 1 = Some (sh, uv) \<and>
     (fa_fits v \<longleftrightarrow>
       fa_required (pl_result plan) \<le> (if forServe then max (sub64 (nb_budget n) reserved) 0 else nb_budget n) \<and>
       (uv_checked uv \<longrightarrow> uv_fits uv) \<and>
       requests_refusal (fe_quantities env) (pl_preset plan) sh n
         (roomOn (fe_pods env (nb_name n)) (s_namespace (cw_settings cw)) n (pl_preset plan)) = [] \<and>
       (let kv = judgeOn (shaped sh (pl_kv plan)) n in kvv_skip kv = [] \<longrightarrow> kvv_fits kv) \<and>
       (let cc = compute_judgeNode (pl_compute plan) n in cv_skip cc = [] \<longrightarrow> cv_fits cc) \<and>
       (forServe \<and> discreteGPUs n \<and> \<not> cpu (pl_preset plan) \<longrightarrow> plannedGPUs plan \<le> freeGPUs n))"
proof -
  let ?p = "pl_preset plan" and ?r = "pl_result plan"
  let ?share = "add64 (residentBytes ?p (fa_weights ?r)) (fa_overhead ?r)"
  let ?start = "?r\<lparr>fa_node := nb_name n, fa_budget := nb_budget n, fa_budgetSource := nb_source n,
              fa_reserved := reserved, fa_free := max (sub64 (nb_budget n) reserved) 0\<rparr>"
  let ?room = "roomOn (fe_pods env (nb_name n)) (s_namespace (cw_settings cw)) n ?p"
  let ?run = "\<lambda>sh uv. applyCompute (compute_judgeNode (pl_compute plan) n)
     (applyKV (judgeOn (shaped sh (pl_kv plan)) n)
       (applyShape (fe_quantities env) ?p sh n ?room (applyUnified uv (on_budget forServe n reserved ?start))))"
  have budget: "fa_fits (on_budget forServe n reserved ?start) \<longleftrightarrow>
      fa_required ?r \<le> (if forServe then max (sub64 (nb_budget n) reserved) 0 else nb_budget n)"
    by (simp add: on_budget_def Let_def)
  have cc: "(compute_clause c = [] \<or> cv_skip c \<noteq> [] \<or> cv_fits c) \<longleftrightarrow> (cv_skip c = [] \<longrightarrow> cv_fits c)" for c
    using compute_clause_judged by blast
  have run: "fa_fits (?run sh uv) \<longleftrightarrow>
      fa_required ?r \<le> (if forServe then max (sub64 (nb_budget n) reserved) 0 else nb_budget n) \<and>
      (uv_checked uv \<longrightarrow> uv_fits uv) \<and> requests_refusal (fe_quantities env) ?p sh n ?room = [] \<and>
      (let kv = judgeOn (shaped sh (pl_kv plan)) n in kvv_skip kv = [] \<longrightarrow> kvv_fits kv) \<and>
      (let cc = compute_judgeNode (pl_compute plan) n in cv_skip cc = [] \<longrightarrow> cv_fits cc)" for sh uv
    unfolding applyCompute_fits applyKV_fits applyShape_fits applyUnified_fits budget cc Let_def by blast
  obtain sh uv where sh: "shapeOn (fe_headroom env) ?p n (if forServe then reserved else 0) ?share 1 = Some (sh, uv)"
    and v: "v = (if forServe \<and> discreteGPUs n \<and> \<not> cpu ?p then gpus_free plan n (?run sh uv) else ?run sh uv)"
    using assms by (simp add: judgeNode_def Let_def) blast
  have fits: "fa_fits v \<longleftrightarrow> fa_fits (?run sh uv) \<and>
      (forServe \<and> discreteGPUs n \<and> \<not> cpu ?p \<longrightarrow> plannedGPUs plan \<le> freeGPUs n)"
    unfolding v by (simp only: gpus_free_fits split: if_split) blast
  show ?thesis by (intro exI conjI, rule sh) (use fits run[of sh uv] in blast)
qed

lemma node_without_budget:
  "nb_budget n \<le> 0 \<Longrightarrow> \<exists>v. judgeNode env cw plan forServe n reserved = Some v \<and> \<not> fa_fits v"
  by (simp add: judgeNode_def Let_def)

section \<open>The choice among nodes\<close>

lemma those_map: "those (map f xs) = Some ys \<Longrightarrow> map f xs = map Some ys"
  by (induction xs arbitrary: ys) (auto split: option.splits)

type_synonym judged = "node_budget \<times> fit_answer \<times> int"

definition closer :: "judged \<Rightarrow> judged \<Rightarrow> bool" where
  "closer c d \<longleftrightarrow> nb_budget (fst c) < nb_budget (fst d) \<or>
     nb_budget (fst c) = nb_budget (fst d) \<and> snd (snd d) \<le> snd (snd c)"

definition hosting :: "judged option \<Rightarrow> judged list \<Rightarrow> judged set" where
  "hosting fit cs = set_option fit \<union> {c \<in> set cs. fa_fits (fst (snd c))}"

lemma closer_refl: "closer c c" by (simp add: closer_def)
lemma closer_trans: "closer a b \<Longrightarrow> closer b c \<Longrightarrow> closer a c" by (auto simp: closer_def)
lemma closer_total: "\<not> closer a b \<Longrightarrow> closer b a" by (auto simp: closer_def)

lemma choose_loop_spec:
  "let c = choose_loop most fit cs in
     if hosting fit cs = {} then c \<in> insert most (set cs) \<and> (\<forall>d \<in> insert most (set cs). snd (snd d) \<le> snd (snd c))
     else c \<in> hosting fit cs \<and> (\<forall>d \<in> hosting fit cs. closer c d)"
proof (induction cs arbitrary: most fit)
  case Nil
  then show ?case by (auto simp: hosting_def closer_refl split: option.splits)
next
  case (Cons d cs)
  obtain n v free where d: "d = (n, v, free)" by (metis prod_cases3)
  let ?most = "if free > snd (snd most) then d else most"
  show ?case
  proof (cases "fa_fits v")
    case False
    then have "hosting fit (d # cs) = hosting fit cs" by (auto simp: hosting_def d)
    then show ?thesis using Cons.IH[of ?most fit] False
      by (fastforce simp: d Let_def split: if_splits)
  next
    case True
    let ?fit = "Some (case fit of None \<Rightarrow> d | Some e \<Rightarrow> if closer e d then e else d)"
    have step: "choose_loop most fit (d # cs) = choose_loop ?most ?fit cs"
      using True by (cases fit) (auto simp: d closer_def)
    have "d \<in> hosting fit (d # cs)" using True by (simp add: hosting_def d)
    then have ne: "hosting fit (d # cs) \<noteq> {}" "hosting ?fit cs \<noteq> {}" by (blast, simp add: hosting_def)
    have IH: "choose_loop ?most ?fit cs \<in> hosting ?fit cs"
      "\<And>e. e \<in> hosting ?fit cs \<Longrightarrow> closer (choose_loop ?most ?fit cs) e"
      using Cons.IH[of ?most ?fit] ne(2) by (auto simp: Let_def)
    have sub: "hosting ?fit cs \<subseteq> hosting fit (d # cs)"
      using True by (cases fit) (auto simp: hosting_def d)
    have "closer (choose_loop ?most ?fit cs) e" if e: "e \<in> hosting fit (d # cs)" for e
    proof (cases "e \<in> hosting ?fit cs")
      case False
      then have "closer (the ?fit) e"
        using e closer_total closer_refl by (cases fit) (auto simp: hosting_def d split: if_splits)
      moreover have "closer (choose_loop ?most ?fit cs) (the ?fit)" by (rule IH(2)) (simp add: hosting_def)
      ultimately show ?thesis by (rule closer_trans[rotated])
    qed (rule IH(2))
    moreover have "choose_loop ?most ?fit cs \<in> hosting fit (d # cs)" using sub IH(1) by blast
    ultimately show ?thesis unfolding Let_def step if_not_P[OF ne(1)] by blast
  qed
qed

definition free_on :: "(string \<times> int) list \<Rightarrow> node_budget \<Rightarrow> int" where
  "free_on reserved n = sub64 (nb_budget n) (amount reserved (nb_name n))"

definition verdict_on ::
  "fit_env \<Rightarrow> cluster_view \<Rightarrow> fit_plan \<Rightarrow> bool \<Rightarrow> (string \<times> int) list \<Rightarrow> node_budget \<Rightarrow> fit_answer option" where
  "verdict_on env cw plan forServe reserved n = judgeNode env cw plan forServe n (amount reserved (nb_name n))"

definition hosts_model ::
  "fit_env \<Rightarrow> cluster_view \<Rightarrow> fit_plan \<Rightarrow> bool \<Rightarrow> (string \<times> int) list \<Rightarrow> node_budget \<Rightarrow> bool" where
  "hosts_model env cw plan forServe reserved n \<longleftrightarrow>
     (case verdict_on env cw plan forServe reserved n of Some v \<Rightarrow> fa_fits v | None \<Rightarrow> False)"

lemma judged_candidates_set:
  assumes "judged_candidates env cw plan forServe reserved candidates = Some cs"
  shows "set cs = {(n, v, free_on reserved n) |n v. n \<in> set candidates \<and> verdict_on env cw plan forServe reserved n = Some v}"
    "\<forall>n \<in> set candidates. verdict_on env cw plan forServe reserved n \<noteq> None"
proof -
  let ?f = "\<lambda>n. map_option (\<lambda>v. (n, v, free_on reserved n)) (verdict_on env cw plan forServe reserved n)"
  have m: "map ?f candidates = map Some cs"
    by (intro those_map) (use assms in \<open>simp add: judged_candidates_def free_on_def verdict_on_def\<close>)
  have s: "?f ` set candidates = Some ` set cs" using arg_cong[OF m, of set] unfolding set_map .
  show "\<forall>n \<in> set candidates. verdict_on env cw plan forServe reserved n \<noteq> None"
  proof
    fix n assume "n \<in> set candidates"
    then have "?f n \<in> Some ` set cs" using s by blast
    then show "verdict_on env cw plan forServe reserved n \<noteq> None" by (cases "verdict_on env cw plan forServe reserved n") auto
  qed
  show "set cs = {(n, v, free_on reserved n) |n v. n \<in> set candidates \<and> verdict_on env cw plan forServe reserved n = Some v}"
  proof (rule set_eqI)
    fix x
    have "x \<in> set cs \<longleftrightarrow> Some x \<in> ?f ` set candidates" using s by auto
    also have "\<dots> \<longleftrightarrow> (\<exists>n \<in> set candidates. ?f n = Some x)" by (simp add: image_iff eq_commute)
    finally have "x \<in> set cs \<longleftrightarrow> (\<exists>n \<in> set candidates. ?f n = Some x)" .
    then show "x \<in> set cs \<longleftrightarrow> x \<in> {(n, v, free_on reserved n) |n v. n \<in> set candidates \<and>
        verdict_on env cw plan forServe reserved n = Some v}"
      by auto
  qed
qed

text \<open>C23. The node a model goes to is the smallest that hosts it: of the candidates whose verdict fits,
  one with the least budget, and among those of that budget one with the most free; when none hosts it,
  a candidate with the most free budget, whose refusal is the answer.\<close>

theorem smallest_hosting_node:
  assumes "candidates \<noteq> []" "chooseNode env cw plan forServe reserved candidates = Some (n, v)"
  shows "n \<in> set candidates \<and> verdict_on env cw plan forServe reserved n = Some v \<and>
    (if \<exists>m \<in> set candidates. hosts_model env cw plan forServe reserved m
     then fa_fits v \<and> (\<forall>m \<in> set candidates. hosts_model env cw plan forServe reserved m \<longrightarrow>
       nb_budget n < nb_budget m \<or> nb_budget n = nb_budget m \<and> free_on reserved m \<le> free_on reserved n)
     else \<not> fa_fits v \<and> (\<forall>m \<in> set candidates. free_on reserved m \<le> free_on reserved n))"
proof -
  obtain cs where cs: "judged_candidates env cw plan forServe reserved candidates = Some cs"
    using assms(2) by (auto simp: chooseNode_def)
  note S = judged_candidates_set[OF cs]
  have ne: "cs \<noteq> []" using S assms(1) by (cases candidates) fastforce+
  let ?c = "choose_loop (hd cs) None cs"
  obtain free where c: "?c = (n, v, free)" using assms(2) cs by (auto simp: chooseNode_def split: prod.splits)
  have spec: "if hosting None cs = {} then ?c \<in> set cs \<and> (\<forall>d \<in> set cs. snd (snd d) \<le> snd (snd ?c))
     else ?c \<in> hosting None cs \<and> (\<forall>d \<in> hosting None cs. closer ?c d)"
    using choose_loop_spec[of "hd cs" None cs] unfolding insert_absorb[OF hd_in_set[OF ne]] Let_def .
  have host: "hosting None cs = {(m, w, free_on reserved m) |m w. m \<in> set candidates \<and>
      verdict_on env cw plan forServe reserved m = Some w \<and> fa_fits w}"
    unfolding hosting_def S(1) by auto
  have "?c \<in> set cs" using spec by (auto simp: hosting_def split: if_splits)
  then have nv: "n \<in> set candidates" "verdict_on env cw plan forServe reserved n = Some v"
    "free = free_on reserved n" unfolding c S(1) by simp_all
  show ?thesis
  proof (cases "hosting None cs = {}")
    case True
    then have none: "\<not> (\<exists>m \<in> set candidates. hosts_model env cw plan forServe reserved m)"
      unfolding host by (auto simp: hosts_model_def split: option.splits)
    have most: "\<forall>d \<in> set cs. snd (snd d) \<le> free"
      using conjunct2[OF spec[unfolded if_P[OF True]]] unfolding c snd_conv .
    have "free_on reserved m \<le> free_on reserved n" if m: "m \<in> set candidates" for m
    proof -
      obtain w where "verdict_on env cw plan forServe reserved m = Some w" using bspec[OF S(2) m] by auto
      then have "(m, w, free_on reserved m) \<in> set cs" using m unfolding S(1) by blast
      from bspec[OF most this] show ?thesis unfolding nv(3) by simp
    qed
    moreover have "\<not> fa_fits v" using none nv by (auto simp: hosts_model_def)
    ultimately show ?thesis using nv none by auto
  next
    case False
    then have some: "\<exists>m \<in> set candidates. hosts_model env cw plan forServe reserved m"
      unfolding host by (force simp: hosts_model_def)
    have "?c \<in> hosting None cs" using spec False by simp
    then have "fa_fits v" unfolding c host by simp
    moreover have "nb_budget n < nb_budget m \<or> nb_budget n = nb_budget m \<and> free_on reserved m \<le> free_on reserved n"
      if m: "m \<in> set candidates" and h: "hosts_model env cw plan forServe reserved m" for m
    proof -
      obtain w where "verdict_on env cw plan forServe reserved m = Some w" "fa_fits w"
        using h by (auto simp: hosts_model_def split: option.splits)
      then have "(m, w, free_on reserved m) \<in> hosting None cs" using m unfolding host by blast
      then have "closer ?c (m, w, free_on reserved m)" using spec False by (metis (no_types))
      then show ?thesis unfolding c nv(3) closer_def by simp
    qed
    ultimately show ?thesis using nv some by auto
  qed
qed

end
