(* ===== verification/Placement_Correct.thy ===== *)
theory Placement_Correct
  imports Fit_Correct
begin

text \<open>
  What a placement promises: a split that fits holds its share on every node of its link, copies fit
  together exactly when each fits and their pods can share one template, and the placement an object
  records reads back.
\<close>

section \<open>Splits\<close>

text \<open>A node the walk over a link took: a candidate with a budget that holds the share, whose claim on
  unified memory fits and whose requests are not refused.\<close>

definition holds_share ::
  "fit_env \<Rightarrow> cluster_view \<Rightarrow> fit_plan \<Rightarrow> serving_preset \<Rightarrow> int \<Rightarrow> node_budget list \<Rightarrow> (string \<times> int) list \<Rightarrow> bool \<Rightarrow>
   string \<Rightarrow> node_budget \<Rightarrow> bool" where
  "holds_share env cw plan p n nodes reserved forServe name node \<longleftrightarrow>
     (\<exists>others why. candidateNodes (cw_settings cw) nodes name (pl_cache plan) (Some p) = (node # others, why)) \<and>
     0 < nb_budget node \<and>
     split_share plan n \<le> (if forServe then sub64 (nb_budget node) (amount reserved (nb_name node)) else nb_budget node) \<and>
     (\<exists>sh uv. shapeOn (fe_headroom env) (Some p) node (if forServe then amount reserved (nb_name node) else 0)
         (add64 (ceilDiv (residentBytes (Some p) (fa_weights (pl_result plan))) n) (fa_overhead (pl_result plan))) n = Some (sh, uv) \<and>
       (uv_checked uv \<longrightarrow> uv_fits uv) \<and>
       snd (fitRequests (fe_quantities env) p node
         (roomOn (fe_pods env (nb_name node)) (s_namespace (cw_settings cw)) node (Some p)) sh) = [])"

lemma refuse_link_fits [simp]: "lv_fits (refuse_link why v) = lv_fits v" "lv_shape (refuse_link why v) = lv_shape v"
  by (simp_all add: refuse_link_def)

lemma judged_on_step:
  assumes "judged_on env cw plan p link reserved forServe node w = Some (Inr w')"
    "candidateNodes (cw_settings cw) nodes name (pl_cache plan) (Some p) = (node # others, why)" "0 < nb_budget node"
  shows "holds_share env cw plan p (int (length (fl_nodes link))) nodes reserved forServe name node"
    "wk_judged w' = wk_judged w @ [node]" "lv_fits (wk_verdict w') = lv_fits (wk_verdict w)"
    "lv_shape (wk_verdict w') = lv_shape (wk_verdict w)"
  using assms by (auto simp: judged_on_def holds_share_def Let_def split: if_splits prod.splits)

lemma judged_on_refuses:
  "judged_on env cw plan p link reserved forServe node w = Some (Inl v) \<Longrightarrow> lv_fits v = lv_fits (wk_verdict w)"
  by (auto simp: judged_on_def Let_def split: if_splits prod.splits)

lemma walk_link_spec:
  "walk_link env cw plan p link nodes reserved forServe names w = Some (Inr w') \<Longrightarrow>
     (\<exists>ns. wk_judged w' = wk_judged w @ ns \<and>
       list_all2 (holds_share env cw plan p (int (length (fl_nodes link))) nodes reserved forServe) names ns) \<and>
     lv_fits (wk_verdict w') = lv_fits (wk_verdict w)"
proof (induction names arbitrary: w)
  case (Cons name names)
  then obtain node others why where c: "candidateNodes (cw_settings cw) nodes name (pl_cache plan) (Some p) = (node # others, why)"
    by (auto simp: Let_def split: prod.splits list.splits)
  with Cons.prems have b: "0 < nb_budget node" by (auto simp: Let_def split: if_splits)
  from Cons.prems c obtain w1 where w1: "judged_on env cw plan p link reserved forServe node w = Some (Inr w1)"
    "walk_link env cw plan p link nodes reserved forServe names w1 = Some (Inr w')"
    by (auto simp: Let_def split: if_splits option.splits sum.splits)
  from judged_on_step[OF w1(1) c b] Cons.IH[OF w1(2)] show ?case by fastforce
qed simp

lemma walk_link_refuses:
  "walk_link env cw plan p link nodes reserved forServe names w = Some (Inl v) \<Longrightarrow> lv_fits v = lv_fits (wk_verdict w)"
proof (induction names arbitrary: w)
  case (Cons name names)
  then show ?case using judged_on_refuses judged_on_step(3)
    by (fastforce simp: Let_def split: prod.splits list.splits if_splits option.splits sum.splits)
qed simp

lemma shape_fits_spec:
  "shape_fits link sh kv ns v = (v', ok) \<Longrightarrow>
     lv_fits v' = lv_fits v \<and> lv_shape v' = lv_shape v \<and>
     (ok \<longrightarrow> (\<forall>n \<in> set ns. devicesClause (sh_devices sh) n = [] \<and> (kvv_skip (judgeOn kv n) = [] \<longrightarrow> kvv_fits (judgeOn kv n))))"
proof (induction ns arbitrary: v)
  case (Cons n ns)
  show ?case
  proof (cases "devicesClause (sh_devices sh) n \<noteq> [] \<or> (kvv_skip (judgeOn kv n) = [] \<and> \<not> kvv_fits (judgeOn kv n))")
    case True
    with Cons.prems have "\<not> ok" "lv_fits v' = lv_fits v" "lv_shape v' = lv_shape v"
      by (auto simp: Let_def simp del: append.simps split: if_splits)
    then show ?thesis by simp
  next
    case False
    with Cons.prems have "shape_fits link sh kv ns (v\<lparr>lv_kv := judgeOn kv n\<rparr>) = (v', ok)" by (auto simp: Let_def split: if_splits)
    from Cons.IH[OF this] False show ?thesis by simp
  qed
qed simp

text \<open>C21. A split that fits is safe on every node of its fast link: the node is a serving target with a
  memory budget, its share of the weights and the overhead are within what the running models leave it (for
  a serve) or its budget, vLLM's claim on unified memory fits, the requests are not refused, it has the
  devices the split's pods need, and the KV cache in the split's shape fits there or was skipped. The tensor
  parallel degree is the devices per pod times the nodes.\<close>

theorem split_safe:
  assumes "judgeSplit env cw plan p link nodes reserved forServe = Some v" "lv_fits v"
  shows "sh_tensor (lv_shape v) = mul64 (sh_devices (lv_shape v)) (int (length (fl_nodes link))) \<and>
     (\<exists>ns. list_all2 (holds_share env cw plan p (int (length (fl_nodes link))) nodes reserved forServe) (fl_nodes link) ns \<and>
       (\<forall>n \<in> set ns. devicesClause (sh_devices (lv_shape v)) n = [] \<and>
         (let kv = judgeOn (shaped (lv_shape v) (pl_kv plan)) n in kvv_skip kv = [] \<longrightarrow> kvv_fits kv)))"
proof -
  let ?start = "\<lparr>wk_verdict = split_start link, wk_tightFree = - 1, wk_judged = [], wk_shape = no_shape, wk_missing = []\<rparr>"
  have start: "\<not> lv_fits (wk_verdict ?start)" by (simp add: split_start_def)
  obtain z where z: "walk_link env cw plan p link nodes reserved forServe (fl_nodes link) ?start = Some z"
    "v = case_sum id (judge_walked env plan p link forServe) z"
    using assms(1) by (auto simp: judgeSplit_def)
  have "z \<noteq> Inl v" using walk_link_refuses z(1) start assms(2) by metis
  then obtain w where w: "walk_link env cw plan p link nodes reserved forServe (fl_nodes link) ?start = Some (Inr w)"
    "v = judge_walked env plan p link forServe w"
    using z by (cases z) auto
  from walk_link_spec[OF w(1)] obtain ns where ns: "wk_judged w = ns" "\<not> lv_fits (wk_verdict w)"
    "list_all2 (holds_share env cw plan p (int (length (fl_nodes link))) nodes reserved forServe) (fl_nodes link) ns"
    using start by auto
  let ?sh = "(wk_shape w)\<lparr>sh_tensor := mul64 (sh_devices (wk_shape w)) (int (length (fl_nodes link)))\<rparr>"
  obtain v' ok where s: "shape_fits link ?sh (shaped ?sh (pl_kv plan)) ns ((wk_verdict w)\<lparr>lv_shape := ?sh\<rparr>) = (v', ok)"
    by fastforce
  have sp: "lv_shape v = ?sh" "ok"
    using assms(2) w(2) ns(1,2) s shape_fits_spec[OF s]
    by (auto simp: judge_walked_def Let_def split_accepted_def split: if_splits)
  then show ?thesis using shape_fits_spec[OF s] ns(3) by (auto simp: Let_def)
qed

text \<open>What a split does not judge: the GPU generation the weights need. A node's verdict does
  (\<open>node_verdict\<close>).\<close>

lemma judged_on_ignores_generation:
  "judged_on env cw (plan\<lparr>pl_compute := c\<rparr>) p link reserved forServe node w = judged_on env cw plan p link reserved forServe node w"
proof -
  have s: "pl_result (plan\<lparr>pl_compute := c\<rparr>) = pl_result plan" "pl_preset (plan\<lparr>pl_compute := c\<rparr>) = pl_preset plan"
    "pl_dir (plan\<lparr>pl_compute := c\<rparr>) = pl_dir plan" "pl_repo (plan\<lparr>pl_compute := c\<rparr>) = pl_repo plan"
    "pl_cache (plan\<lparr>pl_compute := c\<rparr>) = pl_cache plan"
    by simp_all
  show ?thesis unfolding judged_on_def split_share_def cacheVerdict_def s ..
qed

lemma walk_ignores_generation:
  "walk_link env cw (plan\<lparr>pl_compute := c\<rparr>) p link nodes reserved forServe names w =
   walk_link env cw plan p link nodes reserved forServe names w"
  by (induction names arbitrary: w) (simp_all add: judged_on_ignores_generation Let_def cong: option.case_cong sum.case_cong list.case_cong prod.case_cong if_cong)

lemma walked_ignores_generation:
  "judge_walked env (plan\<lparr>pl_compute := c\<rparr>) p link forServe = judge_walked env plan p link forServe"
proof -
  have s: "pl_result (plan\<lparr>pl_compute := c\<rparr>) = pl_result plan" "pl_repo (plan\<lparr>pl_compute := c\<rparr>) = pl_repo plan"
    "pl_cache (plan\<lparr>pl_compute := c\<rparr>) = pl_cache plan" "pl_kv (plan\<lparr>pl_compute := c\<rparr>) = pl_kv plan"
    by simp_all
  show ?thesis unfolding judge_walked_def pull_first_def split_accepted_def split_share_def s ..
qed

lemma split_ignores_generation:
  "judgeSplit env cw (plan\<lparr>pl_compute := c\<rparr>) p link nodes reserved forServe = judgeSplit env cw plan p link nodes reserved forServe"
  by (simp add: judgeSplit_def walk_ignores_generation walked_ignores_generation)

section \<open>Copies\<close>

definition copy_shape :: "fit_plan \<Rightarrow> int \<times> int" where
  "copy_shape per = (fa_devices (pl_result per), fa_tensorParallel (pl_result per))"

lemma add_shape_keys: "set (map fst (add_shape x m)) = insert (fst x) (set (map fst m))"
  by (simp add: add_shape_def dom_update)

lemma add_shape_distinct: "distinct (map fst m) \<Longrightarrow> distinct (map fst (add_shape x m))"
  by (simp add: add_shape_def distinct_update)

lemma fold_shapes:
  "distinct (map fst m) \<Longrightarrow>
   distinct (map fst (foldl (\<lambda>m (n, per). add_shape (copy_shape per, n) m) m xs)) \<and>
   set (map fst (foldl (\<lambda>m (n, per). add_shape (copy_shape per, n) m) m xs)) = set (map fst m) \<union> copy_shape ` snd ` set xs"
proof (induction xs arbitrary: m)
  case (Cons x xs)
  obtain n per where x: "x = (n, per)" by (cases x)
  have "distinct (map fst (add_shape (copy_shape per, n) m))" using Cons.prems by (rule add_shape_distinct)
  from Cons.IH[OF this] show ?case unfolding foldl_Cons x prod.case add_shape_keys by auto
qed simp

lemma copy_shapes_keys:
  assumes "length nodes = length each"
  shows "distinct (map fst (copy_shapes nodes each))" "set (map fst (copy_shapes nodes each)) = copy_shape ` set each"
proof -
  have "snd ` set (zip nodes each) = set each" using map_snd_zip[OF assms] by (metis set_map)
  then show "distinct (map fst (copy_shapes nodes each))" "set (map fst (copy_shapes nodes each)) = copy_shape ` set each"
    using fold_shapes[of "[]" "zip nodes each"] unfolding copy_shapes_def copy_shape_def by auto
qed

lemma distinct_one: "distinct xs \<Longrightarrow> \<not> 1 < length xs \<longleftrightarrow> (\<forall>x \<in> set xs. \<forall>y \<in> set xs. x = y)"
  by (cases xs; cases "tl xs") auto

lemma one_shape:
  assumes "length nodes = length each"
  shows "\<not> 1 < length (copy_shapes nodes each) \<longleftrightarrow> (\<forall>a \<in> set each. \<forall>b \<in> set each. copy_shape a = copy_shape b)"
proof -
  have "\<not> 1 < length (copy_shapes nodes each) \<longleftrightarrow> (\<forall>x \<in> copy_shape ` set each. \<forall>y \<in> copy_shape ` set each. x = y)"
    using distinct_one[OF copy_shapes_keys(1)[OF assms]] unfolding copy_shapes_keys(2)[OF assms] length_map .
  then show ?thesis by blast
qed

lemma tightest_in: "tightest t xs \<in> insert t (set xs)"
  by (induction t xs rule: tightest.induct) (auto split: if_splits)

lemma fold_lowest:
  "fa_cpu (foldl (\<lambda>r per. lowest r (pl_result per)) r each) = foldl min (fa_cpu r) (map (\<lambda>per. fa_cpu (pl_result per)) each) \<and>
   fa_memory (foldl (\<lambda>r per. lowest r (pl_result per)) r each) = foldl min (fa_memory r) (map (\<lambda>per. fa_memory (pl_result per)) each)"
  by (induction each arbitrary: r) (simp_all add: lowest_def)

lemma foldl_min: "(a :: int) \<in> set xs \<Longrightarrow> foldl min a xs = Min (set xs)"
proof -
  have "foldl min a xs = Min (insert a (set xs))" for a :: int and xs
  proof (induction xs arbitrary: a)
    case (Cons x xs)
    have "Min (insert (min a x) (set xs)) = Min (insert a (insert x (set xs)))"
      by (cases "set xs = {}") (simp_all add: Min_insert min.assoc)
    then show ?case using Cons.IH by simp
  qed simp
  then show "a \<in> set xs \<Longrightarrow> foldl min a xs = Min (set xs)" by (simp add: insert_absorb)
qed

lemma copies_verdict_fits:
  "fa_fits (copies_verdict plan nodes each r) \<longleftrightarrow>
     filter (\<lambda>(_, per). \<not> fa_fits (pl_result per)) (zip nodes each) = [] \<and> sameClaim (pl_cache plan) nodes \<and>
     \<not> 1 < length (copy_shapes nodes each)"
  "fa_cpu (copies_verdict plan nodes each r) = fa_cpu r" "fa_memory (copies_verdict plan nodes each r) = fa_memory r"
  unfolding copies_verdict_def Let_def map_is_Nil_conv by auto

text \<open>C24. Copies fit together exactly when each fits on its node, the nodes' pods mount one cache claim,
  and all of them need the same devices and tensor parallel degree, since one object runs one pod template;
  the CPU and memory the template requests are the least a node leaves.\<close>

theorem copies_fit_together:
  assumes "each \<noteq> []" "length nodes = length each" "\<forall>per \<in> set each. pl_cache per = l"
  shows "let r = pl_result (judge_copies nodes each) in
     (fa_fits r \<longleftrightarrow> (\<forall>per \<in> set each. fa_fits (pl_result per)) \<and> sameClaim l nodes \<and>
        (\<forall>a \<in> set each. \<forall>b \<in> set each. copy_shape a = copy_shape b)) \<and>
     fa_cpu r = Min ((\<lambda>per. fa_cpu (pl_result per)) ` set each) \<and>
     fa_memory r = Min ((\<lambda>per. fa_memory (pl_result per)) ` set each)"
proof -
  obtain name plan where t: "tightest (hd (zip nodes each)) (zip nodes each) = (name, plan)" by fastforce
  have ne: "zip nodes each \<noteq> []" using assms(1,2) by (cases nodes; cases each) auto
  then have "(name, plan) \<in> set (zip nodes each)"
    using tightest_in[of "hd (zip nodes each)" "zip nodes each"] t by (simp add: insert_absorb)
  then have plan: "plan \<in> set each" by (rule set_zip_rightD)
  have refused: "filter (\<lambda>(_, per). \<not> fa_fits (pl_result per)) (zip nodes each) = [] \<longleftrightarrow> (\<forall>per \<in> set each. fa_fits (pl_result per))"
  proof -
    have "set each = snd ` set (zip nodes each)" using map_snd_zip[OF assms(2)] by (metis set_map)
    then show ?thesis by (auto simp: filter_empty_conv)
  qed
  have cpu: "foldl min (fa_cpu (pl_result plan)) (map (\<lambda>per. fa_cpu (pl_result per)) each) = Min ((\<lambda>per. fa_cpu (pl_result per)) ` set each)"
    using foldl_min[of "fa_cpu (pl_result plan)" "map (\<lambda>per. fa_cpu (pl_result per)) each"] plan by simp
  have mem: "foldl min (fa_memory (pl_result plan)) (map (\<lambda>per. fa_memory (pl_result per)) each) = Min ((\<lambda>per. fa_memory (pl_result per)) ` set each)"
    using foldl_min[of "fa_memory (pl_result plan)" "map (\<lambda>per. fa_memory (pl_result per)) each"] plan by simp
  define r1 where "r1 = (let r = (pl_result plan)\<lparr>fa_placement := placementCopies, fa_nodes := nodes, fa_copies := nodeFits nodes each\<rparr>;
        r = (if fa_node r = [] then r\<lparr>fa_node := name\<rparr> else r)
      in if length (remdups (map (\<lambda>per. fa_pool (pl_result per)) each)) > 1 then r\<lparr>fa_pool := []\<rparr> else r)"
  define r0 where "r0 = foldl (\<lambda>r per. lowest r (pl_result per)) r1 each"
  have r: "pl_result (judge_copies nodes each) = copies_verdict plan nodes each r0"
    by (simp add: judge_copies_def t r0_def r1_def Let_def)
  have "fa_cpu r1 = fa_cpu (pl_result plan)" "fa_memory r1 = fa_memory (pl_result plan)" by (simp_all add: r1_def Let_def)
  then have r0: "fa_cpu r0 = Min ((\<lambda>per. fa_cpu (pl_result per)) ` set each)" "fa_memory r0 = Min ((\<lambda>per. fa_memory (pl_result per)) ` set each)"
    unfolding r0_def using fold_lowest[of r1 each] cpu mem by simp_all
  have "pl_cache plan = l" using assms(3) plan by blast
  then show ?thesis unfolding Let_def r copies_verdict_fits refused one_shape[OF assms(2)] r0 by blast
qed

end
