(* ===== verification/Shape_Correct.thy ===== *)
theory Shape_Correct
  imports Shape VllmArgs_Correct
begin

text \<open>
  What the derived shape promises: the fewest devices of a power of two whose cards hold the share,
  arguments that read back as the shape and keep every other flag, and utilizations sized to a
  hundredth that hold what they were sized for.
\<close>

section \<open>Devices\<close>

lemma mul64_small: "0 \<le> a \<Longrightarrow> 0 \<le> b \<Longrightarrow> a * b < 2 ^ 63 \<Longrightarrow> mul64 a b = a * b"
  unfolding mul64_def by (rule wrap64_id) (use mult_nonneg_nonneg[of a b] in \<open>auto simp: is_int64_def intro: order_trans[of _ 0]\<close>)

lemma wrap64_cong: "x mod 2 ^ 64 = y mod 2 ^ 64 \<Longrightarrow> wrap64 x = wrap64 y"
  unfolding wrap64_def by (metis mod_add_left_eq)

lemma wrap64_mod: "wrap64 x mod 2 ^ 64 = x mod 2 ^ 64"
  unfolding wrap64_def by (metis add_diff_cancel_right' mod_diff_left_eq)

lemma wrap64_mult [simp]: "wrap64 (wrap64 a * b) = wrap64 (a * b)"
  by (rule wrap64_cong) (metis mod_mult_left_eq wrap64_mod)

lemma doubled_smallest:
  assumes "0 < mem" "share \<le> 2 ^ 62" "2 ^ j * mem < 2 ^ 63" "\<forall>i < j. 2 ^ i * mem < share"
  shows "\<exists>k. doubled mem share (2 ^ j) = Some (2 ^ k) \<and> share \<le> 2 ^ k * mem \<and> (\<forall>i < k. 2 ^ i * mem < share)"
  using assms
proof (induction "nat (share - 2 ^ j * mem)" arbitrary: j rule: less_induct)
  case less
  have prod: "mul64 (2 ^ j) mem = 2 ^ j * mem" using less.prems(1,3) by (intro mul64_small) simp_all
  show ?case
  proof (cases "2 ^ j * mem < share")
    case False
    then have "doubled mem share (2 ^ j) = Some (2 ^ j)" by (subst doubled.simps) (simp add: prod)
    then show ?thesis using False less.prems(4) by (intro exI[of _ j]) simp
  next
    case True
    have pos: "(0 :: int) < 2 ^ j * mem" using less.prems(1) by simp
    have "(2 :: int) ^ j * 1 \<le> 2 ^ j * mem" using less.prems(1) by (intro mult_left_mono) simp_all
    then have "(2 :: int) ^ j < 2 ^ 62" using True less.prems(2) by linarith
    then have "mul64 (2 ^ j) 2 = 2 ^ j * 2" by (intro mul64_small) simp_all
    then have "mul64 (2 ^ j) 2 = 2 ^ Suc j" by simp
    then have step: "doubled mem share (2 ^ j) = doubled mem share (2 ^ Suc j)"
      using True by (subst doubled.simps) (simp add: prod)
    have "nat (share - 2 ^ Suc j * mem) < nat (share - 2 ^ j * mem)" using True pos less.prems(1) by simp
    moreover have "2 ^ Suc j * mem < 2 ^ 63" 
    proof -
      have "(2 :: int) ^ 63 = 2 * 2 ^ 62" by simp
      then show ?thesis unfolding power_Suc mult.assoc using True less.prems(2) by linarith
    qed
    moreover have "\<forall>i < Suc j. 2 ^ i * mem < share" using less.prems(4) True by (auto simp: less_Suc_eq)
    ultimately show ?thesis unfolding step by (intro less.hyps less.prems(1,2))
  qed
qed

text \<open>C29. On GPUs with memory of their own, a model whose share is at most 2^62 bytes gets the smallest
  power of two of cards that hold it, and the doubling loop ends.\<close>

theorem smallest_devices:
  assumes "\<not> cpu (Some p)" "0 < nb_gpuMemory n" "nb_gpuMemory n < 2 ^ 63" "share \<le> 2 ^ 62"
  shows "\<exists>k. devicesOn p n share = Some (2 ^ k) \<and> share \<le> 2 ^ k * nb_gpuMemory n \<and>
     (\<forall>i < k. 2 ^ i * nb_gpuMemory n < share)"
  using doubled_smallest[of "nb_gpuMemory n" share 0] assms by (simp add: devicesOn_def unifiedGPU_def)

text \<open>With more to hold the product wraps before it reaches the share: the loop reaches zero devices
  and never returns.\<close>

lemma doubled_stuck: "0 < share \<Longrightarrow> doubled mem share 0 = None"
proof -
  have "doubled mem share d = Some y \<Longrightarrow> \<not> (d = 0 \<and> 0 < share)" for d y
    by (erule doubled.raw_induct[rotated, where P = "\<lambda>m s d y. \<not> (d = 0 \<and> 0 < s)"])
      (auto simp: mul64_def wrap64_def split: if_splits)
  then show "0 < share \<Longrightarrow> doubled mem share 0 = None" by (cases "doubled mem share 0") auto
qed

lemma doubled_step: "mul64 d mem < share \<Longrightarrow> doubled mem share d = doubled mem share (mul64 d 2)"
  by (subst doubled.simps) simp

lemma doubled_wraps:
  assumes "2 ^ 62 < share" "j \<le> 64"
  shows "doubled (2 ^ 34) share (wrap64 (2 ^ (64 - j))) = None"
  using assms(2)
proof (induction j)
  case 0
  have "wrap64 (2 ^ 64) = 0" by (simp add: wrap64_def)
  then show ?case using doubled_stuck assms(1) by simp
next
  case (Suc j)
  have e: "2 ^ (64 - Suc j) * 2 = (2 :: int) ^ (64 - j)"
  proof -
    have "64 - j = Suc (64 - Suc j)" using Suc.prems by simp
    then show ?thesis by simp
  qed
  have low: "wrap64 (2 ^ m * 2 ^ 34) \<le> 2 ^ 62" for m :: nat
  proof (cases "m \<le> 28")
    case True
    have "(2 :: int) ^ m * 2 ^ 34 \<le> 2 ^ 28 * 2 ^ 34" using True by (intro mult_right_mono power_increasing) simp_all
    then have "(2 :: int) ^ m * 2 ^ 34 \<le> 2 ^ 62" by simp
    moreover have "wrap64 (2 ^ m * 2 ^ 34) = 2 ^ m * 2 ^ 34" 
      using calculation mul64_small[of "2 ^ m" "2 ^ 34"] by (simp add: mul64_def)
    ultimately show ?thesis by simp
  next
    case False
    then obtain i where "m = 29 + i" using le_Suc_ex[of 29 m] by auto
    then have m: "(2 :: int) ^ m * 2 ^ 34 = 2 ^ 63 * 2 ^ i" by (simp add: power_add)
    show ?thesis
    proof (cases i)
      case 0
      then show ?thesis unfolding m by (simp add: wrap64_def)
    next
      case (Suc i')
      then have "(2 :: int) ^ 63 * 2 ^ i = 2 ^ 64 * 2 ^ i'" by simp
      then have "wrap64 (2 ^ m * 2 ^ 34) = 0" unfolding m by (simp add: wrap64_def)
      then show ?thesis by simp
    qed
  qed
  have "mul64 (wrap64 (2 ^ (64 - Suc j))) (2 ^ 34) < share"
    unfolding mul64_def wrap64_mult using low[of "64 - Suc j"] assms(1) by linarith
  from doubled_step[OF this]
  have "doubled (2 ^ 34) share (wrap64 (2 ^ (64 - Suc j))) = doubled (2 ^ 34) share (wrap64 (2 ^ (64 - j)))"
    unfolding mul64_def wrap64_mult e .
  then show ?case using Suc by simp
qed

lemma devices_never_end:
  assumes "\<not> cpu (Some p)" "nb_gpuMemory n = 16 * gib" "2 ^ 62 < share"
  shows "devicesOn p n share = None"
proof -
  have "wrap64 (2 ^ (64 - 64)) = 1" by (simp add: wrap64_def)
  then have "doubled (2 ^ 34) share 1 = None" using doubled_wraps[OF assms(3), of 64] by simp
  then show ?thesis using assms(1,2) by (simp add: devicesOn_def unifiedGPU_def gib_def)
qed

end
