(* ===== verification/Args_Correct.thy ===== *)
theory Args_Correct
  imports Shape_Correct
begin

text \<open>
  The composed arguments read back as the shape: dropping a flag keeps what every other flag says, and
  an appended flag says its value.
\<close>

section \<open>Arguments that are flags with values\<close>

definition flag_token :: "string \<Rightarrow> bool" where
  "flag_token a \<longleftrightarrow> prefix ''--'' a \<and> trim_space a = a"

definition takes_next :: "string \<Rightarrow> string \<Rightarrow> bool" where
  "takes_next a b \<longleftrightarrow> CHR ''='' \<notin> set a \<and> flag_name a \<noteq> flagNoEnableChunkedPrefill \<and> \<not> prefix ''-'' b"

text \<open>Every argument is a flag or its value; the flags \<open>fs\<close> have one.\<close>

fun plain_args :: "string list \<Rightarrow> string list \<Rightarrow> bool" where
  "plain_args fs [] = True"
| "plain_args fs [a] = (flag_token a \<and> a \<notin> set fs)"
| "plain_args fs (a # b # as) =
     (flag_token a \<and>
      (if takes_next a b then plain_args fs as else a \<notin> set fs \<and> plain_args fs (b # as)))"

lemma plain_args_hd: "plain_args fs (a # as) \<Longrightarrow> flag_token a"
  by (cases as) simp_all

lemma flag_token_dash: "flag_token a \<Longrightarrow> prefix ''-'' a"
  by (auto simp: flag_token_def prefix_def)

lemma not_takes_flag: "flag_token b \<Longrightarrow> \<not> takes_next a b"
  by (simp add: takes_next_def flag_token_dash)

definition flag_part :: "string \<Rightarrow> string" where
  "flag_part a = takeWhile (\<lambda>x. x \<noteq> CHR ''='') a"

definition value_part :: "string \<Rightarrow> string" where
  "value_part a = drop (Suc (length (flag_part a))) a"

lemma cut_parts: "cut c s = (takeWhile (\<lambda>x. x \<noteq> c) s, drop (Suc (length (takeWhile (\<lambda>x. x \<noteq> c) s))) s, c \<in> set s)"
proof (induction s)
  case (Cons a s)
  show ?case
  proof (cases "c \<in> set s")
    case False
    then have t: "takeWhile (\<lambda>x. x \<noteq> c) s = s" by (subst takeWhile_eq_all_conv) auto
    with Cons False have "cut c s = (s, [], False)" by simp
    then show ?thesis using False by (cases "a = c") (simp_all add: t)
  qed (use Cons in \<open>auto split: prod.splits\<close>)
qed simp

lemma cut_token: "flag_token a \<Longrightarrow> cut (CHR ''='') (trim_space a) = (flag_part a, value_part a, CHR ''='' \<in> set a)"
  by (simp add: flag_token_def cut_parts flag_part_def value_part_def)

lemma flag_part_dashes: "flag_token a \<Longrightarrow> prefix ''--'' (flag_part a)"
  by (auto simp: flag_token_def prefix_def flag_part_def)

lemma flag_part_plain: "CHR ''='' \<notin> set a \<Longrightarrow> flag_part a = a"
  unfolding flag_part_def by (subst takeWhile_eq_all_conv) auto

lemma flag_loop_single:
  "flag_token a \<Longrightarrow> flag_loop m [a] = m(flag_name (flag_part a) \<mapsto> flag_value (value_part a))"
  using flag_part_dashes[of a] by (simp add: cut_token)

lemma flag_loop_takes:
  assumes "flag_token a" "takes_next a b"
  shows "flag_loop m (a # b # as) = flag_loop (m(flag_name a \<mapsto> flag_value b)) as"
  using assms flag_part_dashes[of a] flag_part_plain[of a] by (simp add: cut_token takes_next_def)

lemma flag_loop_alone:
  assumes "flag_token a" "\<not> takes_next a b"
  shows "flag_loop m (a # b # as) = flag_loop (m(flag_name (flag_part a) \<mapsto> flag_value (value_part a))) (b # as)"
proof -
  have "\<not> (CHR ''='' \<notin> set a \<and> flag_name (flag_part a) \<noteq> flagNoEnableChunkedPrefill \<and> \<not> prefix ''-'' b)"
    using assms(2) flag_part_plain[of a] by (auto simp: takes_next_def)
  then show ?thesis using assms(1) flag_part_dashes[OF assms(1)] by (auto simp: cut_token Let_def)
qed

declare flag_loop.simps(2,3) [simp del]

lemma flag_loop_flag:
  assumes "flag_token a" "plain_args fs as"
  shows "flag_loop m (a # as) = flag_loop (m(flag_name (flag_part a) \<mapsto> flag_value (value_part a))) as"
  using assms flag_loop_alone[OF assms(1) not_takes_flag[OF plain_args_hd]]
  by (cases as) (simp_all add: flag_loop_single)

section \<open>Dropping a flag\<close>

definition agree :: "string \<Rightarrow> (string \<rightharpoonup> string) \<Rightarrow> (string \<rightharpoonup> string) \<Rightarrow> bool" where
  "agree f m m' \<longleftrightarrow> (\<forall>g. g \<noteq> f \<longrightarrow> m g = m' g)"

lemma agree_upd [intro]: "agree f m m' \<Longrightarrow> agree f (m(k \<mapsto> v)) (m'(k \<mapsto> v))"
  by (simp add: agree_def)

lemma agree_drop [intro]: "agree f m m' \<Longrightarrow> agree f m (m'(f \<mapsto> v))"
  by (simp add: agree_def)

lemma withoutFlag_keeps:
  "a \<noteq> f \<Longrightarrow> \<not> prefix (f @ ''='') a \<Longrightarrow> withoutFlag (a # as) f = a # withoutFlag as f"
  by (cases as) simp_all

lemma is_flag_takes: "is_flag f \<Longrightarrow> \<not> prefix ''-'' b \<Longrightarrow> takes_next f b"
  by (simp add: is_flag_def takes_next_def)

lemma not_dash_kept: "is_flag f \<Longrightarrow> \<not> prefix ''-'' b \<Longrightarrow> b \<noteq> f \<and> \<not> prefix (f @ ''='') b"
  using prefix_dash[of f] prefix_order.trans[of "''-''" f b] by (auto simp: is_flag_def dest: append_prefixD)

lemma assigned_flag:
  assumes "is_flag f" "prefix (f @ ''='') a"
  shows "flag_part a = f" "\<not> takes_next a b" "a \<noteq> f"
proof -
  obtain r where a: "a = f @ CHR ''='' # r" using assms(2) by (auto simp: prefix_def)
  have "CHR ''='' \<notin> set f" using assms(1) by (simp add: is_flag_def)
  then have "takeWhile (\<lambda>x. x \<noteq> CHR ''='') a = f" unfolding a by (subst takeWhile_append2) auto
  then show "flag_part a = f" by (simp add: flag_part_def)
qed (use assms in \<open>auto simp: prefix_def takes_next_def\<close>)

lemma withoutFlag_drops: "prefix (f @ ''='') a \<Longrightarrow> is_flag f \<Longrightarrow> withoutFlag (a # as) f = withoutFlag as f"
  using assigned_flag(3)[of f a] by (cases as) simp_all

lemma flag_name_of: "is_flag f \<Longrightarrow> flag_name f = f"
  by (simp add: is_flag_def)

lemma withoutFlag_agree:
  assumes "plain_args fs args" "f \<in> set fs" "is_flag f" "agree f m m'"
  shows "agree f (flag_loop m (withoutFlag args f)) (flag_loop m' args) \<and> plain_args fs (withoutFlag args f)"
  using assms
proof (induction fs args arbitrary: m m' rule: plain_args.induct)
  case (1 fs)
  then show ?case by simp
next
  case (2 fs a)
  then have t: "flag_token a" "a \<notin> set fs" by simp_all
  show ?case
  proof (cases "prefix (f @ ''='') a")
    case True
    have "agree f m (m'(f \<mapsto> flag_value (value_part a)))" using 2(4) by (rule agree_drop)
    then show ?thesis
      using t assigned_flag(1)[OF 2(3) True] 2(3) withoutFlag_drops[OF True 2(3), of "[]"]
      by (simp add: flag_loop_single flag_name_of agree_def)
  next
    case False
    then have "withoutFlag [a] f = [a]" using t(2) 2(2) by auto
    then show ?thesis using 2(4) t by (simp add: flag_loop_single agree_def)
  qed
next
  case (3 fs a b as)
  note f = \<open>f \<in> set fs\<close> \<open>is_flag f\<close> \<open>agree f m m'\<close>
  have t: "flag_token a" using 3(3) by simp
  consider (assigned) "prefix (f @ ''='') a" | (bare) "a = f"
    | (takes) "a \<noteq> f" "\<not> prefix (f @ ''='') a" "takes_next a b"
    | (alone) "a \<noteq> f" "\<not> prefix (f @ ''='') a" "\<not> takes_next a b" by blast
  then show ?case
  proof cases
    case assigned
    note n = assigned_flag[OF f(2) assigned]
    have p: "plain_args fs (b # as)" using 3(3) n(2) by simp
    have "agree f m (m'(f \<mapsto> flag_value (value_part a)))" using f(3) by blast
    from "3.IH"(2)[OF n(2) p f(1,2) this] show ?thesis
      using n(1,2) t f(2) by (simp add: flag_loop_alone flag_name_of withoutFlag_drops[OF assigned f(2)] fun_upd_def del: withoutFlag.simps)
  next
    case bare
    have n: "takes_next a b" using 3(3) bare f(1) by (auto split: if_splits)
    have p: "plain_args fs as" using 3(3) n by simp
    have "agree f m (m'(f \<mapsto> flag_value b))" using f(3) by blast
    from "3.IH"(1)[OF n p f(1,2) this] show ?thesis
      using n t f(2) bare by (simp add: flag_loop_takes flag_name_of fun_upd_def)
  next
    case takes
    have p: "plain_args fs as" using 3(3) takes(3) by simp
    have "b \<noteq> f \<and> \<not> prefix (f @ ''='') b" using takes(3) not_dash_kept[OF f(2)] by (simp add: takes_next_def)
    then have w: "withoutFlag (a # b # as) f = a # b # withoutFlag as f"
      using takes(1,2) by (simp add: withoutFlag_keeps del: withoutFlag.simps)
    have "agree f (m(flag_name a \<mapsto> flag_value b)) (m'(flag_name a \<mapsto> flag_value b))" using f(3) by blast
    from "3.IH"(1)[OF takes(3) p f(1,2) this] show ?thesis
      using takes(3) t unfolding w by (simp add: flag_loop_takes fun_upd_def)
  next
    case alone
    have p: "plain_args fs (b # as)" "a \<notin> set fs" using 3(3) alone(3) by simp_all
    have w: "withoutFlag (a # b # as) f = a # withoutFlag (b # as) f"
      using alone(1,2) by (simp add: withoutFlag_keeps del: withoutFlag.simps)
    let ?u = "\<lambda>m. m(flag_name (flag_part a) \<mapsto> flag_value (value_part a))"
    have "agree f (?u m) (?u m')" using f(3) by blast
    from "3.IH"(2)[OF alone(3) p(1) f(1,2) this]
    have IH: "agree f (flag_loop (?u m) (withoutFlag (b # as) f)) (flag_loop (?u m') (b # as))"
      and q: "plain_args fs (withoutFlag (b # as) f)" by (simp_all add: fun_upd_def)
    have "plain_args fs (a # withoutFlag (b # as) f)"
      using q t p(2) not_takes_flag[OF plain_args_hd] by (cases "withoutFlag (b # as) f") auto
    then show ?thesis
      using IH flag_loop_flag[OF t q] flag_loop_alone[OF t alone(3)] unfolding w by (simp add: fun_upd_def)
  qed
qed

lemma plain_args_append:
  "plain_args fs args \<Longrightarrow> is_flag f \<Longrightarrow> \<not> prefix ''-'' v \<Longrightarrow> plain_args fs (args @ [f, v])"
proof (induction fs args rule: plain_args.induct)
  case (1 fs)
  then show ?case by (simp add: is_flag_takes) (simp add: is_flag_def flag_token_def)
next
  case (2 fs a)
  then have "flag_token f" by (simp add: is_flag_def flag_token_def)
  then show ?case using 2 by (simp add: not_takes_flag is_flag_takes)
qed auto

section \<open>The composed arguments\<close>

lemma trim_float_hundredth:
  assumes "1 \<le> k" "k \<le> 100"
  shows "trimFloat2 (fl (of_int k / 100)) = show_hundredths (fl (of_int k / 100))"
proof -
  obtain a where a: "fl (of_int k / 100) = Fin a" "0 < a" "a \<le> 1" "\<bar>a - of_int k / 100\<bar> \<le> 1 / 2 ^ 53"
    using fl_hundredths[OF assms] by blast
  have k: "(1 :: rat) \<le> of_int k" "(of_int k :: rat) \<le> 100" using assms by simp_all
  have h: "of_int64 100 = Fin 100" using of_int64_exact[of 100] by simp
  have a100: "\<bar>a * 100 - of_int k\<bar> \<le> 1 / 2 ^ 46"
  proof -
    have "\<bar>a * 100 - of_int k\<bar> = 100 * \<bar>a - of_int k / 100\<bar>" by (simp add: abs_mult_pos' right_diff_distrib)
    also have "\<dots> \<le> 100 * (1 / 2 ^ 53)" using a(4) by (rule mult_left_mono) simp
    finally show ?thesis by (rule order_trans) simp
  qed
  then have lo: "1 / 2 \<le> a * 100" "a * 100 \<le> 101" using k by (simp_all add: abs_if split: if_splits)
  have "pow2 (- 1022) \<le> pow2 (- 1)" by (rule pow2_mono) simp
  then have "\<bar>fl_abs (a * 100) - a * 100\<bar> \<le> a * 100 / 2 ^ 53" using lo by (intro fl_abs_near) simp
  also have "\<dots> \<le> 1 / 2 ^ 46" using lo by simp
  finally have near: "\<bar>fl_abs (a * 100) - of_int k\<bar> \<le> 1 / 2 ^ 45" using a100 by (simp add: abs_if split: if_splits)
  have "a * 100 < pow2 1023" using lo pow2_mono[of 7 1023] by simp
  then have m: "fmul (Fin a) (of_int64 100) = Fin (fl_abs (a * 100))" using lo by (simp add: h fl_finite)
  have "\<lfloor>fl_abs (a * 100) + 1 / 2\<rfloor> = k" using near by (simp add: floor_eq_iff abs_if split: if_splits)
  moreover have "\<not> fl_abs (a * 100) < 0" using near k by (simp add: abs_if split: if_splits)
  ultimately have "fround (fmul (Fin a) (of_int64 100)) = Fin (of_int k)" by (simp add: m fround_def)
  then show ?thesis using a(1) by (simp add: trimFloat2_def h)
qed

lemma flag_value_plain:
  assumes "s \<noteq> []" "\<not> is_space (hd s)" "\<not> is_space (last s)" "\<not> is_quote (hd s)" "\<not> is_quote (last s)"
  shows "flag_value s = s"
proof -
  have "dropWhile is_quote s = s" using assms by (intro dropWhile_fixed) simp
  moreover have "dropWhile is_quote (rev s) = rev s" using assms by (intro dropWhile_fixed) (simp add: hd_rev)
  ultimately show ?thesis using assms by (simp add: flag_value_def trim_quotes_def trim_space_fixed)
qed

definition number_text :: "string \<Rightarrow> bool" where
  "number_text s \<longleftrightarrow> s \<noteq> [] \<and> list_all (\<lambda>c. is_digit c \<or> c = CHR ''.'') s"

lemma number_text_value: "number_text s \<Longrightarrow> flag_value s = s \<and> \<not> prefix ''-'' s"
proof -
  assume n: "number_text s"
  have dot: "\<not> is_space (CHR ''.'')" "\<not> is_quote (CHR ''.'')" by code_simp+
  have "is_digit c \<or> c = CHR ''.'' \<Longrightarrow> \<not> is_space c \<and> \<not> is_quote c \<and> c \<noteq> CHR ''-''" for c
    using dot digit_plain by auto
  moreover have "is_digit (hd s) \<or> hd s = CHR ''.''" "is_digit (last s) \<or> last s = CHR ''.''"
    using n by (auto simp: number_text_def list_all_iff)
  ultimately show ?thesis using n flag_value_plain[of s] by (cases s) (auto simp: number_text_def)
qed

lemma number_text_int: "0 \<le> n \<Longrightarrow> number_text (show_int n)"
  using show_nat_digits[of "nat n"] by (auto simp: show_int_def number_text_def list_all_iff)

lemma number_text_hundredths:
  assumes "1 \<le> k" "k \<le> 100"
  shows "number_text (show_hundredths (fl (of_int k / 100)))"
proof -
  obtain a where a: "fl (of_int k / 100) = Fin a" "0 < a" using fl_hundredths[OF assms] by blast
  have r: "0 \<le> round_even a" "0 \<le> round_even (a * 10)" "0 \<le> round_even (a * 100)"
    using a(2) by (simp_all add: round_even_nonneg)
  have join: "number_text s \<Longrightarrow> number_text t \<Longrightarrow> number_text (s @ t)"
    "number_text s \<Longrightarrow> number_text (CHR ''.'' # s)" for s t
    by (simp_all add: number_text_def)
  show ?thesis
    using a r by (auto simp: show_hundredths_def Let_def intro!: join number_text_int pos_imp_zdiv_nonneg_iff[THEN iffD2])
qed

text \<open>What composing writes for one flag.\<close>

definition set_flag :: "string list \<Rightarrow> string \<Rightarrow> string \<Rightarrow> string list" where
  "set_flag args f v = withoutFlag args f @ [f, v]"

lemma set_flag_reads:
  assumes "plain_args fs args" "f \<in> set fs" "is_flag f" "number_text v"
  shows "vllmFlagValues (set_flag args f v) = (\<lambda>g. if g = f then Some v else vllmFlagValues args g)"
    "plain_args fs (set_flag args f v)"
proof -
  note w = withoutFlag_agree[OF assms(1-3), of Map.empty Map.empty]
  have v: "flag_value v = v" "\<not> prefix ''-'' v" using number_text_value[OF assms(4)] by auto
  show "vllmFlagValues (set_flag args f v) = (\<lambda>g. if g = f then Some v else vllmFlagValues args g)"
    using w vllmFlagValues_append[OF assms(3) v(2)] v(1)
    by (auto simp: set_flag_def vllmFlagValues_def agree_def fun_eq_iff)
  show "plain_args fs (set_flag args f v)"
    unfolding set_flag_def using w assms(3) v(2) by (intro plain_args_append) (simp_all add: agree_def)
qed

lemma feq_Fin: "feq (Fin a) u \<longleftrightarrow> u = Fin a"
  by (cases u) (auto simp: feq_def)

lemma fl_hundredth_range:
  assumes "1 \<le> k" "k \<le> 100"
  obtains a where "fl (of_int k / 100) = Fin a" "0 < a" "a \<le> 1"
  using fl_hundredths[OF assms] by metis

lemma utilization_reads:
  assumes "\<not> cpu (Some p)" "1 \<le> k" "k \<le> 100"
    "vllmFlagValues (sp_args p) flagGPUMemoryUtilization = Some (show_hundredths (fl (of_int k / 100)))"
  shows "utilization p = fl (of_int k / 100)"
proof -
  obtain a where "fl (of_int k / 100) = Fin a" "0 < a" "a \<le> 1" using fl_hundredth_range[OF assms(2,3)] .
  then show ?thesis using assms hundredths_roundtrip[OF assms(2,3)]
    by (auto simp: utilization_def parseUtilization_def fless_def feq_def)
qed

text \<open>C28. The composed arguments say the shape: for a preset whose arguments are flags with their values,
  vLLM reads the shape's tensor parallel degree and its utilization (a hundredth) back from them, and
  every other flag as the preset wrote it.\<close>

theorem shape_args_read_back:
  assumes "plain_args [flagTensorParallelSize, flagGPUMemoryUtilization] (sp_args p)" "\<not> cpu (Some p)"
    "0 < sh_tensor sh" "sh_tensor sh \<le> 2 ^ 53" "sh_util sh = fl (of_int k / 100)" "1 \<le> k" "k \<le> 100"
  shows "let q = p\<lparr>sp_args := shapeArgs p sh\<rparr> in
     presetTensorParallel q = sh_tensor sh \<and> utilization q = sh_util sh \<and>
     (\<forall>f. f \<noteq> flagTensorParallelSize \<and> f \<noteq> flagGPUMemoryUtilization \<longrightarrow>
       vllmFlagValues (sp_args q) f = vllmFlagValues (sp_args p) f)"
proof -
  let ?fs = "[flagTensorParallelSize, flagGPUMemoryUtilization]" and ?t = "show_int (sh_tensor sh)"
  let ?u = "show_hundredths (fl (of_int k / 100))"
  have ne: "flagTensorParallelSize \<noteq> flagGPUMemoryUtilization" by (simp add: flag_defs)
  obtain a where a: "sh_util sh = Fin a" "0 < a" using fl_hundredth_range[OF assms(6,7)] assms(5) by metis
  define args where "args = (if sh_tensor sh \<noteq> presetTensorParallel p
      then set_flag (sp_args p) flagTensorParallelSize ?t else sp_args p)"
  have shape: "shapeArgs p sh = (if sh_util sh = utilization p then args else set_flag args flagGPUMemoryUtilization ?u)"
    using a assms(3) feq_Fin[of a "utilization p"] trim_float_hundredth[OF assms(6,7)]
    by (auto simp: shapeArgs_def args_def set_flag_def assms(5)[symmetric] fless_def Let_def feq_def)
  have A: "plain_args ?fs args" "tensor_parallel args = sh_tensor sh"
    "\<And>f. f \<noteq> flagTensorParallelSize \<Longrightarrow> vllmFlagValues args f = vllmFlagValues (sp_args p) f"
    using set_flag_reads[OF assms(1) _ is_flag_tensor number_text_int[of "sh_tensor sh"]]
      readable_whole[of "sh_tensor sh"] assms(1,3,4)
    by (auto simp: args_def tensor_parallel_def presetTensorParallel_def)
  show ?thesis
  proof (cases "sh_util sh = utilization p")
    case True
    then show ?thesis using A ne unfolding shape
      by (simp add: presetTensorParallel_def utilization_def cpu_def gpus_def Let_def)
  next
    case False
    note U = set_flag_reads[OF A(1) _ is_flag_utilization number_text_hundredths[OF assms(6,7)]]
    let ?q = "p\<lparr>sp_args := set_flag args flagGPUMemoryUtilization ?u\<rparr>"
    have q: "vllmFlagValues (sp_args ?q) = (\<lambda>g. if g = flagGPUMemoryUtilization then Some ?u else vllmFlagValues args g)"
      using U(1) by simp
    have "utilization ?q = sh_util sh"
      using q assms(2,5-7) by (intro utilization_reads[THEN trans[OF _ assms(5)[symmetric]]]) (simp_all add: cpu_def gpus_def)
    moreover have "presetTensorParallel ?q = sh_tensor sh"
      using q ne A(2) by (simp add: presetTensorParallel_def tensor_parallel_def)
    ultimately show ?thesis using False q A(3) unfolding shape by (simp add: Let_def)
  qed
qed

end
