(* ===== verification/Unified_Correct.thy ===== *)
theory Unified_Correct
  imports Shape_Correct
begin

text \<open>
  The claim on unified memory: a utilization sized to a hundredth claims at most what the node leaves
  and holds the weights and overhead up to the one byte its last rounding may take.
\<close>

section \<open>Rounding errors\<close>

text \<open>A rounding keeps at least this part of a number, and at most twice the number.\<close>

definition kept_part :: rat where "kept_part = 1 - 1 / 2 ^ 53"

lemma kept_part: "0 \<le> kept_part" "1 / 2 \<le> kept_part" "kept_part \<le> 1"
  "1 - 1 / 2 ^ 51 \<le> kept_part * kept_part * kept_part * kept_part"
  by (simp_all add: kept_part_def)

lemma fl_rel:
  assumes "1 / 2 ^ 60 \<le> x" "x \<le> 2 ^ 120"
  obtains y where "fl x = Fin y" "x * kept_part \<le> y" "y \<le> x * 2"
proof -
  define e where "e = x / 2 ^ 53"
  have "(0 :: rat) < 1 / 2 ^ 60" by simp
  then have pos: "0 < x" using assms(1) by (rule order.strict_trans2)
  have "pow2 (- 1022) \<le> pow2 (- 60)" by (rule pow2_mono) simp
  then have "pow2 (- 1022) \<le> x" using assms(1) by simp
  then have near: "\<bar>fl_abs x - x\<bar> \<le> e" unfolding e_def by (rule fl_abs_near)
  have "pow2 120 < pow2 1023" by (rule pow2_less) simp
  then have "x < pow2 1023" using assms(2) by simp
  then have fin: "fl x = Fin (fl_abs x)" using pos by (intro fl_finite) simp_all
  have k: "x * kept_part = x - e" by (simp add: kept_part_def e_def right_diff_distrib)
  have "e \<le> x" using pos by (simp add: e_def)
  then show ?thesis using near fin unfolding abs_le_iff by (intro that[of "fl_abs x"]) (simp_all add: k)
qed

lemma rat_le_pow: "z \<le> 2 ^ 50 \<Longrightarrow> (of_int z :: rat) \<le> 2 ^ 50"
proof -
  assume "z \<le> 2 ^ 50"
  then have "(of_int z :: rat) \<le> of_int (2 ^ 50)" by (simp only: of_int_le_iff)
  then show ?thesis by simp
qed

lemma hundredth_bounds: "1 \<le> c \<Longrightarrow> c \<le> 2 ^ 61 \<Longrightarrow> 1 / 2 ^ 60 \<le> c / 100 \<and> c / 100 \<le> (2 ^ 120 :: rat)"
  by simp

text \<open>The steps of \<open>ceil(need / memory * 100) / 100 * memory\<close>, each rounded.\<close>

lemma hundredths_steps:
  assumes "1 \<le> N" "N \<le> 2 ^ 50" "1 \<le> M" "M \<le> 2 ^ 50"
  obtains q x where "fl (N / M) = Fin q" "fl (q * 100) = Fin x" "N / M * kept_part * 100 * kept_part \<le> x" "0 < x" "x \<le> 2 ^ 60"
proof -
  have lo: "1 / 2 ^ 50 \<le> N / M"
  proof -
    have "1 / 2 ^ 50 \<le> 1 / M" using assms(3,4) by (intro divide_left_mono) simp_all
    also have "\<dots> \<le> N / M" using assms(1,3) by (intro divide_right_mono) simp_all
    finally show ?thesis .
  qed
  have "N / M \<le> N / 1" using assms(1,3) by (intro divide_left_mono) simp_all
  then have hi: "N / M \<le> 2 ^ 50" using assms(2) by simp
  have "1 / 2 ^ 60 \<le> N / M" by (rule order_trans[OF _ lo]) simp
  moreover have "N / M \<le> 2 ^ 120" by (rule order_trans[OF hi]) simp
  ultimately obtain q where q: "fl (N / M) = Fin q" "N / M * kept_part \<le> q" "q \<le> N / M * 2" by (rule fl_rel)
  have "(0 :: rat) \<le> 1 / 2 ^ 50" by simp
  then have pos: "0 \<le> N / M" using lo by (rule order_trans)
  have "1 / 2 ^ 50 * (1 / 2) \<le> N / M * kept_part" using lo kept_part(2) pos by (intro mult_mono) simp_all
  from order_trans[OF this q(2)] have qlo: "1 / 2 ^ 51 \<le> q" by simp
  have "N / M * 2 \<le> 2 ^ 50 * 2" using hi by (rule mult_right_mono) simp
  with q(3) have "q \<le> 2 ^ 50 * 2" by (rule order_trans)
  then have qhi: "q \<le> 2 ^ 51" by simp
  have "1 / 2 ^ 60 \<le> q * 100" "q * 100 \<le> 2 ^ 120" using qlo qhi by simp_all
  then obtain x where x: "fl (q * 100) = Fin x" "q * 100 * kept_part \<le> x" "x \<le> q * 100 * 2" by (rule fl_rel)
  have "N / M * kept_part * 100 * kept_part \<le> q * 100 * kept_part"
    using q(2) kept_part(1) by (intro mult_right_mono) simp_all
  from order_trans[OF this x(2)] have lower: "N / M * kept_part * 100 * kept_part \<le> x" .
  have "0 < q * 100 * kept_part" using qlo kept_part(2) by simp
  then have "0 < x" using x(2) by (rule order.strict_trans2)
  moreover have "x \<le> 2 ^ 60" using x(3) qhi by simp
  ultimately show ?thesis using q(1) x(1) lower by (intro that[of q x])
qed

lemma ceiling_steps:
  fixes x :: rat
  assumes "0 < x" "x \<le> 2 ^ 60"
  obtains u where "fl (of_int \<lceil>x\<rceil> / 100) = Fin u"
proof -
  have "1 \<le> \<lceil>x\<rceil>" "\<lceil>x\<rceil> \<le> 2 ^ 61" using assms by (linarith, simp add: ceiling_le_iff)
  then have "(1 :: rat) \<le> of_int \<lceil>x\<rceil>" "(of_int \<lceil>x\<rceil> :: rat) \<le> of_int (2 ^ 61)" by (linarith, simp only: of_int_le_iff)
  then have "1 / 2 ^ 60 \<le> (of_int \<lceil>x\<rceil> / 100 :: rat)" "(of_int \<lceil>x\<rceil> / 100 :: rat) \<le> 2 ^ 120"
    using hundredth_bounds[of "of_int \<lceil>x\<rceil>"] by (metis of_int_numeral of_int_power)+
  then obtain u where "fl (of_int \<lceil>x\<rceil> / 100) = Fin u" by (rule fl_rel)
  then show ?thesis by (rule that)
qed

lemma claim_steps:
  assumes "0 < x" "x \<le> 2 ^ 60" "1 \<le> M" "M \<le> 2 ^ 50" "fl (of_int \<lceil>x\<rceil> / 100) = Fin u" "u \<le> 1"
  obtains v where "fl (u * M) = Fin v" "x / 100 * kept_part * M * kept_part \<le> v" "v < 2 ^ 63"
proof -
  let ?c = "of_int \<lceil>x\<rceil> :: rat"
  have c: "x \<le> ?c" "1 \<le> ?c" "?c \<le> 2 ^ 61"
  proof -
    show "x \<le> ?c" by (rule le_of_int_ceiling)
    have "1 \<le> \<lceil>x\<rceil>" using assms(1) by linarith
    then show "1 \<le> ?c" by simp
    have "?c \<le> x + 1" by linarith
    then show "?c \<le> 2 ^ 61" using assms(2) by simp
  qed
  have "1 / 2 ^ 60 \<le> ?c / 100" "?c / 100 \<le> 2 ^ 120" using hundredth_bounds[OF c(2,3)] by blast+
  then obtain y where y: "fl (?c / 100) = Fin y" "?c / 100 * kept_part \<le> y" by (rule fl_rel)
  then have u: "?c / 100 * kept_part \<le> u" using assms(5) by simp
  have "1 / 100 * (1 / 2) \<le> ?c / 100 * kept_part" using c kept_part by (intro mult_mono) simp_all
  then have ulo: "1 / 200 \<le> u" using u by simp
  have "1 / 200 * 1 \<le> u * M" using ulo assms(3) by (intro mult_mono) simp_all
  then have lo: "1 / 2 ^ 60 \<le> u * M" by simp
  have "u * M \<le> 1 * 2 ^ 50" using assms(4,6) ulo assms(3) by (intro mult_mono) simp_all
  then have hi: "u * M \<le> 2 ^ 50" by simp
  have "u * M \<le> 2 ^ 120" by (rule order_trans[OF hi]) simp
  with lo obtain v where v: "fl (u * M) = Fin v" "u * M * kept_part \<le> v" "v \<le> u * M * 2" by (rule fl_rel)
  have "x / 100 * kept_part \<le> ?c / 100 * kept_part"
    using c(1) kept_part(1) by (intro mult_right_mono divide_right_mono) simp_all
  then have "x / 100 * kept_part * M * kept_part \<le> u * M * kept_part"
    using u assms(3) kept_part(1) by (intro mult_right_mono) simp_all
  then show ?thesis using v hi by (intro that[of v]) simp_all
qed

lemma hundredths_up_claim:
  assumes "1 \<le> need" "need \<le> 2 ^ 50" "1 \<le> memory" "memory \<le> 2 ^ 50"
    "fless_eq (hundredths_up need memory) (Fin 1)"
  shows "need - 1 \<le> claim_at (hundredths_up need memory) memory"
proof -
  let ?N = "of_int need :: rat" and ?M = "of_int memory :: rat"
  have R: "1 \<le> ?N" "?N \<le> 2 ^ 50" "1 \<le> ?M" "?M \<le> 2 ^ 50" using assms rat_le_pow by simp_all
  have F: "of_int64 need = Fin ?N" "of_int64 memory = Fin ?M" "of_int64 100 = Fin 100"
    using assms of_int64_exact[of need] of_int64_exact[of memory] of_int64_exact[of 100] by simp_all
  obtain q x where x: "fl (?N / ?M) = Fin q" "fl (q * 100) = Fin x" "?N / ?M * kept_part * 100 * kept_part \<le> x" "0 < x" "x \<le> 2 ^ 60"
    using hundredths_steps[OF R] .
  have up: "hundredths_up need memory = fl (of_int \<lceil>x\<rceil> / 100)"
    using R x(1,2) by (simp add: hundredths_up_def F fceil_def)
  obtain w where w: "fl (of_int \<lceil>x\<rceil> / 100) = Fin w" using ceiling_steps[OF x(4,5)] .
  then have u: "fl (of_int \<lceil>x\<rceil> / 100) = Fin w" "w \<le> 1" using assms(5) up by simp_all
  obtain v where v: "fl (w * ?M) = Fin v" "x / 100 * kept_part * ?M * kept_part \<le> v" "v < 2 ^ 63"
    using claim_steps[OF x(4,5) R(3,4) u] .
  have "?N * (1 - 1 / 2 ^ 51) \<le> ?N * (kept_part * kept_part * kept_part * kept_part)"
    using R(1) kept_part(4) by (intro mult_left_mono) simp_all
  also have "\<dots> = (?N / ?M * kept_part * 100 * kept_part) / 100 * kept_part * ?M * kept_part" using R(3) by simp
  also have "\<dots> \<le> x / 100 * kept_part * ?M * kept_part"
    using x(3) R(3) kept_part(1) by (intro mult_right_mono divide_right_mono) simp_all
  also have "\<dots> \<le> v" by (rule v(2))
  finally have "?N - ?N / 2 ^ 51 \<le> v" by (simp add: right_diff_distrib)
  moreover have "?N / 2 ^ 51 \<le> 1 / 2" using R(2) by simp
  ultimately have v1: "?N - 1 / 2 \<le> v" by linarith
  then have "0 \<le> v" using R(1) by linarith
  then have "claim_at (hundredths_up need memory) memory = \<lfloor>v\<rfloor>"
    using v(1,3) by (simp add: claim_at_def up w F to_int64_Fin)
  moreover have "need - 1 \<le> \<lfloor>v\<rfloor>" using v1 by (simp add: le_floor_iff)
  ultimately show ?thesis by simp
qed

lemma hundredths_up_Fin:
  assumes "1 \<le> need" "need \<le> 2 ^ 50" "1 \<le> memory" "memory \<le> 2 ^ 50"
  obtains u where "hundredths_up need memory = Fin u"
proof -
  let ?N = "of_int need :: rat" and ?M = "of_int memory :: rat"
  have R: "1 \<le> ?N" "?N \<le> 2 ^ 50" "1 \<le> ?M" "?M \<le> 2 ^ 50" using assms rat_le_pow by simp_all
  have F: "of_int64 need = Fin ?N" "of_int64 memory = Fin ?M" "of_int64 100 = Fin 100"
    using assms of_int64_exact[of need] of_int64_exact[of memory] of_int64_exact[of 100] by simp_all
  obtain q x where x: "fl (?N / ?M) = Fin q" "fl (q * 100) = Fin x" "0 < x" "x \<le> 2 ^ 60"
    using hundredths_steps[OF R] by metis
  obtain u where "fl (of_int \<lceil>x\<rceil> / 100) = Fin u" using ceiling_steps[OF x(3,4)] .
  then show ?thesis using R x(1,2) by (intro that[of u]) (simp add: hundredths_up_def F fceil_def)
qed

section \<open>The verdict\<close>

lemma vllmClaim_memory: "vllmClaim p n = Some (claim, memory) \<Longrightarrow> 0 < memory \<and> \<not> cpu p"
  by (auto simp: vllmClaim_def Let_def split: option.splits if_splits)

lemma utilization_nonzero: "\<not> cpu (Some p) \<Longrightarrow> utilization p \<noteq> Fin 0"
proof -
  obtain a where "fl (of_int 90 / 100) = Fin a" "0 < a" using fl_hundredths[of 90] by auto
  then have "vllmDefaultUtilization \<noteq> Fin 0" by (simp add: vllmDefaultUtilization_def)
  moreover have "parseUtilization s = Inr u \<Longrightarrow> u \<noteq> Fin 0" for s u
    by (auto simp: parseUtilization_def split: option.splits if_splits)
  ultimately show "\<not> cpu (Some p) \<Longrightarrow> utilization p \<noteq> Fin 0"
    by (auto simp: utilization_def split: option.splits sum.splits)
qed

lemma checked_claim:
  assumes "v = unifiedClaimOn hostHeadroom p n reserved need" "uv_checked v"
  shows "uv_need v = need" "0 < uv_memory v" "uv_preset v = Fin 0" "uv_util v \<noteq> Fin 0"
    "uv_fits v \<longleftrightarrow> uv_claim v \<le> uv_available v \<and> need \<le> uv_claim v"
  using assms vllmClaim_memory utilization_nonzero
  by (auto simp: unifiedClaimOn_def no_claim_def Let_def split: option.splits if_splits)

lemma sized_cases:
  obtains (same) "sized v = v"
    | (down) u where "u = hundredths_up (uv_need v) (uv_memory v)" "\<not> fless_eq u (Fin 0)" "\<not> fless (Fin 1) u"
      "claim_at u (uv_memory v) \<le> uv_available v" "uv_checked v"
      "sized v = v\<lparr>uv_preset := uv_util v, uv_util := u, uv_claim := claim_at u (uv_memory v), uv_fits := True\<rparr>"
proof -
  define u where "u = hundredths_up (uv_need v) (uv_memory v)"
  show ?thesis
  proof (cases "\<not> uv_checked v \<or> uv_fits v \<or> short v \<or> uv_memory v \<le> 0 \<or> fless_eq u (Fin 0) \<or> fless (Fin 1) u \<or>
      uv_available v < claim_at u (uv_memory v)")
    case True
    then have "sized v = v" unfolding sized_def Let_def u_def by (simp only: if_True if_False split: if_splits) blast
    then show ?thesis by (rule same)
  next
    case False
    then show ?thesis by (intro down[of u]) (simp_all add: u_def sized_def Let_def)
  qed
qed

text \<open>C27. A verdict on unified memory that fits, sized down or not: the claim is at most what the node
  leaves models, and holds the weights and overhead it is judged for, up to one byte when the
  utilization was sized (memory and need up to a pebibyte).\<close>

theorem fitting_claim_holds:
  assumes "v = sized (unifiedClaimOn hostHeadroom p n reserved need)" "uv_checked v" "uv_fits v"
    "uv_memory v \<le> 2 ^ 50" "1 \<le> need" "need \<le> 2 ^ 50"
  shows "uv_claim v \<le> uv_available v \<and> need - 1 \<le> uv_claim v \<and> (uv_preset v = Fin 0 \<longrightarrow> need \<le> uv_claim v)"
proof -
  define w where "w = unifiedClaimOn hostHeadroom p n reserved need"
  show ?thesis
  proof (cases rule: sized_cases[of w])
    case same
    then show ?thesis using assms checked_claim[OF w_def] by (simp add: w_def[symmetric])
  next
    case (down u)
    note c = checked_claim[OF w_def down(5)]
    have v: "v = w\<lparr>uv_preset := uv_util w, uv_util := u, uv_claim := claim_at u (uv_memory w), uv_fits := True\<rparr>"
      using assms(1) down(6) by (simp add: w_def)
    then have m: "1 \<le> uv_memory w" "uv_memory w \<le> 2 ^ 50" using c(2) assms(4) by simp_all
    obtain x where x: "hundredths_up need (uv_memory w) = Fin x" using hundredths_up_Fin[OF assms(5,6) m] .
    then have "fless_eq (hundredths_up need (uv_memory w)) (Fin 1)"
      using down(1,3) c(1) by (auto simp: fless_def feq_def)
    from hundredths_up_claim[OF assms(5,6) m this] show ?thesis using c down(1,4) by (simp add: v)
  qed
qed

text \<open>The byte is real: 29 GiB of weights and overhead on a node of 100 GiB are sized to .29, which claims a
  byte less than they need, where the same claim of a preset is refused as short.\<close>

lemma fl_at:
  assumes "pow2 k \<le> x" "x < pow2 (k + 1)" "- 1022 \<le> k" "k < 1023" "round_even (x / pow2 (k - 52)) = m"
  shows "fl x = Fin (of_int m * pow2 (k - 52))"
proof -
  have pos: "0 < x" using assms(1) pow2_pos[of k] by (rule order.strict_trans2[rotated])
  note l = leading_bounds[OF pos]
  have "\<not> leading x < k"
    using pow2_mono[of "leading x + 1" k] l(2) assms(1) by auto
  moreover have "\<not> k < leading x"
    using pow2_mono[of "k + 1" "leading x"] l(1) assms(2) by auto
  ultimately have "leading x = k" by simp
  then have "unit_exp x = k - 52" using assms(3) by (simp add: unit_exp_def)
  then have "fl_abs x = of_int m * pow2 (k - 52)" using fl_abs_unit[of x] pos assms(5) by simp
  moreover have "x < pow2 1023" using assms(2,4) pow2_mono[of "k + 1" 1023] by auto
  then have "fl x = Fin (fl_abs x)" using pos by (intro fl_finite) simp_all
  ultimately show ?thesis by simp
qed

lemma w_fl:
  "fl (29 / 100) = Fin (5224175567749775 / 2 ^ 54)"
  "fl (5224175567749775 / 2 ^ 54 * 100) = Fin (8162774324609023 / 2 ^ 48)"
  "fl (5224175567749775 / 2 ^ 54 * 107374182400) = Fin (8162774324609023 / 2 ^ 18)"
  using fl_at[of "- 2" "29 / 100"] fl_at[of 4 "5224175567749775 / 2 ^ 54 * 100"]
    fl_at[of 34 "5224175567749775 / 2 ^ 54 * 107374182400"]
  by (simp_all add: pow2_def round_even_def Let_def)

lemma w_hundredths_up: "hundredths_up 31138512896 107374182400 = Fin (5224175567749775 / 2 ^ 54)"
proof -
  have "of_int64 31138512896 = Fin 31138512896" "of_int64 107374182400 = Fin 107374182400" "of_int64 100 = Fin 100"
    using of_int64_exact[of 31138512896] of_int64_exact[of 107374182400] of_int64_exact[of 100] by simp_all
  moreover have "\<lceil>8162774324609023 / 281474976710656 :: rat\<rceil> = 29" by (simp add: ceiling_eq_iff)
  ultimately show ?thesis using w_fl by (simp add: hundredths_up_def fceil_def)
qed

lemma sized_one_byte_short:
  "claim_at (hundredths_up 31138512896 107374182400) 107374182400 = 31138512896 - 1"
proof -
  have "of_int64 107374182400 = Fin 107374182400" using of_int64_exact[of 107374182400] by simp
  moreover have "\<lfloor>8162774324609023 / 262144 :: rat\<rfloor> = 31138512895" by (simp add: floor_eq_iff)
  ultimately show ?thesis using w_fl(3) by (simp add: claim_at_def w_hundredths_up to_int64_Fin)
qed

end
