(* ===== verification/KServe_Witnesses.thy ===== *)
theory KServe_Witnesses
  imports Placement_Correct Args_Correct Unified_Correct
begin

text \<open>
  Concrete nodes, presets and plans, and the properties of the fit check applied to them.
\<close>

section \<open>A model without a preset on two nodes\<close>

definition w_hub :: hub_client where
  "w_hub = \<lparr>hc_get = \<lambda>_. Inl (''no route'', False), hc_model = \<lambda>_. Inl ''no JSON'', hc_tree = \<lambda>_. Inl ''no JSON'',
     hc_index = \<lambda>_. Inl ''no JSON'', hc_raw = \<lambda>_. Inl ''no JSON''\<rparr>"

definition w_settings :: settings where
  "w_settings = \<lparr>s_namespace = ''models'', s_gpuResource = ''nvidia.com/gpu'', s_runtimeClass = [], s_selector = [],
     s_pool = no_pool, s_pools = [], s_fastLinks = [], s_routerScheduler = False, s_cacheEnabled = False,
     s_cacheClaim = [], s_cacheRedirect = False, s_cacheNodeClaims = False, s_discoveryFound = False,
     s_discoveryError = []\<rparr>"

definition w_view :: cluster_view where
  "w_view = \<lparr>cw_settings = w_settings, cw_nodes = Inr []\<rparr>"

definition w_env :: fit_env where
  "w_env = \<lparr>fe_sizing = \<lparr>se_hub = w_hub, se_image = \<lambda>_. Inl (errw ErrInvalid ''no registry'', False), se_budget = ''20s'',
       se_ignore = [], se_overhead = Fin 2\<rparr>,
     fe_headroom = Fin 8, fe_source = ''labels'', fe_discovery = ([], []), fe_now = 0,
     fe_quantities = \<lparr>qt_parse = \<lambda>_. Inl ''no quantity'', qt_milli = \<lambda>_. []\<rparr>, fe_refName = \<lambda>_. None,
     fe_presets = Inr [], fe_token = False, fe_cache = Inr no_cache, fe_view = w_view, fe_recheck = None,
     fe_served = Some [], fe_pods = \<lambda>_. Inr [], fe_snapshot = \<lambda>_. \<lparr>cs_entries = [], cs_pending = False\<rparr>,
     fe_index = Map.empty, fe_order = [], fe_decodeKV = \<lambda>_. Inl ''no config'', fe_decodeCompute = \<lambda>_. Inl ''no config'',
     fe_decodeParams = \<lambda>_. Inl ''no params''\<rparr>"

definition w_node :: "string \<Rightarrow> int \<Rightarrow> node_budget" where
  "w_node nm g = zero_node\<lparr>nb_name := nm, nb_ready := True, nb_gpuCount := 1, nb_gpuAllocatable := 1,
     nb_gpuMemory := g * 2 ^ 30, nb_budget := g * 2 ^ 30, nb_source := ''gpu-labels'', nb_eligible := True\<rparr>"

definition w_plan :: fit_plan where
  "w_plan = \<lparr>pl_result = no_answer\<lparr>fa_weights := 14 * 2 ^ 30, fa_overhead := 2 ^ 30, fa_required := 15 * 2 ^ 30\<rparr>,
     pl_preset = None, pl_repo = ''org/model'', pl_revision = [], pl_hub = True, pl_files = [], pl_dir = ''org--model'',
     pl_cacheLocal = False, pl_cache = no_cache, pl_kv = None, pl_compute = None, pl_config = None,
     pl_configSkip = [], pl_image = None, pl_nodes = [], pl_own = []\<rparr>"

lemma w_fits:
  assumes "judgeNode w_env w_view w_plan True (w_node nm g) 0 = Some v" "15 \<le> g" "g \<le> 1024"
  shows "fa_fits v"
proof -
  have "nb_budget (w_node nm g) > 0" using assms(2) by (simp add: w_node_def)
  moreover have "sub64 (g * 2 ^ 30) 0 = g * 2 ^ 30" "sub64 1 0 = 1"
    using assms(2,3) by (simp_all add: sub64_def is_int64_def)
  ultimately show ?thesis using node_verdict[OF assms(1)] assms(2,3)
    by (simp add: w_plan_def w_node_def shapeOn_def unifiedClaimOn_def vllmClaim_def sized_def no_claim_def
        requests_refusal_def shaped_def judgeOn_def judge_kv_def kv_skipped_def compute_judgeNode_def
        skipped_need_def cv_unjudged_def discreteGPUs_def gpuDevices_def plannedGPUs_def freeGPUs_def Let_def zero_node_def)
qed

lemma w_judged: "\<exists>v. judgeNode w_env w_view w_plan True (w_node nm g) r = Some v"
  by (simp add: judgeNode_def shapeOn_def w_plan_def Let_def)

lemma node_verdict_witness: "\<exists>v. judgeNode w_env w_view w_plan True (w_node ''b'' 16) 0 = Some v \<and> fa_fits v"
proof -
  obtain v where v: "judgeNode w_env w_view w_plan True (w_node ''b'' 16) 0 = Some v" using w_judged by blast
  have pos: "nb_budget (w_node ''b'' 16) > 0" by (simp add: w_node_def)
  have "sub64 (16 * 2 ^ 30) 0 = 16 * 2 ^ 30" "sub64 1 0 = 1" by (simp_all add: sub64_def is_int64_def)
  then have "fa_fits v" using node_verdict[OF v pos]
    by (simp add: w_plan_def w_node_def shapeOn_def unifiedClaimOn_def vllmClaim_def sized_def no_claim_def
        requests_refusal_def shaped_def judgeOn_def judge_kv_def kv_skipped_def compute_judgeNode_def
        skipped_need_def cv_unjudged_def discreteGPUs_def gpuDevices_def plannedGPUs_def freeGPUs_def Let_def zero_node_def cpu_def)
  with v show ?thesis by blast
qed

lemma w_nodes_free: "free_on [] (w_node ''a'' 24) = 24 * 2 ^ 30" "free_on [] (w_node ''b'' 16) = 16 * 2 ^ 30"
  by (simp_all add: free_on_def amount_def w_node_def sub64_def is_int64_def)

lemma smallest_hosting_node_witness:
  "\<exists>v. chooseNode w_env w_view w_plan True [] [w_node ''a'' 24, w_node ''b'' 16] = Some (w_node ''b'' 16, v) \<and> fa_fits v"
proof -
  let ?ns = "[w_node ''a'' 24, w_node ''b'' 16]"
  have j: "hosts_model w_env w_view w_plan True [] (w_node nm g)" if "15 \<le> g" "g \<le> 1024" for nm g
    using w_judged[of nm g 0] w_fits[OF _ that, of nm] by (auto simp: hosts_model_def verdict_on_def amount_def)
  have "judgeNode w_env w_view w_plan True (w_node ''a'' 24) 0 \<noteq> None" "judgeNode w_env w_view w_plan True (w_node ''b'' 16) 0 \<noteq> None"
    using w_judged by auto
  then have "chooseNode w_env w_view w_plan True [] ?ns \<noteq> None"
    by (auto simp: chooseNode_def judged_candidates_def amount_def simp del: choose_loop.simps)
  then obtain n v where c: "chooseNode w_env w_view w_plan True [] ?ns = Some (n, v)" by auto
  have "hosts_model w_env w_view w_plan True [] m" if "m \<in> set ?ns" for m using that j by auto
  then have "n \<in> set ?ns" "fa_fits v" "\<And>m. m \<in> set ?ns \<Longrightarrow> nb_budget n \<le> nb_budget m"
    using smallest_hosting_node[OF _ c] by (auto split: if_splits)
  then have "n = w_node ''b'' 16" by (fastforce simp: w_node_def)
  with c \<open>fa_fits v\<close> show ?thesis by blast
qed

section \<open>A preset on a node\<close>

definition w_preset :: "string list \<Rightarrow> serving_preset" where
  "w_preset args = \<lparr>sp_apiVersion = agentPlatformAPIVersion, sp_kind = presetKind, sp_name = ''model'', sp_displayName = [],
     sp_description = [], sp_model = ''org/model'', sp_storageURI = ''hf://org/model'', sp_format = [],
     sp_contextLength = 0, sp_capabilities = [], sp_license = [], sp_args = args, sp_chatTemplate = None,
     sp_gpus = None, sp_requests = Map.empty, sp_weightsGiB = Fin 27, sp_overheadGiB = Some (Fin 2),
     sp_residentGiB = None, sp_minCompute = [], sp_nodeSelector = [], sp_scheduler = None, sp_image = [],
     sp_source = [], sp_chartVersion = []\<rparr>"

lemma w_preset_args [simp]: "sp_args (w_preset args) = args"
  by (simp add: w_preset_def)

lemma w_preset_gpu [simp]: "\<not> cpu (Some (w_preset args))"
  by (simp add: cpu_def gpus_def w_preset_def)

text \<open>40 GiB on cards of 16 GiB: four of them.\<close>

lemma smallest_devices_witness: "\<exists>k. devicesOn (w_preset []) (w_node ''b'' 16) (40 * 2 ^ 30) = Some (2 ^ k) \<and> 2 < (2 :: int) ^ k"
proof -
  obtain k where k: "devicesOn (w_preset []) (w_node ''b'' 16) (40 * 2 ^ 30) = Some (2 ^ k)"
    "40 * 2 ^ 30 \<le> 2 ^ k * nb_gpuMemory (w_node ''b'' 16)"
    using smallest_devices[of "w_preset []" "w_node ''b'' 16" "40 * 2 ^ 30"] by (auto simp: w_node_def)
  then have "2 < (2 :: int) ^ k" by (simp add: w_node_def)
  with k(1) show ?thesis by blast
qed

lemma shape_args_read_back_witness:
  "let q = (w_preset [''--max-model-len'', ''8192''])\<lparr>sp_args := shapeArgs (w_preset [''--max-model-len'', ''8192''])
      (no_shape\<lparr>sh_tensor := 4, sh_util := fl (of_int 29 / 100)\<rparr>)\<rparr>
   in presetTensorParallel q = 4 \<and> utilization q = fl (of_int 29 / 100)"
proof -
  let ?p = "w_preset [''--max-model-len'', ''8192'']" and ?sh = "no_shape\<lparr>sh_tensor := 4, sh_util := fl (of_int 29 / 100)\<rparr>"
  have "plain_args [flagTensorParallelSize, flagGPUMemoryUtilization] (sp_args ?p)"
    by (simp add: flag_token_def takes_next_def flag_defs flag_name_def trim_space_def is_space_def numeral_eq_Suc)
  from shape_args_read_back[OF this w_preset_gpu, of ?sh 29] show ?thesis by (simp add: no_shape_def Let_def)
qed

section \<open>A claim on unified memory\<close>

definition w_unified :: node_budget where
  "w_unified = zero_node\<lparr>nb_name := ''spark'', nb_gpuCount := 1, nb_budget := 42949672960, nb_capacity := 107374182400\<rparr>"

abbreviation w_sized :: unified_verdict where
  "w_sized \<equiv> sized (unifiedClaimOn (Fin 0) (Some (w_preset [])) w_unified 0 31138512896)"

lemma w_fl_default: "fl (9 / 10) = Fin (8106479329266893 / 2 ^ 53)"
  "fl (8106479329266893 / 2 ^ 53 * 107374182400) = Fin 96636764160"
  using fl_at[of "- 1" "9 / 10"] fl_at[of 36 "8106479329266893 / 2 ^ 53 * 107374182400"]
  by (simp_all add: pow2_def round_even_def Let_def)

lemma w_sized: "uv_checked w_sized" "uv_fits w_sized" "uv_memory w_sized = 107374182400"
  "uv_claim w_sized = 31138512895"
proof -
  let ?m = "107374182400 :: int" and ?need = "31138512896 :: int"
  define u where "u = hundredths_up ?need ?m"
  have F: "of_int64 107374182400 = Fin 107374182400" "of_int64 100 = Fin 100"
    using of_int64_exact[of 107374182400] of_int64_exact[of 100] by simp_all
  have up: "u = Fin (5224175567749775 / 2 ^ 54)" unfolding u_def by (rule w_hundredths_up)
  have util: "utilization (w_preset []) = Fin (8106479329266893 / 2 ^ 53)"
    using w_fl_default(1) by (simp add: utilization_def vllmFlagValues_def vllmDefaultUtilization_def)
  have claim: "vllmClaim (Some (w_preset [])) w_unified = Some (96636764160, ?m)"
    using w_fl_default(2) F(1) by (simp add: vllmClaim_def w_unified_def zero_node_def util to_int64_Fin)
  have start: "uv_checked v0" "\<not> uv_fits v0" "\<not> short v0" "uv_memory v0 = ?m" "uv_need v0 = ?need" "uv_available v0 = 42949672960"
    if "v0 = unifiedClaimOn (Fin 0) (Some (w_preset [])) w_unified 0 ?need" for v0
    unfolding that unifiedClaimOn_def claim
    by (simp_all add: Let_def no_claim_def gibToBytes_def fless_def feq_def sub64_def is_int64_def w_unified_def zero_node_def short_def)
  have "claim_at u ?m = ?need - 1" unfolding u_def using sized_one_byte_short by simp
  then show "uv_checked w_sized" "uv_fits w_sized" "uv_memory w_sized = ?m" "uv_claim w_sized = 31138512895"
    unfolding sized_def Let_def start[OF refl] u_def[symmetric]
    by (simp_all add: start[OF refl] up fless_def feq_def)
qed

text \<open>The verdict fits although the claim is a byte short of the weights and overhead.\<close>

lemma fitting_claim_holds_witness:
  "uv_fits w_sized \<and> uv_claim w_sized < 31138512896 \<and> uv_claim w_sized \<le> uv_available w_sized \<and> 31138512896 - 1 \<le> uv_claim w_sized"
  using fitting_claim_holds[OF refl w_sized(1,2)] w_sized by simp

section \<open>Placements\<close>

definition w_per :: "int \<Rightarrow> fit_plan" where
  "w_per c = \<lparr>pl_result = no_answer\<lparr>fa_fits := True, fa_devices := 1, fa_tensorParallel := 1, fa_cpu := c, fa_memory := 2 ^ 30\<rparr>,
     pl_preset = None, pl_repo = ''org/model'', pl_revision = [], pl_hub = True, pl_files = [], pl_dir = ''org--model'',
     pl_cacheLocal = False, pl_cache = no_cache, pl_kv = None, pl_compute = None, pl_config = None,
     pl_configSkip = [], pl_image = None, pl_nodes = [], pl_own = []\<rparr>"

lemma copies_fit_together_witness:
  "fa_fits (pl_result (judge_copies [''a'', ''b''] [w_per 4000, w_per 2000])) \<and>
   fa_cpu (pl_result (judge_copies [''a'', ''b''] [w_per 4000, w_per 2000])) = 2000"
  using copies_fit_together[of "[w_per 4000, w_per 2000]" "[''a'', ''b'']" no_cache]
  by (simp add: w_per_def copy_shape_def sameClaim_def claimOn_def perNode_def no_cache_def Let_def)

text \<open>8 GiB of weights over two cards of 24 GiB.\<close>

definition w_link :: fast_link where
  "w_link = \<lparr>fl_name = ''rdma-0'', fl_nodes = [''a'', ''b''], fl_networks = [], fl_resources = [], fl_env = []\<rparr>"

definition w_split_plan :: fit_plan where
  "w_split_plan = w_plan\<lparr>pl_result := no_answer\<lparr>fa_weights := 8 * 2 ^ 30, fa_overhead := 2 ^ 30\<rparr>, pl_preset := Some (w_preset [])\<rparr>"

abbreviation w_split :: "split_verdict option" where
  "w_split \<equiv> judgeSplit w_env w_view w_split_plan (w_preset []) w_link [w_node ''a'' 24, w_node ''b'' 24] [] True"

lemma w_devices: "nm \<in> {''a'', ''b''} \<Longrightarrow> devicesOn (w_preset []) (w_node nm 24) 5368709120 = Some 1"
  by (simp add: devicesOn_def unifiedGPU_def w_node_def doubled.simps mul64_def is_int64_def)

lemma w_split_shape:
  assumes "nm \<in> {''a'', ''b''}"
  shows "\<exists>u. shapeOn (fe_headroom w_env) (Some (w_preset [])) (w_node nm 24) 0 5368709120 2 =
     Some ((referenceShape (w_preset []))\<lparr>sh_util := u, sh_devices := 1, sh_tensor := 2\<rparr>, no_claim)"
proof -
  have "\<not> pipelineParallel (w_preset [])" by (simp add: pipelineParallel_def pipeline_parallel_def vllmFlagValues_def)
  moreover have "0 < nb_gpuMemory (w_node nm 24)" by (simp add: w_node_def)
  moreover from this have "vllmClaim (Some (w_preset [])) (w_node nm 24) = None" by (simp add: vllmClaim_def)
  then have "sized (unifiedClaimOn h (Some (w_preset [])) (w_node nm 24) r need) = no_claim" for h r need
    by (simp add: unifiedClaimOn_def sized_def no_claim_def)
  moreover have "uv_checked no_claim = False" by (simp add: no_claim_def)
  ultimately show ?thesis using w_devices[OF assms] by (intro exI[of _ "utilization (w_preset [])"]) (simp add: shapeOn_def Let_def mul64_def is_int64_def)
qed

lemma w_split_requests:
  "\<exists>sh'. fitRequests (fe_quantities w_env) (w_preset []) (w_node nm 24) room sh = (sh', []) \<and> sh_devices sh' = sh_devices sh"
  if "room = roomOn (fe_pods w_env nm) ns (w_node nm 24) (Some (w_preset []))"
proof -
  have "presetRequests qs (w_preset []) = (0, 0)" for qs
    by (simp add: presetRequests_def requestOf_def w_preset_def to_int64_def is_int64_def)
  then show ?thesis using that
    by (simp add: fitRequests_def roomOn_def w_env_def w_node_def zero_node_def Let_def)
qed

lemma w_split_step:
  assumes "nm \<in> {''a'', ''b''}" "wk_judged w = [] \<or> sh_devices (wk_shape w) = 1" "wk_missing w = []"
  shows "\<exists>w'. judged_on w_env w_view w_split_plan (w_preset []) w_link [] True (w_node nm 24) w = Some (Inr w') \<and>
     wk_judged w' = wk_judged w @ [w_node nm 24] \<and> sh_devices (wk_shape w') = 1 \<and> wk_missing w' = []"
proof -
  have share: "split_share w_split_plan 2 = 5368709120" "add64 (ceilDiv (residentBytes (Some (w_preset [])) 8589934592) 2) 1073741824 = 5368709120"
    by (simp_all add: split_share_def w_split_plan_def ceilDiv_def residentBytes_def w_preset_def add64_def sub64_def div64_def is_int64_def)
  obtain u where u: "shapeOn (fe_headroom w_env) (Some (w_preset [])) (w_node nm 24) 0 5368709120 2 =
     Some ((referenceShape (w_preset []))\<lparr>sh_util := u, sh_devices := 1, sh_tensor := 2\<rparr>, no_claim)"
    using w_split_shape[OF assms(1)] by blast
  obtain sh' where r: "fitRequests (fe_quantities w_env) (w_preset []) (w_node nm 24)
      (roomOn (fe_pods w_env nm) (s_namespace (cw_settings w_view)) (w_node nm 24) (Some (w_preset [])))
      ((referenceShape (w_preset []))\<lparr>sh_util := u, sh_devices := 1, sh_tensor := 2\<rparr>) = (sh', [])" "sh_devices sh' = 1"
    using w_split_requests[OF refl] by fastforce
  have f: "nb_name (w_node nm 24) = nm" "nb_budget (w_node nm 24) = 25769803776" "length (fl_nodes w_link) = 2"
    "fa_weights (pl_result w_split_plan) = 8589934592" "fa_overhead (pl_result w_split_plan) = 1073741824"
    "pl_cache w_split_plan = no_cache" "amount [] nm = 0" "uv_checked no_claim = False" "perNode no_cache = False" "sub64 25769803776 0 = 25769803776"
    by (simp_all add: w_node_def w_link_def w_split_plan_def amount_def no_claim_def perNode_def no_cache_def sub64_def is_int64_def w_plan_def)
  show ?thesis
    unfolding judged_on_def f Let_def
    using u r share assms(2,3) by (auto simp: f widest_def Let_def split: prod.splits)
qed

lemma w_split_fits: "\<exists>v. w_split = Some v \<and> lv_fits v"
proof -
  define w0 where "w0 = \<lparr>wk_verdict = split_start w_link, wk_tightFree = - 1, wk_judged = [], wk_shape = no_shape, wk_missing = []\<rparr>"
  have w0: "wk_judged w0 = []" "wk_missing w0 = []" by (simp_all add: w0_def)
  obtain w1 where w1: "judged_on w_env w_view w_split_plan (w_preset []) w_link [] True (w_node ''a'' 24) w0 = Some (Inr w1)"
     "wk_judged w1 = [w_node ''a'' 24]" "sh_devices (wk_shape w1) = 1" "wk_missing w1 = []"
    using w_split_step[of "''a''" w0] w0 by auto
  obtain w2 where w2: "judged_on w_env w_view w_split_plan (w_preset []) w_link [] True (w_node ''b'' 24) w1 = Some (Inr w2)"
     "wk_judged w2 = [w_node ''a'' 24, w_node ''b'' 24]" "sh_devices (wk_shape w2) = 1" "wk_missing w2 = []"
    using w_split_step[of "''b''" w1] w1 by auto
  have c: "candidateNodes (cw_settings w_view) [w_node ''a'' 24, w_node ''b'' 24] nm l (Some (w_preset [])) = ([w_node nm 24], [])"
    if "nm \<in> {''a'', ''b''}" for nm l
    using that by (auto simp: candidateNodes_def w_node_def zero_node_def Let_def)
  have p: "pl_cache w_split_plan = no_cache" "pl_cacheLocal w_split_plan = False" "pl_kv w_split_plan = None" "0 < nb_budget (w_node nm 24)" for nm
    by (simp_all add: w_split_plan_def w_plan_def w_node_def)
  have walk: "walk_link w_env w_view w_split_plan (w_preset []) w_link [w_node ''a'' 24, w_node ''b'' 24] [] True [''a'', ''b''] w0 = Some (Inr w2)"
    using w1(1) w2(1) p by (simp add: c Let_def not_le)
  have "devicesClause 1 (w_node nm 24) = []" "kvv_skip (judgeOn None (w_node nm 24)) \<noteq> []" for nm
    by (simp_all add: devicesClause_def w_node_def judgeOn_def judge_kv_def kv_skipped_def)
  moreover have "sameClaim no_cache [''b'']" by (simp add: sameClaim_def)
  ultimately have "lv_fits (judge_walked w_env w_split_plan (w_preset []) w_link True w2)"
    using w2 by (simp add: judge_walked_def pull_first_def p shaped_def Let_def split_accepted_def w_link_def)
  moreover have nodes: "fl_nodes w_link = [''a'', ''b'']" by (simp add: w_link_def)
  have "w_split = Some (judge_walked w_env w_split_plan (w_preset []) w_link True w2)"
    unfolding judgeSplit_def w0_def[symmetric] nodes walk by simp
  ultimately show ?thesis by blast
qed

lemma split_safe_witness:
  "\<exists>ns. list_all2 (holds_share w_env w_view w_split_plan (w_preset []) 2 [w_node ''a'' 24, w_node ''b'' 24] [] True) [''a'', ''b''] ns"
proof -
  obtain v where "w_split = Some v" "lv_fits v" using w_split_fits by blast
  from split_safe[OF this] show ?thesis by (auto simp: w_link_def)
qed

end
