(* ===== verification/Compute_Correct.thy ===== *)
theory Compute_Correct
  imports Compute VllmArgs_Correct
begin

text \<open>
  What the GPU generation check promises: the floats it compares order capabilities as the pairs
  they stand for, the precision a mixed checkpoint needs is the highest of its groups, and the
  families below Ada are refused for FP8 and FP4 weights.
\<close>

section \<open>Capabilities as numbers\<close>

definition exact_capability :: "int \<Rightarrow> int \<Rightarrow> rat" where
  "exact_capability major minor = of_int major + of_int minor / 100"

definition float_capability :: "int \<Rightarrow> int \<Rightarrow> gofloat" where
  "float_capability major minor = fadd (of_int64 major) (fdiv (of_int64 minor) (of_int64 100))"

lemma tiny: "pow2 (- 1022) \<le> 1 / 100"
  using pow2_mono[of "- 1022" "- 7"] by simp

lemma fl_near:
  assumes "1 / 100 \<le> x" "x < 2 ^ 40"
  shows "fl x = Fin (fl_abs x) \<and> \<bar>fl_abs x - x\<bar> \<le> 1 / 2 ^ 13"
proof -
  have "x < pow2 1023" using assms(2) pow2_mono[of 40 1023] by simp
  then have "fl x = Fin (fl_abs x)" using assms(1) by (intro fl_finite) simp_all
  moreover have "\<bar>fl_abs x - x\<bar> \<le> x / 2 ^ 53" using assms(1) tiny by (intro fl_abs_near) linarith
  moreover have "x / 2 ^ 53 \<le> 1 / 2 ^ 13" using assms(2) by simp
  ultimately show ?thesis by linarith
qed

lemma float_capability_near:
  assumes "0 \<le> major" "major \<le> 2 ^ 30" "0 \<le> minor" "minor < 100"
  obtains x where "float_capability major minor = Fin x" "\<bar>x - exact_capability major minor\<bar> < 1 / 1000"
proof -
  have M: "of_int64 major = Fin (of_int major)" and m: "of_int64 minor = Fin (of_int minor)"
    and h: "of_int64 100 = Fin 100"
    using assms of_int64_exact[of major] of_int64_exact[of minor] of_int64_exact[of 100] by simp_all
  have r: "(of_int major :: rat) \<le> 2 ^ 30" "(0 :: rat) \<le> of_int major" "(0 :: rat) \<le> of_int minor"
    "(of_int minor :: rat) \<le> 99"
    using assms by simp_all
  obtain d where d: "fl (of_int minor / 100) = Fin d" "\<bar>d - of_int minor / 100\<bar> \<le> 1 / 2 ^ 13" "0 \<le> d" "d \<le> 2"
  proof (cases "minor = 0")
    case True
    then show ?thesis using that[of 0] fl_int[of 0] by simp
  next
    case False
    then have "1 \<le> minor" using assms(3) by simp
    then have "(1 :: rat) \<le> of_int minor" by simp
    then have x: "1 / 100 \<le> (of_int minor / 100 :: rat)" "(of_int minor / 100 :: rat) < 2 ^ 40" using r(4) by simp_all
    let ?d = "fl_abs (of_int minor / 100)"
    have n: "fl (of_int minor / 100) = Fin ?d" "\<bar>?d - of_int minor / 100\<bar> \<le> 1 / 2 ^ 13"
      using fl_near[OF x] by auto
    have "?d \<le> of_int minor / 100 + 1 / 2 ^ 13" using n(2) by linarith
    also have "\<dots> \<le> 2" using r(4) by simp
    finally have "?d \<le> 2" .
    moreover have "0 \<le> ?d" using r(3) by (intro fl_abs_nonneg) simp
    ultimately show ?thesis using n by (intro that)
  qed
  let ?s = "of_int major + d"
  have "\<exists>x. fl ?s = Fin x \<and> \<bar>x - ?s\<bar> \<le> 1 / 2 ^ 13"
  proof (cases "?s < 1 / 100")
    case True
    then have "major = 0" using d(3) assms(1) by (cases "major = 0") auto
    then have s: "?s = d" by simp
    have "minor = 0"
    proof (rule ccontr)
      assume "minor \<noteq> 0"
      then have "(1 :: rat) \<le> of_int minor" using assms(3) by simp
      then have "fl_abs (1 / 100) \<le> fl_abs (of_int minor / 100)" by (intro fl_abs_mono) simp_all
      moreover have "fl (1 / 100) = Fin (fl_abs (1 / 100))" "fl (of_int minor / 100) = Fin (fl_abs (of_int minor / 100))"
        using \<open>1 \<le> of_int minor\<close> r(4) by (auto intro!: fl_near[THEN conjunct1])
      moreover have "fl (1 / 100 :: rat) = Fin (5764607523034235 / 576460752303423488)"
        by (simp add: fl_eval[where e = "- 59"] round_even_def Let_def)
      ultimately have "5764607523034235 / 576460752303423488 \<le> d" using d(1) by simp
      then show False using True s by simp
    qed
    then have "d = 0" using d(1) fl_int[of 0] by simp
    then show ?thesis using \<open>major = 0\<close> fl_int[of 0] by simp
  next
    case False
    then show ?thesis using r(1) d(4) fl_near[of ?s] by auto
  qed
  then obtain x where x: "fl ?s = Fin x" "\<bar>x - ?s\<bar> \<le> 1 / 2 ^ 13" by blast
  have "float_capability major minor = Fin x"
    using x(1) d(1) by (simp add: float_capability_def M m h)
  moreover have "\<bar>x - exact_capability major minor\<bar> < 1 / 1000"
    using x(2) d(2) unfolding exact_capability_def by (simp add: abs_if split: if_splits)
  ultimately show ?thesis by (rule that)
qed

lemma exact_capability_less:
  assumes "0 \<le> minor" "minor < 100" "0 \<le> minor'" "minor' < 100" "major < major' \<or> major = major' \<and> minor < minor'"
  shows "exact_capability major minor + 1 / 100 \<le> exact_capability major' minor'"
proof -
  have "100 * major + minor + 1 \<le> 100 * major' + minor'" using assms by auto
  then have "(of_int (100 * major + minor + 1) :: rat) \<le> of_int (100 * major' + minor')" by (simp only: of_int_le_iff)
  then show ?thesis by (simp add: exact_capability_def field_simps)
qed

lemma float_capability_less:
  assumes "0 \<le> major" "major \<le> 2 ^ 30" "0 \<le> minor" "minor < 100"
    "0 \<le> major'" "major' \<le> 2 ^ 30" "0 \<le> minor'" "minor' < 100" "major < major' \<or> major = major' \<and> minor < minor'"
  shows "fless_eq (float_capability major minor) (float_capability major' minor')"
    "\<not> fless_eq (float_capability major' minor') (float_capability major minor)"
proof -
  obtain x y where "float_capability major minor = Fin x" "float_capability major' minor' = Fin y"
    "\<bar>x - exact_capability major minor\<bar> < 1 / 1000" "\<bar>y - exact_capability major' minor'\<bar> < 1 / 1000"
    using float_capability_near[OF assms(1-4)] float_capability_near[OF assms(5-8)] by metis
  moreover from this exact_capability_less[OF assms(3,4,7-9)] have "x < y"
    by (simp add: abs_if split: if_splits)
  ultimately show "fless_eq (float_capability major minor) (float_capability major' minor')"
    "\<not> fless_eq (float_capability major' minor') (float_capability major minor)" by simp_all
qed

lemma float_capability_le:
  assumes "0 \<le> major" "major \<le> 2 ^ 30" "0 \<le> minor" "minor < 100"
    "0 \<le> major'" "major' \<le> 2 ^ 30" "0 \<le> minor'" "minor' < 100"
  shows "fless_eq (float_capability major minor) (float_capability major' minor') \<longleftrightarrow>
     major < major' \<or> major = major' \<and> minor \<le> minor'"
proof -
  consider "major < major' \<or> major = major' \<and> minor < minor'"
    | "major' < major \<or> major' = major \<and> minor' < minor" | "major = major'" "minor = minor'" by linarith
  then show ?thesis
  proof cases
    case 1
    then show ?thesis using float_capability_less[OF assms] by auto
  next
    case 2
    then show ?thesis using float_capability_less[OF assms(5-8,1-4)] by auto
  next
    case 3
    obtain x where "float_capability major minor = Fin x" using float_capability_near[OF assms(1-4)] by metis
    with 3 show ?thesis by simp
  qed
qed

section \<open>The verdict\<close>

lemma parseCapability_float:
  "ParseComputeCapability s = Some (major, minor) \<Longrightarrow> parseCapability s = Some (float_capability major minor)"
  by (simp add: parseCapability_def float_capability_def)

lemma parsed_nonneg: "ParseComputeCapability s = Some (major, minor) \<Longrightarrow> 0 \<le> major \<and> 0 \<le> minor"
  by (auto simp: ParseComputeCapability_def split: prod.splits option.splits if_splits)

text \<open>C30. A GPU is judged by its generation: with both capabilities of the form major.minor (major
  at most \<open>2^30\<close>, minor below 100), the verdict fits exactly when the GPU's pair is at least the needed pair in the
  lexicographic order, although the code compares sums of floats.\<close>

theorem judged_by_generation:
  assumes "ParseComputeCapability (cn_capability n) = Some (major, minor)" "major \<le> 2 ^ 30" "minor < 100"
    "ParseComputeCapability capability = Some (major', minor')" "major' \<le> 2 ^ 30" "minor' < 100"
  shows "cv_skip (judge_capability n capability gpu) = [] \<and>
     (cv_fits (judge_capability n capability gpu) \<longleftrightarrow> major < major' \<or> major = major' \<and> minor \<le> minor')"
  using float_capability_le[of major minor major' minor'] parsed_nonneg[OF assms(1)] parsed_nonneg[OF assms(4)] assms(2,3,5,6)
  by (simp add: judge_capability_def parseCapability_float[OF assms(1)] parseCapability_float[OF assms(4)] Let_def)

text \<open>An FP8 or FP4 checkpoint on the GPU families of AWS, as a pool's sizes are judged before a
  node exists: the check knows ten families, refuses the ones below Ada (T4, A10G, A100) and takes the
  others, unless the size itself declares a capability.\<close>

theorem fp8_families:
  assumes "p = FP8 \<or> p = FP4" "map_of awsGPUFamilies family = Some g"
    "is_type s = family @ ''.'' @ sz" "is_capability s = []"
  shows "cv_fits (compute_judgeShape (Some (need_of p why)) s) \<longleftrightarrow>
     family \<notin> {''g4dn'', ''g5'', ''p4d'', ''p4de''}"
proof -
  have fam: "family \<in> set (map fst awsGPUFamilies)" using assms(2) by (force dest: map_of_SomeD)
  then have cut: "fst (cut (CHR ''.'') (is_type s)) = family"
    unfolding assms(3) by (auto simp: awsGPUFamilies_def)
  have need: "cn_capability (need_of p why) = ''8.9''" "cn_skip (need_of p why) = []"
    using assms(1) by (auto simp: need_of_def)
  have p: "ParseComputeCapability ''7.5'' = Some (7, 5)" "ParseComputeCapability ''8.6'' = Some (8, 6)"
    "ParseComputeCapability ''8.9'' = Some (8, 9)" "ParseComputeCapability ''8.0'' = Some (8, 0)"
    "ParseComputeCapability ''9.0'' = Some (9, 0)" "ParseComputeCapability ''10.0'' = Some (10, 0)"
    by code_simp+
  note j = judged_by_generation[of "need_of p why", unfolded need(1), OF p(3)]
  show ?thesis
    using assms(2) cut fam j[OF _ _ p(1)] j[OF _ _ p(2)] j[OF _ _ p(3)] j[OF _ _ p(4)] j[OF _ _ p(5)] j[OF _ _ p(6)]
    by (simp add: compute_judgeShape_def skipped_need_def need assms(4) Let_def)
      (auto simp: awsGPUFamilies_def split: if_splits)
qed

section \<open>Mixed precisions\<close>

lemma foldl_max:
  fixes f :: "'a \<Rightarrow> precision"
  shows "foldl (\<lambda>p x. max p (f x)) z xs = Max (insert z (f ` set xs))"
proof (induction xs arbitrary: z)
  case (Cons x xs)
  have "foldl (\<lambda>p x. max p (f x)) z (x # xs) = Max (insert (max z (f x)) (f ` set xs))" using Cons by simp
  also have "\<dots> = Max (insert z (insert (f x) (f ` set xs)))"
    by (cases "f ` set xs = {}") (simp_all add: Max_insert max.assoc)
  finally show ?case by simp
qed simp

text \<open>A checkpoint mixing precisions needs its highest, in whatever order its groups are read.\<close>

lemma floatGroups_highest: "floatGroups q = Max (insert NoPrecision (group_precision ` set (hq_groups q)))"
  by (simp add: floatGroups_def foldl_max)

lemma modelOptAlgos_highest:
  "modelOptAlgos q = Max (insert NoPrecision (algo_precision ` set (hq_algo q # hq_layers q)))"
  by (simp add: modelOptAlgos_def foldl_max del: foldl.simps)

section \<open>Examples\<close>

lemma judged_by_generation_witness:
  "cv_skip (judge_capability (need_of FP8 ''FP8 weights'') ''8.6'' ''the A10G'') = [] \<and>
   \<not> cv_fits (judge_capability (need_of FP8 ''FP8 weights'') ''8.6'' ''the A10G'')"
proof -
  have "ParseComputeCapability (cn_capability (need_of FP8 ''FP8 weights'')) = Some (8, 9)"
    "ParseComputeCapability ''8.6'' = Some (8, 6)" by code_simp+
  from judged_by_generation[OF this(1) _ _ this(2)] show ?thesis by simp
qed

definition w_g5 :: instance_shape where
  "w_g5 = \<lparr>is_type = ''g5.xlarge'', is_size = [], is_vcpu = 4, is_memory = 16, is_gpus = 1,
     is_gpuMemory = 24, is_usableVCPU = Fin 3, is_usableMemory = Fin 12, is_capability = []\<rparr>"

lemma fp8_families_witness: "\<not> cv_fits (compute_judgeShape (Some (need_of FP8 ''FP8 weights'')) w_g5)"
  using fp8_families[of FP8 "''g5''" "\<lparr>gg_gpu = ''A10G'', gg_architecture = ''Ampere'', gg_capability = ''8.6''\<rparr>"
      w_g5 "''xlarge''" "''FP8 weights''"]
  by (simp add: w_g5_def awsGPUFamilies_def)

end
