(* ===== verification/Documents.thy ===== *)
theory Documents
  imports Compute GoUrl
begin

text \<open>
  The backend documents (\<open>internal/backend/document.go\<close>): the \<open>ModelBackend\<close> document, its
  defaults, the schema a document must satisfy (\<open>Validate\<close>, an error being its text), the
  ConfigMap it is written as, and the driver options it overlays. Decoding and rendering YAML, the
  printing of a float by \<open>%v\<close> and \<open>validation.IsDNS1123Label\<close> are arguments.
\<close>

section \<open>The document\<close>

definition DocumentLabel :: string where "DocumentLabel = ''agent-platform.giantswarm.io/model-backend''"
definition DocumentSelector :: string where "DocumentSelector = DocumentLabel @ ''=true''"
definition DocumentSourceLabel :: string where
  "DocumentSourceLabel = ''agent-platform.giantswarm.io/model-backend-source''"
definition DocumentKey :: string where "DocumentKey = ''backend.yaml''"
definition DocumentAPIVersion :: string where "DocumentAPIVersion = ''agent-platform.giantswarm.io/v1alpha1''"
definition DocumentKind :: string where "DocumentKind = ''ModelBackend''"
definition DocumentNamePrefix :: string where "DocumentNamePrefix = ''model-backend-''"
definition SourcePerson :: string where "SourcePerson = ''person''"
definition SourceClusterManager :: string where "SourceClusterManager = ''cluster-manager''"
definition TargetLocal :: string where "TargetLocal = ''local''"

record secret_key_ref =
  sk_name :: string
  sk_key :: string

record serving_target =
  tg_cluster :: string
  tg_organization :: string
  tg_apiServer :: string
  tg_caBundle :: string
  tg_servingNamespace :: string

text \<open>\<open>gpuPools\<close> is a Go map: its pairs in the order a range over it visits.\<close>

record kserve_spec =
  ks_target :: serving_target
  ks_discoveryNamespace :: string
  ks_discoveryName :: string
  ks_gpuPool :: "gpu_pool option"
  ks_gpuPools :: "(string \<times> gpu_pool) list"
  ks_router :: "bool option"
  ks_fastLinks :: "fast_link list"

record document_spec =
  ds_kind :: name
  ds_source :: string
  ds_endpoint :: string
  ds_agentEndpoint :: string
  ds_credentials :: "secret_key_ref option"
  ds_kserve :: "kserve_spec option"

record model_document =
  dc_apiVersion :: string
  dc_kind :: string
  dc_name :: string
  dc_spec :: document_spec

definition local_target :: "serving_target \<Rightarrow> bool" where
  "local_target t \<longleftrightarrow> tg_cluster t = [] \<or> tg_cluster t = TargetLocal"

definition target_identity :: "serving_target \<Rightarrow> serving_target option" where
  "target_identity t =
     (if local_target t then None
      else Some \<lparr>tg_cluster = tg_cluster t, tg_organization = tg_organization t, tg_apiServer = [],
                 tg_caBundle = [], tg_servingNamespace = []\<rparr>)"

definition kserveClusterName :: string where "kserveClusterName = name_kserve @ ''-<cluster>''"

definition DocumentName :: "name \<Rightarrow> string" where "DocumentName n = DocumentNamePrefix @ n"

definition doc_name :: "model_document \<Rightarrow> name" where
  "doc_name d = (if dc_name d = [] then ds_kind (dc_spec d) else dc_name d)"

definition isKnownKind :: "name \<Rightarrow> bool" where "isKnownKind k \<longleftrightarrow> List.member known_kinds k"

definition kindList :: string where "kindList = join ''|'' (sort known_kinds)"

section \<open>Defaults\<close>

definition default_key :: "secret_key_ref \<Rightarrow> secret_key_ref" where
  "default_key c = (if sk_key c = [] then c\<lparr>sk_key := ''token''\<rparr> else c)"

definition default_kserve :: "kserve_spec \<Rightarrow> kserve_spec" where
  "default_kserve k =
     (let k = (if tg_cluster (ks_target k) = [] then k\<lparr>ks_target := (ks_target k)\<lparr>tg_cluster := TargetLocal\<rparr>\<rparr> else k);
        k = (if ks_discoveryName k = [] then k\<lparr>ks_discoveryName := ''agent-platform-model-serving''\<rparr> else k)
      in if ks_discoveryNamespace k = [] then k\<lparr>ks_discoveryNamespace := tg_servingNamespace (ks_target k)\<rparr> else k)"

definition default_spec :: "document_spec \<Rightarrow> document_spec" where
  "default_spec s =
     (let s = (if ds_source s = [] then s\<lparr>ds_source := SourcePerson\<rparr> else s)
      in s\<lparr>ds_credentials := map_option default_key (ds_credentials s), ds_kserve := map_option default_kserve (ds_kserve s)\<rparr>)"

definition applyDefaults :: "model_document \<Rightarrow> model_document" where
  "applyDefaults d = d\<lparr>dc_spec := default_spec (dc_spec d)\<rparr>"

definition NewDocument :: "document_spec \<Rightarrow> model_document" where
  "NewDocument s = applyDefaults
     \<lparr>dc_apiVersion = DocumentAPIVersion, dc_kind = DocumentKind, dc_name = ds_kind s, dc_spec = s\<rparr>"

section \<open>The schema\<close>

text \<open>A check answers the text of its error.\<close>

abbreviation (input) at_index :: "string \<Rightarrow> nat \<Rightarrow> string" where
  "at_index f i \<equiv> f @ ''['' @ show_nat i @ '']''"

fun fresh_nodes :: "nat \<Rightarrow> string \<Rightarrow> string list \<Rightarrow> (string \<rightharpoonup> string) \<Rightarrow> string + (string \<rightharpoonup> string)" where
  "fresh_nodes i l [] seen = Inr seen"
| "fresh_nodes i l (n # ns) seen =
     (if trim_space n = [] then Inl (at_index ''fastLinks'' i @ ''.nodes: an empty node name'')
      else case seen n of
             Some other \<Rightarrow> Inl (at_index ''fastLinks'' i @ ''.nodes: node '' @ n @ '' is already in fast link '' @ other)
           | None \<Rightarrow> fresh_nodes i l ns (seen(n \<mapsto> l)))"

fun check_links :: "nat \<Rightarrow> (string \<rightharpoonup> string) \<Rightarrow> fast_link list \<Rightarrow> string option" where
  "check_links i seen [] = None"
| "check_links i seen (l # ls) =
     (if trim_space (fl_name l) = [] then Some (at_index ''fastLinks'' i @ ''.name: required'')
      else if length (fl_nodes l) < 2 then Some (at_index ''fastLinks'' i @ ''.nodes: a fast link joins two or more nodes'')
      else case fresh_nodes i (fl_name l) (fl_nodes l) seen of
             Inl e \<Rightarrow> Some e
           | Inr seen \<Rightarrow>
               if list_ex (\<lambda>(n, _). trim_space n = []) (fl_env l)
               then Some (at_index ''fastLinks'' i @ ''.env: an entry without a name'')
               else check_links (Suc i) seen ls)"

definition ValidateFastLinks :: "fast_link list \<Rightarrow> string option" where
  "ValidateFastLinks links = check_links 0 Map.empty links"

fun check_positive :: "(gofloat \<Rightarrow> string) \<Rightarrow> (string \<times> gofloat) list \<Rightarrow> string option" where
  "check_positive show_v [] = None"
| "check_positive show_v ((f, v) # fs) =
     (if fless_eq v (Fin 0) then Some (f @ '': must be positive, got '' @ show_v v) else check_positive show_v fs)"

definition shape_numbers :: "instance_shape \<Rightarrow> (string \<times> gofloat) list" where
  "shape_numbers s =
     [(''vcpu'', of_int64 (is_vcpu s)), (''memoryGiB'', of_int64 (is_memory s)), (''gpus'', of_int64 (is_gpus s)),
      (''gpuMemoryGiB'', of_int64 (is_gpuMemory s)), (''usableVcpu'', is_usableVCPU s), (''usableMemoryGiB'', is_usableMemory s)]"

definition instance_error :: "(gofloat \<Rightarrow> string) \<Rightarrow> instance_shape \<Rightarrow> string option" where
  "instance_error show_v s =
     (if trim_space (is_type s) = [] then Some ''instanceType: required''
      else case check_positive show_v (shape_numbers s) of
             Some e \<Rightarrow> Some e
           | None \<Rightarrow>
               if is_capability s \<noteq> [] \<and> ParseComputeCapability (is_capability s) = None
               then Some (''computeCapability: must be a compute capability of the form major.minor (8.6), got '' @ quoted (is_capability s))
               else None)"

fun check_instances :: "(gofloat \<Rightarrow> string) \<Rightarrow> nat \<Rightarrow> instance_shape list \<Rightarrow> string option" where
  "check_instances show_v i [] = None"
| "check_instances show_v i (s # ss) =
     (case instance_error show_v s of
        Some e \<Rightarrow> Some (at_index ''instances'' i @ ''.'' @ e)
      | None \<Rightarrow> check_instances show_v (Suc i) ss)"

definition ValidateInstances :: "(gofloat \<Rightarrow> string) \<Rightarrow> instance_shape list \<Rightarrow> string option" where
  "ValidateInstances show_v shapes = check_instances show_v 0 shapes"

definition taint_error :: "taint option \<Rightarrow> string option" where
  "taint_error t =
     (case t of
        None \<Rightarrow> None
      | Some t \<Rightarrow>
          if tn_key t = [] then Some ''key: required''
          else if List.member [[], ''NoSchedule'', ''PreferNoSchedule'', ''NoExecute''] (tn_effect t) then None
          else Some (''effect: must be NoSchedule, PreferNoSchedule or NoExecute, got '' @ quoted (tn_effect t)))"

definition pool_error :: "(gofloat \<Rightarrow> string) \<Rightarrow> gpu_pool option \<Rightarrow> string option" where
  "pool_error show_v p =
     (case p of
        None \<Rightarrow> None
      | Some p \<Rightarrow>
          (case taint_error (gp_taint p) of
             Some e \<Rightarrow> Some (''taint.'' @ e)
           | None \<Rightarrow> ValidateInstances show_v (gp_instances p)))"

fun check_pools :: "(gofloat \<Rightarrow> string) \<Rightarrow> (string \<times> gpu_pool) list \<Rightarrow> string option" where
  "check_pools show_v [] = None"
| "check_pools show_v ((n, p) # ps) =
     (if n = [] then Some ''spec.kserve.gpuPools: a pool without a name''
      else case ValidateInstances show_v (gp_instances p) of
             Some e \<Rightarrow> Some (''spec.kserve.gpuPools.'' @ n @ ''.'' @ e)
           | None \<Rightarrow> check_pools show_v ps)"

definition checkURL :: "string \<Rightarrow> string option" where
  "checkURL s =
     (case url_parse s of
        Some u \<Rightarrow> if (u_scheme u = ''http'' \<or> u_scheme u = ''https'') \<and> u_host u \<noteq> [] then None
                  else Some (''must be an http(s) URL, got '' @ quoted s)
      | None \<Rightarrow> Some (''must be an http(s) URL, got '' @ quoted s))"

definition validateHost :: "document_spec \<Rightarrow> string option" where
  "validateHost s =
     (if ds_kserve s \<noteq> None then Some (''spec.kserve: not accepted for '' @ ds_kind s)
      else if ds_credentials s \<noteq> None
      then Some (''spec.credentials: not supported by '' @ ds_kind s @ '' yet (the driver presents no bearer)'')
      else if ds_endpoint s = [] then Some (''spec.endpoint: required for '' @ ds_kind s)
      else case checkURL (ds_endpoint s) of
             Some e \<Rightarrow> Some (''spec.endpoint: '' @ e)
           | None \<Rightarrow>
               if ds_agentEndpoint s = [] then None
               else map_option (\<lambda>e. ''spec.agentEndpoint: '' @ e) (checkURL (ds_agentEndpoint s)))"

definition target_error :: "serving_target \<Rightarrow> string option" where
  "target_error t =
     (if local_target t
      then (if tg_apiServer t \<noteq> [] \<or> tg_caBundle t \<noteq> []
            then Some ''spec.kserve.target.apiServer: not accepted for the local cluster'' else None)
      else if tg_apiServer t = []
      then Some (''spec.kserve.target.apiServer: required for cluster '' @ quoted (tg_cluster t) @
             '' (only '' @ TargetLocal @ '' needs none)'')
      else case checkURL (tg_apiServer t) of
             Some e \<Rightarrow> Some (''spec.kserve.target.apiServer: '' @ e)
           | None \<Rightarrow>
               if tg_caBundle t = []
               then Some (''spec.kserve.target.caBundle: required for cluster '' @ quoted (tg_cluster t)) else None)"

definition validateKServe :: "(gofloat \<Rightarrow> string) \<Rightarrow> document_spec \<Rightarrow> string option" where
  "validateKServe show_v s =
     (if ds_endpoint s \<noteq> [] \<or> ds_agentEndpoint s \<noteq> []
      then Some ''spec.endpoint: not accepted for kserve (the target names the cluster)''
      else case ds_kserve s of
             None \<Rightarrow> Some ''spec.kserve: required for kserve''
           | Some k \<Rightarrow>
               if tg_servingNamespace (ks_target k) = [] then Some ''spec.kserve.target.servingNamespace: required''
               else case pool_error show_v (ks_gpuPool k) of
                      Some e \<Rightarrow> Some (''spec.kserve.gpuPool.'' @ e)
                    | None \<Rightarrow>
                        (case ValidateFastLinks (ks_fastLinks k) of
                           Some e \<Rightarrow> Some (''spec.kserve.'' @ e)
                         | None \<Rightarrow>
                             (case check_pools show_v (ks_gpuPools k) of
                                Some e \<Rightarrow> Some e
                              | None \<Rightarrow> target_error (ks_target k))))"

definition validateName :: "(string \<Rightarrow> string list) \<Rightarrow> document_spec \<Rightarrow> name \<Rightarrow> string option" where
  "validateName dns s n =
     (if n = ds_kind s then None
      else if ds_kind s \<noteq> name_kserve then Some (''must equal spec.kind ('' @ ds_kind s @ '')'')
      else if kind_of n \<noteq> name_kserve \<or> n = name_kserve @ ''-''
      then Some (''must be '' @ name_kserve @ '' or '' @ kserveClusterName @ '', got '' @ quoted n)
      else if dns n \<noteq> [] then Some (quoted n @ '' is not a DNS label: '' @ join ''; '' (dns n))
      else None)"

definition doc_validate :: "(string \<Rightarrow> string list) \<Rightarrow> (gofloat \<Rightarrow> string) \<Rightarrow> model_document \<Rightarrow> string option" where
  "doc_validate dns show_v d =
     (let s = dc_spec d
      in if dc_apiVersion d \<noteq> DocumentAPIVersion then Some (''apiVersion: must be '' @ DocumentAPIVersion)
         else if dc_kind d \<noteq> DocumentKind then Some (''kind: must be '' @ DocumentKind)
         else if ds_kind s = [] then Some (''spec.kind: required ('' @ kindList @ '')'')
         else if \<not> isKnownKind (ds_kind s) then Some (''spec.kind: unknown '' @ quoted (ds_kind s) @ '' ('' @ kindList @ '')'')
         else if ds_source s \<noteq> SourcePerson \<and> ds_source s \<noteq> SourceClusterManager
         then Some (''spec.source: must be '' @ SourcePerson @ '' or '' @ SourceClusterManager @ '' (static backends come from --backends)'')
         else case validateName dns s (doc_name d) of
                Some e \<Rightarrow> Some (''metadata.name: '' @ e)
              | None \<Rightarrow>
                  if (case ds_credentials s of Some c \<Rightarrow> sk_name c = [] | None \<Rightarrow> False)
                  then Some ''spec.credentials.secretRef.name: required when credentials are set''
                  else if ds_kind s = name_kserve then validateKServe show_v s
                  else validateHost s)"

definition ParseDocument ::
  "(string \<Rightarrow> string + model_document) \<Rightarrow> (string \<Rightarrow> string list) \<Rightarrow> (gofloat \<Rightarrow> string) \<Rightarrow> string \<Rightarrow> string + model_document" where
  "ParseDocument decode dns show_v raw =
     (case decode raw of
        Inl e \<Rightarrow> Inl (''document: '' @ e)
      | Inr d \<Rightarrow>
          let d = applyDefaults d
          in case doc_validate dns show_v d of Some e \<Rightarrow> Inl e | None \<Rightarrow> Inr d)"

section \<open>The ConfigMap\<close>

record kube_config_map = config_map +
  cm_namespace :: string

definition doc_config_map :: "(model_document \<Rightarrow> string + string) \<Rightarrow> string \<Rightarrow> model_document \<Rightarrow> string + kube_config_map" where
  "doc_config_map render ns d =
     (case render d of
        Inl e \<Rightarrow> Inl e
      | Inr raw \<Rightarrow> Inr \<lparr>cm_name = DocumentName (doc_name d), cm_data = [DocumentKey \<mapsto> raw],
          cm_labels = [DocumentLabel \<mapsto> ''true'', DocumentSourceLabel \<mapsto> ds_source (dc_spec d)],
          cm_annotations = Map.empty, cm_namespace = ns\<rparr>)"

section \<open>The options\<close>

text \<open>The driver blocks; \<open>ko_rest\<close> stands for the fields of the kserve block a document does not touch.\<close>

record ollama_options =
  oo_endpoint :: string
  oo_agentHost :: string
  oo_timeout :: int
  oo_memoryBudget :: string
  oo_contextLength :: int
  oo_think :: "bool option"

record host_options =
  ho_endpoint :: string
  ho_agentHost :: string
  ho_timeout :: int
  ho_loadTimeout :: int

record 'r kserve_options =
  ko_name :: name
  ko_discoveryNamespace :: string
  ko_discoveryConfigMap :: string
  ko_namespace :: string
  ko_target :: serving_target
  ko_presetNamespace :: string
  ko_gpuPool :: gpu_pool
  ko_gpuPools :: "(string \<times> gpu_pool) list"
  ko_fastLinks :: "fast_link list"
  ko_router :: bool
  ko_tokenSecret :: string
  ko_tokenKey :: string
  ko_rest :: 'r

record 'r options =
  op_ollama :: ollama_options
  op_kserve :: "'r kserve_options"
  op_lemonade :: host_options
  op_lmstudio :: host_options

definition host_block :: "document_spec \<Rightarrow> host_options \<Rightarrow> host_options" where
  "host_block s o' = \<lparr>ho_endpoint = ds_endpoint s, ho_agentHost = ds_agentEndpoint s, ho_timeout = ho_timeout o',
     ho_loadTimeout = ho_loadTimeout o'\<rparr>"

definition kserve_block :: "model_document \<Rightarrow> kserve_spec \<Rightarrow> 'r kserve_options \<Rightarrow> 'r kserve_options" where
  "kserve_block d k b =
     (let b = b\<lparr>ko_name := doc_name d, ko_target := ks_target k, ko_namespace := tg_servingNamespace (ks_target k),
              ko_discoveryNamespace := ks_discoveryNamespace k, ko_discoveryConfigMap := ks_discoveryName k\<rparr>;
        b = (if ko_presetNamespace b = [] then b\<lparr>ko_presetNamespace := ks_discoveryNamespace k\<rparr> else b);
        b = (case ks_gpuPool k of Some p \<Rightarrow> b\<lparr>ko_gpuPool := p\<rparr> | None \<Rightarrow> b);
        b = b\<lparr>ko_gpuPools := ks_gpuPools k, ko_fastLinks := ks_fastLinks k\<rparr>;
        b = (case ks_router k of Some r \<Rightarrow> b\<lparr>ko_router := r\<rparr> | None \<Rightarrow> b)
      in case ds_credentials (dc_spec d) of
           Some c \<Rightarrow> b\<lparr>ko_tokenSecret := sk_name c, ko_tokenKey := sk_key c\<rparr>
         | None \<Rightarrow> b)"

text \<open>\<open>Options\<close>; the nil block of a kserve document without \<open>spec.kserve\<close>, which the schema
  refuses, is dereferenced: a panic.\<close>

definition doc_options :: "model_document \<Rightarrow> 'r options \<Rightarrow> 'r options option" where
  "doc_options d b =
     (let s = dc_spec d
      in if ds_kind s = name_ollama
         then Some (b\<lparr>op_ollama := \<lparr>oo_endpoint = ds_endpoint s, oo_agentHost = ds_agentEndpoint s,
                oo_timeout = oo_timeout (op_ollama b), oo_memoryBudget = [], oo_contextLength = oo_contextLength (op_ollama b),
                oo_think = oo_think (op_ollama b)\<rparr>\<rparr>)
         else if ds_kind s = name_lmstudio then Some (b\<lparr>op_lmstudio := host_block s (op_lmstudio b)\<rparr>)
         else if ds_kind s = name_lemonade then Some (b\<lparr>op_lemonade := host_block s (op_lemonade b)\<rparr>)
         else if ds_kind s = name_kserve
         then map_option (\<lambda>k. b\<lparr>op_kserve := kserve_block d k (op_kserve b)\<rparr>) (ds_kserve s)
         else Some b)"

end
