(* ===== verification/Registry.thy ===== *)
theory Registry
  imports Documents Service_Registry
begin

text \<open>
  The registry (\<open>internal/registry/registry.go\<close>): the events of the informer on backend documents
  change the service's backend set; the store writes documents as ConfigMaps. Then the table of
  drivers (\<open>internal/backend/registry.go\<close>). The parser and the builder of a document are
  arguments, as they are fields of the code's registry.
\<close>

section \<open>The informer's registry\<close>

text \<open>\<open>rg_names\<close>: the backend each ConfigMap registered.\<close>

record 'w doc_registry =
  rg_names :: "(string \<times> name) list"
  rg_service :: "'w service"

text \<open>What loads a document: parsing its text and building its backend.\<close>

record 'w loader =
  ld_parse :: "string \<Rightarrow> string + model_document"
  ld_build :: "model_document \<Rightarrow> string + 'w backend"

definition load_document :: "'w loader \<Rightarrow> kube_config_map \<Rightarrow> string + 'w backend \<times> string" where
  "load_document ld cm =
     (case cm_data cm DocumentKey of
        None \<Rightarrow> Inl (''no '' @ DocumentKey @ '' key'')
      | Some raw \<Rightarrow>
          (case ld_parse ld raw of
             Inl e \<Rightarrow> Inl e
           | Inr doc \<Rightarrow>
               let n = doc_name doc
               in if cm_name cm \<noteq> DocumentName n
                  then Inl (''metadata.name: the ConfigMap of the '' @ n @ '' document is named '' @ DocumentName n)
                  else case ld_build ld doc of
                         Inl e \<Rightarrow> Inl (''build '' @ n @ '' backend: '' @ e)
                       | Inr b \<Rightarrow> Inr (b, ds_source (dc_spec doc))))"

definition forgetLocked :: "string \<Rightarrow> string \<Rightarrow> 'w doc_registry \<Rightarrow> 'w doc_registry" where
  "forgetLocked cm problem r =
     (let n = (case map_of (rg_names r) cm of Some n \<Rightarrow> n | None \<Rightarrow> [])
      in r\<lparr>rg_names := AList.delete cm (rg_names r), rg_service := snd (DeregisterDocument n cm problem (rg_service r))\<rparr>)"

definition upsert :: "'w loader \<Rightarrow> kube_config_map \<Rightarrow> 'w doc_registry \<Rightarrow> 'w doc_registry" where
  "upsert ld cm r =
     (case load_document ld cm of
        Inl e \<Rightarrow> forgetLocked (cm_name cm) e r
      | Inr (b, source) \<Rightarrow>
          (case RegisterDocument b source (cm_name cm) (rg_service r) of
             (Inl e, s) \<Rightarrow> forgetLocked (cm_name cm) (err_msg e) (r\<lparr>rg_service := s\<rparr>)
           | (Inr _, s) \<Rightarrow> r\<lparr>rg_names := AList.update (cm_name cm) (b_name b) (rg_names r), rg_service := s\<rparr>))"

definition delete_document :: "string \<Rightarrow> 'w doc_registry \<Rightarrow> 'w doc_registry" where
  "delete_document cm r = forgetLocked cm [] r"

section \<open>The store\<close>

text \<open>The API server's ConfigMaps of the namespace; each call may fail with an error of its own.\<close>

definition store_get ::
  "(string \<Rightarrow> string + model_document) \<Rightarrow> string \<Rightarrow> err option \<Rightarrow> (string \<rightharpoonup> kube_config_map) \<Rightarrow> name \<Rightarrow> model_document res" where
  "store_get parse ns fail cms n =
     (case fail of
        Some e \<Rightarrow> Inl e
      | None \<Rightarrow>
          (case cms (DocumentName n) of
             None \<Rightarrow> Inl (errw ErrNotFound (''no '' @ n @ '' backend document in '' @ ns))
           | Some cm \<Rightarrow>
               (case cm_data cm DocumentKey of
                  None \<Rightarrow> Inl (errw ErrInvalid (cm_name cm @ '' has no '' @ DocumentKey @ '' key''))
                | Some raw \<Rightarrow> (case parse raw of Inl e \<Rightarrow> Inl (Err [] e) | Inr d \<Rightarrow> Inr d))))"

definition store_apply ::
  "(model_document \<Rightarrow> string option) \<Rightarrow> (model_document \<Rightarrow> string + string) \<Rightarrow> string \<Rightarrow> err option \<Rightarrow> err option \<Rightarrow>
   model_document \<Rightarrow> (string \<rightharpoonup> kube_config_map) \<Rightarrow> bool \<times> err option \<times> (string \<rightharpoonup> kube_config_map)" where
  "store_apply check to_yaml ns get_fail write_fail d cms =
     (case check d of
        Some e \<Rightarrow> (False, Some (errw ErrInvalid e), cms)
      | None \<Rightarrow>
          (case doc_config_map to_yaml ns d of
             Inl e \<Rightarrow> (False, Some (Err [] e), cms)
           | Inr cm \<Rightarrow>
               (case get_fail of
                  Some e \<Rightarrow> (False, Some e, cms)
                | None \<Rightarrow>
                    (case cms (cm_name cm) of
                       None \<Rightarrow> (True, write_fail, if write_fail = None then cms(cm_name cm \<mapsto> cm) else cms)
                     | Some x \<Rightarrow> (False, write_fail,
                         if write_fail = None
                         then cms(cm_name cm \<mapsto> x\<lparr>cm_labels := cm_labels cm, cm_data := cm_data cm\<rparr>) else cms)))))"

definition store_remove :: "err option \<Rightarrow> name \<Rightarrow> (string \<rightharpoonup> kube_config_map) \<Rightarrow> bool \<times> err option \<times> (string \<rightharpoonup> kube_config_map)" where
  "store_remove fail n cms =
     (case fail of
        Some e \<Rightarrow> (False, Some e, cms)
      | None \<Rightarrow>
          if cms (DocumentName n) = None then (False, None, cms)
          else (True, None, cms(DocumentName n := None)))"

section \<open>The drivers\<close>

type_synonym ('o, 'b) drivers = "(name \<times> ('o \<Rightarrow> 'b res)) list"

definition Register :: "name \<Rightarrow> ('o \<Rightarrow> 'b res) \<Rightarrow> ('o, 'b) drivers \<Rightarrow> ('o, 'b) drivers" where
  "Register n f ds = AList.update n f ds"

definition driver_names :: "('o, 'b) drivers \<Rightarrow> name list" where
  "driver_names ds = sort (map fst ds)"

definition new_driver :: "name \<Rightarrow> 'o \<Rightarrow> ('o, 'b) drivers \<Rightarrow> 'b res" where
  "new_driver n opts ds =
     (case map_of ds n of
        Some f \<Rightarrow> f opts
      | None \<Rightarrow> Inl (Err [] (''unknown backend '' @ quoted n @ '' (available: '' @ join '', '' (driver_names ds) @ '')'')))"

end
