(* ===== verification/Registry_Correct.thy ===== *)
theory Registry_Correct
  imports Registry Placement
begin

text \<open>
  What the documents promise: a document the schema accepts is complete for its kind, the fast links
  of an accepted document are disjoint, and the service's registered backends are, after any events,
  exactly those of the documents present that load.
\<close>

lemma first_error [simp]: "(case x of Some e \<Rightarrow> Some (f e) | None \<Rightarrow> r) = None \<longleftrightarrow> x = None \<and> r = None"
  by (cases x) simp_all

section \<open>Fast links\<close>

lemma fresh_nodes_Inr:
  "fresh_nodes i l ns seen = Inr seen' \<longleftrightarrow>
     list_all (\<lambda>n. trim_space n \<noteq> []) ns \<and> distinct ns \<and> (\<forall>n \<in> set ns. seen n = None) \<and>
     seen' = (\<lambda>n. if n \<in> set ns then Some l else seen n)"
proof (induction ns arbitrary: seen)
  case (Cons n ns)
  show ?case
  proof (cases "trim_space n = [] \<or> seen n \<noteq> None")
    case False
    then have step: "fresh_nodes i l (n # ns) seen = fresh_nodes i l ns (seen(n \<mapsto> l))" by (auto split: option.splits)
    have new: "(\<forall>m \<in> set ns. (seen(n \<mapsto> l)) m = None) \<longleftrightarrow> n \<notin> set ns \<and> (\<forall>m \<in> set ns. seen m = None)" by auto
    have all: "(\<lambda>m. if m \<in> set ns then Some l else (seen(n \<mapsto> l)) m) = (\<lambda>m. if m \<in> set (n # ns) then Some l else seen m)"
      by (rule ext) simp
    show ?thesis unfolding step Cons.IH new all using False by auto
  qed (auto split: option.splits)
qed auto

definition link_ok :: "fast_link \<Rightarrow> bool" where
  "link_ok l \<longleftrightarrow> trim_space (fl_name l) \<noteq> [] \<and> 2 \<le> length (fl_nodes l) \<and>
     list_all (\<lambda>n. trim_space n \<noteq> []) (fl_nodes l) \<and> list_all (\<lambda>(n, _). trim_space n \<noteq> []) (fl_env l)"

lemma check_links_None:
  "check_links i seen ls = None \<longleftrightarrow>
     list_all link_ok ls \<and> distinct (concat (map fl_nodes ls)) \<and> (\<forall>n \<in> set (concat (map fl_nodes ls)). seen n = None)"
proof (induction ls arbitrary: i seen)
  case (Cons l ls)
  let ?seen = "\<lambda>n. if n \<in> set (fl_nodes l) then Some (fl_name l) else seen n"
  show ?case
  proof (cases "link_ok l \<and> distinct (fl_nodes l) \<and> (\<forall>n \<in> set (fl_nodes l). seen n = None)")
    case True
    then have "fresh_nodes i (fl_name l) (fl_nodes l) seen = Inr ?seen" by (simp add: fresh_nodes_Inr link_ok_def)
    then have "check_links i seen (l # ls) = check_links (Suc i) ?seen ls"
      using True by (auto simp: link_ok_def list_ex_iff list_all_iff)
    then show ?thesis using Cons.IH[of "Suc i" ?seen] True by auto
  next
    case False
    have "check_links i seen (l # ls) \<noteq> None"
    proof
      assume a: "check_links i seen (l # ls) = None"
      then obtain seen' where f: "fresh_nodes i (fl_name l) (fl_nodes l) seen = Inr seen'"
        by (auto split: if_splits sum.splits)
      with a have "\<not> list_ex (\<lambda>(n, _). trim_space n = []) (fl_env l)" "trim_space (fl_name l) \<noteq> []" "\<not> length (fl_nodes l) < 2"
        by (auto split: if_splits)
      moreover from this have "list_all (\<lambda>(n, _). trim_space n \<noteq> []) (fl_env l)" by (auto simp: list_ex_iff list_all_iff)
      ultimately show False using f False by (auto simp: fresh_nodes_Inr link_ok_def)
    qed
    with False show ?thesis by auto
  qed
qed simp

lemma disjoint_unique:
  "distinct (concat (map f ls)) \<Longrightarrow> l \<in> set ls \<Longrightarrow> l' \<in> set ls \<Longrightarrow> n \<in> set (f l) \<Longrightarrow> n \<in> set (f l') \<Longrightarrow> l = l'"
  by (induction ls) auto

lemma fastLinkOf_member:
  assumes "distinct (concat (map fl_nodes (s_fastLinks s)))"
  shows "fastLinkOf s n = Some l \<longleftrightarrow> l \<in> set (s_fastLinks s) \<and> n \<in> set (fl_nodes l)"
proof
  assume "fastLinkOf s n = Some l"
  then show "l \<in> set (s_fastLinks s) \<and> n \<in> set (fl_nodes l)"
    by (auto simp: fastLinkOf_def has_node_def find_Some_iff)
next
  assume l: "l \<in> set (s_fastLinks s) \<and> n \<in> set (fl_nodes l)"
  then obtain l' where l': "fastLinkOf s n = Some l'"
    by (cases "fastLinkOf s n") (auto simp: fastLinkOf_def has_node_def find_None_iff)
  then have "l' \<in> set (s_fastLinks s) \<and> n \<in> set (fl_nodes l')"
    by (auto simp: fastLinkOf_def has_node_def find_Some_iff)
  with l l' disjoint_unique [OF assms] show "fastLinkOf s n = Some l" by blast
qed

text \<open>C26. The fast links of a document are accepted exactly when each has a name that is not blank, two or
  more nodes with names that are not blank and environment entries with names that are not blank, and no node
  is named twice, in one link or in two. Of accepted links, the one found for a node is the only one that
  joins it, and it is found for every node a link names.\<close>

theorem fast_links_disjoint:
  "(ValidateFastLinks (s_fastLinks s) = None \<longleftrightarrow>
     (\<forall>l \<in> set (s_fastLinks s). trim_space (fl_name l) \<noteq> [] \<and> 2 \<le> length (fl_nodes l) \<and>
        (\<forall>n \<in> set (fl_nodes l). trim_space n \<noteq> []) \<and> (\<forall>(n, v) \<in> set (fl_env l). trim_space n \<noteq> [])) \<and>
     distinct (concat (map fl_nodes (s_fastLinks s)))) \<and>
   (ValidateFastLinks (s_fastLinks s) = None \<longrightarrow>
     (\<forall>n l. fastLinkOf s n = Some l \<longleftrightarrow> l \<in> set (s_fastLinks s) \<and> n \<in> set (fl_nodes l)))"
proof -
  have "ValidateFastLinks (s_fastLinks s) = None \<longleftrightarrow>
      list_all link_ok (s_fastLinks s) \<and> distinct (concat (map fl_nodes (s_fastLinks s)))"
    by (simp add: ValidateFastLinks_def check_links_None)
  then show ?thesis using fastLinkOf_member [of s] by (simp add: list_all_iff link_ok_def case_prod_beta)
qed

section \<open>Accepted documents\<close>

definition accepted_pool :: "gpu_pool \<Rightarrow> bool" where
  "accepted_pool p \<longleftrightarrow> (\<forall>s \<in> set (gp_instances p). trim_space (is_type s) \<noteq> [] \<and>
     (\<forall>(_, v) \<in> set (shape_numbers s). \<not> fless_eq v (Fin 0)) \<and>
     (is_capability s \<noteq> [] \<longrightarrow> ParseComputeCapability (is_capability s) \<noteq> None))"

lemma check_positive_None: "check_positive show_v fs = None \<longleftrightarrow> (\<forall>(_, v) \<in> set fs. \<not> fless_eq v (Fin 0))"
  by (induction show_v fs rule: check_positive.induct) auto

lemma check_instances_None:
  "check_instances show_v i ss = None \<longleftrightarrow> (\<forall>s \<in> set ss. instance_error show_v s = None)"
  by (induction ss arbitrary: i) (auto split: option.splits)

lemma instance_error_None:
  "instance_error show_v s = None \<longleftrightarrow> trim_space (is_type s) \<noteq> [] \<and> check_positive show_v (shape_numbers s) = None \<and>
     (is_capability s \<noteq> [] \<longrightarrow> ParseComputeCapability (is_capability s) \<noteq> None)"
  unfolding instance_error_def by (cases "check_positive show_v (shape_numbers s)") simp_all

lemma pool_instances: "ValidateInstances show_v (gp_instances p) = None \<longleftrightarrow> accepted_pool p"
  unfolding ValidateInstances_def check_instances_None accepted_pool_def instance_error_None check_positive_None ..

lemma check_pools_None:
  "check_pools show_v ps = None \<longleftrightarrow> (\<forall>(n, p) \<in> set ps. n \<noteq> [] \<and> accepted_pool p)"
  unfolding pool_instances[of show_v, symmetric]
  by (induction show_v ps rule: check_pools.induct) (auto split: option.splits)

definition http_url :: "string \<Rightarrow> bool" where
  "http_url s \<longleftrightarrow> (\<exists>u. url_parse s = Some u \<and> (u_scheme u = ''http'' \<or> u_scheme u = ''https'') \<and> u_host u \<noteq> [])"

lemma checkURL_None: "checkURL s = None \<longleftrightarrow> http_url s"
  by (auto simp: checkURL_def http_url_def split: option.splits)

text \<open>What a document must hold, by its kind.\<close>

definition host_complete :: "document_spec \<Rightarrow> bool" where
  "host_complete s \<longleftrightarrow> ds_kserve s = None \<and> ds_credentials s = None \<and> http_url (ds_endpoint s) \<and>
     (ds_agentEndpoint s = [] \<or> http_url (ds_agentEndpoint s))"

definition taint_ok :: "taint option \<Rightarrow> bool" where
  "taint_ok t = (case t of None \<Rightarrow> True
     | Some t \<Rightarrow> tn_key t \<noteq> [] \<and> tn_effect t \<in> {[], ''NoSchedule'', ''PreferNoSchedule'', ''NoExecute''})"

definition target_ok :: "serving_target \<Rightarrow> bool" where
  "target_ok t \<longleftrightarrow> tg_servingNamespace t \<noteq> [] \<and>
     (if local_target t then tg_apiServer t = [] \<and> tg_caBundle t = [] else http_url (tg_apiServer t) \<and> tg_caBundle t \<noteq> [])"

definition kserve_complete :: "document_spec \<Rightarrow> bool" where
  "kserve_complete s \<longleftrightarrow> ds_endpoint s = [] \<and> ds_agentEndpoint s = [] \<and>
     (case ds_credentials s of None \<Rightarrow> True | Some c \<Rightarrow> sk_name c \<noteq> []) \<and>
     (\<exists>k. ds_kserve s = Some k \<and> target_ok (ks_target k) \<and>
       (\<forall>p. ks_gpuPool k = Some p \<longrightarrow> taint_ok (gp_taint p) \<and> accepted_pool p) \<and>
       (\<forall>(n, p) \<in> set (ks_gpuPools k). n \<noteq> [] \<and> accepted_pool p) \<and>
       list_all link_ok (ks_fastLinks k) \<and> distinct (concat (map fl_nodes (ks_fastLinks k))))"

definition name_accepted :: "(string \<Rightarrow> string list) \<Rightarrow> name \<Rightarrow> name \<Rightarrow> bool" where
  "name_accepted dns k n \<longleftrightarrow> n = k \<or> k = name_kserve \<and> kind_of n = name_kserve \<and> n \<noteq> name_kserve @ ''-'' \<and> dns n = []"

lemma http_url_Nil: "\<not> http_url []"
  by (simp add: http_url_def url_parse_def has_ctl_def Let_def)

lemma pool_error_None: "pool_error show_v p = None \<longleftrightarrow> (\<forall>q. p = Some q \<longrightarrow> taint_ok (gp_taint q) \<and> accepted_pool q)"
  by (auto simp: pool_error_def taint_error_def taint_ok_def pool_instances split: option.splits)

lemma validateHost_None: "validateHost s = None \<longleftrightarrow> host_complete s"
  using http_url_Nil by (auto simp: validateHost_def host_complete_def checkURL_None)

lemma target_error_None: "tg_servingNamespace t \<noteq> [] \<and> target_error t = None \<longleftrightarrow> target_ok t"
  using http_url_Nil by (auto simp: target_error_def target_ok_def checkURL_None)

lemma validateKServe_None:
  "(case ds_credentials s of None \<Rightarrow> True | Some c \<Rightarrow> sk_name c \<noteq> []) \<and> validateKServe show_v s = None \<longleftrightarrow> kserve_complete s"
proof (cases "ds_kserve s")
  case (Some k)
  have "validateKServe show_v s = None \<longleftrightarrow> ds_endpoint s = [] \<and> ds_agentEndpoint s = [] \<and>
     (tg_servingNamespace (ks_target k) \<noteq> [] \<and> target_error (ks_target k) = None) \<and> pool_error show_v (ks_gpuPool k) = None \<and>
     ValidateFastLinks (ks_fastLinks k) = None \<and> check_pools show_v (ks_gpuPools k) = None"
    by (auto simp: validateKServe_def Some)
  then show ?thesis
    unfolding target_error_None pool_error_None ValidateFastLinks_def check_links_None check_pools_None kserve_complete_def Some
    by (auto split: option.split)
qed (simp add: validateKServe_def kserve_complete_def)

lemma validateName_None: "validateName dns s n = None \<longleftrightarrow> name_accepted dns (ds_kind s) n"
  by (simp add: validateName_def name_accepted_def)

text \<open>C20. The schema accepts exactly the complete documents: the API version and kind, one of the four drivers,
  a source of person or cluster-manager (never static), a name that is the driver's or a DNS label
  kserve-.... For a host driver: an http(s) endpoint, an agent endpoint that is empty or http(s), no credentials
  and no kserve block. For kserve: no endpoint and no agent endpoint; credentials absent or named; a serving
  namespace; a target that is the local cluster, with neither API server nor CA, or names its http(s) API server
  and CA; any taint of the pool with a key and a known effect or none; names for the further pools; sizes with a type, positive numbers and readable compute capabilities; and fast links that are named,
  join two or more named nodes, name their environment entries and share no node.\<close>

theorem schema_accepts_complete:
  "doc_validate dns show_v d = None \<longleftrightarrow>
     dc_apiVersion d = DocumentAPIVersion \<and> dc_kind d = DocumentKind \<and> ds_kind (dc_spec d) \<in> set known_kinds \<and>
     ds_source (dc_spec d) \<in> {SourcePerson, SourceClusterManager} \<and> name_accepted dns (ds_kind (dc_spec d)) (doc_name d) \<and>
     (if ds_kind (dc_spec d) = name_kserve then kserve_complete (dc_spec d) else host_complete (dc_spec d))"
proof -
  have k: "ds_kind (dc_spec d) \<noteq> [] \<and> isKnownKind (ds_kind (dc_spec d)) \<longleftrightarrow> ds_kind (dc_spec d) \<in> set known_kinds"
    by (auto simp: isKnownKind_def name_defs)
  have h: "(case ds_credentials s of Some c \<Rightarrow> sk_name c \<noteq> [] | None \<Rightarrow> True) \<and> validateHost s = None \<longleftrightarrow> host_complete s" for s
    unfolding validateHost_None by (auto simp: host_complete_def)
  have "doc_validate dns show_v d = None \<longleftrightarrow>
     dc_apiVersion d = DocumentAPIVersion \<and> dc_kind d = DocumentKind \<and>
     (ds_kind (dc_spec d) \<noteq> [] \<and> isKnownKind (ds_kind (dc_spec d))) \<and> ds_source (dc_spec d) \<in> {SourcePerson, SourceClusterManager} \<and>
     validateName dns (dc_spec d) (doc_name d) = None \<and>
     (if ds_kind (dc_spec d) = name_kserve
      then (case ds_credentials (dc_spec d) of Some c \<Rightarrow> sk_name c \<noteq> [] | None \<Rightarrow> True) \<and> validateKServe show_v (dc_spec d) = None
      else (case ds_credentials (dc_spec d) of Some c \<Rightarrow> sk_name c \<noteq> [] | None \<Rightarrow> True) \<and> validateHost (dc_spec d) = None)"
    unfolding doc_validate_def Let_def by (cases "ds_credentials (dc_spec d)"; cases "validateName dns (dc_spec d) (doc_name d)") simp_all
  then show ?thesis unfolding k h validateKServe_None validateName_None .
qed

section \<open>The backend set follows the documents\<close>

text \<open>The registry's moments: started over the static backends \<open>st\<close>, then one event after another;
  \<open>D\<close> is the documents of the namespace as the informer delivered them.\<close>

inductive registry_reach :: "'w loader \<Rightarrow> 'w backend list \<Rightarrow> (string \<rightharpoonup> kube_config_map) \<Rightarrow> 'w doc_registry \<Rightarrow> bool" for ld st where
  registry_new: "new_service st wirer inst wns cfg = Some s \<Longrightarrow>
     registry_reach ld st Map.empty \<lparr>rg_names = [], rg_service = s\<rparr>"
| registry_upsert: "registry_reach ld st D r \<Longrightarrow> registry_reach ld st (D(cm_name cm \<mapsto> cm)) (upsert ld cm r)"
| registry_delete: "registry_reach ld st D r \<Longrightarrow> registry_reach ld st (D(k := None)) (delete_document k r)"

text \<open>The backend a document stands for.\<close>

definition document_backend :: "'w loader \<Rightarrow> 'w backend list \<Rightarrow> (string \<rightharpoonup> kube_config_map) \<Rightarrow> name \<rightharpoonup> 'w backend \<times> string" where
  "document_backend ld st D n =
     (if n \<in> b_name ` set st then None
      else case D (DocumentName n) of
             None \<Rightarrow> None
           | Some cm \<Rightarrow> (case load_document ld cm of Inl _ \<Rightarrow> None | Inr x \<Rightarrow> Some x))"

definition builds_named :: "'w loader \<Rightarrow> bool" where
  "builds_named ld \<longleftrightarrow> (\<forall>d b. ld_build ld d = Inr b \<longrightarrow> b_name b = doc_name d)"

lemma DocumentName_inj [simp]: "DocumentName a = DocumentName b \<longleftrightarrow> a = b"
  by (simp add: DocumentName_def)

lemma loaded_document:
  assumes "load_document ld cm = Inr (b, src)" "builds_named ld" "ld_parse ld = ParseDocument decode dns show_v"
  shows "cm_name cm = DocumentName (b_name b)" "b_name b \<noteq> []" "src \<noteq> source_static"
proof -
  obtain raw d where d: "ParseDocument decode dns show_v raw = Inr d" "cm_name cm = DocumentName (doc_name d)"
    "ld_build ld d = Inr b" "src = ds_source (dc_spec d)"
    using assms(1,3) by (auto simp: load_document_def Let_def split: option.splits sum.splits if_splits)
  have n: "b_name b = doc_name d" using assms(2) d(3) by (simp add: builds_named_def)
  from d(1) have v: "doc_validate dns show_v d = None" by (auto simp: ParseDocument_def Let_def split: sum.splits option.splits)
  show "cm_name cm = DocumentName (b_name b)" using d(2) n by simp
  have "ds_kind (dc_spec d) \<noteq> []" using v by (auto simp: doc_validate_def Let_def split: if_splits)
  then show "b_name b \<noteq> []" by (simp add: n doc_name_def)
  have "src \<in> {SourcePerson, SourceClusterManager}" using v d(4) by (auto simp: doc_validate_def Let_def split: if_splits)
  then show "src \<noteq> source_static" by (auto simp: SourcePerson_def SourceClusterManager_def source_static_def)
qed

text \<open>The invariant: the service refines the documents, and the names the registry keeps are those of the
  registered backends' ConfigMaps.\<close>

definition follows :: "'w loader \<Rightarrow> 'w backend list \<Rightarrow> (string \<rightharpoonup> kube_config_map) \<Rightarrow> 'w doc_registry \<Rightarrow> bool" where
  "follows ld st D r \<longleftrightarrow> svc_inv st (rg_service r) \<and>
     abs_registered (rg_service r) = document_backend ld st D \<and>
     (\<forall>k n. map_of (rg_names r) k = Some n \<longleftrightarrow> k = DocumentName n \<and> document_backend ld st D n \<noteq> None)"

lemma forget_follows:
  assumes "follows ld st D r"
    "\<And>j. j \<noteq> k \<Longrightarrow> D' j = D j" "\<And>n. k = DocumentName n \<Longrightarrow> document_backend ld st D' n = None"
    "document_backend ld st D [] = None"
  shows "follows ld st D' (forgetLocked k p r)"
proof -
  let ?n = "case map_of (rg_names r) k of Some n \<Rightarrow> n | None \<Rightarrow> []"
  have inv: "svc_inv st (rg_service r)" and core: "svc_core st (rg_service r)"
    and abs: "abs_registered (rg_service r) = document_backend ld st D"
    and names: "\<And>k n. map_of (rg_names r) k = Some n \<longleftrightarrow> k = DocumentName n \<and> document_backend ld st D n \<noteq> None"
    using assms(1) by (auto simp: follows_def svc_inv_def)
  have same: "document_backend ld st D' n = document_backend ld st D n" if "DocumentName n \<noteq> k" for n
    using assms(2)[OF that] by (simp add: document_backend_def)
  have "document_backend ld st D' n = (if n = ?n then None else document_backend ld st D n)" for n
  proof (cases "k = DocumentName n")
    case True
    then show ?thesis using assms(3)[OF True] names[of k n] by (cases "document_backend ld st D n") auto
  next
    case False
    then have "?n \<noteq> n \<or> n = []" using names[of k n] by (auto split: option.splits)
    then show ?thesis using same[of n] False assms(4) by auto
  qed
  then have dropped: "document_backend ld st D' = (document_backend ld st D)(?n := None)" by (simp add: fun_eq_iff)
  have names': "map_of (AList.delete k (rg_names r)) j = Some n \<longleftrightarrow> j = DocumentName n \<and> document_backend ld st D' n \<noteq> None" for j n
    using names[of j n] same[of n] assms(3)[of n]
    by (cases "j = k"; cases "document_backend ld st D n") (auto simp: delete_conv')
  show ?thesis
    unfolding follows_def forgetLocked_def Let_def
    using deregister_inv[OF inv] deregister_refines[OF core] names' by (simp add: abs dropped)
qed

lemma document_backend_name:
  assumes "document_backend ld st D n = Some (b, src)" "builds_named ld" "ld_parse ld = ParseDocument decode dns show_v"
    "\<And>k cm. D k = Some cm \<Longrightarrow> cm_name cm = k"
  shows "b_name b = n" "n \<noteq> []"
proof -
  obtain cm where cm: "D (DocumentName n) = Some cm" "load_document ld cm = Inr (b, src)"
    using assms(1) by (auto simp: document_backend_def split: if_splits option.splits sum.splits)
  have "DocumentName n = DocumentName (b_name b)"
    using loaded_document(1)[OF cm(2) assms(2,3)] assms(4)[OF cm(1)] by simp
  then show "b_name b = n" "n \<noteq> []" using loaded_document(2)[OF cm(2) assms(2,3)] by auto
qed

lemma document_backend_Nil:
  assumes "builds_named ld" "ld_parse ld = ParseDocument decode dns show_v" "\<And>k cm. D k = Some cm \<Longrightarrow> cm_name cm = k"
  shows "document_backend ld st D [] = None"
  using document_backend_name(2)[OF _ assms, where st = st and n = "[]"] by (cases "document_backend ld st D []") auto

lemma register_static:
  assumes "svc_core st s" "src \<noteq> source_static" "b_name b \<in> b_name ` set st"
  shows "\<exists>e. RegisterDocument b src k s = (Inl e, s)"
  using register_refines[OF assms(1,2), of b k] assms(3) by auto

lemma upsert_follows:
  assumes "follows ld st D r" "builds_named ld" "ld_parse ld = ParseDocument decode dns show_v"
    "\<And>k cm. D k = Some cm \<Longrightarrow> cm_name cm = k"
  shows "follows ld st (D(cm_name cm \<mapsto> cm)) (upsert ld cm r)"
proof -
  let ?D = "D(cm_name cm \<mapsto> cm)"
  note nil = document_backend_Nil[OF assms(2-4), where st = st]
  have inv: "svc_inv st (rg_service r)" and core: "svc_core st (rg_service r)"
    and abs: "abs_registered (rg_service r) = document_backend ld st D"
    and names: "\<And>k n. map_of (rg_names r) k = Some n \<longleftrightarrow> k = DocumentName n \<and> document_backend ld st D n \<noteq> None"
    using assms(1) by (auto simp: follows_def svc_inv_def)
  show ?thesis
  proof (cases "load_document ld cm")
    case (Inl e)
    then have "follows ld st ?D (forgetLocked (cm_name cm) e r)"
      by (intro forget_follows[OF assms(1) _ _ nil]) (auto simp: document_backend_def)
    with Inl show ?thesis by (simp add: upsert_def)
  next
    case (Inr x)
    then obtain b src where x: "load_document ld cm = Inr (b, src)" by (cases x) auto
    note l = loaded_document[OF x assms(2,3)]
    show ?thesis
    proof (cases "b_name b \<in> b_name ` set st")
      case True
      obtain e where e: "RegisterDocument b src (cm_name cm) (rg_service r) = (Inl e, rg_service r)"
        using register_static[OF core l(3) True] by blast
      have "follows ld st ?D (forgetLocked (cm_name cm) (err_msg e) r)"
        using True l(1) by (intro forget_follows[OF assms(1) _ _ nil]) (auto simp: document_backend_def)
      with x e show ?thesis by (simp add: upsert_def)
    next
      case False
      obtain u s where s: "RegisterDocument b src (cm_name cm) (rg_service r) = (Inr u, s)"
        using register_refines[OF core l(3), of b "cm_name cm"] False
        by (cases "RegisterDocument b src (cm_name cm) (rg_service r)") auto
      have new: "document_backend ld st ?D = (document_backend ld st D)(b_name b \<mapsto> (b, src))"
        using False l(1) x by (auto simp: document_backend_def fun_eq_iff)
      have "abs_registered s = (abs_registered (rg_service r))(b_name b \<mapsto> (b, src))" "svc_inv st s"
        using register_refines[OF core l(3), of b "cm_name cm"] register_inv[OF inv l(3), of b "cm_name cm"] False s by simp_all
      moreover have "map_of (AList.update (cm_name cm) (b_name b) (rg_names r)) k = Some n \<longleftrightarrow>
          k = DocumentName n \<and> ((document_backend ld st D)(b_name b \<mapsto> (b, src))) n \<noteq> None" for k n
        using names[of k n] l(1) by (auto simp: update_conv')
      ultimately show ?thesis using x s by (simp add: upsert_def follows_def new abs)
    qed
  qed
qed

lemma delete_follows:
  assumes "follows ld st D r" "document_backend ld st D [] = None"
  shows "follows ld st (D(k := None)) (delete_document k r)"
  unfolding delete_document_def
  by (rule forget_follows[OF assms(1) _ _ assms(2)]) (auto simp: document_backend_def)

lemma new_service_none:
  assumes "new_service st wirer inst wns cfg = Some s"
  shows "abs_registered s n = None"
proof (rule ccontr)
  assume "abs_registered s n \<noteq> None"
  then obtain b src where b: "map_of (sv_by_name s) n = Some b" "map_of (sv_sources s) n = Some src" "src \<noteq> source_static"
    by (auto simp: abs_registered_def split: option.splits if_splits)
  then have "source_of s n \<noteq> source_static" by (simp add: source_of_def)
  with b(1) have "(n, b) \<in> set (filter (\<lambda>(n, b). source_of s n \<noteq> source_static) (sv_by_name s))"
    by (auto dest: map_of_SomeD)
  then have "registered s \<noteq> []" unfolding registered_def by (metis empty_iff list.map_disc_iff list.set(1))
  moreover have inv: "svc_inv st s" using new_service_inv[OF assms] .
  then have "sv_backends s = st @ sort_key b_name (registered s)" "sv_static s = length st"
    by (simp_all add: svc_inv_def svc_core_def)
  moreover have "sv_static s = length (sv_backends s)" using assms by (auto simp: new_service_def split: option.splits)
  ultimately show False by simp
qed

lemma registry_reach_follows:
  assumes "registry_reach ld st D r" "builds_named ld" "ld_parse ld = ParseDocument decode dns show_v"
  shows "follows ld st D r \<and> (\<forall>k cm. D k = Some cm \<longrightarrow> cm_name cm = k)"
  using assms(1)
proof (induction rule: registry_reach.induct)
  case (registry_new wirer inst wns cfg s)
  have "svc_inv st s" "abs_registered s n = None" for n
    using new_service_inv[OF registry_new] new_service_none[OF registry_new] by simp_all
  then show ?case by (auto simp: follows_def document_backend_def fun_eq_iff)
next
  case (registry_upsert D r cm)
  then show ?case using upsert_follows[OF _ assms(2,3), of st D r cm] by (simp del: fun_upd_apply) auto
next
  case (registry_delete D r k)
  then show ?case using delete_follows[of ld st D r k] document_backend_Nil[OF assms(2,3), where st = st and D = D]
    by (simp del: fun_upd_apply) auto
qed

text \<open>C19. The backend set follows the documents: after any sequence of documents written, changed and deleted,
  the registered backend of a name is exactly the one its document model-backend-<name> describes when that
  document is present, satisfies the schema, names itself so and builds; there is none when it does not, and
  a document never takes the name of a backend of --backends.\<close>

theorem registry_follows_documents:
  assumes "registry_reach ld st D r" "builds_named ld" "ld_parse ld = ParseDocument decode dns show_v"
  shows "abs_registered (rg_service r) n =
     (if n \<in> b_name ` set st then None
      else case D (DocumentName n) of
             None \<Rightarrow> None
           | Some cm \<Rightarrow> (case load_document ld cm of Inl _ \<Rightarrow> None | Inr x \<Rightarrow> Some x))"
  using registry_reach_follows[OF assms] by (simp add: follows_def document_backend_def)

section \<open>Documents written and read\<close>

definition defaulted :: "kserve_spec \<Rightarrow> bool" where
  "defaulted k \<longleftrightarrow> tg_cluster (ks_target k) \<noteq> [] \<and> ks_discoveryName k \<noteq> [] \<and>
     (ks_discoveryNamespace k = [] \<longrightarrow> tg_servingNamespace (ks_target k) = [])"

lemma default_kserve_defaulted: "defaulted (default_kserve k)"
  by (simp add: default_kserve_def defaulted_def TargetLocal_def Let_def)

lemma defaulted_fixed: "defaulted k \<Longrightarrow> default_kserve k = k"
  by (simp add: default_kserve_def defaulted_def Let_def)

lemma default_key_idem: "default_key (default_key c) = default_key c"
  by (simp add: default_key_def)

lemma default_spec_idem: "default_spec (default_spec s) = default_spec s"
proof -
  have o: "map_option default_key (map_option default_key c) = map_option default_key c"
    "map_option default_kserve (map_option default_kserve k) = map_option default_kserve k" for c k
    by (cases c; simp add: default_key_idem) (cases k; simp add: defaulted_fixed[OF default_kserve_defaulted])
  have src: "ds_source (default_spec s) \<noteq> []" by (simp add: default_spec_def Let_def SourcePerson_def)
  have "ds_credentials (default_spec s) = map_option default_key (ds_credentials s)"
    "ds_kserve (default_spec s) = map_option default_kserve (ds_kserve s)" by (simp_all add: default_spec_def Let_def)
  then have "default_spec (default_spec s) =
      (default_spec s)\<lparr>ds_credentials := ds_credentials (default_spec s), ds_kserve := ds_kserve (default_spec s)\<rparr>"
    using src o by (subst default_spec_def) (simp add: Let_def)
  then show ?thesis by simp
qed

lemma NewDocument_defaults: "applyDefaults (NewDocument s) = NewDocument s"
  by (simp add: NewDocument_def applyDefaults_def default_spec_idem)

text \<open>C25. What add_backend writes is read back and registered: a document with its defaults that the schema
  accepts, written by the store (created or updated, the writes not failing) with a YAML text that decodes
  to it, is what the store then gets, and the informer's event of its ConfigMap loads the backend built from
  it, with its source.\<close>

theorem applied_document_loads:
  assumes "doc_validate dns show_v d = None" "applyDefaults d = d" "to_yaml d = Inr raw" "decode raw = Inr d"
    "ld_parse ld = ParseDocument decode dns show_v" "ld_build ld d = Inr b"
    "\<And>k x. cms k = Some x \<Longrightarrow> cm_name x = k"
  shows "\<exists>created cms' cm. store_apply (doc_validate dns show_v) to_yaml ns None None d cms = (created, None, cms') \<and>
     (created \<longleftrightarrow> cms (DocumentName (doc_name d)) = None) \<and>
     store_get (ld_parse ld) ns None cms' (doc_name d) = Inr d \<and>
     cms' = cms(DocumentName (doc_name d) \<mapsto> cm) \<and> load_document ld cm = Inr (b, ds_source (dc_spec d))"
proof -
  have parse: "ld_parse ld raw = Inr d" using assms(1,2,4) by (simp add: assms(5) ParseDocument_def)
  have loads: "load_document ld cm = Inr (b, ds_source (dc_spec d))"
    if "cm_data cm DocumentKey = Some raw" "cm_name cm = DocumentName (doc_name d)" for cm
    using that parse assms(6) by (simp add: load_document_def)
  show ?thesis
  proof (cases "cms (DocumentName (doc_name d))")
    case None
    then show ?thesis using assms(1,3) parse by (auto simp: store_apply_def doc_config_map_def store_get_def loads)
  next
    case (Some x)
    then have "cm_name x = DocumentName (doc_name d)" by (rule assms(7))
    then show ?thesis using assms(1,3) parse Some by (auto simp: store_apply_def doc_config_map_def store_get_def loads)
  qed
qed

text \<open>A document's Ollama block keeps the instance's timeout, context length and thinking, but not the
  operator's memory budget.\<close>

lemma document_drops_budget:
  "ds_kind (dc_spec d) = name_ollama \<Longrightarrow>
     \<exists>o'. doc_options d b = Some o' \<and> oo_memoryBudget (op_ollama o') = [] \<and>
       oo_contextLength (op_ollama o') = oo_contextLength (op_ollama b)"
  by (simp add: doc_options_def Let_def)

end
