(* ===== verification/Registry_Witnesses.thy ===== *)
theory Registry_Witnesses
  imports Registry_Correct Service_Examples
begin

text \<open>
  A document of an Ollama backend, the documents' registry over two static backends, to
  which the properties of the documents apply.
\<close>

section \<open>A registry\<close>

definition w_doc :: model_document where
  "w_doc = NewDocument \<lparr>ds_kind = name_lmstudio, ds_source = [], ds_endpoint = ''http://lmstudio:1234'', ds_agentEndpoint = [],
     ds_credentials = None, ds_kserve = None\<rparr>"

definition w_decode :: "string \<Rightarrow> string + model_document" where
  "w_decode raw = (if raw = ''doc'' then Inr w_doc else Inl ''not YAML'')"

definition w_loader :: "unit loader" where
  "w_loader = \<lparr>ld_parse = ParseDocument w_decode (\<lambda>_. []) (\<lambda>_. []), ld_build = (\<lambda>d. Inr (w_backend (doc_name d) []))\<rparr>"

definition w_cm :: kube_config_map where
  "w_cm = \<lparr>cm_name = ''model-backend-lmstudio'', cm_data = [DocumentKey \<mapsto> ''doc''], cm_labels = Map.empty,
     cm_annotations = Map.empty, cm_namespace = ''agents''\<rparr>"

lemma w_doc: "w_doc = \<lparr>dc_apiVersion = DocumentAPIVersion, dc_kind = DocumentKind, dc_name = name_lmstudio,
    dc_spec = \<lparr>ds_kind = name_lmstudio, ds_source = SourcePerson, ds_endpoint = ''http://lmstudio:1234'', ds_agentEndpoint = [],
      ds_credentials = None, ds_kserve = None\<rparr>\<rparr>"
  by (simp add: w_doc_def NewDocument_def applyDefaults_def default_spec_def Let_def)

lemma w_doc_name: "doc_name w_doc = ''lmstudio''"
  by (simp add: w_doc doc_name_def name_lmstudio_def)

lemma w_doc_valid: "doc_validate (\<lambda>_. []) (\<lambda>_. []) w_doc = None"
  by code_simp

lemma w_loaded: "load_document w_loader w_cm = Inr (w_backend ''lmstudio'' [], SourcePerson)"
proof -
  have "ParseDocument w_decode (\<lambda>_. []) (\<lambda>_. []) ''doc'' = Inr w_doc"
    using w_doc_valid by (simp add: ParseDocument_def w_decode_def w_doc_def NewDocument_defaults)
  then show ?thesis
    by (simp add: load_document_def w_loader_def w_cm_def w_doc_name DocumentName_def DocumentNamePrefix_def) (simp add: w_doc)
qed

lemma w_builds: "builds_named w_loader"
  by (simp add: builds_named_def w_loader_def w_backend_def)

lemma w_registry_reach:
  "registry_reach w_loader w_static [''model-backend-lmstudio'' \<mapsto> w_cm]
     (upsert w_loader w_cm \<lparr>rg_names = [], rg_service = w_new\<rparr>)"
proof -
  have "new_service w_static None None [] w_cfg = Some w_new"
    by (simp add: w_new_def new_service_def w_static_def w_backend_def Let_def)
  from registry_upsert[OF registry_new[OF this], of w_loader w_cm] show ?thesis by (simp add: w_cm_def)
qed

lemma registry_follows_documents_witness:
  "abs_registered (rg_service (upsert w_loader w_cm \<lparr>rg_names = [], rg_service = w_new\<rparr>)) ''lmstudio''
     = Some (w_backend ''lmstudio'' [], SourcePerson)"
  using registry_follows_documents[OF w_registry_reach w_builds, of w_decode "\<lambda>_. []" "\<lambda>_. []" "''lmstudio''"] w_loaded
  by (simp add: w_loader_def w_static_def w_backend_def DocumentName_def DocumentNamePrefix_def)

lemma applied_document_loads_witness:
  "\<exists>cms' cm. store_apply (doc_validate (\<lambda>_. []) (\<lambda>_. [])) (\<lambda>_. Inr ''doc'') ''agents'' None None w_doc Map.empty = (True, None, cms') \<and>
     store_get (ld_parse w_loader) ''agents'' None cms' ''lmstudio'' = Inr w_doc \<and>
     load_document w_loader cm = Inr (w_backend ''lmstudio'' [], SourcePerson)"
proof -
  have d: "applyDefaults w_doc = w_doc" by (simp add: w_doc_def NewDocument_defaults)
  have "(\<lambda>_. Inr ''doc'') w_doc = (Inr ''doc'' :: string + string)" "w_decode ''doc'' = Inr w_doc"
    "ld_parse w_loader = ParseDocument w_decode (\<lambda>_. []) (\<lambda>_. [])" "ld_build w_loader w_doc = Inr (w_backend ''lmstudio'' [])"
    by (simp_all add: w_decode_def w_loader_def w_doc_name)
  from applied_document_loads[OF w_doc_valid d this, of Map.empty "''agents''"] show ?thesis
    unfolding w_doc_name by (auto simp: w_doc)
qed

section \<open>Fast links\<close>

definition w_links :: "settings" where
  "w_links = \<lparr>s_namespace = ''models'', s_gpuResource = ''nvidia.com/gpu'', s_runtimeClass = [], s_selector = [],
     s_pool = no_pool, s_pools = [],
     s_fastLinks = [\<lparr>fl_name = ''rdma-0'', fl_nodes = [''gpu-1'', ''gpu-2''], fl_networks = [], fl_resources = [], fl_env = []\<rparr>],
     s_routerScheduler = False, s_cacheEnabled = False, s_cacheClaim = [], s_cacheRedirect = False,
     s_cacheNodeClaims = False, s_discoveryFound = True, s_discoveryError = []\<rparr>"

lemma fast_links_disjoint_witness:
  "ValidateFastLinks (s_fastLinks w_links) = None \<and> fastLinkOf w_links ''gpu-2'' = Some (hd (s_fastLinks w_links))"
proof -
  have "ValidateFastLinks (s_fastLinks w_links) = None" by code_simp
  with fast_links_disjoint [of w_links] show ?thesis by (simp add: w_links_def)
qed

end
