(* ===== verification/GitCommit.thy ===== *)
theory GitCommit
  imports Service
begin

text \<open>
  Commit mode (\<open>internal/gitops/commit.go\<close>, \<open>remote.go\<close>): where a change's files go, following the
  Flux objects that apply a namespace to their repository, and the pull requests that land them. The
  gitops-commit library (its layout, provenance and GitHub calls), the API server's reads and YAML are
  arguments; \<open>'g\<close> is what GitHub holds, which only opening a pull request changes. An object is its
  reference and labels, and \<open>gl_yaml\<close> the file it renders to.
\<close>

section \<open>What a commit reads\<close>

definition Directory :: string where "Directory = ''model-manager''"

text \<open>A Flux object as an unstructured read shows it: an absent field is \<open>""\<close> or false.\<close>

record flux_object =
  fo_namespace :: string
  fo_name :: string
  fo_labels :: "string \<rightharpoonup> string"
  fo_kubeConfigSecret :: string
  fo_targetNamespace :: string
  fo_sourceKind :: string
  fo_sourceName :: string
  fo_sourceNamespace :: string
  fo_path :: string
  fo_prune :: bool

record git_repository =
  gr_name :: string
  gr_namespace :: string
  gr_url :: string
  gr_branch :: string

record flux_reads =
  fx_namespace :: "string option \<Rightarrow> string \<Rightarrow> err + (string \<rightharpoonup> string)"
  fx_kustomization :: "string \<Rightarrow> string \<Rightarrow> err + flux_object"
  fx_helmRelease :: "string \<Rightarrow> string \<Rightarrow> err + flux_object"
  fx_list :: "string \<Rightarrow> err + flux_object list"
  fx_gitRepository :: "string \<Rightarrow> string \<Rightarrow> err + git_repository"
  fx_cluster :: cluster

text \<open>\<open>commit.Repository\<close> and \<open>provenance.Location\<close>.\<close>

record repository =
  re_owner :: string
  re_name :: string

record repo_location =
  rl_repository :: repository
  rl_branch :: string
  rl_path :: string

record location = repo_location +
  lc_kustomization :: string
  lc_prune :: bool

datatype remote_error = FileNotFound string | AuthRefused string int | RemoteError string

record layout_file =
  lf_path :: string
  lf_action :: string
  lf_content :: string

datatype layout_error = LayoutSecret "string list" string | LayoutRemote remote_error

record layout_plan =
  lp_files :: "layout_file list"
  lp_changed :: bool

record pull_request =
  pu_repository :: repository
  pu_url :: string
  pu_number :: int

record open_request =
  oq_branch :: string
  oq_title :: string
  oq_body :: string

text \<open>The library: repository names, the directory of a location and an object's file in it, the plan of
  writes (path and content) and removals against the base, and the resolution of locations; the remote
  built from a token. \<open>Open\<close> takes the changed plans.\<close>

record 'g git_library =
  gl_show :: "repository \<Rightarrow> string"
  gl_dir :: "repo_location \<Rightarrow> string"
  gl_file :: "repo_location \<Rightarrow> string \<Rightarrow> string \<Rightarrow> string"
  gl_build :: "'g \<Rightarrow> repo_location \<Rightarrow> (string \<times> string) list \<Rightarrow> string list \<Rightarrow> layout_error + layout_plan"
  gl_unchanged :: string
  gl_explicit :: "string \<Rightarrow> string \<Rightarrow> string \<Rightarrow> string + repo_location"
  gl_resolve :: "gitops_owner \<Rightarrow> flux_object \<Rightarrow> git_repository option \<Rightarrow> string + repo_location"
  gl_remote :: "string \<Rightarrow> remote_error option"
  gl_reachable :: "'g \<Rightarrow> repository \<Rightarrow> remote_error + bool"
  gl_read :: "'g \<Rightarrow> repository \<Rightarrow> string \<Rightarrow> string \<Rightarrow> remote_error + string option"
  gl_open :: "open_request \<Rightarrow> (repo_location \<times> layout_plan) list \<Rightarrow> 'g \<Rightarrow> (remote_error + pull_request list) \<times> 'g"
  gl_yaml :: "kobj \<Rightarrow> string + string"

record 'g commit_env =
  ce_github :: "(string \<times> string) option" \<comment> \<open>the person's token and login\<close>
  ce_app :: string
  ce_flux :: flux_reads
  ce_lib :: "'g git_library"

section \<open>Refusals\<close>

datatype commit_failure = Refused err | AuthRequired string | RepositoryUnavailable string

definition signIn :: string where
  "signIn = ''connect model-manager in muster (core_auth_login server=model-manager), then call again''"

definition commitError :: "remote_error \<Rightarrow> commit_failure" where
  "commitError e =
     (case e of
        AuthRefused op status \<Rightarrow>
          AuthRequired (''GitHub authorization required: GitHub refused your token on '' @ op @ '' (status '' @ show_int status @
            ''): reconnect model-manager in muster (core_auth_login server=model-manager) '' @ em_dash @
            '' the App must be installed on the repository and your account must be allowed to push to it'')
      | FileNotFound m \<Rightarrow> Refused (Err [] m)
      | RemoteError m \<Rightarrow> Refused (Err [] m))"

abbreviation invalid :: "string \<Rightarrow> commit_failure" where "invalid m \<equiv> Refused (errw ErrInvalid m)"
abbreviation conflict :: "string \<Rightarrow> commit_failure" where "conflict m \<equiv> Refused (errw ErrConflict m)"

section \<open>Parts\<close>

record part = commit_part +
  pt_cluster :: "string option"

definition first_part :: "commit_request \<Rightarrow> part" where
  "first_part req = commit_part.extend (cq_part req) (part.fields (cq_cluster req))"

definition parts :: "commit_request \<Rightarrow> part list" where
  "parts req = first_part req # map (\<lambda>p. commit_part.extend p (part.fields None)) (cq_also req)"

definition firstKind :: "part \<Rightarrow> string" where
  "firstKind p = (case cp_write p of o' # _ \<Rightarrow> o_kind o'
     | [] \<Rightarrow> (case cp_remove p of o' # _ \<Rightarrow> o_kind o' | [] \<Rightarrow> []))"

definition part_what :: "part \<Rightarrow> string" where
  "part_what p = (if firstKind p \<noteq> [] then firstKind p @ '' files'' else ''files'')"

definition part_on :: "part \<Rightarrow> string" where
  "part_on p = (case pt_cluster p of None \<Rightarrow> ''model-manager's own cluster'' | Some c \<Rightarrow> ''cluster '' @ c)"

definition target_empty :: "commit_target \<Rightarrow> bool" where
  "target_empty t \<longleftrightarrow> ct_repository t = [] \<and> ct_branch t = [] \<and> ct_path t = []"

section \<open>The location\<close>

definition namespaceOwner :: "flux_reads \<Rightarrow> part \<Rightarrow> commit_failure + gitops_owner" where
  "namespaceOwner fx p =
     (case fx_namespace fx (pt_cluster p) (cp_namespace p) of
        Inl e \<Rightarrow> Inl (Refused (wrap_err (''read namespace '' @ cp_namespace p @ '' on '' @ part_on p @ '' for its Flux provenance: '') e []))
      | Inr labels \<Rightarrow>
          (case owner_of labels of
             None \<Rightarrow> Inl (invalid (''namespace '' @ cp_namespace p @ '' on '' @ part_on p @ '' is not applied by Flux (no '' @
                       label_kustomize_name @ '' label): commit mode needs the repository '' @ em_dash @
                       '' pass repository, branch and path, or use mode apply''))
           | Some ow \<Rightarrow> Inr ow))"

definition flux_owner :: "(string \<Rightarrow> string \<Rightarrow> err + flux_object) \<Rightarrow> gitops_owner \<Rightarrow> part \<Rightarrow> commit_failure + flux_object" where
  "flux_owner get ow p =
     (case get (go_namespace ow) (go_name ow) of
        Inr x \<Rightarrow> Inr x
      | Inl e \<Rightarrow>
          if is_not_found e
          then Inl (invalid (''namespace '' @ cp_namespace p @ '' on '' @ part_on p @ '' is labelled as applied by '' @ owner_string ow @
                 '', which does not exist on model-manager's own cluster (a leftover of a removed release): commit mode needs the repository '' @
                 em_dash @ '' pass repository, branch and path, or use mode apply''))
          else Inl (Refused (wrap_err (''get '' @ owner_string ow @ '': '') e [])))"

definition moved_out :: "string \<Rightarrow> part \<Rightarrow> kobj option" where
  "moved_out target p = (if target = [] then None else find (\<lambda>x. o_namespace x \<noteq> target) (cp_write p @ cp_remove p))"

text \<open>The GitRepository a Kustomization names, none when it is gone or the source is of another kind.\<close>

definition source_repository :: "flux_reads \<Rightarrow> gitops_owner \<Rightarrow> flux_object \<Rightarrow> commit_failure + git_repository option" where
  "source_repository fx ow k =
     (if fo_sourceKind k \<noteq> ''GitRepository'' then Inr None
      else let ns = (if fo_sourceNamespace k = [] then go_namespace ow else fo_sourceNamespace k)
           in case fx_gitRepository fx ns (fo_sourceName k) of
                Inr r \<Rightarrow> Inr (Some (r\<lparr>gr_name := fo_sourceName k, gr_namespace := ns\<rparr>))
              | Inl e \<Rightarrow> if is_not_found e then Inr None
                         else Inl (Refused (wrap_err (''get GitRepository '' @ ns @ ''/'' @ fo_sourceName k @ '': '') e [])))"

definition locationOf :: "'g commit_env \<Rightarrow> gitops_owner \<Rightarrow> flux_object \<Rightarrow> part \<Rightarrow> commit_failure + location" where
  "locationOf env ow k p =
     (case moved_out (fo_targetNamespace k) p of
        Some x \<Rightarrow> Inl (invalid (owner_string ow @ '' sets targetNamespace '' @ fo_targetNamespace k @ '', which would move '' @
                    o_kind x @ '' '' @ o_name x @ '' out of '' @ o_namespace x @ '': pass repository, branch and path''))
      | None \<Rightarrow>
          (case source_repository (ce_flux env) ow k of
             Inl e \<Rightarrow> Inl e
           | Inr repo \<Rightarrow>
               (case gl_resolve (ce_lib env) ow k repo of
                  Inl e \<Rightarrow> Inl (invalid (owner_string ow @ '': '' @ e @ '' '' @ em_dash @ '' pass repository, branch and path''))
                | Inr l \<Rightarrow> Inr (repo_location.extend l
                    (location.fields (go_namespace ow @ ''/'' @ go_name ow) (fo_prune k))))))"

definition resolve_local :: "'g commit_env \<Rightarrow> gitops_owner \<Rightarrow> part \<Rightarrow> commit_failure + location" where
  "resolve_local env ow p =
     (let fx = ce_flux env;
        through = (\<lambda>ow. case flux_owner (fx_kustomization fx) ow p of Inl e \<Rightarrow> Inl e | Inr k \<Rightarrow> locationOf env ow k p)
      in if go_kind ow = kind_helm_release
         then (case flux_owner (fx_helmRelease fx) ow p of
                 Inl e \<Rightarrow> Inl e
               | Inr hr \<Rightarrow>
                   (case owner_of (fo_labels hr) of
                      Some next' \<Rightarrow>
                        if go_kind next' = kind_kustomization then through next'
                        else Inl (invalid (owner_string ow @ '' is not applied by a Flux Kustomization: commit mode needs the repository '' @
                               em_dash @ '' pass repository, branch and path''))
                    | None \<Rightarrow> Inl (invalid (owner_string ow @ '' is not applied by a Flux Kustomization: commit mode needs the repository '' @
                               em_dash @ '' pass repository, branch and path''))))
         else through ow)"

definition resolve_remote :: "'g commit_env \<Rightarrow> gitops_owner \<Rightarrow> part \<Rightarrow> commit_failure + location" where
  "resolve_remote env ow p =
     (let fx = ce_flux env;
        elsewhere = ''pass repository, branch and path of a directory a Flux Kustomization applies to '' @ part_on p
      in if go_kind ow = kind_kustomization
         then (case flux_owner (fx_kustomization fx) ow p of
                 Inl e \<Rightarrow> Inl e
               | Inr k \<Rightarrow>
                   if fo_kubeConfigSecret k = []
                   then Inl (invalid (owner_string ow @ '' applies to model-manager's own cluster, not to '' @ part_on p @
                          '' (no spec.kubeConfig): its files would land there '' @ em_dash @ '' '' @ elsewhere))
                   else locationOf env ow k p)
         else case flux_owner (fx_helmRelease fx) ow p of
                Inl e \<Rightarrow> Inl e
              | Inr hr \<Rightarrow>
                  let secret = fo_kubeConfigSecret hr
                  in if secret = []
                     then Inl (invalid (''namespace '' @ cp_namespace p @ '' on '' @ part_on p @ '' is rendered by '' @ owner_string ow @
                            '', which has no spec.kubeConfig naming that cluster '' @ em_dash @ '' '' @ elsewhere))
                     else case fx_list fx (go_namespace ow) of
                            Inl e \<Rightarrow> Inl (Refused (wrap_err (''list Kustomizations in '' @ go_namespace ow @ '': '') e []))
                          | Inr ks \<Rightarrow>
                              (case filter (\<lambda>k. fo_kubeConfigSecret k = secret) ks of
                                 [k] \<Rightarrow> locationOf env \<lparr>go_kind = kind_kustomization, go_namespace = fo_namespace k, go_name = fo_name k\<rparr> k p
                               | ms \<Rightarrow> Inl (invalid (''namespace '' @ cp_namespace p @ '' on '' @ part_on p @ '' is rendered by '' @ owner_string ow @
                                   ''; '' @ show_int (int (length ms)) @ '' Flux Kustomizations in '' @ go_namespace ow @
                                   '' apply through its kubeconfig Secret '' @ secret @ '' ('' @
                                   join '', '' (map (\<lambda>k. go_namespace ow @ ''/'' @ fo_name k) ms) @
                                   ''), and commit mode needs exactly one '' @ em_dash @ '' '' @ elsewhere))))"

definition explicit_location :: "'g commit_env \<Rightarrow> commit_target \<Rightarrow> commit_failure + location" where
  "explicit_location env t =
     (if ct_repository t = [] \<or> ct_branch t = []
      then Inl (invalid ''an explicit commit target needs repository (owner/name) and branch; path defaults to the repository root'')
      else case gl_explicit (ce_lib env) (ct_repository t) (ct_branch t) (ct_path t) of
             Inl e \<Rightarrow> Inl (invalid e)
           | Inr l \<Rightarrow> Inr (repo_location.extend l (location.fields [] False)))"

definition helm_owned :: "part \<Rightarrow> bool" where
  "helm_owned p \<longleftrightarrow> (case cp_owner p of Some ow \<Rightarrow> go_kind ow = kind_helm_release | None \<Rightarrow> False)"

definition locate :: "'g commit_env \<Rightarrow> part \<Rightarrow> commit_target \<Rightarrow> commit_failure + location" where
  "locate env p target =
     (if helm_owned p
      then Inl (conflict (''the object is rendered by '' @ owner_string (the (cp_owner p)) @ '': change the release's values in git''))
      else if \<not> target_empty target then explicit_location env target
      else case (case cp_owner p of Some ow \<Rightarrow> Inr ow | None \<Rightarrow> namespaceOwner (ce_flux env) p) of
             Inl e \<Rightarrow> Inl e
           | Inr ow \<Rightarrow> if pt_cluster p \<noteq> None then resolve_remote env ow p else resolve_local env ow p)"

section \<open>The plan of a part\<close>

definition core :: "location \<Rightarrow> repo_location" where "core l = repo_location.truncate l"

definition fileOf :: "'g git_library \<Rightarrow> repo_location \<Rightarrow> kobj \<Rightarrow> string" where
  "fileOf lib dir x =
     (if o_kind x = ''ModelConfig'' \<or> o_kind x = ''Secret'' then gl_file lib dir (o_kind x) (o_name x)
      else gl_file lib dir (o_kind x) (o_name x @ ''-'' @ to_lower (o_kind x)))"

text \<open>The files, as a Go map by path: a later object takes the place of an earlier one of its path.\<close>

fun commit_files :: "'g git_library \<Rightarrow> repo_location \<Rightarrow> kobj list \<Rightarrow> (string \<times> string) list \<Rightarrow> commit_failure + (string \<times> string) list" where
  "commit_files lib dir [] m = Inr m"
| "commit_files lib dir (x # xs) m =
     (case gl_yaml lib x of
        Inl e \<Rightarrow> Inl (Refused (Err [] (''render '' @ o_kind x @ '' '' @ o_name x @ '': '' @ e)))
      | Inr raw \<Rightarrow> commit_files lib dir xs (AList.update (fileOf lib dir x) raw m))"

definition object_words :: "kobj \<Rightarrow> string" where
  "object_words x = o_kind x @ '' '' @ o_namespace x @ ''/'' @ o_name x"

text \<open>\<open>inDirectory\<close>'s check of one object, \<open>None\<close> when it may go on.\<close>

definition not_in_file :: "'g commit_env \<Rightarrow> location \<Rightarrow> part \<Rightarrow> kobj \<Rightarrow> bool \<Rightarrow> commit_failure option" where
  "not_in_file env l p x removing =
     (let lib = ce_lib env; f = fileOf lib (core l) x
      in if removing
         then (case kept_behind (fx_cluster (ce_flux env)) x of
                 Inl e \<Rightarrow> Some (Refused e)
               | Inr (Some ow) \<Rightarrow> Some (conflict (object_words x @ '' is no longer in git (no '' @ f @ '' on '' @ rl_branch l @
                   ''), and Flux does not prune '' @ owner_string ow @ '' (spec.prune false): its file's removal left the object on the installation, dropped from the Kustomization's inventory '' @
                   em_dash @ '' repeat the call in mode apply, and model-manager removes it live''))
               | Inr None \<Rightarrow> Some (conflict (object_words x @ '' is not in '' @ gl_show lib (rl_repository l) @ '' (no '' @ f @ '' on '' @
                   rl_branch l @ ''): it was written live '' @ em_dash @ '' remove it with mode apply'')))
         else if o_kind x = firstKind p \<and> cp_owner p \<noteq> None
         then Some (conflict (object_words x @ '' is applied from git by '' @ owner_string (the (cp_owner p)) @ '', but not from '' @ f @
                '' on '' @ rl_branch l @ '': change it in the file it is written in''))
         else None)"

definition check_object :: "'g commit_env \<Rightarrow> 'g \<Rightarrow> location \<Rightarrow> part \<Rightarrow> kobj \<Rightarrow> bool \<Rightarrow> commit_failure option" where
  "check_object env g l p x removing =
     (case gl_read (ce_lib env) g (rl_repository l) (rl_branch l) (fileOf (ce_lib env) (core l) x) of
        Inr (Some _) \<Rightarrow> None
      | Inr None \<Rightarrow> not_in_file env l p x removing
      | Inl (FileNotFound _) \<Rightarrow> not_in_file env l p x removing
      | Inl e \<Rightarrow> Some (commitError e))"

fun check_removals :: "'g commit_env \<Rightarrow> 'g \<Rightarrow> location \<Rightarrow> part \<Rightarrow> kobj list \<Rightarrow> commit_failure option" where
  "check_removals env g l p [] = None"
| "check_removals env g l p (x # xs) =
     (if o_kind x = ''Secret'' then check_removals env g l p xs
      else case check_object env g l p x True of Some e \<Rightarrow> Some e | None \<Rightarrow> check_removals env g l p xs)"

definition inDirectory :: "'g commit_env \<Rightarrow> 'g \<Rightarrow> location \<Rightarrow> part \<Rightarrow> commit_failure option" where
  "inDirectory env g l p =
     (case check_removals env g l p (cp_remove p) of
        Some e \<Rightarrow> Some e
      | None \<Rightarrow> (case cp_write p of [] \<Rightarrow> None | x # _ \<Rightarrow> check_object env g l p x False))"

record git_file =
  gf_path :: string
  gf_action :: string
  gf_content :: string

record git_result =
  gs_repository :: string
  gs_base :: string
  gs_directory :: string
  gs_kustomization :: string
  gs_prune :: bool
  gs_branch :: string
  gs_files :: "git_file list"
  gs_pullRequest :: string
  gs_number :: int
  gs_author :: string
  gs_unavailable :: string
  gs_liveSteps :: "string list"
  gs_cluster :: string

definition part_result :: "'g git_library \<Rightarrow> location \<Rightarrow> part \<Rightarrow> string \<Rightarrow> string \<Rightarrow> string \<Rightarrow> git_result" where
  "part_result lib l p branch login unavailable =
     \<lparr>gs_repository = gl_show lib (rl_repository l), gs_base = rl_branch l, gs_directory = gl_dir lib (core l),
      gs_kustomization = lc_kustomization l, gs_prune = lc_prune l, gs_branch = branch, gs_files = [],
      gs_pullRequest = [], gs_number = 0, gs_author = login, gs_unavailable = unavailable, gs_liveSteps = [],
      gs_cluster = (case pt_cluster p of Some c \<Rightarrow> c | None \<Rightarrow> [])\<rparr>"

definition layout_failure :: "layout_error \<Rightarrow> commit_failure" where
  "layout_failure e =
     (case e of
        LayoutSecret paths why \<Rightarrow> invalid (join '', '' paths @ '' holds the placeholder API key, and '' @ why @
          '': model-manager commits a Secret only encrypted for the repository's age recipients '' @ em_dash @
          '' pass apiKeySecret (an existing Secret) or apiKeyPassthrough, give the path an age creation rule, or use mode apply'')
      | LayoutRemote e \<Rightarrow> commitError e)"

definition not_pruned :: "location \<Rightarrow> part \<Rightarrow> string list" where
  "not_pruned l p =
     (if cp_remove p \<noteq> [] \<and> \<not> lc_prune l \<and> lc_kustomization l \<noteq> []
      then [''Flux does not prune Kustomization '' @ lc_kustomization l @ '' (spec.prune false): after the merge the objects stay on the installation, dropped from the Kustomization's inventory '' @
            em_dash @ '' repeat the call in mode apply once the pull request has merged, and model-manager removes them live'']
      else [])"

definition plan_part :: "'g commit_env \<Rightarrow> 'g \<Rightarrow> location \<Rightarrow> part \<Rightarrow> commit_failure + layout_plan \<times> git_result" where
  "plan_part env g l p =
     (let lib = ce_lib env; dir = core l
      in case commit_files lib dir (cp_write p) [] of
           Inl e \<Rightarrow> Inl e
         | Inr write' \<Rightarrow>
             (case inDirectory env g l p of
                Some e \<Rightarrow> Inl e
              | None \<Rightarrow>
                  (case gl_build lib g dir write' (map (fileOf lib dir) (cp_remove p)) of
                     Inl e \<Rightarrow> Inl (layout_failure e)
                   | Inr lplan \<Rightarrow> Inr (lplan, (part_result lib l p [] [] [])\<lparr>gs_liveSteps := not_pruned l p\<rparr>))))"

section \<open>The commit\<close>

definition unreachable_text :: "'g commit_env \<Rightarrow> location \<Rightarrow> part \<Rightarrow> string" where
  "unreachable_text env l p =
     (let app = (if ce_app env \<noteq> [] then ''the GitHub App '' @ ce_app env else ''model-manager's GitHub App'');
        repo = gl_show (ce_lib env) (rl_repository l)
      in ''repository unavailable: '' @ app @ '' is not installed on '' @ repo @ '', where the '' @ part_what p @ '' for '' @ part_on p @
         '' go (GitHub answers 404 for a repository the App's token does not reach, or that you cannot see): an owner of '' @
         re_owner (rl_repository l) @ '' installs the App on '' @ repo @
         '' with contents and pull requests read and write, then call again'')"

text \<open>Whether the token reaches a repository, asked once per repository.\<close>

definition reachable_in :: "'g git_library \<Rightarrow> 'g \<Rightarrow> (repository \<times> bool) list \<Rightarrow> repository \<Rightarrow> commit_failure + bool \<times> (repository \<times> bool) list" where
  "reachable_in lib g reached r =
     (case map_of reached r of
        Some ok \<Rightarrow> Inr (ok, reached)
      | None \<Rightarrow>
          (case gl_reachable lib g r of
             Inl e \<Rightarrow> Inl (commitError e)
           | Inr ok \<Rightarrow> Inr (ok, AList.update r ok reached)))"

record planned =
  pn_location :: location
  pn_plan :: "layout_plan option"
  pn_result :: git_result

definition result_files :: "bool \<Rightarrow> layout_plan \<Rightarrow> git_file list" where
  "result_files dry lplan =
     map (\<lambda>f. \<lparr>gf_path = lf_path f, gf_action = lf_action f, gf_content = (if dry then lf_content f else [])\<rparr>) (lp_files lplan)"

text \<open>One part at its location; the remote is built from the token with the first part.\<close>

definition plan_located ::
  "'g commit_env \<Rightarrow> 'g \<Rightarrow> string \<Rightarrow> string \<Rightarrow> bool \<Rightarrow> (repository \<times> bool) list \<Rightarrow> location \<Rightarrow> part \<Rightarrow>
   commit_failure + planned \<times> (repository \<times> bool) list" where
  "plan_located env g login branch dry reached l p =
     (case reachable_in (ce_lib env) g reached (rl_repository l) of
        Inl e \<Rightarrow> Inl e
      | Inr (ok, reached) \<Rightarrow>
          if \<not> ok
          then (if \<not> dry then Inl (RepositoryUnavailable (unreachable_text env l p))
                else Inr (\<lparr>pn_location = l, pn_plan = None,
                       pn_result = part_result (ce_lib env) l p branch login (unreachable_text env l p)\<rparr>, reached))
          else case plan_part env g l p of
                 Inl e \<Rightarrow> Inl e
               | Inr (lplan, r) \<Rightarrow> Inr (\<lparr>pn_location = l, pn_plan = Some lplan,
                   pn_result = r\<lparr>gs_branch := branch, gs_author := login, gs_files := result_files dry lplan\<rparr>\<rparr>, reached))"

fun plan_parts ::
  "'g commit_env \<Rightarrow> 'g \<Rightarrow> string \<Rightarrow> string \<Rightarrow> string \<Rightarrow> bool \<Rightarrow> bool \<Rightarrow> (repository \<times> bool) list \<Rightarrow> (part \<times> commit_target) list \<Rightarrow>
   commit_failure + planned list" where
  "plan_parts env g token login branch dry built reached [] = Inr []"
| "plan_parts env g token login branch dry built reached ((p, target) # ps) =
     (case locate env p target of
        Inl e \<Rightarrow> Inl e
      | Inr l \<Rightarrow>
          (case (if built then None else gl_remote (ce_lib env) token) of
             Some e \<Rightarrow> Inl (commitError e)
           | None \<Rightarrow>
               (case plan_located env g login branch dry reached l p of
                  Inl e \<Rightarrow> Inl e
                | Inr (x, reached) \<Rightarrow>
                    map_sum id (\<lambda>xs. x # xs) (plan_parts env g token login branch dry True reached ps))))"

definition changed_plans :: "planned list \<Rightarrow> (repo_location \<times> layout_plan) list" where
  "changed_plans ps = concat (map (\<lambda>x. case pn_plan x of
     Some lplan \<Rightarrow> if lp_changed lplan then [(core (pn_location x), lplan)] else [] | None \<Rightarrow> []) ps)"

text \<open>The pull request's description.\<close>

definition commit_body :: "'g git_library \<Rightarrow> commit_request \<Rightarrow> string \<Rightarrow> planned list \<Rightarrow> string" where
  "commit_body lib req login ps =
     (let nl = [CHR 0x0A]; bt = [CHR 0x60]; files = concat (map (\<lambda>x. gs_files (pn_result x)) ps)
      in cq_summary req @ ''.'' @ nl @ nl @ ''Opened by @'' @ login @ '' through model-manager ('' @ bt @ cq_tool req @ bt @ '', mode commit).'' @
         nl @ nl @ ''Files:'' @ nl @ nl @
         concat (map (\<lambda>f. ''- '' @ gf_action f @ '' '' @ bt @ gf_path f @ bt @ nl) (filter (\<lambda>f. gf_action f \<noteq> gl_unchanged lib) files)) @
         concat (map (\<lambda>x. let r = pn_result x
             in if gs_kustomization r = [] then []
                else nl @ ''Flux Kustomization '' @ bt @ gs_kustomization r @ bt @ '' applies '' @ bt @ gs_directory r @ bt @
                  (if gs_cluster r \<noteq> [] then '' to cluster '' @ gs_cluster r else []) @ '' after the merge.'' @ nl) ps))"

definition with_pull_requests :: "'g git_library \<Rightarrow> pull_request list \<Rightarrow> planned \<Rightarrow> planned" where
  "with_pull_requests lib prs x =
     (case pn_plan x of
        Some lplan \<Rightarrow>
          if lp_changed lplan
          then foldl (\<lambda>x pr. if gl_show lib (pu_repository pr) = gs_repository (pn_result x)
                 then x\<lparr>pn_result := (pn_result x)\<lparr>gs_pullRequest := pu_url pr, gs_number := pu_number pr\<rparr>\<rparr> else x) x prs
          else x
      | None \<Rightarrow> x)"

text \<open>The answer: the first part's result and, beside it, those of the others.\<close>

definition commit_answer :: "planned list \<Rightarrow> git_result \<times> git_result list" where
  "commit_answer ps = (pn_result (hd ps), map pn_result (tl ps))"

definition commit_branch :: "commit_request \<Rightarrow> string" where
  "commit_branch req = ''model-manager/'' @ cq_verb req @ ''-'' @ cq_subject req"

definition targeted_parts :: "commit_request \<Rightarrow> (part \<times> commit_target) list" where
  "targeted_parts req = (first_part req, cq_target req) #
     map (\<lambda>p. (p, \<lparr>ct_repository = [], ct_branch = [], ct_path = []\<rparr>)) (tl (parts req))"

definition open_request_for :: "'g git_library \<Rightarrow> commit_request \<Rightarrow> string \<Rightarrow> planned list \<Rightarrow> open_request" where
  "open_request_for lib req login ps =
     \<lparr>oq_branch = commit_branch req, oq_title = ''feat(model-manager): '' @ cq_verb req @ '' '' @ cq_subject req,
      oq_body = commit_body lib req login ps\<rparr>"

definition git_commit ::
  "'g commit_env \<Rightarrow> commit_request \<Rightarrow> 'g \<Rightarrow> (commit_failure + git_result \<times> git_result list) \<times> 'g" where
  "git_commit env req g =
     (case ce_github env of
        None \<Rightarrow> (Inl (AuthRequired (''GitHub authorization required: commit mode opens the pull request with your GitHub authorization, and this call carries none: '' @ signIn)), g)
      | Some (token, login) \<Rightarrow>
          (case plan_parts env g token login (commit_branch req) (cq_dry_run req) False [] (targeted_parts req) of
             Inl e \<Rightarrow> (Inl e, g)
           | Inr ps \<Rightarrow>
               if cq_dry_run req \<or> changed_plans ps = [] then (Inr (commit_answer ps), g)
               else case gl_open (ce_lib env) (open_request_for (ce_lib env) req login ps) (changed_plans ps) g of
                      (Inl e, g) \<Rightarrow> (Inl (commitError e), g)
                    | (Inr prs, g) \<Rightarrow> (Inr (commit_answer (map (with_pull_requests (ce_lib env) prs) ps)), g)))"

section \<open>GitHub's repository check\<close>

text \<open>\<open>Reachable\<close>: the status GitHub answers to a read of the repository with the token.\<close>

definition repo_reachable :: "(repository \<Rightarrow> string) \<Rightarrow> (string \<Rightarrow> string + int \<times> string) \<Rightarrow> (string \<Rightarrow> string) \<Rightarrow> string \<Rightarrow> repository \<Rightarrow> remote_error + bool" where
  "repo_reachable show_repo http escape base_url r =
     (case http (base_url @ ''/repos/'' @ escape (re_owner r) @ ''/'' @ escape (re_name r)) of
        Inl e \<Rightarrow> Inl (RemoteError (''get repository '' @ show_repo r @ '': '' @ e))
      | Inr (code, status) \<Rightarrow>
          if code = 200 then Inr True
          else if code = 404 then Inr False
          else if code = 401 \<or> code = 403 then Inl (AuthRefused ''get repository'' code)
          else Inl (RemoteError (''get repository '' @ show_repo r @ '': '' @ status)))"

end
