(* ===== verification/GitCommit_Correct.thy ===== *)
theory GitCommit_Correct
  imports GitCommit
begin

text \<open>
  Commit mode's correctness: GitHub changes only in the one \<open>Open\<close> after every part has been located,
  reached and planned; a dry run tells what the call it stands for does; a part of a remote cluster never
  lands on model-manager's own.
\<close>

section \<open>The parts\<close>

text \<open>What a part's plan rests on: its location, the answer of GitHub for its repository, its files.\<close>

definition removals_in_git :: "'g commit_env \<Rightarrow> 'g \<Rightarrow> location \<Rightarrow> part \<Rightarrow> bool" where
  "removals_in_git env g l p \<longleftrightarrow>
     (\<forall>x\<in>set (cp_remove p). o_kind x = ''Secret'' \<or>
        (\<exists>raw. gl_read (ce_lib env) g (rl_repository l) (rl_branch l) (fileOf (ce_lib env) (core l) x) = Inr (Some raw)))"

definition part_planned :: "'g commit_env \<Rightarrow> 'g \<Rightarrow> part \<times> commit_target \<Rightarrow> planned \<Rightarrow> bool" where
  "part_planned env g pt x \<longleftrightarrow>
     (case pt of (p, t) \<Rightarrow>
        locate env p t = Inr (pn_location x) \<and>
        (case pn_plan x of
           None \<Rightarrow> gl_reachable (ce_lib env) g (rl_repository (pn_location x)) = Inr False \<and>
                   gs_unavailable (pn_result x) = unreachable_text env (pn_location x) p
         | Some lplan \<Rightarrow>
             gl_reachable (ce_lib env) g (rl_repository (pn_location x)) = Inr True \<and>
             gs_unavailable (pn_result x) = [] \<and>
             removals_in_git env g (pn_location x) p \<and>
             (\<exists>written. commit_files (ce_lib env) (core (pn_location x)) (cp_write p) [] = Inr written \<and>
                gl_build (ce_lib env) g (core (pn_location x)) written
                  (map (fileOf (ce_lib env) (core (pn_location x))) (cp_remove p)) = Inr lplan)))"

definition reached_ok :: "'g git_library \<Rightarrow> 'g \<Rightarrow> (repository \<times> bool) list \<Rightarrow> bool" where
  "reached_ok lib g reached \<longleftrightarrow> (\<forall>r ok. map_of reached r = Some ok \<longrightarrow> gl_reachable lib g r = Inr ok)"

lemma reached_ok_Nil [simp]: "reached_ok lib g []"
  by (simp add: reached_ok_def)

lemma reachable_in_ok:
  assumes "reachable_in lib g reached r = Inr (ok, reached')" "reached_ok lib g reached"
  shows "gl_reachable lib g r = Inr ok \<and> reached_ok lib g reached'"
  using assms by (auto simp: reachable_in_def reached_ok_def update_conv' split: option.splits sum.splits if_splits)

lemma not_in_file_removing [simp]: "not_in_file env l p x True \<noteq> None"
  by (auto simp: not_in_file_def Let_def split: sum.splits option.splits)

lemma check_object_removing:
  assumes "check_object env g l p x True = None"
  shows "\<exists>raw. gl_read (ce_lib env) g (rl_repository l) (rl_branch l) (fileOf (ce_lib env) (core l) x) = Inr (Some raw)"
  using assms not_in_file_removing [of env l p x]
  by (auto simp del: not_in_file_removing simp: check_object_def split: sum.splits option.splits remote_error.splits)

lemma check_removals_files:
  assumes "check_removals env g l p xs = None" "x \<in> set xs" "o_kind x \<noteq> ''Secret''"
  shows "\<exists>raw. gl_read (ce_lib env) g (rl_repository l) (rl_branch l) (fileOf (ce_lib env) (core l) x) = Inr (Some raw)"
  using assms
  by (induction env g l p xs rule: check_removals.induct)
    (auto split: if_splits option.splits dest: check_object_removing)

lemma inDirectory_removals: "inDirectory env g l p = None \<Longrightarrow> removals_in_git env g l p"
  unfolding inDirectory_def removals_in_git_def
  by (auto split: option.splits dest: check_removals_files)

lemma plan_part_ok:
  assumes "plan_part env g l p = Inr (lplan, r)"
  shows "removals_in_git env g l p \<and> gs_unavailable r = [] \<and>
    (\<exists>written. commit_files (ce_lib env) (core l) (cp_write p) [] = Inr written \<and>
       gl_build (ce_lib env) g (core l) written (map (fileOf (ce_lib env) (core l)) (cp_remove p)) = Inr lplan)"
  using assms unfolding plan_part_def Let_def
  by (auto simp: part_result_def split: sum.splits option.splits dest: inDirectory_removals)

lemma plan_located_ok:
  assumes "plan_located env g login branch dry reached l p = Inr (x, reached')" "reached_ok (ce_lib env) g reached"
    and "locate env p t = Inr l"
  shows "part_planned env g (p, t) x \<and> reached_ok (ce_lib env) g reached' \<and> (\<not> dry \<longrightarrow> pn_plan x \<noteq> None)"
  using assms unfolding plan_located_def
  by (auto simp: part_planned_def part_result_def split: sum.splits if_splits
        dest!: reachable_in_ok plan_part_ok)

lemma plan_parts_ok:
  assumes "plan_parts env g token login branch dry built reached pts = Inr ps" "reached_ok (ce_lib env) g reached"
  shows "list_all2 (part_planned env g) pts ps \<and> (\<not> dry \<longrightarrow> (\<forall>x\<in>set ps. pn_plan x \<noteq> None))"
  using assms
proof (induction env g token login branch dry built reached pts arbitrary: ps rule: plan_parts.induct)
  case (2 env g token login branch dry built reached p target pts)
  from "2.prems"(1) obtain l where l: "locate env p target = Inr l" by (cases "locate env p target") auto
  with "2.prems"(1) have u: "(if built then None else gl_remote (ce_lib env) token) = None"
    by (cases "(if built then None else gl_remote (ce_lib env) token)") auto
  with "2.prems"(1) l obtain x reached' where
    x: "plan_located env g login branch dry reached l p = Inr (x, reached')"
    by (cases "plan_located env g login branch dry reached l p") auto
  with "2.prems"(1) l u obtain xs where
    xs: "plan_parts env g token login branch dry True reached' pts = Inr xs" and ps: "ps = x # xs"
    by (cases "plan_parts env g token login branch dry True reached' pts") auto
  note ok = plan_located_ok [OF x "2.prems"(2) l]
  from "2.IH" [OF l u x refl xs] ok show ?case by (simp add: ps)
qed simp

section \<open>The one write\<close>

text \<open>C10. Commit mode writes nothing to GitHub until the whole request is decided: GitHub is as it was
  unless the call is no dry run and every part has been located, its repository reached, the files of the
  objects it removes found on the base branch and its plan built; then the only change is the one \<open>Open\<close>
  of the changed plans. In particular every refusal before it leaves GitHub unchanged.\<close>

theorem commit_writes_last:
  "snd (git_commit env req g) = g \<or>
   (\<exists>ps token login. cq_dry_run req = False \<and> ce_github env = Some (token, login) \<and>
      list_all2 (part_planned env g) (targeted_parts req) ps \<and> list_all (\<lambda>x. pn_plan x \<noteq> None) ps \<and>
      changed_plans ps \<noteq> [] \<and>
      snd (git_commit env req g) =
        snd (gl_open (ce_lib env) (open_request_for (ce_lib env) req login ps) (changed_plans ps) g))"
proof (cases "ce_github env")
  case None then show ?thesis by (simp add: git_commit_def)
next
  case (Some tl)
  obtain token login where tl: "tl = (token, login)" by (cases tl)
  let ?pl = "plan_parts env g token login (commit_branch req) (cq_dry_run req) False [] (targeted_parts req)"
  show ?thesis
  proof (cases ?pl)
    case (Inl e) then show ?thesis by (simp add: git_commit_def Some tl)
  next
    case (Inr ps)
    note ok = plan_parts_ok [OF Inr reached_ok_Nil]
    show ?thesis
    proof (cases "cq_dry_run req \<or> changed_plans ps = []")
      case True then show ?thesis by (simp add: git_commit_def Some tl Inr)
    next
      case False
      then have nd: "cq_dry_run req = False" and ch: "changed_plans ps \<noteq> []" by simp_all
      obtain r g' where o': "gl_open (ce_lib env) (open_request_for (ce_lib env) req login ps) (changed_plans ps) g = (r, g')"
        by (cases "gl_open (ce_lib env) (open_request_for (ce_lib env) req login ps) (changed_plans ps) g")
      have "snd (git_commit env req g) = g'"
        using ch o' by (cases r) (simp_all add: git_commit_def Some tl Inr [unfolded nd] nd)
      with ok nd ch o' show ?thesis
        by - (rule disjI2, rule exI [of _ ps], rule exI [of _ token], rule exI [of _ login],
            simp add: Some tl list_all_iff)
    qed
  qed
qed

section \<open>What a dry run tells\<close>

definition strip :: "planned \<Rightarrow> planned" where
  "strip x = x\<lparr>pn_result := (pn_result x)\<lparr>gs_files := map (\<lambda>f. f\<lparr>gf_content := []\<rparr>) (gs_files (pn_result x))\<rparr>\<rparr>"

definition unavailable :: "planned \<Rightarrow> bool" where
  "unavailable x \<longleftrightarrow> gs_unavailable (pn_result x) \<noteq> []"

lemma strip_sel [simp]:
  "pn_location (strip x) = pn_location x" "pn_plan (strip x) = pn_plan x"
  by (simp_all add: strip_def)

lemma changed_plans_strip [simp]: "changed_plans (map strip ps) = changed_plans ps"
  by (induction ps) (simp_all add: changed_plans_def comp_def split: option.split)

lemma unreachable_text_nonempty [simp]: "unreachable_text env l p \<noteq> []"
  by (simp add: unreachable_text_def Let_def)

lemma plan_located_dry:
  "plan_located env g login branch False reached l p =
     (case plan_located env g login branch True reached l p of
        Inl e \<Rightarrow> Inl e
      | Inr (x, reached') \<Rightarrow> if unavailable x then Inl (RepositoryUnavailable (gs_unavailable (pn_result x)))
                           else Inr (strip x, reached'))"
  unfolding plan_located_def
  by (auto simp: unavailable_def strip_def part_result_def result_files_def comp_def
        split: sum.splits if_splits dest!: plan_part_ok)

lemma plan_parts_dry:
  "case plan_parts env g token login branch True built reached pts of
     Inl _ \<Rightarrow> \<exists>e. plan_parts env g token login branch False built reached pts = Inl e
   | Inr ps \<Rightarrow> plan_parts env g token login branch False built reached pts =
       (case find unavailable ps of
          Some x \<Rightarrow> Inl (RepositoryUnavailable (gs_unavailable (pn_result x)))
        | None \<Rightarrow> Inr (map strip ps))"
proof (induction pts arbitrary: built reached)
  case (Cons pt pts)
  obtain p t where pt: "pt = (p, t)" by (cases pt)
  show ?case
  proof (cases "locate env p t")
    case (Inl e) then show ?thesis by (simp add: pt)
  next
    case l: (Inr l)
    show ?thesis
    proof (cases "if built then None else gl_remote (ce_lib env) token")
      case (Some e) then show ?thesis by (simp add: pt l)
    next
      case u: None
      show ?thesis
      proof (cases "plan_located env g login branch True reached l p")
        case (Inl e) then show ?thesis using u by (simp add: pt l plan_located_dry [of _ _ _ _ reached])
      next
        case (Inr xr)
        obtain x r where xr: "xr = (x, r)" by (cases xr)
        show ?thesis using Cons.IH [of True r] u Inr
          by (auto simp: pt l xr plan_located_dry [of _ _ _ _ reached] split: sum.splits option.splits)
      qed
    qed
  qed
qed simp

text \<open>Two results of the same change: everything but the pull request and the files' contents agrees.\<close>

definition same_change :: "git_result \<Rightarrow> git_result \<Rightarrow> bool" where
  "same_change a b \<longleftrightarrow>
     a\<lparr>gs_files := [], gs_pullRequest := [], gs_number := 0\<rparr> = b\<lparr>gs_files := [], gs_pullRequest := [], gs_number := 0\<rparr> \<and>
     map (\<lambda>f. (gf_path f, gf_action f)) (gs_files a) = map (\<lambda>f. (gf_path f, gf_action f)) (gs_files b)"

lemma same_change_strip [simp]: "same_change (pn_result x) (pn_result (strip x))"
  by (simp add: same_change_def strip_def comp_def)

lemma same_change_pull_request:
  "same_change a (pn_result x) \<Longrightarrow> same_change a (pn_result (with_pull_requests lib prs x))"
proof -
  assume a: "same_change a (pn_result x)"
  have "same_change a (pn_result (foldl (\<lambda>x pr. if gl_show lib (pu_repository pr) = gs_repository (pn_result x)
      then x\<lparr>pn_result := (pn_result x)\<lparr>gs_pullRequest := pu_url pr, gs_number := pu_number pr\<rparr>\<rparr> else x) x prs))"
    using a by (induction prs arbitrary: x) (auto simp: same_change_def)
  with a show ?thesis by (auto simp: with_pull_requests_def split: option.split)
qed

definition all_results :: "git_result \<times> git_result list \<Rightarrow> git_result list" where
  "all_results r = fst r # snd r"

lemma commit_answer_all: "ps \<noteq> [] \<Longrightarrow> all_results (commit_answer ps) = map pn_result ps"
  by (cases ps) (simp_all add: all_results_def commit_answer_def)

lemma plan_parts_nonempty:
  assumes "plan_parts env g token login branch dry False [] (targeted_parts req) = Inr ps"
  shows "ps \<noteq> []"
  using plan_parts_ok [OF assms reached_ok_Nil]
  by (auto simp: targeted_parts_def dest: list_all2_lengthD)

definition dry_call :: "bool \<Rightarrow> commit_request \<Rightarrow> commit_request" where
  "dry_call dry req = req\<lparr>cq_dry_run := dry\<rparr>"

lemma dry_call_sel [simp]:
  "commit_branch (dry_call d req) = commit_branch req" "targeted_parts (dry_call d req) = targeted_parts req"
  "cq_dry_run (dry_call d req) = d"
  by (simp_all add: dry_call_def commit_branch_def targeted_parts_def first_part_def parts_def)

text \<open>A call that is no dry run, from the plans a dry run made.\<close>

lemma call_from_plans:
  assumes "ce_github env = Some (token, login)" "ps \<noteq> []"
    and real: "plan_parts env g token login (commit_branch req) False False [] (targeted_parts req) = Inr (map strip ps)"
  shows "case fst (git_commit env (dry_call False req) g) of
      Inl e \<Rightarrow> (\<exists>oq plans e'. fst (gl_open (ce_lib env) oq plans g) = Inl e' \<and> e = commitError e')
    | Inr r \<Rightarrow> list_all2 same_change (map pn_result ps) (all_results r)"
proof -
  have same: "list_all2 same_change (map pn_result ps) (all_results (commit_answer (map strip ps)))"
    "list_all2 same_change (map pn_result ps)
       (all_results (commit_answer (map (with_pull_requests (ce_lib env) prs) (map strip ps))))" for prs
    using assms(2) by (auto simp: commit_answer_all list_all2_conv_all_nth same_change_pull_request)
  let ?o = "gl_open (ce_lib env) (open_request_for (ce_lib env) (dry_call False req) login (map strip ps)) (changed_plans ps) g"
  obtain r g' where o': "?o = (r, g')" by (cases ?o)
  note defs = git_commit_def assms(1) real o'
  show ?thesis
  proof (cases "changed_plans ps = []")
    case True then show ?thesis using same(1) by (simp add: defs)
  next
    case ch: False
    show ?thesis
    proof (cases r)
      case (Inl e)
      then have "fst ?o = Inl e" using o' by simp
      then have "\<exists>oq plans e'. fst (gl_open (ce_lib env) oq plans g) = Inl e' \<and> commitError e = commitError e'" by blast
      then show ?thesis using ch Inl by (simp add: defs)
    next
      case (Inr prs) then show ?thesis using ch same(2) [of prs] by (simp add: defs)
    qed
  qed
qed

text \<open>C11. A dry run tells what the call does: the dry run changes nothing; when it is refused, so is the
  call, which changes nothing either; when it reports a repository as unavailable, the call is refused with
  just that message; and otherwise the call fails only where GitHub refuses to open the pull requests, and
  answers the same repositories, bases, directories, Kustomizations, branches, live steps and files
  (paths and actions) the dry run answered.\<close>

theorem dry_run_foretells:
  "snd (git_commit env (dry_call True req) g) = g \<and>
   (case fst (git_commit env (dry_call True req) g) of
      Inl _ \<Rightarrow> (\<exists>e. git_commit env (dry_call False req) g = (Inl e, g))
    | Inr r \<Rightarrow>
        (case find (\<lambda>x. gs_unavailable x \<noteq> []) (all_results r) of
           Some x \<Rightarrow> git_commit env (dry_call False req) g = (Inl (RepositoryUnavailable (gs_unavailable x)), g)
         | None \<Rightarrow>
             (case fst (git_commit env (dry_call False req) g) of
                Inl e \<Rightarrow> (\<exists>oq plans e'. fst (gl_open (ce_lib env) oq plans g) = Inl e' \<and> e = commitError e')
              | Inr r' \<Rightarrow> list_all2 same_change (all_results r) (all_results r'))))"
proof (cases "ce_github env")
  case None then show ?thesis by (simp add: git_commit_def)
next
  case tl: (Some tl)
  obtain token login where gh: "ce_github env = Some (token, login)" using tl by (cases tl) simp
  note dry = plan_parts_dry [of env g token login "commit_branch req" False "[]" "targeted_parts req"]
  show ?thesis
  proof (cases "plan_parts env g token login (commit_branch req) True False [] (targeted_parts req)")
    case (Inl e) with dry show ?thesis by (auto simp: git_commit_def gh)
  next
    case (Inr ps)
    have ne: "ps \<noteq> []" using plan_parts_nonempty [OF Inr] .
    have told: "git_commit env (dry_call True req) g = (Inr (commit_answer ps), g)"
      by (simp add: git_commit_def gh Inr)
    have ans: "all_results (commit_answer ps) = map pn_result ps" by (rule commit_answer_all [OF ne])
    have left: "find (\<lambda>x. gs_unavailable x \<noteq> []) (map pn_result ps) = map_option pn_result (find unavailable ps)"
      by (induction ps) (auto simp: unavailable_def)
    show ?thesis
    proof (cases "find unavailable ps")
      case (Some x) with dry Inr show ?thesis by (simp add: told ans left git_commit_def gh)
    next
      case None
      with dry Inr have "plan_parts env g token login (commit_branch req) False False [] (targeted_parts req) = Inr (map strip ps)"
        by simp
      from call_from_plans [OF gh ne this] None show ?thesis unfolding told fst_conv sum.case ans left by simp
    qed
  qed
qed

section \<open>Where a remote cluster's files go\<close>

text \<open>The location is where the Kustomization builds from: the library's resolution of its source reference and
  path, with the GitRepository it refers to, and it names the Kustomization and its pruning.\<close>

definition builds_from :: "'g commit_env \<Rightarrow> gitops_owner \<Rightarrow> flux_object \<Rightarrow> location \<Rightarrow> bool" where
  "builds_from env ow k l \<longleftrightarrow>
     (\<exists>repo. source_repository (ce_flux env) ow k = Inr repo \<and> gl_resolve (ce_lib env) ow k repo = Inr (core l)) \<and>
     lc_kustomization l = go_namespace ow @ ''/'' @ go_name ow \<and> lc_prune l = fo_prune k"

lemma locationOf_from:
  assumes "locationOf env ow k p = Inr l"
  shows "builds_from env ow k l" (is ?from)
    "fo_targetNamespace k \<noteq> [] \<longrightarrow> (\<forall>x\<in>set (cp_write p @ cp_remove p). o_namespace x = fo_targetNamespace k)" (is ?stay)
proof -
  from assms obtain repo d where repo: "source_repository (ce_flux env) ow k = Inr repo"
    and d: "gl_resolve (ce_lib env) ow k repo = Inr d"
    and l: "l = repo_location.extend d (location.fields (go_namespace ow @ ''/'' @ go_name ow) (fo_prune k))"
    by (auto simp: locationOf_def split: option.splits sum.splits)
  have "core l = d" unfolding l core_def by (simp add: repo_location.defs location.defs)
  with repo d show ?from
    unfolding builds_from_def by (auto simp: l repo_location.defs location.defs)
  from assms show ?stay
    unfolding locationOf_def moved_out_def by (auto simp: find_None_iff split: option.splits if_splits)
qed

lemma flux_owner_from: "flux_owner get ow p = Inr k \<Longrightarrow> get (go_namespace ow) (go_name ow) = Inr k"
  by (auto simp: flux_owner_def split: sum.splits if_splits)

text \<open>C12. The files of a part of a remote cluster, with no explicit target, go where one Flux Kustomization
  builds from, and that Kustomization applies through a kubeconfig Secret: it is never one of model-manager's
  own cluster. The Flux object that decides is the part's owner or, for a part without one, its namespace's.
  If it is a Kustomization, that one builds the files; if it is a HelmRelease, the only Kustomization of its
  namespace that applies through the release's kubeconfig Secret does. The repository, branch and path
  answered are those the provenance library resolves from this Kustomization's source reference and path and
  the GitRepository it refers to; the answer names the Kustomization and its pruning; and no object of the
  part would be moved out of its namespace by it.\<close>

theorem remote_part_lands_remote:
  assumes "locate env p t = Inr l" "target_empty t" "pt_cluster p \<noteq> None"
  shows "\<exists>k ow w. (case cp_owner p of Some x \<Rightarrow> Inr x | None \<Rightarrow> namespaceOwner (ce_flux env) p) = Inr w \<and>
     fo_kubeConfigSecret k \<noteq> [] \<and> go_kind ow = kind_kustomization \<and>
     (if go_kind w = kind_kustomization
      then ow = w \<and> fx_kustomization (ce_flux env) (go_namespace w) (go_name w) = Inr k
      else (\<exists>hr ks.
         fx_helmRelease (ce_flux env) (go_namespace w) (go_name w) = Inr hr \<and>
         fx_list (ce_flux env) (go_namespace w) = Inr ks \<and>
         filter (\<lambda>k. fo_kubeConfigSecret k = fo_kubeConfigSecret hr) ks = [k] \<and>
         go_namespace ow = fo_namespace k \<and> go_name ow = fo_name k)) \<and>
     (\<exists>repo. source_repository (ce_flux env) ow k = Inr repo \<and>
        gl_resolve (ce_lib env) ow k repo =
          Inr \<lparr>rl_repository = rl_repository l, rl_branch = rl_branch l, rl_path = rl_path l\<rparr>) \<and>
     lc_kustomization l = go_namespace ow @ ''/'' @ go_name ow \<and> lc_prune l = fo_prune k \<and>
     (fo_targetNamespace k \<noteq> [] \<longrightarrow> (\<forall>x\<in>set (cp_write p @ cp_remove p). o_namespace x = fo_targetNamespace k))"
proof -
  obtain w where w: "(case cp_owner p of Some w \<Rightarrow> Inr w | None \<Rightarrow> namespaceOwner (ce_flux env) p) = Inr w"
    and r: "resolve_remote env w p = Inr l"
    using assms unfolding locate_def by (auto split: if_splits sum.splits option.splits)
  note core = builds_from_def core_def repo_location.truncate_def
  show ?thesis
  proof (cases "go_kind w = kind_kustomization")
    case True
    with r obtain k where k: "flux_owner (fx_kustomization (ce_flux env)) w p = Inr k"
      "fo_kubeConfigSecret k \<noteq> []" "locationOf env w k p = Inr l"
      by (auto simp: resolve_remote_def Let_def split: sum.splits if_splits)
    show ?thesis
      using True k(2) w flux_owner_from [OF k(1)] locationOf_from [OF k(3)]
      by - (rule exI [of _ k], rule exI [of _ w], rule exI [of _ w], auto simp: core)
  next
    case False
    with r obtain hr :: flux_object and ks k where h: "flux_owner (fx_helmRelease (ce_flux env)) w p = Inr hr"
      and hr: "fo_kubeConfigSecret hr \<noteq> []" "fx_list (ce_flux env) (go_namespace w) = Inr ks"
      and k: "filter (\<lambda>k. fo_kubeConfigSecret k = fo_kubeConfigSecret hr) ks = [k]"
      and l: "locationOf env \<lparr>go_kind = kind_kustomization, go_namespace = fo_namespace k, go_name = fo_name k\<rparr> k p = Inr l"
      by (auto simp: resolve_remote_def Let_def split: sum.splits if_splits list.splits)
    let ?ow = "\<lparr>go_kind = kind_kustomization, go_namespace = fo_namespace k, go_name = fo_name k\<rparr>"
    have "fo_kubeConfigSecret k = fo_kubeConfigSecret hr" using arg_cong [OF k, of set] by auto
    moreover have "\<exists>hr ks. fx_helmRelease (ce_flux env) (go_namespace w) (go_name w) = Inr hr \<and>
         fx_list (ce_flux env) (go_namespace w) = Inr ks \<and>
         filter (\<lambda>k. fo_kubeConfigSecret k = fo_kubeConfigSecret hr) ks = [k]"
      by (intro exI conjI, rule flux_owner_from [OF h], rule hr(2), rule k)
    ultimately show ?thesis
      using hr(1) w False locationOf_from [OF l]
      by - (rule exI [of _ k], rule exI [of _ ?ow], rule exI [of _ w], auto simp: core)
  qed
qed

section \<open>Witness\<close>

definition w_ks :: flux_object where
  "w_ks = \<lparr>fo_namespace = ''flux'', fo_name = ''gazelle'', fo_labels = Map.empty, fo_kubeConfigSecret = ''gazelle-kubeconfig'',
     fo_targetNamespace = [], fo_sourceKind = ''OCIRepository'', fo_sourceName = ''fleet'', fo_sourceNamespace = [],
     fo_path = ''clusters'', fo_prune = True\<rparr>"

definition w_flux :: flux_reads where
  "w_flux = \<lparr>fx_namespace = (\<lambda>_ _. Inr [label_helm_name \<mapsto> ''kserve'', label_helm_namespace \<mapsto> ''flux'']),
     fx_kustomization = (\<lambda>_ _. Inl api_not_found), fx_helmRelease = (\<lambda>_ _. Inr w_ks),
     fx_list = (\<lambda>_. Inr [w_ks\<lparr>fo_name := ''own'', fo_kubeConfigSecret := []\<rparr>, w_ks]),
     fx_gitRepository = (\<lambda>_ _. Inl api_not_found), fx_cluster = w_empty_cluster\<rparr>"

definition w_fleet :: repo_location where
  "w_fleet = \<lparr>rl_repository = \<lparr>re_owner = ''org'', re_name = ''fleet''\<rparr>, rl_branch = ''main'', rl_path = ''clusters''\<rparr>"

definition w_git :: "unit git_library" where
  "w_git = \<lparr>gl_show = (\<lambda>r. re_owner r @ ''/'' @ re_name r), gl_dir = rl_path, gl_file = (\<lambda>l k n. rl_path l @ ''/'' @ n),
     gl_build = (\<lambda>_ _ _ _. Inr \<lparr>lp_files = [], lp_changed = False\<rparr>), gl_unchanged = ''unchanged'',
     gl_explicit = (\<lambda>_ _ _. Inr w_fleet), gl_resolve = (\<lambda>_ _ _. Inr w_fleet), gl_remote = (\<lambda>_. None),
     gl_reachable = (\<lambda>_ _. Inr True), gl_read = (\<lambda>_ _ _ _. Inr None), gl_open = (\<lambda>_ _ g. (Inr [], g)),
     gl_yaml = (\<lambda>x. Inr (o_name x))\<rparr>"

definition w_env :: "unit commit_env" where
  "w_env = \<lparr>ce_github = Some (''token'', ''jane''), ce_app = [], ce_flux = w_flux, ce_lib = w_git\<rparr>"

definition w_part :: part where
  "w_part = \<lparr>cp_namespace = ''kserve'', cp_write = [w_kobj ''llama''], cp_remove = [], cp_owner = None,
     pt_cluster = Some ''gazelle''\<rparr>"

lemma w_located: "\<exists>l. locate w_env w_part \<lparr>ct_repository = [], ct_branch = [], ct_path = []\<rparr> = Inr l"
  by (simp add: locate_def w_env_def w_part_def w_flux_def w_git_def w_ks_def w_fleet_def helm_owned_def target_empty_def
    namespaceOwner_def owner_of_def get_label_def resolve_remote_def flux_owner_def locationOf_def moved_out_def
    source_repository_def label_kustomize_name_def label_kustomize_namespace_def label_helm_name_def
    label_helm_namespace_def kind_kustomization_def kind_helm_release_def)

lemma remote_part_lands_remote_witness:
  "\<exists>l (k :: flux_object). locate w_env w_part \<lparr>ct_repository = [], ct_branch = [], ct_path = []\<rparr> = Inr l \<and>
     fo_kubeConfigSecret k \<noteq> [] \<and> rl_repository l = rl_repository w_fleet \<and> rl_path l = ''clusters''"
proof -
  obtain l where l: "locate w_env w_part \<lparr>ct_repository = [], ct_branch = [], ct_path = []\<rparr> = Inr l"
    using w_located by blast
  have "target_empty \<lparr>ct_repository = [], ct_branch = [], ct_path = []\<rparr>" "pt_cluster w_part \<noteq> None"
    by (simp_all add: target_empty_def w_part_def)
  from remote_part_lands_remote [OF l this] obtain k :: flux_object and ow repo where
    "fo_kubeConfigSecret k \<noteq> []" "gl_resolve (ce_lib w_env) ow k repo =
       Inr \<lparr>rl_repository = rl_repository l, rl_branch = rl_branch l, rl_path = rl_path l\<rparr>" by blast
  with l show ?thesis by (auto simp: w_env_def w_git_def w_fleet_def)
qed

end
