(* ===== verification/GoText.thy ===== *)
theory GoText
  imports Nodes
begin

text \<open>
  What the driver uses of Go's standard library to read what Kubernetes and Karpenter say: regular
  expressions with the priorities of a backtracking match, runes, and instants and durations. A time is
  nanoseconds after the zero time (1 January of year 1), so \<open>IsZero\<close> is being 0; how a clock is written
  (RFC 3339) is the argument \<open>clock\<close>.
\<close>

section \<open>Regular expressions\<close>

datatype re = Chr "char \<Rightarrow> bool" | Boundary | Eps | Cat re re | Alt re re | Star re

definition lit :: "string \<Rightarrow> re" where
  "lit s = foldr (\<lambda>c r. Cat (Chr (\<lambda>x. x = c)) r) s Eps"

definition many :: "re \<Rightarrow> re" where "many r = Cat r (Star r)"

definition seq :: "re list \<Rightarrow> re" where "seq rs = foldr Cat rs Eps"

text \<open>A position is what lies before it, reversed, and what is left.\<close>

type_synonym position = "string \<times> string"

definition word_char :: "char \<Rightarrow> bool" where
  "word_char c \<longleftrightarrow> is_lower c \<or> is_upper c \<or> is_digit c \<or> c = CHR ''_''"

definition at_boundary :: "position \<Rightarrow> bool" where
  "at_boundary p = (case p of (bef, rest) \<Rightarrow>
     (bef \<noteq> [] \<and> word_char (hd bef)) \<noteq> (rest \<noteq> [] \<and> word_char (hd rest)))"

text \<open>Where the repetitions of a match may end, the longest repetition first.\<close>

fun star_ends :: "(position \<Rightarrow> position list) \<Rightarrow> nat \<Rightarrow> position \<Rightarrow> position list" where
  "star_ends m 0 p = [p]"
| "star_ends m (Suc n) p =
     concat (map (\<lambda>q. if length (snd q) < length (snd p) then star_ends m n q else []) (m p)) @ [p]"

text \<open>Where a match from a position may end, in the order a backtracking match prefers.\<close>

fun ends :: "re \<Rightarrow> position \<Rightarrow> position list" where
  "ends (Chr f) p = (case snd p of [] \<Rightarrow> [] | c # cs \<Rightarrow> if f c then [(c # fst p, cs)] else [])"
| "ends Boundary p = (if at_boundary p then [p] else [])"
| "ends Eps p = [p]"
| "ends (Cat r s) p = concat (map (ends s) (ends r p))"
| "ends (Alt r s) p = ends r p @ ends s p"
| "ends (Star r) p = star_ends (ends r) (length (snd p)) p"

text \<open>An expression with one group: what comes before it, the group, what comes after.\<close>

record pattern =
  pt_before :: re
  pt_group :: re
  pt_after :: re

definition matched :: "position \<Rightarrow> position \<Rightarrow> string" where
  "matched p q = take (length (snd p) - length (snd q)) (snd p)"

text \<open>The preferred match at a position: the group's text and where the match ends.\<close>

definition match_here :: "pattern \<Rightarrow> position \<Rightarrow> (string \<times> position) option" where
  "match_here pt p =
     (case concat (map (\<lambda>a. concat (map (\<lambda>b. map (\<lambda>c. (matched a b, c)) (ends (pt_after pt) b))
             (ends (pt_group pt) a))) (ends (pt_before pt) p)) of
        [] \<Rightarrow> None | m # _ \<Rightarrow> Some m)"

text \<open>The leftmost match: where it starts, its group and where it ends.\<close>

fun first_match :: "pattern \<Rightarrow> string \<Rightarrow> string \<Rightarrow> (position \<times> string \<times> position) option" where
  "first_match pt bef [] =
     (case match_here pt (bef, []) of Some (g, q) \<Rightarrow> Some ((bef, []), g, q) | None \<Rightarrow> None)"
| "first_match pt bef (c # cs) =
     (case match_here pt (bef, c # cs) of
        Some (g, q) \<Rightarrow> Some ((bef, c # cs), g, q)
      | None \<Rightarrow> first_match pt (c # bef) cs)"

definition FindStringSubmatch :: "pattern \<Rightarrow> string \<Rightarrow> string option" where
  "FindStringSubmatch pt s = map_option (\<lambda>(_, g, _). g) (first_match pt [] s)"

definition MatchString :: "re \<Rightarrow> string \<Rightarrow> bool" where
  "MatchString r s \<longleftrightarrow> first_match \<lparr>pt_before = Eps, pt_group = r, pt_after = Eps\<rparr> [] s \<noteq> None"

text \<open>All matches, none of them empty: the text before a match, its group, and what follows it. The
  number of matches is bounded by the length of the text, which the first argument counts.\<close>

fun matches :: "nat \<Rightarrow> pattern \<Rightarrow> position \<Rightarrow> (position \<times> string \<times> position) list" where
  "matches 0 pt p = []"
| "matches (Suc n) pt p =
     (case first_match pt (fst p) (snd p) of
        None \<Rightarrow> []
      | Some (a, g, q) \<Rightarrow> if length (snd q) < length (snd p) then (a, g, q) # matches n pt q else [])"

definition all_matches :: "pattern \<Rightarrow> string \<Rightarrow> (position \<times> string \<times> position) list" where
  "all_matches pt s = matches (Suc (length s)) pt ([], s)"

definition FindAllStringSubmatch :: "pattern \<Rightarrow> string \<Rightarrow> string list" where
  "FindAllStringSubmatch pt s = map (\<lambda>(_, g, _). g) (all_matches pt s)"

section \<open>Strings\<close>

text \<open>\<open>strings.Fields\<close>.\<close>

fun fields_from :: "string \<Rightarrow> string \<Rightarrow> string list" where
  "fields_from acc [] = (if acc = [] then [] else [rev acc])"
| "fields_from acc (c # cs) =
     (if is_space c then (if acc = [] then fields_from [] cs else rev acc # fields_from [] cs)
      else fields_from (c # acc) cs)"

definition Fields :: "string \<Rightarrow> string list" where "Fields s = fields_from [] s"

text \<open>\<open>strings.Split\<close> at a separator of one or more bytes.\<close>

function split_on :: "string \<Rightarrow> string \<Rightarrow> string \<Rightarrow> string list" where
  "split_on sep acc [] = [rev acc]"
| "split_on sep acc (c # cs) =
     (if sep \<noteq> [] \<and> prefix sep (c # cs) then rev acc # split_on sep [] (drop (length sep) (c # cs))
      else split_on sep (c # acc) cs)"
  by pat_completeness auto
termination by (relation "measure (\<lambda>(_, _, s). length s)") (auto simp: Suc_le_eq)

definition Split :: "string \<Rightarrow> string \<Rightarrow> string list" where "Split s sep = split_on sep [] s"

definition trim_suffix :: "string \<Rightarrow> string \<Rightarrow> string" where
  "trim_suffix t s = (if suffix t s then take (length s - length t) s else s)"

text \<open>The runes of a string, each as its bytes: a byte that starts no valid encoding is the three bytes of
  U+FFFD, as converting to runes and back writes it.\<close>

definition cont_byte :: "char \<Rightarrow> bool" where
  "cont_byte c \<longleftrightarrow> 0x80 \<le> (of_char c :: nat) \<and> (of_char c :: nat) \<le> 0xBF"

definition second_ok :: "nat \<Rightarrow> nat \<Rightarrow> bool" where
  "second_ok a b \<longleftrightarrow>
     (if a = 0xE0 then 0xA0 \<le> b \<and> b \<le> 0xBF else if a = 0xED then 0x80 \<le> b \<and> b \<le> 0x9F
      else if a = 0xF0 then 0x90 \<le> b \<and> b \<le> 0xBF else if a = 0xF4 then 0x80 \<le> b \<and> b \<le> 0x8F
      else 0x80 \<le> b \<and> b \<le> 0xBF)"

definition lead_size :: "nat \<Rightarrow> nat" where
  "lead_size a =
     (if a < 0x80 then 1 else if 0xC2 \<le> a \<and> a \<le> 0xDF then 2 else if 0xE0 \<le> a \<and> a \<le> 0xEF then 3
      else if 0xF0 \<le> a \<and> a \<le> 0xF4 then 4 else 0)"

definition rune_size :: "string \<Rightarrow> nat" where
  "rune_size s =
     (case s of [] \<Rightarrow> 0 | c # cs \<Rightarrow>
        let n = lead_size (of_char c)
        in if n \<le> 1 then n
           else if n \<le> length s \<and> second_ok (of_char c) (of_char (hd cs)) \<and> list_all cont_byte (take (n - 1) cs) then n
           else 0)"

definition replacement :: string where "replacement = [CHR 0xEF, CHR 0xBF, CHR 0xBD]"

function runes :: "string \<Rightarrow> string list" where
  "runes [] = []"
| "runes (c # cs) =
     (if rune_size (c # cs) = 0 then replacement # runes cs
      else take (rune_size (c # cs)) (c # cs) # runes (drop (rune_size (c # cs)) (c # cs)))"
  by pat_completeness auto
termination by (relation "measure length") auto

definition ellipsis :: string where "ellipsis = [CHR 0xE2, CHR 0x80, CHR 0xA6]"

text \<open>A string cut to at most \<open>n\<close> runes, the last of them an ellipsis.\<close>

definition bound_runes :: "nat \<Rightarrow> string \<Rightarrow> string" where
  "bound_runes n s = (let r = runes s in if length r > n then concat (take (n - 1) r) @ ellipsis else s)"

definition times_sign :: string where "times_sign = [CHR 0xC3, CHR 0x97]"

section \<open>Time\<close>

type_synonym gotime = int
type_synonym duration = int

definition sat64 :: "int \<Rightarrow> int" where "sat64 n = max (- (2 ^ 63)) (min (2 ^ 63 - 1) n)"

definition time_sub :: "gotime \<Rightarrow> gotime \<Rightarrow> duration" where "time_sub t u = sat64 (t - u)"

definition microsecond :: duration where "microsecond = 1000"
definition millisecond :: duration where "millisecond = 1000000"
definition second :: duration where "second = 1000000000"
definition minute :: duration where "minute = 60 * second"

text \<open>\<open>Duration.Round\<close>, halves away from zero.\<close>

definition round_to :: "duration \<Rightarrow> duration \<Rightarrow> duration" where
  "round_to d m =
     (if m \<le> 0 then d
      else let r = \<bar>d\<bar> mod m
           in if d < 0 then (if 2 * r < m then d + r else sat64 (d - m + r))
              else if 2 * r < m then d - r else sat64 (d + m - r))"

text \<open>\<open>Duration.String\<close>: the digits of a fraction of \<open>n\<close> places, without its trailing zeros.\<close>

definition frac_digits :: "nat \<Rightarrow> nat \<Rightarrow> string" where
  "frac_digits n v = map (\<lambda>i. digit_char (v div 10 ^ i mod 10)) (rev [0..<n])"

definition show_frac :: "nat \<Rightarrow> nat \<Rightarrow> string" where
  "show_frac v places =
     (let f = trim_right (CHR ''0'') (frac_digits places (v mod 10 ^ places))
      in show_nat (v div 10 ^ places) @ (if f = [] then [] else CHR ''.'' # f))"

definition show_duration :: "duration \<Rightarrow> string" where
  "show_duration d =
     (let u = nat \<bar>d\<bar>; sign = (if d < 0 then ''-'' else [])
      in if u = 0 then ''0s''
         else if u < 1000 then sign @ show_nat u @ ''ns''
         else if u < 1000000 then sign @ show_frac u 3 @ [CHR 0xC2, CHR 0xB5] @ ''s''
         else if u < 1000000000 then sign @ show_frac u 6 @ ''ms''
         else let secs = u div 1000000000; mins = secs div 60; hours = mins div 60
              in sign @ (if hours > 0 then show_nat hours @ ''h'' else []) @
                 (if mins > 0 then show_nat (mins mod 60) @ ''m'' else []) @
                 show_frac (u mod 60000000000) 9 @ ''s'')"

text \<open>How a time is written and read.\<close>

record clock =
  ck_show :: "gotime \<Rightarrow> string"
  ck_parse :: "string \<Rightarrow> gotime option"

end
