(* ===== verification/Launch.thy ===== *)
theory Launch
  imports GoText GoUrl
begin

text \<open>
  Whether the node a Pending predictor waits for exists, by Karpenter's own account
  (\<open>internal/backend/kserve/launch.go\<close>): the nominated NodeClaim, the refusals to launch it, what the
  cloud refused and what would launch. The API server's answers are the argument \<open>launch_reads\<close>.
\<close>

section \<open>Events\<close>

record kube_event =
  ev_type :: string
  ev_reason :: string
  ev_message :: string
  ev_kind :: string
  ev_object :: string
  ev_fieldPath :: string
  ev_first :: gotime
  ev_last :: gotime
  ev_time :: gotime
  ev_created :: gotime

text \<open>When an event last happened, or first; the zero time for none.\<close>

definition eventTime :: "kube_event option \<Rightarrow> bool \<Rightarrow> gotime" where
  "eventTime e first =
     (case e of
        None \<Rightarrow> 0
      | Some e \<Rightarrow>
          if first \<and> ev_first e \<noteq> 0 then ev_first e
          else case find (\<lambda>t. t \<noteq> 0) [ev_last e, ev_time e, ev_first e] of Some t \<Rightarrow> t | None \<Rightarrow> ev_created e)"

definition concerns :: "string \<Rightarrow> string \<Rightarrow> kube_event \<Rightarrow> bool" where
  "concerns reason fieldPath e \<longleftrightarrow> ev_reason e = reason \<and> (fieldPath = [] \<or> ev_fieldPath e = fieldPath)"

definition better_event :: "(kube_event \<Rightarrow> kube_event \<Rightarrow> bool) \<Rightarrow> kube_event option \<Rightarrow> kube_event \<Rightarrow> kube_event option" where
  "better_event better best e =
     (case best of None \<Rightarrow> Some e | Some b \<Rightarrow> if better e b then Some e else Some b)"

definition pickEvent :: "kube_event list \<Rightarrow> string \<Rightarrow> string \<Rightarrow> (kube_event \<Rightarrow> kube_event \<Rightarrow> bool) \<Rightarrow> kube_event option" where
  "pickEvent events reason fieldPath better =
     foldl (better_event better) None (filter (concerns reason fieldPath) events)"

definition lastEvent :: "kube_event list \<Rightarrow> string \<Rightarrow> string \<Rightarrow> kube_event option" where
  "lastEvent events reason fieldPath =
     pickEvent events reason fieldPath (\<lambda>e best. eventTime (Some e) False > eventTime (Some best) False)"

definition firstEvent :: "kube_event list \<Rightarrow> string \<Rightarrow> string \<Rightarrow> kube_event option" where
  "firstEvent events reason fieldPath =
     pickEvent events reason fieldPath (\<lambda>e best. eventTime (Some e) True < eventTime (Some best) True)"

section \<open>What a claim asks for\<close>

definition karpenterEventsNamespace :: string where "karpenterEventsNamespace = ''default''"
definition kindNodeClaim :: string where "kindNodeClaim = ''NodeClaim''"
definition conditionLaunched :: string where "conditionLaunched = ''Launched''"
definition nodeClaimSuffix :: nat where "nodeClaimSuffix = 5"
definition refusalMessageMax :: nat where "refusalMessageMax = 320"
definition reasonNodeLaunching :: string where "reasonNodeLaunching = ''NodeLaunching''"
definition reasonCapacityUnavailable :: string where "reasonCapacityUnavailable = ''CapacityUnavailable''"
definition requirementInstanceType :: string where "requirementInstanceType = ''node.kubernetes.io/instance-type''"
definition requirementInstanceFamily :: string where "requirementInstanceFamily = ''karpenter.k8s.aws/instance-family''"
definition requirementInstanceSize :: string where "requirementInstanceSize = ''karpenter.k8s.aws/instance-size''"
definition labelZone :: string where "labelZone = ''topology.kubernetes.io/zone''"
definition nodeClassGroup :: string where "nodeClassGroup = ''karpenter.k8s.aws''"

definition launchRefusalEvents :: "string list" where
  "launchRefusalEvents = [''InsufficientCapacityError'', ''NodeClassNotReady'']"

definition appendMissing :: "string list \<Rightarrow> string \<Rightarrow> string list" where
  "appendMissing l s = (if List.member l s then l else l @ [s])"

definition without :: "string list \<Rightarrow> string list \<Rightarrow> string list" where
  "without l dropped = filter (\<lambda>s. \<not> List.member dropped s) l"

record requirement =
  rq_key :: string
  rq_operator :: string
  rq_values :: "string list"

record constraints =
  cs_types :: "string list"
  cs_zones :: "string list"

definition no_constraints :: constraints where "no_constraints = \<lparr>cs_types = [], cs_zones = []\<rparr>"

definition constraints_empty :: "constraints \<Rightarrow> bool" where
  "constraints_empty c \<longleftrightarrow> cs_types c = [] \<and> cs_zones c = []"

definition values_of :: "string \<Rightarrow> requirement list \<Rightarrow> string list" where
  "values_of key reqs = concat (map rq_values (filter (\<lambda>r. rq_operator r = ''In'' \<and> rq_key r = key) reqs))"

definition parseRequirements :: "requirement list \<Rightarrow> constraints" where
  "parseRequirements reqs =
     (let types = values_of requirementInstanceType reqs
      in \<lparr>cs_types = (if types \<noteq> [] then types
            else concat (map (\<lambda>f. map (\<lambda>s. f @ ''.'' @ s) (values_of requirementInstanceSize reqs))
                   (values_of requirementInstanceFamily reqs))),
          cs_zones = values_of labelZone reqs\<rparr>)"

text \<open>The NodePool a claim is named after; empty when the name has no suffix of five characters.\<close>

definition nodeClaimPool :: "string \<Rightarrow> string" where
  "nodeClaimPool claim =
     (case cut_last (CHR ''-'') claim of
        Some (pool, rest) \<Rightarrow> if pool \<noteq> [] \<and> length rest = nodeClaimSuffix then pool else []
      | None \<Rightarrow> [])"

section \<open>The nominated claim and the refusals\<close>

record claim_condition =
  cc_type :: string
  cc_status :: string
  cc_reason :: string
  cc_message :: string
  cc_since :: string

record node_claim =
  nc_name :: string
  nc_created :: gotime
  nc_nodeName :: string
  nc_requirements :: "requirement list"
  nc_conditions :: "claim_condition list"

record claim_state =
  st_created :: gotime
  st_launched :: string
  st_since :: gotime
  st_reason :: string
  st_message :: string
  st_node :: string
  st_asked :: constraints

record launch_refusal =
  lr_claim :: string
  lr_reason :: string
  lr_message :: string
  lr_at :: gotime

definition claimRefusalMessage :: "string \<Rightarrow> string \<Rightarrow> string" where
  "claimRefusalMessage claim message = trim_prefix (''NodeClaim '' @ claim @ '' event: '') (join '' '' (Fields message))"

definition boundMessage :: "string \<Rightarrow> string" where "boundMessage m = bound_runes refusalMessageMax m"

definition launched_condition :: "clock \<Rightarrow> string \<Rightarrow> claim_state \<Rightarrow> claim_condition \<Rightarrow> claim_state" where
  "launched_condition ck name s c =
     (if cc_type c \<noteq> conditionLaunched then s
      else s\<lparr>st_launched := cc_status c, st_reason := cc_reason c,
        st_message := (if cc_message c \<noteq> [] then claimRefusalMessage name (cc_message c) else st_message s),
        st_since := (if cc_since c = [] then st_since s
                     else case ck_parse ck (cc_since c) of Some t \<Rightarrow> t | None \<Rightarrow> st_since s)\<rparr>)"

definition parseClaim :: "clock \<Rightarrow> node_claim \<Rightarrow> claim_state" where
  "parseClaim ck c =
     foldl (launched_condition ck (nc_name c))
       \<lparr>st_created = nc_created c, st_launched = [], st_since = 0, st_reason = [], st_message = [],
        st_node = nc_nodeName c, st_asked = parseRequirements (nc_requirements c)\<rparr> (nc_conditions c)"

record launch_facts =
  lf_claim :: string
  lf_state :: "claim_state option"
  lf_claimErr :: "err option"
  lf_refusals :: "launch_refusal list"
  lf_refusalsErr :: "err option"
  lf_pool :: constraints
  lf_poolErr :: "err option"
  lf_allowed :: "string list"
  lf_allowedErr :: "err option"
  lf_cache :: cache_location
  lf_cacheErr :: "err option"

definition no_launch_facts :: launch_facts where
  "no_launch_facts = \<lparr>lf_claim = [], lf_state = None, lf_claimErr = None, lf_refusals = [], lf_refusalsErr = None,
     lf_pool = no_constraints, lf_poolErr = None, lf_allowed = [], lf_allowedErr = None,
     lf_cache = no_cache, lf_cacheErr = None\<rparr>"

text \<open>The refusals standing against the pod, oldest first.\<close>

definition claim_refused :: "string \<Rightarrow> claim_state option \<Rightarrow> launch_refusal list" where
  "claim_refused claim st =
     (case st of
        Some s \<Rightarrow> if st_launched s = ''False''
                  then [\<lparr>lr_claim = claim, lr_reason = st_reason s, lr_message = st_message s, lr_at = st_since s\<rparr>] else []
      | None \<Rightarrow> [])"

definition standing_refusals :: "launch_facts \<Rightarrow> launch_refusal list" where
  "standing_refusals lf =
     sort_key lr_at
       (filter (\<lambda>r. case lf_state lf of None \<Rightarrow> True | Some s \<Rightarrow> lr_at r > st_created s) (lf_refusals lf) @
        claim_refused (lf_claim lf) (lf_state lf))"

definition launched :: "launch_facts \<Rightarrow> gotime option" where
  "launched lf =
     (case lf_state lf of Some s \<Rightarrow> if st_launched s = ''True'' then Some (st_since s) else None | None \<Rightarrow> None)"

definition asked :: "launch_facts \<Rightarrow> constraints" where
  "asked lf =
     (case lf_state lf of
        Some s \<Rightarrow> if \<not> constraints_empty (st_asked s) then st_asked s else lf_pool lf | None \<Rightarrow> lf_pool lf)"

definition allowedZones :: "launch_facts \<Rightarrow> string list" where
  "allowedZones lf =
     (case lf_state lf of
        Some s \<Rightarrow> if cs_zones (st_asked s) \<noteq> [] then cs_zones (st_asked s) else lf_allowed lf | None \<Rightarrow> lf_allowed lf)"

definition unread_text :: "string \<Rightarrow> err option \<Rightarrow> string list" where
  "unread_text what e = (case e of Some e \<Rightarrow> [what @ '' could not be read ('' @ err_msg e @ '')''] | None \<Rightarrow> [])"

definition unread :: "launch_facts \<Rightarrow> string" where
  "unread lf =
     join ''; ''
       (unread_text (''whether NodeClaim '' @ lf_claim lf @ '' launched'') (lf_claimErr lf) @
        unread_text (''Karpenter's events in '' @ karpenterEventsNamespace) (lf_refusalsErr lf) @
        unread_text (''what NodePool '' @ nodeClaimPool (lf_claim lf) @ '' asks for'') (lf_poolErr lf) @
        unread_text ''the zones the pool allows'' (lf_allowedErr lf) @
        unread_text ''where the cache claim lives'' (lf_cacheErr lf))"

section \<open>What the cloud refused\<close>

definition size_char :: "char \<Rightarrow> bool" where "size_char c \<longleftrightarrow> is_lower c \<or> is_digit c"
definition name_char :: "char \<Rightarrow> bool" where "name_char c \<longleftrightarrow> size_char c \<or> c = CHR ''-''"

definition zone_re :: re where
  "zone_re = seq [Chr is_lower, Star (Chr name_char), Chr is_digit, Chr is_lower]"

definition refusedSize :: pattern where
  "refusedSize = \<lparr>pt_before = lit ''do not have sufficient '',
     pt_group = seq [many (Chr name_char), lit ''.'', many (Chr size_char)], pt_after = lit '' capacity''\<rparr>"

definition refusedZone :: pattern where
  "refusedZone = \<lparr>pt_before = lit ''Availability Zone you requested ('', pt_group = zone_re, pt_after = lit '')''\<rparr>"

definition zonesWithCapacity :: pattern where
  "zonesWithCapacity = \<lparr>pt_before = lit ''choosing '', pt_group = Cat zone_re (Star (Cat (lit '', '') zone_re)), pt_after = Eps\<rparr>"

definition fleetErrorCode :: pattern where
  "fleetErrorCode = \<lparr>pt_before = Alt (lit ''fleet error(s), '') (lit ''; ''),
     pt_group = Cat (Chr is_upper) (many (Chr (\<lambda>c. is_upper c \<or> is_lower c \<or> c = CHR ''.''))), pt_after = lit '': ''\<rparr>"

definition vcpuLimit :: pattern where
  "vcpuLimit = \<lparr>pt_before = lit ''current vCPU limit of '', pt_group = many (Chr is_digit), pt_after = Eps\<rparr>"

definition nominatedClaim :: pattern where
  "nominatedClaim = \<lparr>pt_before = lit ''nodeclaim/'',
     pt_group = Cat (Chr size_char) (Star (Chr (\<lambda>c. name_char c \<or> c = CHR ''.''))), pt_after = Eps\<rparr>"

definition fleetErrorCapacity :: string where "fleetErrorCapacity = ''InsufficientInstanceCapacity''"
definition fleetErrorVcpuLimit :: string where "fleetErrorVcpuLimit = ''VcpuLimitExceeded''"

record fleet_error =
  fe_code :: string
  fe_text :: string

fun before_sub :: "string \<Rightarrow> string \<Rightarrow> string" where
  "before_sub sub [] = []"
| "before_sub sub (c # cs) = (if prefix sub (c # cs) then [] else c # before_sub sub cs)"

text \<open>Each error from its code to where the next one starts.\<close>

fun fleet_texts :: "(position \<times> string \<times> position) list \<Rightarrow> fleet_error list" where
  "fleet_texts [] = []"
| "fleet_texts ((a, code, q) # ms) =
     \<lparr>fe_code = code, fe_text = trim_space (case ms of [] \<Rightarrow> snd q | (b, _) # _ \<Rightarrow> matched q b)\<rparr> # fleet_texts ms"

definition fleetErrors :: "string \<Rightarrow> fleet_error list" where
  "fleetErrors message = fleet_texts (all_matches fleetErrorCode (before_sub '' (aws-error-code='' message))"

record capacity_refusal =
  cr_refused :: "string list"
  cr_capacity :: "string list"
  cr_quotaTypes :: "string list"
  cr_otherTypes :: "string list"
  cr_vcpuLimit :: string
  cr_quota :: bool
  cr_other :: fleet_error
  cr_requested :: "string list"
  cr_available :: "string list"
  cr_pinnedByCache :: "bool option"
  cr_cacheClaim :: string
  cr_poolZones :: bool
  cr_unpinned :: bool
  cr_everyZone :: bool

definition no_capacity_refusal :: capacity_refusal where
  "no_capacity_refusal = \<lparr>cr_refused = [], cr_capacity = [], cr_quotaTypes = [], cr_otherTypes = [], cr_vcpuLimit = [],
     cr_quota = False, cr_other = \<lparr>fe_code = [], fe_text = []\<rparr>, cr_requested = [], cr_available = [],
     cr_pinnedByCache = None, cr_cacheClaim = [], cr_poolZones = False, cr_unpinned = False, cr_everyZone = False\<rparr>"

definition pinnedByCache :: "launch_facts \<Rightarrow> string list \<Rightarrow> bool option" where
  "pinnedByCache lf zones =
     (let c = lf_cache lf
      in if lf_cacheErr lf \<noteq> None \<or> cl_claim c = [] \<or> zones = [] then None
         else if cl_missing c \<or> \<not> cl_bound c then Some False
         else if \<not> cl_volumeRead c then None
         else Some (list_ex (List.member zones) (cl_zones c)))"

text \<open>Before the refusals are read: the sizes asked for and whose zones they are.\<close>

definition asked_capacity :: "launch_facts \<Rightarrow> capacity_refusal" where
  "asked_capacity lf =
     (let cr = no_capacity_refusal\<lparr>cr_refused := cs_types (asked lf)\<rparr>
      in if cs_zones (lf_pool lf) \<noteq> [] then cr\<lparr>cr_requested := cs_zones (lf_pool lf), cr_poolZones := True\<rparr>
         else if lf_poolErr lf = None \<and> \<not> constraints_empty (lf_pool lf)
         then (if allowedZones lf \<noteq> [] then cr\<lparr>cr_unpinned := True, cr_requested := allowedZones lf, cr_everyZone := True\<rparr>
               else cr\<lparr>cr_unpinned := True\<rparr>)
         else cr\<lparr>cr_requested := cs_zones (asked lf)\<rparr>)"

definition read_size :: "capacity_refusal \<times> string list \<Rightarrow> string \<Rightarrow> capacity_refusal \<times> string list" where
  "read_size x sz = (case x of (cr, short) \<Rightarrow>
     (cr\<lparr>cr_refused := appendMissing (cr_refused cr) sz\<rparr>, appendMissing short sz))"

definition read_fleet_error :: "capacity_refusal \<Rightarrow> fleet_error \<Rightarrow> capacity_refusal" where
  "read_fleet_error cr e =
     (if fe_code e = fleetErrorCapacity then cr
      else if fe_code e = fleetErrorVcpuLimit
      then cr\<lparr>cr_quota := True,
              cr_vcpuLimit := (case FindStringSubmatch vcpuLimit (fe_text e) of Some n \<Rightarrow> n | None \<Rightarrow> cr_vcpuLimit cr)\<rparr>
      else if fe_code (cr_other cr) = [] then cr\<lparr>cr_other := e\<rparr> else cr)"

definition read_refusal :: "capacity_refusal \<times> string list \<Rightarrow> launch_refusal \<Rightarrow> capacity_refusal \<times> string list" where
  "read_refusal x r =
     (case foldl read_size x (FindAllStringSubmatch refusedSize (lr_message r)) of (cr, short) \<Rightarrow>
        let cr = foldl read_fleet_error cr (fleetErrors (lr_message r));
            cr = cr\<lparr>cr_requested := foldl appendMissing (cr_requested cr) (FindAllStringSubmatch refusedZone (lr_message r))\<rparr>;
            named = concat (map (\<lambda>zs. Split zs '', '') (FindAllStringSubmatch zonesWithCapacity (lr_message r)))
        in (cr\<lparr>cr_available := foldl appendMissing (cr_available cr) named\<rparr>, short))"

text \<open>What each size was refused for, once every refusal is read.\<close>

definition by_reason :: "capacity_refusal \<Rightarrow> string list \<Rightarrow> capacity_refusal" where
  "by_reason cr short =
     (let rest = without (cr_refused cr) short
      in if cr_quota cr then cr\<lparr>cr_capacity := without (cr_refused cr) rest, cr_quotaTypes := rest\<rparr>
         else if fe_code (cr_other cr) \<noteq> [] then cr\<lparr>cr_capacity := without (cr_refused cr) rest, cr_otherTypes := rest\<rparr>
         else cr\<lparr>cr_capacity := cr_refused cr\<rparr>)"

definition capacity :: "launch_facts \<Rightarrow> launch_refusal list \<Rightarrow> capacity_refusal" where
  "capacity lf refusals =
     (case foldl read_refusal (asked_capacity lf, []) refusals of (cr, short) \<Rightarrow>
        if short = [] \<and> \<not> cr_quota cr then no_capacity_refusal
        else let cr = by_reason cr short;
                 cr = cr\<lparr>cr_available := without (cr_available cr) (cr_requested cr)\<rparr>;
                 pin = pinnedByCache lf (cr_requested cr)
             in cr\<lparr>cr_cacheClaim := cl_claim (lf_cache lf),
                   cr_pinnedByCache := (if cr_unpinned cr \<and> pin \<noteq> None then Some False else pin)\<rparr>)"

section \<open>The words\<close>

definition joinList :: "string list \<Rightarrow> string \<Rightarrow> string" where
  "joinList items conjunction =
     (case items of [] \<Rightarrow> [] | [x] \<Rightarrow> x
      | _ \<Rightarrow> join '', '' (butlast items) @ '' '' @ conjunction @ '' '' @ last items)"

definition cr_is_pinned :: "capacity_refusal \<Rightarrow> bool" where
  "cr_is_pinned cr \<longleftrightarrow> cr_pinnedByCache cr = Some True"

definition capacityReason :: "capacity_refusal \<Rightarrow> string" where
  "capacityReason cr =
     ''the cloud has no '' @ joinList (cr_capacity cr) ''or'' @ '' capacity'' @
     (if cr_unpinned cr \<and> cr_everyZone cr
      then '' in any zone the pool allows ('' @ joinList (cr_requested cr) ''and'' @ '')''
      else if cr_unpinned cr \<and> cr_requested cr \<noteq> []
      then '' in '' @ joinList (cr_requested cr) ''and'' @ '' at least '' @ em_dash @ '' the claim was constrained to no zone''
      else if cr_requested cr \<noteq> []
      then '' in '' @ joinList (cr_requested cr) ''and'' @ '', the '' @
        (if length (cr_requested cr) > 1 then ''zones'' else ''zone'') @ '' '' @
        (if cr_is_pinned cr then ''the pool is pinned to by the cache claim '' @ cr_cacheClaim cr @ '' (its volume lives there)''
         else if cr_poolZones cr then ''the pool constrains its nodes to'' else ''the claim was constrained to'')
      else []) @
     (if cr_available cr \<noteq> [] then ''; it has capacity in '' @ joinList (cr_available cr) ''and'' else [])"

definition quotaReason :: "capacity_refusal \<Rightarrow> string" where
  "quotaReason cr =
     (let n = length (cr_quotaTypes cr);
          sizes = (if n = 0 then (if cr_capacity cr \<noteq> [] then ''the other sizes asked for'' else ''the sizes asked for'')
                   else joinList (cr_quotaTypes cr) ''and'');
          verb = (if n = 1 then ''exceeds'' else ''exceed''); their = (if n = 1 then ''its'' else ''their'')
      in if cr_vcpuLimit cr = [] then sizes @ '' '' @ verb @ '' the account's vCPU quota for '' @ their @ '' instance bucket''
         else sizes @ '' '' @ verb @ '' the account's vCPU quota: its limit is '' @ cr_vcpuLimit cr @ '' vCPUs for '' @ their @ '' instance bucket'')"

definition retries :: string where "retries = ''; Karpenter retries while the pod waits''"

definition zoneWayOut :: "capacity_refusal \<Rightarrow> string" where
  "zoneWayOut cr =
     (let zones = (if cr_available cr \<noteq> [] then joinList (cr_available cr) ''or'' else ''another zone'')
      in if cr_is_pinned cr
         then ''a pool in '' @ zones @ '' (create_node_pool with zones naming it and cache: false), or removing the cache claim so the next pool is not pinned''
         else ''a pool in '' @ zones @ '' (create_node_pool with zones naming it)'')"

definition wayOut :: "capacity_refusal \<Rightarrow> string" where
  "wayOut cr =
     (let quota = ''a vCPU quota increase for the instance bucket (EC2 Service Quotas)''
      in if \<not> cr_quota cr
         then (if cr_unpinned cr \<and> cr_everyZone cr
               then ''. No zone is left to move to; wider sizes or another accelerator (a re-run of create_node_pool) give Karpenter more to choose from, and it retries while the pod waits''
               else if cr_unpinned cr then retries
               else ''. The way out is '' @ zoneWayOut cr @ retries)
         else if cr_capacity cr = [] then ''. The way out is '' @ quota @ '' or smaller sizes (a re-run of create_node_pool)'' @ retries
         else if cr_unpinned cr \<and> cr_everyZone cr then ''. No zone is left to move to; the way out is '' @ quota @ retries
         else if cr_unpinned cr then ''. The way out is '' @ quota @ retries
         else ''. The way out is '' @ zoneWayOut cr @ '', or '' @ quota @ retries)"

definition refusalMessage :: "clock \<Rightarrow> launch_refusal \<Rightarrow> nat \<Rightarrow> capacity_refusal \<Rightarrow> string" where
  "refusalMessage ck r n cr =
     ''Karpenter could not launch a node: '' @ show_nat n @ '' '' @ (if n > 1 then ''NodeClaims'' else ''NodeClaim'') @
     '' refused, the last ('' @ lr_claim r @ '') at '' @ ck_show ck (lr_at r) @ '' '' @ em_dash @ '' '' @ lr_reason r @ '': '' @
     (if cr_capacity cr = [] \<and> \<not> cr_quota cr then boundMessage (lr_message r) @ retries
      else join ''; ''
        ((if cr_capacity cr \<noteq> [] then [capacityReason cr] else []) @
         (if cr_quota cr then [quotaReason cr] else []) @
         (if cr_otherTypes cr \<noteq> []
          then [''the cloud refused '' @ joinList (cr_otherTypes cr) ''and'' @ '' with '' @ fe_code (cr_other cr) @ '': '' @
                trim_suffix ''.'' (boundMessage (fe_text (cr_other cr)))] else [])) @ wayOut cr)"

section \<open>Reading Karpenter's objects\<close>

record node_pool =
  np_requirements :: "requirement list"
  np_classGroup :: string
  np_className :: string

record launch_reads =
  lq_claim :: "string \<Rightarrow> err + node_claim"
  lq_events :: "err + kube_event list"
  lq_pool :: "string \<Rightarrow> err + node_pool"
  lq_subnetZones :: "string \<Rightarrow> err + string list"
  lq_cache :: "cache_location \<times> err option"
  lq_notFound :: "err \<Rightarrow> bool"
  lq_clock :: clock

definition launchRefusals :: "launch_reads \<Rightarrow> string \<Rightarrow> err + launch_refusal list" where
  "launchRefusals rd pool =
     (if pool = [] then Inr []
      else case lq_events rd of
             Inl e \<Rightarrow> Inl e
           | Inr es \<Rightarrow> Inr (sort_key lr_at
               (map (\<lambda>e. \<lparr>lr_claim = ev_object e, lr_reason = ev_reason e,
                      lr_message = claimRefusalMessage (ev_object e) (ev_message e), lr_at = eventTime (Some e) False\<rparr>)
                 (filter (\<lambda>e. ev_type e = ''Warning'' \<and> ev_kind e = kindNodeClaim \<and>
                    List.member launchRefusalEvents (ev_reason e) \<and> nodeClaimPool (ev_object e) = pool) es))))"

definition poolConstraints :: "launch_reads \<Rightarrow> string \<Rightarrow> err + constraints \<times> string" where
  "poolConstraints rd pool =
     (if pool = [] then Inr (no_constraints, [])
      else case lq_pool rd pool of
             Inl e \<Rightarrow> Inl e
           | Inr p \<Rightarrow> Inr (parseRequirements (np_requirements p),
               if np_classGroup p = nodeClassGroup then np_className p else []))"

definition parseNodeClassZones :: "string list \<Rightarrow> string list" where
  "parseNodeClassZones zones = sort (foldl appendMissing [] (filter (\<lambda>z. z \<noteq> []) zones))"

definition nodeClassZones :: "launch_reads \<Rightarrow> string \<Rightarrow> err + string list" where
  "nodeClassZones rd cls =
     (if cls = [] then Inr [] else map_sum id parseNodeClassZones (lq_subnetZones rd cls))"

definition read_claim :: "launch_reads \<Rightarrow> string \<Rightarrow> launch_facts" where
  "read_claim rd claim =
     (let lf = no_launch_facts\<lparr>lf_claim := claim\<rparr>
      in case lq_claim rd claim of
           Inr c \<Rightarrow> lf\<lparr>lf_state := Some (parseClaim (lq_clock rd) c)\<rparr>
         | Inl e \<Rightarrow> if lq_notFound rd e then lf else lf\<lparr>lf_claimErr := Some e\<rparr>)"

definition read_refusals :: "launch_reads \<Rightarrow> launch_facts \<Rightarrow> launch_facts" where
  "read_refusals rd lf =
     (case launchRefusals rd (nodeClaimPool (lf_claim lf)) of
        Inl e \<Rightarrow> lf\<lparr>lf_refusalsErr := Some e\<rparr> | Inr rs \<Rightarrow> lf\<lparr>lf_refusals := rs\<rparr>)"

definition read_pool :: "launch_reads \<Rightarrow> launch_facts \<Rightarrow> launch_facts" where
  "read_pool rd lf =
     (case poolConstraints rd (nodeClaimPool (lf_claim lf)) of
        Inl e \<Rightarrow> lf\<lparr>lf_poolErr := Some e\<rparr>
      | Inr (cs, cls) \<Rightarrow>
          let lf = lf\<lparr>lf_pool := cs\<rparr>
          in if cs_zones cs = [] \<and> allowedZones lf = []
             then (case nodeClassZones rd cls of
                     Inl e \<Rightarrow> lf\<lparr>lf_allowedErr := Some e\<rparr> | Inr zs \<Rightarrow> lf\<lparr>lf_allowed := zs\<rparr>)
             else lf)"

definition launchFacts :: "launch_reads \<Rightarrow> kube_event list \<Rightarrow> launch_facts" where
  "launchFacts rd events =
     (case lastEvent events ''Nominated'' [] of
        None \<Rightarrow> no_launch_facts
      | Some e \<Rightarrow>
          (case FindStringSubmatch nominatedClaim (ev_message e) of
             None \<Rightarrow> no_launch_facts
           | Some claim \<Rightarrow>
               let lf = read_claim rd claim
               in if launched lf \<noteq> None then lf
                  else let lf = read_refusals rd lf
                       in if standing_refusals lf = [] then lf
                          else (read_pool rd lf)\<lparr>lf_cache := fst (lq_cache rd), lf_cacheErr := snd (lq_cache rd)\<rparr>))"

end
