(* ===== verification/Launch_Correct.thy ===== *)
theory Launch_Correct
  imports Launch
begin

text \<open>
  What is said of a node that does not come: every refusal reported is one Karpenter stands by, the
  refused sizes are sorted by what they were refused for, and no zone the cloud refused is offered.
\<close>

section \<open>The refused sizes\<close>

lemma set_appendMissing [simp]: "set (appendMissing l s) = insert s (set l)"
  by (auto simp: appendMissing_def)

lemma set_without [simp]: "set (without l d) = set l - set d"
  by (auto simp: without_def)

text \<open>What reading a refusal leaves as it is, and that every size named is refused.\<close>

definition unsorted :: "capacity_refusal \<times> string list \<Rightarrow> bool" where
  "unsorted x \<longleftrightarrow> cr_capacity (fst x) = [] \<and> cr_quotaTypes (fst x) = [] \<and> cr_otherTypes (fst x) = [] \<and>
     set (snd x) \<subseteq> set (cr_refused (fst x))"

lemma unsorted_asked: "unsorted (asked_capacity lf, [])"
  by (simp add: unsorted_def asked_capacity_def no_capacity_refusal_def Let_def)

lemma unsorted_size: "unsorted x \<Longrightarrow> unsorted (read_size x sz)"
  by (cases x) (auto simp: unsorted_def read_size_def)

lemma unsorted_sizes: "unsorted x \<Longrightarrow> unsorted (foldl read_size x szs)"
  by (induction szs arbitrary: x) (simp_all add: unsorted_size)

lemma unsorted_error: "unsorted (cr, short) \<Longrightarrow> unsorted (read_fleet_error cr e, short)"
  by (simp add: unsorted_def read_fleet_error_def)

lemma unsorted_errors: "unsorted (cr, short) \<Longrightarrow> unsorted (foldl read_fleet_error cr es, short)"
  by (induction es arbitrary: cr) (simp_all add: unsorted_error)

lemma unsorted_refusal: "unsorted x \<Longrightarrow> unsorted (read_refusal x r)"
proof -
  assume x: "unsorted x"
  obtain cr short where y: "foldl read_size x (FindAllStringSubmatch refusedSize (lr_message r)) = (cr, short)"
    by (cases "foldl read_size x (FindAllStringSubmatch refusedSize (lr_message r))")
  from unsorted_sizes [OF x, of "FindAllStringSubmatch refusedSize (lr_message r)"] y have "unsorted (cr, short)" by simp
  from unsorted_errors [OF this, of "fleetErrors (lr_message r)"] show ?thesis
    unfolding read_refusal_def y by (simp add: unsorted_def Let_def)
qed

lemma unsorted_refusals: "unsorted x \<Longrightarrow> unsorted (foldl read_refusal x rs)"
  by (induction rs arbitrary: x) (simp_all add: unsorted_refusal)

text \<open>C16. Every size a refusal covers is blamed on exactly one cause: the refused sizes are those refused
  for capacity, those the vCPU quota refused and those another error refused, no size is refused for
  capacity and for something else, the quota and another error never share the blame, and sizes are put
  on the quota only when the cloud named it. No zone that was asked for is offered as one with capacity,
  and a pool that pins no zone is not said to be pinned by the cache claim.\<close>

theorem refused_sizes_partitioned:
  "let cr = capacity lf rs in
     set (cr_refused cr) = set (cr_capacity cr) \<union> set (cr_quotaTypes cr) \<union> set (cr_otherTypes cr) \<and>
     set (cr_capacity cr) \<inter> (set (cr_quotaTypes cr) \<union> set (cr_otherTypes cr)) = {} \<and>
     \<not> (cr_quotaTypes cr \<noteq> [] \<and> cr_otherTypes cr \<noteq> []) \<and> \<not> (cr_quotaTypes cr \<noteq> [] \<and> \<not> cr_quota cr) \<and>
     set (cr_available cr) \<inter> set (cr_requested cr) = {} \<and>
     \<not> (cr_unpinned cr \<and> cr_pinnedByCache cr = Some True)"
proof -
  obtain cr short where x: "foldl read_refusal (asked_capacity lf, []) rs = (cr, short)"
    by (cases "foldl read_refusal (asked_capacity lf, []) rs")
  have u: "cr_capacity cr = []" "cr_quotaTypes cr = []" "cr_otherTypes cr = []" "set short \<subseteq> set (cr_refused cr)"
    using unsorted_refusals [OF unsorted_asked, of lf rs] x by (simp_all add: unsorted_def)
  show ?thesis
  proof (cases "short = [] \<and> \<not> cr_quota cr")
    case True
    then show ?thesis by (simp add: capacity_def x no_capacity_refusal_def)
  next
    case False
    then have c: "capacity lf rs =
        (let cr = by_reason cr short; cr = cr\<lparr>cr_available := without (cr_available cr) (cr_requested cr)\<rparr>;
             pin = pinnedByCache lf (cr_requested cr)
         in cr\<lparr>cr_cacheClaim := cl_claim (lf_cache lf),
               cr_pinnedByCache := (if cr_unpinned cr \<and> pin \<noteq> None then Some False else pin)\<rparr>)"
      unfolding capacity_def x by (simp only: prod.case if_False)
    show ?thesis unfolding c using u by (auto simp: Let_def by_reason_def)
  qed
qed

section \<open>The NodePool of a claim\<close>

lemma cut_last_append: "c \<notin> set s \<Longrightarrow> cut_last c (p @ c # s) = Some (p, s)"
proof -
  assume "c \<notin> set s"
  then have "takeWhile (\<lambda>x. x \<noteq> c) (rev s @ c # rev p) = rev s" "dropWhile (\<lambda>x. x \<noteq> c) (rev s @ c # rev p) = c # rev p"
    by (subst takeWhile_append2 dropWhile_append2; auto)+
  then show ?thesis by (simp add: cut_last_def)
qed

lemma cut_last_some: "cut_last c s = Some (p, t) \<Longrightarrow> s = p @ c # t \<and> c \<notin> set t"
proof -
  assume a: "cut_last c s = Some (p, t)"
  then have c: "c \<in> set s" and p: "p = rev (tl (dropWhile (\<lambda>x. x \<noteq> c) (rev s)))"
    and t: "t = rev (takeWhile (\<lambda>x. x \<noteq> c) (rev s))"
    by (auto simp: cut_last_def split: if_splits)
  from c have d: "dropWhile (\<lambda>x. x \<noteq> c) (rev s) \<noteq> []" by (auto simp: dropWhile_eq_Nil_conv)
  then have "hd (dropWhile (\<lambda>x. x \<noteq> c) (rev s)) = c" using hd_dropWhile by blast
  with d have "dropWhile (\<lambda>x. x \<noteq> c) (rev s) = c # rev p" unfolding p by (metis list.collapse rev_rev_ident)
  then have "rev s = rev t @ c # rev p" unfolding t by (metis rev_rev_ident takeWhile_dropWhile_id)
  then have "s = rev (rev t @ c # rev p)" by (metis rev_rev_ident)
  moreover have "c \<notin> set t" unfolding t by (auto dest: set_takeWhileD)
  ultimately show ?thesis by simp
qed

text \<open>The NodePool of a claim is read back from the name Karpenter gave the claim: the pool's name, a
  dash and five characters without a dash; no other name belongs to the pool.\<close>

theorem claim_pool_read_back:
  assumes "pool \<noteq> []"
  shows "nodeClaimPool claim = pool \<longleftrightarrow>
    (\<exists>s. claim = pool @ ''-'' @ s \<and> length s = 5 \<and> CHR ''-'' \<notin> set s)"
proof
  assume "nodeClaimPool claim = pool"
  with assms obtain s where "cut_last (CHR ''-'') claim = Some (pool, s)" "length s = 5"
    by (auto simp: nodeClaimPool_def nodeClaimSuffix_def split: option.splits if_splits)
  with cut_last_some show "\<exists>s. claim = pool @ ''-'' @ s \<and> length s = 5 \<and> CHR ''-'' \<notin> set s" by fastforce
next
  assume "\<exists>s. claim = pool @ ''-'' @ s \<and> length s = 5 \<and> CHR ''-'' \<notin> set s"
  with assms show "nodeClaimPool claim = pool"
    by (auto simp: nodeClaimPool_def nodeClaimSuffix_def cut_last_append)
qed

lemma claim_pool_read_back_witness: "nodeClaimPool ''gpu-large-7xk2p'' = ''gpu-large''"
  using claim_pool_read_back [of "''gpu-large''" "''gpu-large-7xk2p''"] by simp

section \<open>The refusals reported\<close>

lemma parseClaim_launched:
  "st_launched (foldl (launched_condition ck n) s cs) = st_launched s \<and>
     st_reason (foldl (launched_condition ck n) s cs) = st_reason s \<or>
   (\<exists>c\<in>set cs. cc_type c = conditionLaunched \<and> st_launched (foldl (launched_condition ck n) s cs) = cc_status c \<and>
      st_reason (foldl (launched_condition ck n) s cs) = cc_reason c)"
  by (induction cs rule: rev_induct) (auto simp: launched_condition_def)

lemma parseClaim_created: "st_created (parseClaim ck c) = nc_created c"
proof -
  have "st_created (foldl (launched_condition ck n) s cs) = st_created s" for n s cs
    by (induction cs arbitrary: s) (simp_all add: launched_condition_def)
  then show ?thesis by (simp add: parseClaim_def)
qed

text \<open>What a refusal rests on: an event Karpenter wrote on a claim of the same pool, after the claim it
  nominated for the pod was created, or that claim's own condition.\<close>

definition by_event :: "launch_reads \<Rightarrow> string \<Rightarrow> launch_refusal \<Rightarrow> kube_event \<Rightarrow> bool" where
  "by_event rd claim r e \<longleftrightarrow>
     ev_type e = ''Warning'' \<and> ev_kind e = kindNodeClaim \<and> List.member launchRefusalEvents (ev_reason e) \<and>
     nodeClaimPool claim \<noteq> [] \<and> nodeClaimPool (ev_object e) = nodeClaimPool claim \<and>
     lr_claim r = ev_object e \<and> lr_reason r = ev_reason e \<and> lr_at r = eventTime (Some e) False \<and>
     (case lq_claim rd claim of Inr c \<Rightarrow> nc_created c < lr_at r | Inl _ \<Rightarrow> True)"

definition by_condition :: "launch_reads \<Rightarrow> string \<Rightarrow> launch_refusal \<Rightarrow> bool" where
  "by_condition rd claim r \<longleftrightarrow>
     lr_claim r = claim \<and>
     (\<exists>c. lq_claim rd claim = Inr c \<and>
       (\<exists>cond\<in>set (nc_conditions c). cc_type cond = conditionLaunched \<and> cc_status cond = ''False'' \<and> lr_reason r = cc_reason cond))"

definition nominated :: "kube_event list \<Rightarrow> string \<Rightarrow> bool" where
  "nominated events claim \<longleftrightarrow>
     (\<exists>e. lastEvent events ''Nominated'' [] = Some e \<and> FindStringSubmatch nominatedClaim (ev_message e) = Some claim)"

lemma claim_refused_condition:
  assumes "r \<in> set (claim_refused claim (Some (parseClaim ck c)))" "lq_claim rd claim = Inr c"
  shows "by_condition rd claim r"
proof -
  from assms(1) have f: "st_launched (parseClaim ck c) = ''False''" and r: "lr_claim r = claim" "lr_reason r = st_reason (parseClaim ck c)"
    by (auto simp: claim_refused_def split: if_splits)
  let ?s = "\<lparr>st_created = nc_created c, st_launched = [], st_since = 0, st_reason = [], st_message = [],
    st_node = nc_nodeName c, st_asked = parseRequirements (nc_requirements c)\<rparr>"
  have "st_launched (parseClaim ck c) \<noteq> st_launched ?s" using f by simp
  with parseClaim_launched [of ck "nc_name c" ?s "nc_conditions c"] obtain cond :: claim_condition where
    "cond \<in> set (nc_conditions c)" "cc_type cond = conditionLaunched" "st_launched (parseClaim ck c) = cc_status cond"
    "st_reason (parseClaim ck c) = cc_reason cond"
    unfolding parseClaim_def [symmetric] by blast
  with r f assms(2) show ?thesis unfolding by_condition_def by auto
qed

lemma launchRefusals_event:
  assumes "launchRefusals rd (nodeClaimPool claim) = Inr rs" "r \<in> set rs"
    "case lq_claim rd claim of Inr c \<Rightarrow> nc_created c < lr_at r | Inl _ \<Rightarrow> True"
  shows "\<exists>es e. lq_events rd = Inr es \<and> e \<in> set es \<and> by_event rd claim r e"
  using assms by (auto simp: launchRefusals_def by_event_def split: if_splits sum.splits) blast+

lemma read_claim_sel:
  "lf_claim (read_claim rd claim) = claim" "lf_refusals (read_claim rd claim) = []"
  "lf_state (read_claim rd claim) = (case lq_claim rd claim of Inr c \<Rightarrow> Some (parseClaim (lq_clock rd) c) | Inl _ \<Rightarrow> None)"
  by (auto simp: read_claim_def no_launch_facts_def Let_def split: sum.split)

lemma read_refusals_sel:
  "lf_claim (read_refusals rd lf) = lf_claim lf" "lf_state (read_refusals rd lf) = lf_state lf"
  "lf_refusals (read_refusals rd lf) =
     (case launchRefusals rd (nodeClaimPool (lf_claim lf)) of Inl e \<Rightarrow> lf_refusals lf | Inr rs \<Rightarrow> rs)"
  by (auto simp: read_refusals_def split: sum.split)

lemma read_pool_sel:
  "lf_claim (read_pool rd lf) = lf_claim lf" "lf_state (read_pool rd lf) = lf_state lf"
  "lf_refusals (read_pool rd lf) = lf_refusals lf"
  by (auto simp: read_pool_def Let_def split: sum.split prod.split)

lemma standing_cong:
  "lf_claim a = lf_claim b \<Longrightarrow> lf_state a = lf_state b \<Longrightarrow> lf_refusals a = lf_refusals b \<Longrightarrow>
   standing_refusals a = standing_refusals b"
  by (simp add: standing_refusals_def)

text \<open>C15. A refusal is reported only while Karpenter stands by it: it was nominated a claim that did not
  launch, and each refusal is that claim's own condition (Launched is False), or a Warning event of a
  refusal reason on a claim of the same pool, newer than the nominated claim when that one was read.\<close>

theorem reported_refusal_stands:
  assumes "r \<in> set (standing_refusals (launchFacts rd events))"
  shows "launched (launchFacts rd events) = None \<and>
    (\<exists>claim. nominated events claim \<and>
       (by_condition rd claim r \<or> (\<exists>es e. lq_events rd = Inr es \<and> e \<in> set es \<and> by_event rd claim r e)))"
proof -
  have empty: "standing_refusals no_launch_facts = []"
    by (simp add: standing_refusals_def no_launch_facts_def claim_refused_def)
  from assms empty obtain claim where n: "nominated events claim"
    and lf: "launchFacts rd events =
      (let lf = read_claim rd claim
       in if launched lf \<noteq> None then lf
          else let lf = read_refusals rd lf
               in if standing_refusals lf = [] then lf
                  else (read_pool rd lf)\<lparr>lf_cache := fst (lq_cache rd), lf_cacheErr := snd (lq_cache rd)\<rparr>)"
    by (auto simp: nominated_def launchFacts_def split: option.splits)
  let ?c = "read_claim rd claim" and ?r = "read_refusals rd (read_claim rd claim)"
  have l: "launched ?c = None"
  proof (rule ccontr)
    assume "launched ?c \<noteq> None"
    with lf assms show False
      by (auto simp: Let_def standing_refusals_def claim_refused_def launched_def read_claim_sel split: option.splits if_splits)
  qed
  have same: "standing_refusals (launchFacts rd events) = standing_refusals ?r"
    "launched (launchFacts rd events) = launched ?c"
    using l by (auto simp: lf Let_def launched_def read_refusals_sel read_pool_sel intro!: standing_cong)
  with assms have r: "r \<in> set (standing_refusals ?r)" by simp
  then consider "r \<in> set (lf_refusals ?r)" "case lf_state ?r of None \<Rightarrow> True | Some s \<Rightarrow> lr_at r > st_created s"
    | "r \<in> set (claim_refused claim (lf_state ?r))"
    by (auto simp: standing_refusals_def read_refusals_sel read_claim_sel)
  then have "by_condition rd claim r \<or> (\<exists>es e. lq_events rd = Inr es \<and> e \<in> set es \<and> by_event rd claim r e)"
  proof cases
    case 1
    then have "case lq_claim rd claim of Inr c \<Rightarrow> nc_created c < lr_at r | Inl _ \<Rightarrow> True"
      by (auto simp: read_refusals_sel read_claim_sel parseClaim_created split: sum.splits)
    with 1(1) launchRefusals_event [of rd claim] show ?thesis
      by (auto simp: read_refusals_sel read_claim_sel split: sum.splits)
  next
    case 2
    then show ?thesis
      by (auto simp: read_refusals_sel read_claim_sel claim_refused_condition split: sum.splits simp: claim_refused_def)
  qed
  with n l same(2) show ?thesis by auto
qed

section \<open>Witness\<close>

definition w_nominated :: kube_event where
  "w_nominated = \<lparr>ev_type = ''Normal'', ev_reason = ''Nominated'',
     ev_message = ''Pod should schedule on: nodeclaim/gpu-7xk2p'', ev_kind = ''Pod'', ev_object = ''llama'', ev_fieldPath = [],
     ev_first = 1, ev_last = 1, ev_time = 0, ev_created = 1\<rparr>"

definition w_refused :: node_claim where
  "w_refused = \<lparr>nc_name = ''gpu-7xk2p'', nc_created = 1, nc_nodeName = [], nc_requirements = [],
     nc_conditions = [\<lparr>cc_type = ''Launched'', cc_status = ''False'', cc_reason = ''LaunchFailed'', cc_message = [], cc_since = []\<rparr>]\<rparr>"

definition w_launch :: launch_reads where
  "w_launch = \<lparr>lq_claim = (\<lambda>_. Inr w_refused), lq_events = Inr [], lq_pool = (\<lambda>_. Inl (Err [] ''forbidden'')),
     lq_subnetZones = (\<lambda>_. Inr []), lq_cache = (no_cache, None), lq_notFound = (\<lambda>_. False),
     lq_clock = \<lparr>ck_show = (\<lambda>_. []), ck_parse = (\<lambda>_. None)\<rparr>\<rparr>"

lemma w_launch_refused:
  "\<lparr>lr_claim = ''gpu-7xk2p'', lr_reason = ''LaunchFailed'', lr_message = [], lr_at = 0\<rparr>
     \<in> set (standing_refusals (launchFacts w_launch [w_nominated]))"
proof -
  have "standing_refusals (launchFacts w_launch [w_nominated]) =
      [\<lparr>lr_claim = ''gpu-7xk2p'', lr_reason = ''LaunchFailed'', lr_message = [], lr_at = 0\<rparr>]"
    by code_simp
  then show ?thesis by simp
qed

lemma reported_refusal_stands_witness:
  "\<exists>claim. nominated [w_nominated] claim \<and>
     by_condition w_launch claim \<lparr>lr_claim = ''gpu-7xk2p'', lr_reason = ''LaunchFailed'', lr_message = [], lr_at = 0\<rparr>"
  using reported_refusal_stands [OF w_launch_refused] by (auto simp: w_launch_def)

end
