(* ===== verification/Phases.thy ===== *)
theory Phases
  imports Launch Fit
begin

text \<open>
  Where a serve is (\<open>internal/backend/kserve/phases.go\<close> and the pod's part of \<open>served.go\<close>): the steps of a
  serve, computed from the predictor pod, its events, its node and Karpenter's account, the phase they
  name, and what a served model's row says of it.
\<close>

section \<open>The pod\<close>

record terminated =
  tm_exit :: int
  tm_reason :: string
  tm_message :: string
  tm_started :: gotime
  tm_finished :: gotime

record waiting =
  wt_reason :: string
  wt_message :: string

record container_status =
  kc_name :: string
  kc_ready :: bool
  kc_restarts :: int
  kc_waiting :: "waiting option"
  kc_running :: "gotime option"
  kc_terminated :: "terminated option"
  kc_lastTerminated :: "terminated option"

record pod_condition =
  pc_kind :: string
  pc_status :: string
  pc_reason :: string
  pc_message :: string
  pc_since :: gotime

record container_resources =
  rs_requests :: "string \<rightharpoonup> int"
  rs_limits :: "string \<rightharpoonup> int"

record pod =
  pd_created :: gotime
  pd_nodeName :: string
  pd_initContainers :: nat
  pd_containers :: "container_resources list"
  pd_restartNever :: bool
  pd_pending :: bool
  pd_terminating :: bool
  pd_reason :: string
  pd_message :: string
  pd_nominatedNode :: string
  pd_conditions :: "pod_condition list"
  pd_initStatuses :: "container_status list"
  pd_statuses :: "container_status list"

record crash_log =
  kl_line :: string
  kl_memlock :: bool
  kl_err :: "err option"

record pod_facts =
  pf_pod :: "pod option"
  pf_events :: "kube_event list"
  pf_nodeKnown :: bool
  pf_nodeGPUs :: int
  pf_gpuResource :: string
  pf_now :: gotime
  pf_crash :: crash_log
  pf_launch :: launch_facts
  pf_scaleUpTimeout :: duration
  pf_clock :: clock

definition initContainerName :: string where "initContainerName = ''storage-initializer''"
definition cachedWithin :: duration where "cachedWithin = 15 * second"
definition downloadStallAfter :: duration where "downloadStallAfter = 30 * minute"
definition crashLogTail :: int where "crashLogTail = 200"
definition crashLineMax :: nat where "crashLineMax = 240"
definition podScheduled :: string where "podScheduled = ''PodScheduled''"
definition containersReady :: string where "containersReady = ''ContainersReady''"
definition reasonNodeStarting :: string where "reasonNodeStarting = ''NodeStarting''"
definition reasonDownloadingWeights :: string where "reasonDownloadingWeights = ''DownloadingWeights''"
definition reasonDownloadStalled :: string where "reasonDownloadStalled = ''DownloadStalled''"
definition reasonLoadingModel :: string where "reasonLoadingModel = ''LoadingModel''"
definition reasonWaitingForPod :: string where "reasonWaitingForPod = ''WaitingForPod''"
definition reasonCrashLoop :: string where "reasonCrashLoop = ''CrashLoop''"

definition conditionIs :: "pod \<Rightarrow> string \<Rightarrow> string \<Rightarrow> bool" where
  "conditionIs p kind status =
     (case find (\<lambda>c. pc_kind c = kind) (pd_conditions p) of Some c \<Rightarrow> pc_status c = status | None \<Rightarrow> False)"

definition conditionTime :: "pod \<Rightarrow> string \<Rightarrow> gotime \<Rightarrow> gotime" where
  "conditionTime p kind fallback =
     (case find (\<lambda>c. pc_kind c = kind \<and> pc_since c \<noteq> 0) (pd_conditions p) of Some c \<Rightarrow> pc_since c | None \<Rightarrow> fallback)"

definition containerStatus :: "container_status list \<Rightarrow> string \<Rightarrow> container_status option" where
  "containerStatus l n = find (\<lambda>c. kc_name c = n) l"

definition runtimeStatus :: "pod \<Rightarrow> container_status option" where
  "runtimeStatus p = (case pd_statuses p of [] \<Rightarrow> None | c # _ \<Rightarrow> Some c)"

definition containerStart :: "container_status \<Rightarrow> gotime \<Rightarrow> gotime" where
  "containerStart c fallback =
     (case kc_running c of Some t \<Rightarrow> if t \<noteq> 0 then t else fallback | None \<Rightarrow> fallback)"

definition crashed :: "container_status \<Rightarrow> bool" where
  "crashed c \<longleftrightarrow> kc_restarts c > 0 \<or> kc_lastTerminated c \<noteq> None \<or> kc_terminated c \<noteq> None"

definition isPullFailure :: "string \<Rightarrow> bool" where
  "isPullFailure r \<longleftrightarrow> List.member [''ImagePullBackOff'', ''ErrImagePull'', ''InvalidImageName'', ''ErrImageNeverPull'',
     ''CreateContainerConfigError'', ''CreateContainerError''] r"

definition isCrash :: "string \<Rightarrow> bool" where
  "isCrash r \<longleftrightarrow> r = ''CrashLoopBackOff'' \<or> r = ''RunContainerError''"

definition nonEmpty :: "string \<Rightarrow> string \<Rightarrow> string" where
  "nonEmpty s fallback = (if trim_space s = [] then fallback else s)"

definition nonzero_in :: "(string \<rightharpoonup> int) \<Rightarrow> string \<Rightarrow> bool" where
  "nonzero_in m k = (case m k of Some q \<Rightarrow> q \<noteq> 0 | None \<Rightarrow> False)"

definition requestsGPU :: "pod \<Rightarrow> string \<Rightarrow> bool" where
  "requestsGPU p gpu = list_ex (\<lambda>c. nonzero_in (rs_requests c) gpu \<or> nonzero_in (rs_limits c) gpu) (pd_containers p)"

definition lastTermination :: "container_status \<Rightarrow> string" where
  "lastTermination c =
     (case kc_lastTerminated c of
        None \<Rightarrow> ''no termination recorded''
      | Some t \<Rightarrow> ''last exit '' @ show_int (tm_exit t) @ '' '' @ tm_reason t @ '' '' @ trim_space (tm_message t))"

section \<open>A crashed runtime\<close>

definition errorLine :: re where
  "errorLine = Alt (lit ''Error'') (Alt (lit ''Traceback'') (Alt (lit ''Exception'') (lit ''denied'')))"

definition exceptionAt :: re where
  "exceptionAt = seq [Boundary, Chr is_upper, Star (Chr word_char), Alt (lit ''Error'') (lit ''Exception''), Boundary, lit '': '']"

definition memlockLine :: re where
  "memlockLine = Alt (lit ''could not lock'')
     (seq [lit ''mlock'', Star (Chr (\<lambda>c. c \<noteq> CHR 0x0A)), lit ''Cannot allocate memory''])"

definition cudaOutOfMemory :: re where
  "cudaOutOfMemory = Alt (lit ''OutOfMemoryError'') (Alt (lit ''CUDA out of memory'') (lit ''cudaErrorMemoryAllocation''))"

definition memlockHint :: string where
  "memlockHint = ''the runtime could not lock its memory, so the out-of-memory is the node's locked-memory limit, not the GPU: '' @
     ''containers inherit containerd's LimitMEMLOCK '' @ em_dash @ '' give containerd.service a drop-in with LimitMEMLOCK=infinity, '' @
     ''then systemctl daemon-reload and restart containerd''"

definition from_match :: "re \<Rightarrow> string \<Rightarrow> string" where
  "from_match r s =
     (case first_match \<lparr>pt_before = Eps, pt_group = r, pt_after = Eps\<rparr> [] s of Some (p, _) \<Rightarrow> snd p | None \<Rightarrow> s)"

definition lastErrorLine :: "string \<Rightarrow> string" where
  "lastErrorLine logged =
     (let line = (case filter (MatchString errorLine) (Split logged [CHR 0x0A]) of [] \<Rightarrow> [] | ls \<Rightarrow> trim_space (last ls))
      in bound_runes crashLineMax (from_match exceptionAt line))"

definition readCrashLog :: "string \<Rightarrow> crash_log" where
  "readCrashLog logged = \<lparr>kl_line = lastErrorLine logged,
     kl_memlock = (MatchString memlockLine logged \<and> MatchString cudaOutOfMemory logged), kl_err = None\<rparr>"

definition exit_words :: "container_status \<Rightarrow> string" where
  "exit_words c =
     (case (case kc_terminated c of Some t \<Rightarrow> Some t | None \<Rightarrow> kc_lastTerminated c) of
        None \<Rightarrow> ''exit code unknown''
      | Some t \<Rightarrow> ''exit '' @ show_int (tm_exit t) @
          (if tm_reason t \<noteq> [] \<and> tm_reason t \<noteq> ''Error'' then '', '' @ tm_reason t else []))"

definition crashMessage :: "container_status \<Rightarrow> crash_log \<Rightarrow> string \<Rightarrow> string" where
  "crashMessage c logged kubelet =
     (let n = (if kc_running c = None then kc_restarts c + 1 else kc_restarts c)
      in ''runtime crashed '' @ show_int n @ times_sign @ '' ('' @ exit_words c @ '')'' @
         (case kl_err logged of
            Some e \<Rightarrow> ''; the crashed container's log could not be read ('' @ err_msg e @ '')''
          | None \<Rightarrow> if kl_line logged = []
                    then ''; no error line in the last '' @ show_int crashLogTail @ '' lines of the crashed container's log''
                    else '': '' @ kl_line logged) @
         (if kl_memlock logged then ''; '' @ memlockHint else []) @
         (if trim_space kubelet \<noteq> [] then ''; '' @ trim_space kubelet else []))"

section \<open>The timeline\<close>

datatype step_state = StepPending | StepInProgress | StepDone | StepFailed

record serve_step =
  sg_name :: string
  sg_state :: step_state
  sg_since :: "gotime option"
  sg_finished :: "gotime option"
  sg_reason :: string
  sg_message :: string
  sg_bytesCompleted :: int
  sg_bytesTotal :: int
  sg_cached :: "bool option"
  sg_refused :: "string list"
  sg_requested :: "string list"
  sg_available :: "string list"
  sg_pinned :: "bool option"

definition ServePhases :: "string list" where
  "ServePhases = [''scheduling'', ''nodeStarting'', ''downloadingWeights'', ''pullingImage'', ''loading'', ''routing'', ''ready'']"

definition PhaseReady :: string where "PhaseReady = ''ready''"
definition PhaseFailed :: string where "PhaseFailed = ''failed''"

abbreviation "stepScheduling \<equiv> 0 :: nat"
abbreviation "stepNodeStarting \<equiv> 1 :: nat"
abbreviation "stepWeights \<equiv> 2 :: nat"
abbreviation "stepImage \<equiv> 3 :: nat"
abbreviation "stepLoading \<equiv> 4 :: nat"
abbreviation "stepRouting \<equiv> 5 :: nat"
abbreviation "stepReady \<equiv> 6 :: nat"

type_synonym timeline = "serve_step list"

definition pending_step :: "string \<Rightarrow> serve_step" where
  "pending_step n = \<lparr>sg_name = n, sg_state = StepPending, sg_since = None, sg_finished = None, sg_reason = [], sg_message = [],
     sg_bytesCompleted = 0, sg_bytesTotal = 0, sg_cached = None, sg_refused = [], sg_requested = [], sg_available = [], sg_pinned = None\<rparr>"

definition newTimeline :: timeline where "newTimeline = map pending_step ServePhases"

definition timePtr :: "gotime \<Rightarrow> gotime option" where "timePtr t = (if t = 0 then None else Some t)"

definition on_step :: "nat \<Rightarrow> (serve_step \<Rightarrow> serve_step) \<Rightarrow> timeline \<Rightarrow> timeline" where
  "on_step i f t = t[i := f (t ! i)]"

definition begin_step :: "nat \<Rightarrow> gotime \<Rightarrow> timeline \<Rightarrow> timeline" where
  "begin_step i since = on_step i (\<lambda>s. s\<lparr>sg_state := StepInProgress, sg_since := timePtr since\<rparr>)"

definition note_step :: "nat \<Rightarrow> string \<Rightarrow> string \<Rightarrow> timeline \<Rightarrow> timeline" where
  "note_step i reason message = on_step i (\<lambda>s. s\<lparr>sg_reason := reason, sg_message := trim_space message\<rparr>)"

definition done_step :: "nat \<Rightarrow> gotime \<Rightarrow> string \<Rightarrow> timeline \<Rightarrow> timeline" where
  "done_step i t message = on_step i (\<lambda>s. s\<lparr>sg_state := StepDone,
     sg_since := (case sg_since s of None \<Rightarrow> timePtr t | Some x \<Rightarrow> Some x), sg_finished := timePtr t,
     sg_reason := [], sg_message := trim_space message\<rparr>)"

definition fail_step :: "nat \<Rightarrow> string \<Rightarrow> string \<Rightarrow> timeline \<Rightarrow> timeline" where
  "fail_step i reason message t = note_step i reason message (on_step i (\<lambda>s. s\<lparr>sg_state := StepFailed\<rparr>) t)"

definition say_step :: "nat \<Rightarrow> string \<Rightarrow> timeline \<Rightarrow> timeline" where
  "say_step i message = on_step i (\<lambda>s. s\<lparr>sg_message := message\<rparr>)"

definition refused_step :: "nat \<Rightarrow> capacity_refusal option \<Rightarrow> timeline \<Rightarrow> timeline" where
  "refused_step i cr t =
     (case cr of
        None \<Rightarrow> t
      | Some cr \<Rightarrow> on_step i (\<lambda>s. s\<lparr>sg_refused := cr_refused cr, sg_requested := cr_requested cr,
          sg_available := cr_available cr, sg_pinned := cr_pinnedByCache cr\<rparr>) t)"

fun phase_of :: "string \<Rightarrow> timeline \<Rightarrow> string" where
  "phase_of current [] = current"
| "phase_of current (s # ss) =
     (if sg_state s = StepFailed then PhaseFailed
      else if sg_state s = StepInProgress \<and> current = PhaseReady then phase_of (sg_name s) ss
      else phase_of current ss)"

definition timeline_phase :: "bool \<Rightarrow> timeline \<Rightarrow> string" where
  "timeline_phase deleting t = (if deleting then phase_terminating else phase_of PhaseReady t)"

definition under_way :: "serve_step \<Rightarrow> bool" where
  "under_way s \<longleftrightarrow> sg_state s = StepInProgress \<or> sg_state s = StepFailed"

definition current_step :: "timeline \<Rightarrow> serve_step option" where "current_step t = find under_way t"

fun index_of :: "nat \<Rightarrow> string \<Rightarrow> string list \<Rightarrow> nat" where
  "index_of i n [] = 0"
| "index_of i n (x # xs) = (if x = n then i else index_of (Suc i) n xs)"

definition indexOf :: "string \<Rightarrow> nat" where "indexOf n = index_of 0 n ServePhases"

definition stepEnd :: "timeline \<Rightarrow> nat \<Rightarrow> gotime \<Rightarrow> gotime" where
  "stepEnd t i fallback = (case sg_finished (t ! i) of Some x \<Rightarrow> x | None \<Rightarrow> fallback)"

section \<open>The steps of a serve\<close>

text \<open>A node for a pod that is not bound: when it came and what is said of it.\<close>

definition nodeLaunched :: "pod_facts \<Rightarrow> pod \<Rightarrow> gotime \<Rightarrow> (gotime \<times> string) option" where
  "nodeLaunched pf p nominatedAt =
     (if pd_nominatedNode p \<noteq> []
      then Some (if nominatedAt = 0 then pf_now pf else nominatedAt, ''nominated to node '' @ pd_nominatedNode p)
      else let lf = pf_launch pf
           in map_option (\<lambda>t. (t,
                (case lf_state lf of
                   Some s \<Rightarrow> if st_node s \<noteq> []
                     then ''NodeClaim '' @ lf_claim lf @ '' launched node '' @ st_node s @ ''; its GPU is not allocatable yet''
                     else ''NodeClaim '' @ lf_claim lf @ '' launched an instance; the node is registering''
                 | None \<Rightarrow> ''NodeClaim '' @ lf_claim lf @ '' launched an instance; the node is registering'')))
              (launched lf))"

definition podPendingReason :: "pod \<Rightarrow> string \<times> string" where
  "podPendingReason p =
     (case find (\<lambda>c. case kc_waiting c of Some w \<Rightarrow> wt_reason w \<noteq> [] \<and> wt_reason w \<noteq> ''PodInitializing'' | None \<Rightarrow> False)
             (pd_initStatuses p @ pd_statuses p) of
        Some c \<Rightarrow> (wt_reason (the (kc_waiting c)), wt_message (the (kc_waiting c)))
      | None \<Rightarrow>
          (case find (\<lambda>c. pc_kind c = podScheduled \<and> pc_status c = ''False'') (pd_conditions p) of
             Some c \<Rightarrow> (pc_reason c, pc_message c)
           | None \<Rightarrow> (pd_reason p, pd_message p)))"

definition claim_words :: "pod_facts \<Rightarrow> string \<times> string \<times> capacity_refusal option" where
  "claim_words pf =
     (let lf = pf_launch pf; all = standing_refusals lf
      in if all \<noteq> []
         then let cr = capacity lf all
              in (reasonCapacityUnavailable, refusalMessage (pf_clock pf) (last all) (length all) cr, Some cr)
         else (reasonNodeLaunching,
               (if lf_state lf = None \<and> lf_claimErr lf = None
                then ''Karpenter nominated NodeClaim '' @ lf_claim lf @ '', which is gone, and no refusal is recorded for the pool; it retries''
                else ''Karpenter nominated NodeClaim '' @ lf_claim lf @ ''; no instance has launched yet''), None))"

definition schedulingReason :: "pod_facts \<Rightarrow> pod \<Rightarrow> kube_event option \<Rightarrow> string \<times> string \<times> capacity_refusal option" where
  "schedulingReason pf p nominated =
     (if lf_claim (pf_launch pf) \<noteq> []
      then (case claim_words pf of (reason, message, refusal) \<Rightarrow>
              let u = unread (pf_launch pf)
              in (reason, if u \<noteq> [] then message @ ''; '' @ u else message, refusal))
      else case nominated of
             Some e \<Rightarrow> (reasonNodeLaunching, ev_message e, None)
           | None \<Rightarrow>
               (case podPendingReason p of (reason, message) \<Rightarrow>
                  if reason \<noteq> [] then (reason, message, None)
                  else case lastEvent (pf_events pf) ''FailedScheduling'' [] of
                         Some e \<Rightarrow> (ev_reason e, ev_message e, None)
                       | None \<Rightarrow> (reason, message, None)))"

text \<open>A pod that waits for its node: the budget a refusal may stand for decides whether the step failed.\<close>

definition out_of_budget :: "pod_facts \<Rightarrow> pod \<Rightarrow> capacity_refusal option \<Rightarrow> bool" where
  "out_of_budget pf p refusal \<longleftrightarrow>
     refusal \<noteq> None \<and> pf_scaleUpTimeout pf > 0 \<and> time_sub (pf_now pf) (pd_created p) > pf_scaleUpTimeout pf"

definition wait_for_node :: "pod_facts \<Rightarrow> pod \<Rightarrow> kube_event option \<Rightarrow> timeline \<Rightarrow> timeline" where
  "wait_for_node pf p nominated t =
     (case nodeLaunched pf p (eventTime nominated True) of
        Some (since, message) \<Rightarrow>
          note_step stepNodeStarting reasonNodeStarting message (begin_step stepNodeStarting since (done_step stepScheduling since [] t))
      | None \<Rightarrow>
          (case schedulingReason pf p nominated of (reason, message, refusal) \<Rightarrow>
             refused_step stepScheduling refusal
               (if out_of_budget pf p refusal
                then fail_step stepScheduling reason (message @ ''; no node came within the scale-up budget of '' @
                       show_duration (pf_scaleUpTimeout pf)) t
                else note_step stepScheduling reason message t)))"

definition scheduled_at :: "pod_facts \<Rightarrow> gotime \<Rightarrow> gotime \<Rightarrow> gotime" where
  "scheduled_at pf boundAt nominatedAt =
     (case launched (pf_launch pf) of
        Some t \<Rightarrow> if t < boundAt then t else if nominatedAt \<noteq> 0 \<and> nominatedAt < boundAt then nominatedAt else boundAt
      | None \<Rightarrow> if nominatedAt \<noteq> 0 \<and> nominatedAt < boundAt then nominatedAt else boundAt)"

definition schedule :: "pod_facts \<Rightarrow> pod \<Rightarrow> timeline \<Rightarrow> bool \<times> timeline" where
  "schedule pf p t =
     (let t = begin_step stepScheduling (pd_created p) t;
          nominated = lastEvent (pf_events pf) ''Nominated'' []
      in if \<not> conditionIs p podScheduled ''True'' then (False, wait_for_node pf p nominated t)
         else let boundAt = conditionTime p podScheduled (pd_created p);
                  scheduledAt = scheduled_at pf boundAt (eventTime nominated True);
                  t = begin_step stepNodeStarting scheduledAt (done_step stepScheduling scheduledAt [] t)
              in if pf_nodeKnown pf \<and> pf_nodeGPUs pf = 0 \<and> requestsGPU p (pf_gpuResource pf)
                 then (False, note_step stepNodeStarting reasonNodeStarting
                        (''node '' @ pd_nodeName p @ '': '' @ pf_gpuResource pf @ '' not allocatable yet'') t)
                 else (True, done_step stepNodeStarting boundAt [] t))"

definition finished_download :: "terminated \<Rightarrow> timeline \<Rightarrow> bool \<times> timeline" where
  "finished_download term t =
     (let t = begin_step stepWeights (tm_started term) t
      in if tm_exit term \<noteq> 0
         then (False, fail_step stepWeights (nonEmpty (tm_reason term) ''Error'')
                (initContainerName @ '' exited '' @ show_int (tm_exit term) @ '': '' @ nonEmpty (tm_message term) ''no message'') t)
         else let took = time_sub (tm_finished term) (tm_started term);
                  t = on_step stepWeights (\<lambda>s. s\<lparr>sg_cached := Some (took \<le> cachedWithin)\<rparr>)
                        (done_step stepWeights (tm_finished term) [] t)
              in (True, if took \<le> cachedWithin
                        then say_step stepWeights (''the cache claim already held the weights ('' @ initContainerName @
                               '' finished in '' @ show_duration (round_to took (100 * millisecond)) @ '')'') t
                        else t))"

definition running_download :: "pod_facts \<Rightarrow> container_status \<Rightarrow> gotime \<Rightarrow> timeline \<Rightarrow> timeline" where
  "running_download pf init startedAt t =
     (let t = begin_step stepWeights startedAt t; running = time_sub (pf_now pf) startedAt
      in if kc_restarts init > 0
         then fail_step stepWeights reasonDownloadStalled (initContainerName @ '' restarted '' @ show_int (kc_restarts init) @
                times_sign @ '' ('' @ lastTermination init @ '')'') t
         else if running > downloadStallAfter
         then fail_step stepWeights reasonDownloadStalled (initContainerName @ '' running for '' @
                show_duration (round_to running minute) @ '' without finishing'') t
         else note_step stepWeights reasonDownloadingWeights (initContainerName @ '' downloading the weights into the cache claim'') t)"

definition download :: "pod_facts \<Rightarrow> pod \<Rightarrow> timeline \<Rightarrow> bool \<times> timeline" where
  "download pf p t =
     (let boundAt = conditionTime p podScheduled (pd_created p)
      in case containerStatus (pd_initStatuses p) initContainerName of
           None \<Rightarrow>
             (let t = done_step stepWeights boundAt [] t
              in (True, if pd_initContainers p = 0
                        then say_step stepWeights ''no storage-initializer: the runtime fetches the weights itself'' t else t))
         | Some init \<Rightarrow>
             (case kc_terminated init of
                Some term \<Rightarrow> finished_download term t
              | None \<Rightarrow>
                  (case kc_running init of
                     Some startedAt \<Rightarrow> (False, running_download pf init startedAt t)
                   | None \<Rightarrow>
                       (let t = begin_step stepWeights boundAt t
                        in (False, case kc_waiting init of
                              None \<Rightarrow> t
                            | Some w \<Rightarrow> if isPullFailure (wt_reason w) then fail_step stepWeights (wt_reason w) (wt_message w) t
                                       else note_step stepWeights (wt_reason w) (wt_message w) t)))))"

definition event_message :: "kube_event option \<Rightarrow> string" where
  "event_message e = (case e of Some e \<Rightarrow> ev_message e | None \<Rightarrow> [])"

definition container_field :: "container_status \<Rightarrow> string" where
  "container_field c = ''spec.containers{'' @ kc_name c @ ''}''"

text \<open>A runtime container that waits: for its image, or, with the image there, to run (again).\<close>

definition waiting_runtime ::
  "pod_facts \<Rightarrow> container_status \<Rightarrow> waiting \<Rightarrow> gotime \<Rightarrow> kube_event option \<Rightarrow> kube_event option \<Rightarrow> timeline \<Rightarrow> timeline" where
  "waiting_runtime pf main w since pulling pulled t =
     (if isPullFailure (wt_reason w) then fail_step stepImage (wt_reason w) (wt_message w) t
      else if pulled = None \<and> \<not> crashed main
      then note_step stepImage (nonEmpty (wt_reason w) ''Pulling'')
             (case pulling of Some e \<Rightarrow> ev_message e | None \<Rightarrow> wt_message w) t
      else let pulledAt = (if eventTime pulled True = 0 then since else eventTime pulled True);
               t = begin_step stepLoading pulledAt (done_step stepImage pulledAt (event_message pulled) t);
               words = crashMessage main (pf_crash pf) (wt_message w)
           in if isCrash (wt_reason w) then fail_step stepLoading (wt_reason w) words t
              else if crashed main then note_step stepLoading reasonCrashLoop words t
              else note_step stepLoading (wt_reason w) (wt_message w) t)"

definition pull :: "pod_facts \<Rightarrow> pod \<Rightarrow> timeline \<Rightarrow> bool \<times> timeline" where
  "pull pf p t =
     (case runtimeStatus p of
        None \<Rightarrow> (False, begin_step stepImage (stepEnd t stepWeights (pf_now pf)) t)
      | Some main \<Rightarrow>
          let pulling = firstEvent (pf_events pf) ''Pulling'' (container_field main);
              pulled = firstEvent (pf_events pf) ''Pulled'' (container_field main);
              since = (if eventTime pulling True \<noteq> 0 then eventTime pulling True else stepEnd t stepWeights (pf_now pf));
              t = begin_step stepImage since t
          in case kc_waiting main of
               Some w \<Rightarrow> (False, waiting_runtime pf main w since pulling pulled t)
             | None \<Rightarrow>
                 (True, done_step stepImage (if eventTime pulled True = 0 then containerStart main since else eventTime pulled True)
                    (event_message pulled) t))"

definition load :: "pod_facts \<Rightarrow> pod \<Rightarrow> container_status \<Rightarrow> timeline \<Rightarrow> bool \<times> timeline" where
  "load pf p main t =
     (let since = stepEnd t stepImage (pf_now pf)
      in if crashed main
         then let t = begin_step stepLoading since t; message = crashMessage main (pf_crash pf) []
              in (False, case kc_terminated main of
                    Some term \<Rightarrow> if pd_restartNever p then fail_step stepLoading (nonEmpty (tm_reason term) ''Error'') message t
                                else note_step stepLoading reasonCrashLoop message t
                  | None \<Rightarrow> note_step stepLoading reasonCrashLoop message t)
         else let t = begin_step stepLoading (containerStart main since) t
              in if \<not> kc_ready main
                 then (False, note_step stepLoading reasonLoadingModel
                        (case lastEvent (pf_events pf) ''Unhealthy'' (container_field main) of
                           Some e \<Rightarrow> ev_message e
                         | None \<Rightarrow> ''the runtime is loading the model; the startup probe has not passed yet'') t)
                 else (True, done_step stepLoading (conditionTime p containersReady (pf_now pf)) [] t))"

section \<open>The phase of a served object\<close>

record serving = served +
  sr_ready :: bool
  sr_readyAt :: gotime
  sr_created :: gotime
  sr_failed :: bool
  sr_status :: string
  sr_reason :: string
  sr_message :: string
  sr_phase :: string
  sr_steps :: timeline

definition zero_serving :: serving where
  "zero_serving = \<lparr>sd_name = [], sd_namespace = [], sd_model = [], sd_preset = [], sd_managed = False, sd_presetLabelled = False,
     sd_storageURI = [], sd_gpus = 0, sd_utilization = Fin 0, sd_node = [], sd_placement = [], sd_nodes = [], sd_deleting = False,
     sr_ready = False, sr_readyAt = 0, sr_created = 0, sr_failed = False, sr_status = [], sr_reason = [], sr_message = [],
     sr_phase = [], sr_steps = []\<rparr>"

definition finish :: "serving \<Rightarrow> timeline \<Rightarrow> string \<times> timeline" where
  "finish sv t =
     (let t = (if sr_failed sv
               then (case current_step t of
                       Some s \<Rightarrow> if sg_state s \<noteq> StepFailed then fail_step (indexOf (sg_name s)) (sr_reason sv) (sr_message sv) t else t
                     | None \<Rightarrow> t)
               else t)
      in (timeline_phase (sd_deleting sv) t, t))"

text \<open>The steps the pod has taken: each check runs while the one before it passed.\<close>

definition pod_steps :: "pod_facts \<Rightarrow> pod \<Rightarrow> timeline \<Rightarrow> bool \<times> timeline" where
  "pod_steps pf p t =
     (case schedule pf p t of
        (False, t) \<Rightarrow> (False, t)
      | (True, t) \<Rightarrow>
          (case download pf p t of
             (False, t) \<Rightarrow> (False, t)
           | (True, t) \<Rightarrow>
               (case pull pf p t of
                  (False, t) \<Rightarrow> (False, t)
                | (True, t) \<Rightarrow>
                    (case runtimeStatus p of Some main \<Rightarrow> load pf p main t | None \<Rightarrow> (False, t)))))"

definition all_done :: "gotime \<Rightarrow> timeline \<Rightarrow> timeline" where
  "all_done since t = foldl (\<lambda>t i. done_step i since [] t) t [0..<length t]"

definition servePhase :: "serving \<Rightarrow> pod_facts \<Rightarrow> string \<times> timeline" where
  "servePhase sv pf =
     (case pf_pod pf of
        None \<Rightarrow>
          if sr_ready sv
          then (let t = all_done (sr_readyAt sv) newTimeline in (timeline_phase (sd_deleting sv) t, t))
          else finish sv (note_step stepScheduling reasonWaitingForPod ''waiting for the predictor pod''
                 (begin_step stepScheduling (sr_created sv) newTimeline))
      | Some p \<Rightarrow>
          (case pod_steps pf p newTimeline of
             (False, t) \<Rightarrow> finish sv t
           | (True, t) \<Rightarrow>
               let t = begin_step stepRouting (conditionTime p containersReady (pf_now pf)) t
               in if \<not> sr_ready sv then finish sv (note_step stepRouting (sr_reason sv) (sr_message sv) t)
                  else finish sv (done_step stepReady (sr_readyAt sv) [] (done_step stepRouting (sr_readyAt sv) [] t))))"

section \<open>The pod of a served object\<close>

record predictor_pod =
  pp_node :: string
  pp_terminating :: bool
  pp_pending :: bool
  pp_reason :: string
  pp_message :: string
  pp_found :: bool
  pp_phase :: string
  pp_steps :: timeline
  pp_facts :: "pod_facts option"

definition podRank :: "pod \<Rightarrow> predictor_pod" where
  "podRank p = \<lparr>pp_node = pd_nodeName p, pp_terminating = pd_terminating p, pp_pending = False, pp_reason = [], pp_message = [],
     pp_found = False, pp_phase = [], pp_steps = [], pp_facts = None\<rparr>"

definition outranks :: "predictor_pod \<Rightarrow> predictor_pod \<Rightarrow> bool" where
  "outranks p other =
     (if pp_terminating p \<noteq> pp_terminating other then \<not> pp_terminating p
      else pp_node p \<noteq> [] \<and> pp_node other = [])"

text \<open>The pods by the name of their object: of several pods the one that outranks the others.\<close>

fun podsByName :: "(string \<times> pod) list \<Rightarrow> (string \<times> pod) list \<Rightarrow> (string \<times> pod) list" where
  "podsByName [] out = out"
| "podsByName ((n, p) # ps) out =
     podsByName ps
       (if n = [] then out
        else case map_of out n of
               Some prev \<Rightarrow> if outranks (podRank prev) (podRank p) then out else AList.update n p out
             | None \<Rightarrow> AList.update n p out)"

definition karpenterStep :: "timeline \<Rightarrow> serve_step option" where
  "karpenterStep t =
     (case current_step t of
        Some s \<Rightarrow> if List.member [reasonCapacityUnavailable, reasonNodeLaunching, reasonNodeStarting] (sg_reason s) then Some s else None
      | None \<Rightarrow> None)"

definition predictorPodOf :: "pod \<Rightarrow> pod_facts \<Rightarrow> predictor_pod" where
  "predictorPodOf p facts =
     (let pend = podPendingReason p;
          pp = (podRank p)\<lparr>pp_found := True, pp_pending := pd_pending p,
                 pp_reason := (if pd_pending p then fst pend else []), pp_message := (if pd_pending p then snd pend else [])\<rparr>;
          (phase, steps) = servePhase zero_serving facts;
          pp = pp\<lparr>pp_phase := phase, pp_steps := steps, pp_facts := Some facts\<rparr>
      in if pd_pending p \<and> pd_nodeName p = []
         then (case karpenterStep steps of
                 Some s \<Rightarrow> pp\<lparr>pp_reason := sg_reason s, pp_message := sg_message s\<rparr> | None \<Rightarrow> pp)
         else pp)"

definition failedStep :: "timeline \<Rightarrow> serve_step option" where
  "failedStep t = find (\<lambda>s. sg_state s = StepFailed) t"

definition says :: "string \<Rightarrow> string \<Rightarrow> serving \<Rightarrow> serving" where
  "says reason message sv = sv\<lparr>sr_reason := reason, sr_message := trim_space (reason @ '' '' @ message)\<rparr>"

definition no_pod_facts :: "gotime \<Rightarrow> clock \<Rightarrow> pod_facts" where
  "no_pod_facts t ck = \<lparr>pf_pod = None, pf_events = [], pf_nodeKnown = False, pf_nodeGPUs = 0, pf_gpuResource = [], pf_now = t,
     pf_crash = \<lparr>kl_line = [], kl_memlock = False, kl_err = None\<rparr>, pf_launch = no_launch_facts,
     pf_scaleUpTimeout = 0, pf_clock = ck\<rparr>"

text \<open>What the pod tells of the object; \<open>None\<close> for the pod stands for the zero \<open>predictorPod\<close>.\<close>

definition with_phase :: "serving \<Rightarrow> pod_facts \<Rightarrow> string \<Rightarrow> serving" where
  "with_phase sv facts node =
     (case servePhase (sv\<lparr>sd_node := node\<rparr>) facts of (phase, steps) \<Rightarrow> sv\<lparr>sd_node := node, sr_phase := phase, sr_steps := steps\<rparr>)"

definition applyPod :: "gotime \<Rightarrow> clock \<Rightarrow> predictor_pod option \<Rightarrow> serving \<Rightarrow> serving" where
  "applyPod now ck pod sv =
     (let facts = (case pod of Some p \<Rightarrow> (case pp_facts p of Some f \<Rightarrow> f | None \<Rightarrow> no_pod_facts now ck) | None \<Rightarrow> no_pod_facts now ck);
          sv = with_phase sv facts (case pod of Some p \<Rightarrow> pp_node p | None \<Rightarrow> [])
      in if sr_ready sv \<or> sd_deleting sv then sv
         else if \<not> (case pod of Some p \<Rightarrow> pp_pending p | None \<Rightarrow> False)
         then (case failedStep (sr_steps sv) of
                 Some s \<Rightarrow> if \<not> sr_failed sv then says (sg_reason s) (sg_message s) sv else sv
               | None \<Rightarrow> sv)
         else let p = the pod; sv = sv\<lparr>sr_status := ''Pending''\<rparr>
              in if pp_reason p \<noteq> [] \<or> pp_message p \<noteq> [] then says (pp_reason p) (pp_message p) sv
                 else case current_step (sr_steps sv) of
                        Some s \<Rightarrow> says (sg_reason s) (sg_message s) sv | None \<Rightarrow> sv)"

section \<open>Reading the pods\<close>

text \<open>What the API server answers about a pod: its events (none when they cannot be read), the nodes'
  allocatable accelerators, the log of a container instance (the previous one, or the present).\<close>

record pod_reads =
  pr_events :: "pod \<Rightarrow> kube_event list"
  pr_gpus :: "string \<rightharpoonup> int"
  pr_log :: "pod \<Rightarrow> string \<Rightarrow> bool \<Rightarrow> err + string"
  pr_launch :: launch_reads
  pr_gpuResource :: string
  pr_now :: gotime
  pr_scaleUpTimeout :: duration

definition crashLog :: "pod_reads \<Rightarrow> pod \<Rightarrow> container_status \<Rightarrow> crash_log" where
  "crashLog rd p c =
     (case pr_log rd p (kc_name c) (kc_terminated c = None) of
        Inl e \<Rightarrow> \<lparr>kl_line = [], kl_memlock = False, kl_err = Some e\<rparr>
      | Inr text \<Rightarrow> readCrashLog text)"

definition facts_of_pod :: "pod_reads \<Rightarrow> pod \<Rightarrow> pod_facts" where
  "facts_of_pod rd p =
     (let events = pr_events rd p
      in \<lparr>pf_pod = Some p, pf_events = events,
          pf_nodeKnown = (pr_gpus rd (pd_nodeName p) \<noteq> None),
          pf_nodeGPUs = (case pr_gpus rd (pd_nodeName p) of Some n \<Rightarrow> n | None \<Rightarrow> 0),
          pf_gpuResource = pr_gpuResource rd, pf_now = pr_now rd,
          pf_crash = (case runtimeStatus p of
                        Some c \<Rightarrow> if crashed c then crashLog rd p c else \<lparr>kl_line = [], kl_memlock = False, kl_err = None\<rparr>
                      | None \<Rightarrow> \<lparr>kl_line = [], kl_memlock = False, kl_err = None\<rparr>),
          pf_launch = (if pd_nodeName p = [] \<and> \<not> conditionIs p podScheduled ''True''
                       then launchFacts (pr_launch rd) events else no_launch_facts),
          pf_scaleUpTimeout = pr_scaleUpTimeout rd, pf_clock = lq_clock (pr_launch rd)\<rparr>)"

definition predictorPods :: "pod_reads \<Rightarrow> (string \<times> pod) list \<Rightarrow> string \<Rightarrow> predictor_pod option" where
  "predictorPods rd listed n =
     map_option (\<lambda>p. predictorPodOf p (facts_of_pod rd p)) (map_of (podsByName listed []) n)"

text \<open>The weights step of a model that downloads: the preset's weights, and what the node's cache holds of
  them (directory and bytes) when its agent answered.\<close>

definition downloaded :: "string \<Rightarrow> int \<Rightarrow> serve_step \<Rightarrow> string \<times> int \<Rightarrow> serve_step" where
  "downloaded n bytes s e =
     (if fst e \<noteq> n then s
      else let s = s\<lparr>sg_bytesCompleted := snd e\<rparr>
           in if bytes > 0 then s\<lparr>sg_message := initContainerName @ '' downloading the weights into the cache claim: '' @
                humanBytes (snd e) @ '' of '' @ humanBytes bytes\<rparr> else s)"

definition step_weightsBytes :: "bool \<Rightarrow> (string \<times> int) list \<Rightarrow> int \<Rightarrow> serving \<Rightarrow> serving" where
  "step_weightsBytes live entries bytes sv =
     (let weigh = (\<lambda>s. let s = s\<lparr>sg_bytesTotal := bytes\<rparr>
             in if sg_state s \<noteq> StepInProgress \<or> \<not> live \<or> sd_node sv = [] then s
                else foldl (downloaded (sd_name sv) bytes) s entries)
      in sv\<lparr>sr_steps :=
           (let i = length (takeWhile (\<lambda>s. sg_name s \<noteq> ''downloadingWeights'') (sr_steps sv))
            in if i < length (sr_steps sv) then on_step i weigh (sr_steps sv) else sr_steps sv)\<rparr>)"

end
