(* ===== verification/Phases_Correct.thy ===== *)
theory Phases_Correct
  imports Phases
begin

text \<open>
  The timeline of a serve: its steps are done up to one under way or failed, and the phase names that
  step; when the
  scheduling step fails; the pod kept for
  an object is the best of those listed under its name; what is quoted of a log is bounded.
\<close>

section \<open>States of a timeline\<close>

definition states :: "timeline \<Rightarrow> step_state list" where "states t = map sg_state t"

definition names :: "timeline \<Rightarrow> string list" where "names t = map sg_name t"

lemma states_on_step: "states (on_step i f t) = (states t)[i := sg_state (f (t ! i))]"
  by (simp add: states_def on_step_def map_update)

lemma names_same: "sg_name (f (t ! i)) = sg_name (t ! i) \<Longrightarrow> names (on_step i f t) = names t"
  by (cases "i < length t") (simp_all add: names_def on_step_def list_eq_iff_nth_eq nth_list_update)

lemma states_kept [simp]: "(states t)[i := sg_state (t ! i)] = states t"
  by (cases "i < length t") (simp_all add: states_def list_eq_iff_nth_eq nth_list_update)

lemma states_note [simp]: "states (note_step i r m t) = states t"
  by (simp add: note_step_def states_on_step)

lemma states_steps [simp]:
  "states (begin_step i x t) = (states t)[i := StepInProgress]"
  "states (done_step i x m t) = (states t)[i := StepDone]"
  "states (fail_step i r m t) = (states t)[i := StepFailed]"
  "states (say_step i m t) = states t"
  "states (refused_step i cr t) = states t"
  "states (on_step i (\<lambda>s. s\<lparr>sg_cached := b\<rparr>) t) = states t"
  by (simp_all add: begin_step_def done_step_def fail_step_def say_step_def refused_step_def
      states_on_step split: option.split)

lemma names_steps [simp]:
  "names (begin_step i x t) = names t"
  "names (note_step i r m t) = names t"
  "names (done_step i x m t) = names t"
  "names (fail_step i r m t) = names t"
  "names (say_step i m t) = names t"
  "names (refused_step i cr t) = names t"
  "names (on_step i (\<lambda>s. s\<lparr>sg_cached := b\<rparr>) t) = names t"
  by (simp_all add: begin_step_def note_step_def done_step_def fail_step_def say_step_def refused_step_def
      names_same split: option.split)

abbreviation "D \<equiv> StepDone"
abbreviation "P \<equiv> StepPending"

text \<open>\<open>k\<close> steps are done and the next is under way or failed.\<close>

definition at_step :: "nat \<Rightarrow> timeline \<Rightarrow> bool" where
  "at_step k t \<longleftrightarrow> (\<exists>s. (s = StepInProgress \<or> s = StepFailed) \<and> states t = replicate k D @ s # replicate (6 - k) P)"

lemmas step_lists = at_step_def eval_nat_numeral

lemma newTimeline_states [simp]: "states newTimeline = [P, P, P, P, P, P, P]" "names newTimeline = ServePhases"
  by (simp_all add: newTimeline_def states_def names_def ServePhases_def pending_step_def)

lemma schedule_states:
  assumes "states t = [P, P, P, P, P, P, P]"
  shows "case schedule pf p t of (go, t') \<Rightarrow> names t' = names t \<and>
    (if go then states t' = [D, D, P, P, P, P, P] else at_step 0 t' \<or> at_step 1 t')"
  using assms by (auto simp: schedule_def wait_for_node_def Let_def step_lists split: option.splits prod.splits)

lemma download_states:
  assumes "states t = [D, D, P, P, P, P, P]"
  shows "case download pf p t of (go, t') \<Rightarrow> names t' = names t \<and>
    (if go then states t' = [D, D, D, P, P, P, P] else at_step 2 t')"
  using assms
  by (auto simp: download_def finished_download_def running_download_def Let_def step_lists split: option.splits)

lemma pull_states:
  assumes "states t = [D, D, D, P, P, P, P]"
  shows "case pull pf p t of (go, t') \<Rightarrow> names t' = names t \<and>
    (if go then states t' = [D, D, D, D, P, P, P] \<and> runtimeStatus p \<noteq> None else at_step 3 t' \<or> at_step 4 t')"
  using assms by (auto simp: pull_def waiting_runtime_def Let_def step_lists split: option.splits)

lemma load_states:
  assumes "states t = [D, D, D, D, P, P, P]"
  shows "case load pf p main t of (go, t') \<Rightarrow> names t' = names t \<and>
    (if go then states t' = [D, D, D, D, D, P, P] else at_step 4 t')"
  using assms by (auto simp: load_def Let_def step_lists split: option.splits)

lemma pod_steps_states:
  "case pod_steps pf p newTimeline of (go, t') \<Rightarrow> names t' = ServePhases \<and>
    (if go then states t' = [D, D, D, D, D, P, P] else \<exists>k<5. at_step k t')"
proof -
  obtain a t1 where 1: "schedule pf p newTimeline = (a, t1)" by (cases "schedule pf p newTimeline")
  obtain b t2 where 2: "download pf p t1 = (b, t2)" by (cases "download pf p t1")
  obtain c t3 where 3: "pull pf p t2 = (c, t3)" by (cases "pull pf p t2")
  note s = schedule_states [where t = newTimeline and pf = pf and p = p, unfolded 1]
    download_states [where t = t1 and pf = pf and p = p, unfolded 2]
    pull_states [where t = t2 and pf = pf and p = p, unfolded 3] load_states [where t = t3 and pf = pf and p = p]
  show ?thesis
  proof (cases "a \<and> b \<and> c")
    case True
    with s obtain main where m: "runtimeStatus p = Some main" by auto
    obtain d t4 where 4: "load pf p main t3 = (d, t4)" by (cases "load pf p main t3")
    have "at_step 4 t4 \<Longrightarrow> \<exists>k<5. at_step k t4" by (rule exI [of _ 4]) simp
    with s(1-3) s(4) [where main = main] True show ?thesis by (auto simp: pod_steps_def 1 2 3 4 m)
  next
    case False
    have "at_step k t' \<Longrightarrow> k < 5 \<Longrightarrow> \<exists>k<5. at_step k t'" for k t' by blast
    note this [of 0] this [of 1] this [of 2] this [of 3] this [of 4]
    with s False show ?thesis by (cases a; cases b; cases c) (auto simp: pod_steps_def 1 2 3)
  qed
qed

lemma pod_steps_scheduled:
  assumes "schedule pf p newTimeline = (True, t1)" "pod_steps pf p newTimeline = (False, t')"
  shows "\<exists>k<5. 0 < k \<and> at_step k t'"
proof -
  obtain b t2 where 2: "download pf p t1 = (b, t2)" by (cases "download pf p t1")
  obtain c t3 where 3: "pull pf p t2 = (c, t3)" by (cases "pull pf p t2")
  note s = schedule_states [where t = newTimeline and pf = pf and p = p, unfolded assms(1)]
    download_states [where t = t1 and pf = pf and p = p, unfolded 2]
    pull_states [where t = t2 and pf = pf and p = p, unfolded 3] load_states [where t = t3 and pf = pf and p = p]
  have "at_step k t \<Longrightarrow> 1 < k \<Longrightarrow> k < 5 \<Longrightarrow> \<exists>k<5. 0 < k \<and> at_step k t" for k t by force
  note k = this [of 2] this [of 3] this [of 4]
  show ?thesis
  proof (cases "b \<and> c")
    case True
    with s obtain main where m: "runtimeStatus p = Some main" by auto
    obtain d t4 where 4: "load pf p main t3 = (d, t4)" by (cases "load pf p main t3")
    with True assms 2 3 m have "\<not> d" "t' = t4" by (auto simp: pod_steps_def)
    with s(1-3) s(4) [where main = main] True k 4 show ?thesis by auto
  next
    case False
    with assms(2) s k show ?thesis by (cases b; cases c) (auto simp: pod_steps_def assms(1) 2 3)
  qed
qed

section \<open>The phase\<close>

lemma at_step_nth:
  assumes "at_step k t" "k < 7"
  shows "length t = 7" "\<And>i. i < k \<Longrightarrow> sg_state (t ! i) = D" "under_way (t ! k)"
    "\<And>i. k < i \<Longrightarrow> i < 7 \<Longrightarrow> sg_state (t ! i) = P"
proof -
  from assms(1) obtain s where s: "s = StepInProgress \<or> s = StepFailed" and t: "map sg_state t = replicate k D @ s # replicate (6 - k) P"
    by (auto simp: at_step_def states_def)
  from arg_cong [OF t, of length] assms(2) show len: "length t = 7" by simp
  have n: "sg_state (t ! i) = (replicate k D @ s # replicate (6 - k) P) ! i" if "i < 7" for i
    using that len by (simp flip: t)
  show "\<And>i. i < k \<Longrightarrow> sg_state (t ! i) = D" "under_way (t ! k)" "\<And>i. k < i \<Longrightarrow> i < 7 \<Longrightarrow> sg_state (t ! i) = P"
    using n s assms(2) by (auto simp: nth_append under_way_def)
qed

lemma indexOf_nth: "k < 7 \<Longrightarrow> indexOf (ServePhases ! k) = k"
proof -
  assume "k < 7"
  then have "k = 0 \<or> k = 1 \<or> k = 2 \<or> k = 3 \<or> k = 4 \<or> k = 5 \<or> k = 6" by auto
  then show ?thesis by (elim disjE) (simp_all add: indexOf_def ServePhases_def)
qed

lemma names_nth: "names t = ServePhases \<Longrightarrow> k < length t \<Longrightarrow> sg_name (t ! k) = ServePhases ! k"
  by (metis names_def nth_map)

lemma at_step_current:
  assumes "names t = ServePhases" "at_step k t" "k < 7"
  shows "current_step t = Some (t ! k)" "indexOf (sg_name (t ! k)) = k"
  using at_step_nth [OF assms(2,3)] assms
  by (auto simp: current_step_def find_Some_iff under_way_def names_nth indexOf_nth intro!: exI [of _ k])

lemma phase_of_done: "list_all (\<lambda>s. sg_state s = D \<or> sg_state s = P) ss \<Longrightarrow> phase_of c (ss @ ts) = phase_of c ts"
  by (induction ss) auto

lemma phase_at:
  assumes "names t = ServePhases" "at_step k t" "k < 7"
  shows "phase_of PhaseReady t = (if sg_state (t ! k) = StepFailed then PhaseFailed else ServePhases ! k)"
proof -
  note n = at_step_nth [OF assms(2,3)]
  have t: "t = take k t @ t ! k # drop (Suc k) t" using n(1) assms(3) by (simp add: id_take_nth_drop)
  have d: "list_all (\<lambda>s. sg_state s = D \<or> sg_state s = P) (take k t)" using n by (auto simp: list_all_length)
  have p: "list_all (\<lambda>s. sg_state s = D \<or> sg_state s = P) (drop (Suc k) t)" using n by (auto simp: list_all_length)
  have "phase_of PhaseReady t = phase_of PhaseReady (t ! k # drop (Suc k) t)"
    using phase_of_done [OF d] t by metis
  then show ?thesis using n(1,3) phase_of_done [OF p, where ts = "[]"] assms names_nth [OF assms(1), of k]
    by (auto simp: under_way_def)
qed

lemma at_step_fail: "at_step k t \<Longrightarrow> k < 7 \<Longrightarrow> at_step k (fail_step k r m t)"
  by (auto simp: at_step_def list_update_append)

lemma at_step_state: "at_step k t \<Longrightarrow> k < 7 \<Longrightarrow> states t = replicate k D @ sg_state (t ! k) # replicate (6 - k) P"
proof -
  assume a: "at_step k t" "k < 7"
  then obtain s where t: "states t = replicate k D @ s # replicate (6 - k) P" by (auto simp: at_step_def)
  have "sg_state (t ! k) = states t ! k" using at_step_nth(1) [OF a] a(2) by (simp add: states_def)
  also have "\<dots> = s" unfolding t by (simp add: nth_append)
  finally show ?thesis using t by simp
qed

lemma finish_at:
  assumes "names t = ServePhases" "at_step k t" "k < 7"
  shows "case finish sv t of (ph, t') \<Rightarrow> names t' = ServePhases \<and> at_step k t' \<and>
    ph = (if sd_deleting sv then phase_terminating else if sg_state (t' ! k) = StepFailed then PhaseFailed else ServePhases ! k)"
proof -
  let ?f = "fail_step k (sr_reason sv) (sr_message sv) t"
  have f: "names ?f = ServePhases" "at_step k ?f" using assms at_step_fail [of k t] by simp_all
  show ?thesis using assms f phase_at [OF f assms(3)] phase_at [OF assms] at_step_current [OF assms]
    by (simp add: finish_def Let_def timeline_phase_def)
qed

text \<open>What the claim below says of a phase and its timeline.\<close>

definition agrees :: "serving \<Rightarrow> string \<times> timeline \<Rightarrow> bool" where
  "agrees sv r \<longleftrightarrow>
     map sg_name (snd r) = ServePhases \<and>
     ((map sg_state (snd r) = replicate 7 StepDone \<and> fst r = (if sd_deleting sv then phase_terminating else PhaseReady)) \<or>
      (\<exists>k s. k < 6 \<and> (s = StepInProgress \<or> s = StepFailed) \<and>
         map sg_state (snd r) = replicate k StepDone @ s # replicate (6 - k) StepPending \<and>
         fst r = (if sd_deleting sv then phase_terminating else if s = StepFailed then PhaseFailed else ServePhases ! k)))"

lemma finish_agrees:
  assumes "names t = ServePhases" "at_step k t" "k < 6"
  shows "agrees sv (finish sv t)"
proof -
  obtain ph t' where r: "finish sv t = (ph, t')" by (cases "finish sv t")
  with finish_at [OF assms(1,2), of sv] assms(3) have f: "names t' = ServePhases" "at_step k t'"
    "ph = (if sd_deleting sv then phase_terminating else if sg_state (t' ! k) = StepFailed then PhaseFailed else ServePhases ! k)"
    by auto
  have "sg_state (t' ! k) = StepInProgress \<or> sg_state (t' ! k) = StepFailed"
    using at_step_nth(3) [OF f(2)] assms(3) by (simp add: under_way_def)
  then show ?thesis using f at_step_state [OF f(2)] assms(3)
    unfolding agrees_def r by (auto simp: names_def states_def)
qed

lemma done_agrees:
  assumes "names t = ServePhases" "states t = replicate 7 D"
  shows "agrees sv (timeline_phase (sd_deleting sv) t, t)" "agrees sv (finish sv t)"
proof -
  have "set (states t) \<subseteq> {D}" unfolding assms(2) by (simp add: set_replicate_conv_if)
  then have all: "list_all (\<lambda>s. sg_state s = D) t" by (auto simp: states_def list_all_iff)
  then have c: "current_step t = None" by (auto simp: current_step_def find_None_iff under_way_def list_all_iff)
  have "phase_of PhaseReady t = PhaseReady" using phase_of_done [of t PhaseReady "[]"] all by (simp add: list_all_iff)
  then show "agrees sv (timeline_phase (sd_deleting sv) t, t)" "agrees sv (finish sv t)"
    using assms c by (simp_all add: agrees_def timeline_phase_def finish_def names_def states_def)
qed

lemma foldl_update: "n \<le> length l \<Longrightarrow> foldl (\<lambda>l i. l[i := x]) l [0..<n] = replicate n x @ drop n l"
proof (induction n)
  case (Suc n)
  then have "drop n l = l ! n # drop (Suc n) l" by (simp add: Cons_nth_drop_Suc)
  with Suc show ?case by (simp add: list_update_append replicate_app_Cons_same)
qed simp

lemma all_done_steps:
  assumes "length t = 7"
  shows "states (all_done x t) = replicate 7 D \<and> names (all_done x t) = names t"
proof -
  have n: "names (foldl (\<lambda>t i. done_step i x [] t) t js) = names t" for js by (induction js arbitrary: t) simp_all
  have l: "length (states t) = 7" using assms by (simp add: states_def)
  have "states (foldl (\<lambda>t i. done_step i x [] t) t js) = foldl (\<lambda>l i. l[i := D]) (states t) js" for js
    by (induction js arbitrary: t) simp_all
  then have "states (all_done x t) = foldl (\<lambda>l i. l[i := D]) (states t) [0..<7]"
    unfolding all_done_def assms .
  moreover have "names (all_done x t) = names t" unfolding all_done_def by (rule n)
  ultimately show ?thesis using foldl_update [of 7 "states t" D] l by simp
qed

text \<open>C13. The timeline and the phase of a serve agree: the steps are the seven phases in order; either all
  are done and the phase is ready, or the first ones are done, exactly one is under way or failed, and the
  rest have not begun, and the phase is then that step's, or failed. An object that goes is terminating.\<close>

theorem phase_names_step:
  "case servePhase sv pf of (ph, t) \<Rightarrow>
     map sg_name t = ServePhases \<and>
     ((map sg_state t = replicate 7 StepDone \<and> ph = (if sd_deleting sv then phase_terminating else PhaseReady)) \<or>
      (\<exists>k s. k < 6 \<and> (s = StepInProgress \<or> s = StepFailed) \<and>
         map sg_state t = replicate k StepDone @ s # replicate (6 - k) StepPending \<and>
         ph = (if sd_deleting sv then phase_terminating else if s = StepFailed then PhaseFailed else ServePhases ! k)))"
proof (cases "pf_pod pf")
  case None
  have i: "at_step 0 (note_step stepScheduling r m (begin_step stepScheduling x newTimeline))" for r m x
    by (simp add: at_step_def eval_nat_numeral)
  have "length newTimeline = 7" by (simp add: newTimeline_def ServePhases_def)
  then have "agrees sv (servePhase sv pf)"
    using None all_done_steps [of newTimeline "sr_readyAt sv"] finish_agrees [OF _ i]
    by (simp add: servePhase_def done_agrees Let_def)
  then show ?thesis by (simp add: agrees_def split_beta)
next
  case (Some p)
  obtain go t where g: "pod_steps pf p newTimeline = (go, t)" by (cases "pod_steps pf p newTimeline")
  note st = pod_steps_states [of pf p, unfolded g]
  have "agrees sv (servePhase sv pf)"
  proof (cases go)
    case True
    let ?x = "conditionTime p containersReady (pf_now pf)"
    have r: "at_step 5 (note_step stepRouting (sr_reason sv) (sr_message sv) (begin_step stepRouting ?x t))"
      using st True by (simp add: at_step_def eval_nat_numeral)
    let ?d = "done_step stepReady (sr_readyAt sv) [] (done_step stepRouting (sr_readyAt sv) [] (begin_step stepRouting ?x t))"
    have d: "states ?d = replicate 7 D" "names ?d = ServePhases" using st True by (simp_all add: eval_nat_numeral)
    show ?thesis using Some g True st finish_agrees [OF _ r] done_agrees(2) [OF d(2,1)]
      by (simp add: servePhase_def Let_def)
  next
    case False
    with st obtain k where "k < 5" "at_step k t" "names t = ServePhases" by auto
    then show ?thesis using Some g False finish_agrees [of t k sv] by (simp add: servePhase_def)
  qed
  then show ?thesis by (simp add: agrees_def split_beta)
qed

section \<open>Bounded quotes\<close>

definition whole_rune :: "string \<Rightarrow> bool" where
  "whole_rune r \<longleftrightarrow> r \<noteq> [] \<and> (\<forall>x. rune_size (r @ x) = length r)"

lemma rune_size_le: "rune_size s \<le> length s"
  by (auto simp: rune_size_def Let_def split: list.split)

lemma rune_size_take:
  assumes "rune_size s = n" "0 < n"
  shows "rune_size (take n s @ x) = n"
proof (cases s)
  case Nil
  with assms show ?thesis by (simp add: rune_size_def)
next
  case (Cons c cs)
  have n: "n \<le> Suc (length cs)" using rune_size_le [of s] assms Cons by simp
  obtain m where m: "n = Suc m" using assms(2) by (cases n) auto
  have t: "take n s @ x = c # (take m cs @ x)" using Cons m by simp
  have l: "lead_size (of_char c) = n" using assms Cons by (auto simp: rune_size_def Let_def split: if_splits)
  show ?thesis
  proof (cases "n = 1")
    case True
    with l show ?thesis unfolding t by (simp add: rune_size_def)
  next
    case False
    with m have "m > 0" by simp
    with n m have "hd (take m cs @ x) = hd cs" by (cases cs; cases m) simp_all
    moreover have "second_ok (of_char c) (of_char (hd cs)) \<and> list_all cont_byte (take m cs)"
      using assms l False Cons m by (auto simp: rune_size_def Let_def split: if_splits)
    moreover have "n \<le> length (c # (take m cs @ x))" using n m by simp
    ultimately show ?thesis unfolding t using l n m \<open>m > 0\<close> by (simp add: rune_size_def)
  qed
qed

lemma whole_replacement: "whole_rune replacement"
  by (simp add: whole_rune_def replacement_def rune_size_def lead_size_def cont_byte_def second_ok_def)

lemma whole_ellipsis: "whole_rune ellipsis"
  by (simp add: whole_rune_def ellipsis_def rune_size_def lead_size_def cont_byte_def second_ok_def)

lemma runes_whole: "list_all whole_rune (runes s)"
proof (induction s rule: runes.induct)
  case (2 c cs)
  show ?case
  proof (cases "rune_size (c # cs) = 0")
    case True with 2 show ?thesis by (simp add: whole_replacement)
  next
    case False
    with rune_size_le [of "c # cs"] have "whole_rune (take (rune_size (c # cs)) (c # cs))"
      by (auto simp: whole_rune_def rune_size_take)
    with False 2 show ?thesis by simp
  qed
qed simp

lemma runes_concat: "list_all whole_rune rs \<Longrightarrow> runes (concat rs) = rs"
proof (induction rs)
  case (Cons r rs)
  then obtain c cs where r: "r = c # cs" and s: "rune_size (r @ concat rs) = length r"
    by (cases r) (auto simp: whole_rune_def)
  with Cons show ?case by simp
qed simp

lemma bound_runes_le: "0 < n \<Longrightarrow> length (runes (bound_runes n s)) \<le> n"
proof -
  assume n: "0 < n"
  let ?rs = "take (n - 1) (runes s) @ [ellipsis]"
  have "list_all whole_rune ?rs" using runes_whole [of s] whole_ellipsis by (auto simp: list_all_iff dest: in_set_takeD)
  then have "runes (concat ?rs) = ?rs" by (rule runes_concat)
  then show ?thesis using n by (simp add: bound_runes_def Let_def)
qed

text \<open>C18. The line quoted of a crashed runtime's log has at most 240 characters, and the words of Karpenter
  quoted as they are at most 320, whatever bytes they hold.\<close>

theorem quotes_bounded:
  "length (runes (lastErrorLine text)) \<le> 240 \<and> length (runes (boundMessage text)) \<le> 320"
  using bound_runes_le [of 240] bound_runes_le [of 320]
  by (simp add: lastErrorLine_def crashLineMax_def boundMessage_def refusalMessageMax_def Let_def)

section \<open>The pod of an object\<close>

definition pod_rank :: "pod \<Rightarrow> nat" where
  "pod_rank p = (if pd_terminating p then 0 else 2) + (if pd_nodeName p \<noteq> [] then 1 else 0)"

lemma outranks_rank: "outranks (podRank p) (podRank q) \<longleftrightarrow> pod_rank p > pod_rank q"
  by (auto simp: outranks_def podRank_def pod_rank_def)

definition keep_pod :: "pod option \<Rightarrow> pod \<Rightarrow> pod option" where
  "keep_pod prev p = (case prev of Some q \<Rightarrow> if outranks (podRank q) (podRank p) then Some q else Some p | None \<Rightarrow> Some p)"

lemma podsByName_foldl:
  "n \<noteq> [] \<Longrightarrow> map_of (podsByName ps out) n = foldl keep_pod (map_of out n) (map snd (filter (\<lambda>x. fst x = n) ps))"
  by (induction ps out rule: podsByName.induct) (auto simp: keep_pod_def update_conv' split: option.splits)

lemma foldl_keep:
  "foldl keep_pod (Some q) ps = Some r \<Longrightarrow> r \<in> set (q # ps) \<and> (\<forall>p\<in>set (q # ps). pod_rank p \<le> pod_rank r)"
  by (induction ps arbitrary: q) (fastforce simp: keep_pod_def outranks_rank split: if_splits)+

lemma foldl_keep_some: "\<exists>r. foldl keep_pod (Some q) ps = Some r"
  by (induction ps arbitrary: q) (auto simp: keep_pod_def split: if_splits)

lemma pod_rank_le:
  "pod_rank q \<le> pod_rank p \<longleftrightarrow>
     (pd_terminating p \<longrightarrow> pd_terminating q) \<and>
     (pd_terminating q = pd_terminating p \<and> pd_nodeName q \<noteq> [] \<longrightarrow> pd_nodeName p \<noteq> [])"
  by (auto simp: pod_rank_def)

text \<open>C17. The pod read for an object is one of the pods listed under its name, and the best of them: it
  terminates only when every pod listed under the name does, and it has no node only when none of those
  that terminate or stay as it does has one. An object has no pod just when none is listed under its name.\<close>

theorem kept_pod_unoutranked:
  assumes "n \<noteq> []"
  shows "case map_of (podsByName listed []) n of
      None \<Rightarrow> n \<notin> fst ` set listed
    | Some p \<Rightarrow> (n, p) \<in> set listed \<and>
        (\<forall>q. (n, q) \<in> set listed \<longrightarrow>
           (pd_terminating p \<longrightarrow> pd_terminating q) \<and>
           (pd_terminating q = pd_terminating p \<and> pd_nodeName q \<noteq> [] \<longrightarrow> pd_nodeName p \<noteq> []))"
proof (cases "filter (\<lambda>x. fst x = n) listed")
  case Nil
  then have "n \<notin> fst ` set listed" by (auto simp: filter_empty_conv)
  with Nil show ?thesis by (simp add: podsByName_foldl [OF assms])
next
  case (Cons x xs)
  have mem: "(n, q) \<in> set listed \<longleftrightarrow> q \<in> snd ` set (x # xs)" for q
    using arg_cong [OF Cons, of set] by force
  obtain r where r: "foldl keep_pod (Some (snd x)) (map snd xs) = Some r" using foldl_keep_some by blast
  with foldl_keep [OF r] mem show ?thesis
    by (auto simp: podsByName_foldl [OF assms] Cons keep_pod_def simp flip: pod_rank_le)
qed

section \<open>The scale-up budget\<close>

lemma schedule_waits:
  "sg_state (snd (schedule pf p newTimeline) ! 0) = StepFailed \<longleftrightarrow>
     \<not> conditionIs p podScheduled ''True'' \<and> pd_nominatedNode p = [] \<and> launched (pf_launch pf) = None \<and>
     lf_claim (pf_launch pf) \<noteq> [] \<and> standing_refusals (pf_launch pf) \<noteq> [] \<and>
     0 < pf_scaleUpTimeout pf \<and> pf_scaleUpTimeout pf < time_sub (pf_now pf) (pd_created p)" (is ?failed)
  "at_step 0 (snd (schedule pf p newTimeline)) \<longleftrightarrow>
     \<not> conditionIs p podScheduled ''True'' \<and> pd_nominatedNode p = [] \<and> launched (pf_launch pf) = None" (is ?waits)
proof -
  have n: "nodeLaunched pf p x = None \<longleftrightarrow> pd_nominatedNode p = [] \<and> launched (pf_launch pf) = None" for x
    by (simp add: nodeLaunched_def Let_def)
  have r: "snd (snd (schedulingReason pf p e)) \<noteq> None \<longleftrightarrow>
      lf_claim (pf_launch pf) \<noteq> [] \<and> standing_refusals (pf_launch pf) \<noteq> []" for e
    by (simp add: schedulingReason_def claim_words_def Let_def split: option.split prod.split)
  have l: "length (snd (schedule pf p newTimeline)) = 7"
    using arg_cong [OF newTimeline_states(2), of length] schedule_states [of newTimeline pf p]
    by (auto simp: names_def ServePhases_def split: prod.splits dest: arg_cong [where f = length])
  then have s: "sg_state (snd (schedule pf p newTimeline) ! 0) = states (snd (schedule pf p newTimeline)) ! 0"
    by (simp add: states_def)
  show ?failed unfolding s
    using n r [of "lastEvent (pf_events pf) ''Nominated'' []"]
    by (auto simp: schedule_def wait_for_node_def out_of_budget_def Let_def split: option.split prod.split)
  show ?waits
    using n [of "eventTime (lastEvent (pf_events pf) ''Nominated'' []) True"]
    by (cases "nodeLaunched pf p (eventTime (lastEvent (pf_events pf) ''Nominated'' []) True)")
       (auto simp: schedule_def wait_for_node_def Let_def step_lists split: option.split prod.split)
qed

lemma at_step_unique: "at_step j t \<Longrightarrow> at_step k t \<Longrightarrow> j < 7 \<Longrightarrow> k < 7 \<Longrightarrow> j = k"
  using at_step_nth [of j t] at_step_nth [of k t]
  by (metis linorder_neqE_nat step_state.distinct under_way_def)

text \<open>The object's own failure fails the step under way, and only that one.\<close>

lemma finish_first:
  assumes "names t = ServePhases" "at_step k t" "k < 7"
  shows "sg_state (snd (finish sv t) ! 0) = StepFailed \<longleftrightarrow>
    k = 0 \<and> (sg_state (t ! 0) = StepFailed \<or> sr_failed sv)"
  using at_step_current [OF assms] at_step_nth [OF assms(2,3)]
  by (cases "k = 0") (auto simp: finish_def Let_def fail_step_def note_step_def on_step_def nth_list_update)

lemma finish_done:
  assumes "states t = replicate 7 D"
  shows "finish sv t = (timeline_phase (sd_deleting sv) t, t)"
proof -
  have "set (states t) \<subseteq> {D}" unfolding assms by (simp add: set_replicate_conv_if)
  then have "current_step t = None" by (auto simp: current_step_def find_None_iff under_way_def states_def)
  then show ?thesis by (simp add: finish_def)
qed

lemma first_done: "states t = replicate 7 D \<Longrightarrow> sg_state (t ! 0) = D"
  using nth_map [of 0 t sg_state] by (cases t) (auto simp: states_def)

text \<open>C14. The scheduling step of a serve fails just in these cases. Without a pod: the object is not ready
  and has failed by its own account. With a pod: the pod is not bound, no node was named for it and its claim
  launched none, and either the object has failed by its own account, or Karpenter nominated a claim against
  which a refusal stands and the pod is older than a scale-up budget that is set. So an object that has not
  failed itself waits for ever for a pod without a refusal, and one whose node exists never fails to be
  scheduled.\<close>

theorem scheduling_fails_iff:
  "sg_state (snd (servePhase sv pf) ! 0) = StepFailed \<longleftrightarrow>
     (case pf_pod pf of
        None \<Rightarrow> \<not> sr_ready sv \<and> sr_failed sv
      | Some p \<Rightarrow>
          \<not> conditionIs p podScheduled ''True'' \<and> pd_nominatedNode p = [] \<and> launched (pf_launch pf) = None \<and>
          (sr_failed sv \<or>
           (lf_claim (pf_launch pf) \<noteq> [] \<and> standing_refusals (pf_launch pf) \<noteq> [] \<and>
            0 < pf_scaleUpTimeout pf \<and> pf_scaleUpTimeout pf < time_sub (pf_now pf) (pd_created p))))"
proof (cases "pf_pod pf")
  case None
  let ?t = "note_step stepScheduling reasonWaitingForPod ''waiting for the predictor pod''
    (begin_step stepScheduling (sr_created sv) newTimeline)"
  have i: "at_step 0 ?t" "names ?t = ServePhases" by (simp_all add: at_step_def eval_nat_numeral)
  have u: "states ?t = [StepInProgress, P, P, P, P, P, P]" by simp
  have "sg_state (?t ! 0) = states ?t ! 0"
    using at_step_nth(1) [OF i(1)] by (simp add: states_def)
  then have f: "sg_state (snd (finish sv ?t) ! 0) = StepFailed \<longleftrightarrow> sr_failed sv"
    using finish_first [OF i(2,1)] u by simp
  have "states (all_done x newTimeline) = replicate 7 D" for x
    using all_done_steps [of newTimeline x] by (simp add: newTimeline_def ServePhases_def)
  with None f show ?thesis by (simp add: servePhase_def Let_def first_done)
next
  case (Some p)
  obtain a t1 where 1: "schedule pf p newTimeline = (a, t1)" by (cases "schedule pf p newTimeline")
  obtain go t where g: "pod_steps pf p newTimeline = (go, t)" by (cases "pod_steps pf p newTimeline")
  note w = schedule_waits [of pf p, unfolded 1 snd_conv]
  note s = schedule_states [of newTimeline pf p, unfolded 1, simplified]
  note st = pod_steps_states [of pf p, unfolded g, simplified]
  show ?thesis
  proof (cases a)
    case False
    with 1 g have "\<not> go" "t = t1" by (simp_all add: pod_steps_def)
    moreover from s False obtain k where k: "at_step k t1" "k < 2" "names t1 = ServePhases" by force
    moreover have "k = 0 \<longleftrightarrow> at_step 0 t1" using at_step_unique [OF k(1), of 0] k by auto
    ultimately show ?thesis using Some g w finish_first [OF k(3,1), of sv] by (auto simp: servePhase_def)
  next
    case True
    with s have "states t1 = [D, D, P, P, P, P, P]" by simp
    then have n: "\<not> at_step 0 t1" by (auto simp: step_lists)
    have "sg_state (snd (servePhase sv pf) ! 0) \<noteq> StepFailed"
    proof (cases go)
      case False
      with pod_steps_scheduled [of pf p t1 t] 1 g True obtain k where "k < 5" "0 < k" "at_step k t" by auto
      with False st Some g finish_first [of t k sv] show ?thesis by (simp add: servePhase_def)
    next
      case go: True
      let ?b = "begin_step stepRouting (conditionTime p containersReady (pf_now pf)) t"
      let ?r = "note_step stepRouting (sr_reason sv) (sr_message sv) ?b"
      let ?d = "done_step stepReady (sr_readyAt sv) [] (done_step stepRouting (sr_readyAt sv) [] ?b)"
      have "at_step 5 ?r" "names ?r = ServePhases" "states ?d = replicate 7 D"
        using st go by (simp_all add: at_step_def eval_nat_numeral)
      moreover from this(3) have "sg_state (?d ! 0) = D" by (rule first_done)
      ultimately show ?thesis using Some g go finish_first [of ?r 5 sv] finish_done [of ?d sv]
        by (simp add: servePhase_def Let_def)
    qed
    with n w(2) Some show ?thesis by auto
  qed
qed

section \<open>Witness\<close>

definition w_pod :: "string \<Rightarrow> bool \<Rightarrow> pod" where
  "w_pod node going = \<lparr>pd_created = 1, pd_nodeName = node, pd_initContainers = 1, pd_containers = [], pd_restartNever = False,
     pd_pending = False, pd_terminating = going, pd_reason = [], pd_message = [], pd_nominatedNode = [],
     pd_conditions = [], pd_initStatuses = [], pd_statuses = []\<rparr>"

lemma kept_pod_unoutranked_witness:
  "\<exists>p. map_of (podsByName [(''llama'', w_pod ''n1'' True), (''llama'', w_pod [] False)] []) ''llama'' = Some p \<and>
     \<not> pd_terminating p"
proof -
  let ?l = "[(''llama'', w_pod ''n1'' True), (''llama'', w_pod [] False)]"
  have l: "(''llama'', w_pod [] False) \<in> set ?l" "\<not> pd_terminating (w_pod [] False)" by (simp_all add: w_pod_def)
  note k = kept_pod_unoutranked [of "''llama''" ?l, OF list.distinct(2)]
  show ?thesis
  proof (cases "map_of (podsByName ?l []) ''llama''")
    case None
    from k have "''llama'' \<notin> fst ` set ?l" unfolding None option.case .
    with l(1) show ?thesis by simp
  next
    case (Some p)
    from k have "pd_terminating p \<longrightarrow> pd_terminating (w_pod [] False)" using l(1) unfolding Some option.case by blast
    with Some l(2) show ?thesis by blast
  qed
qed

text \<open>The reported weights of a pod the kubelet has not reported on: a bound pod with an initializer whose
  status is not there yet shows its weights as downloaded.\<close>

lemma weights_done_unreported:
  assumes "containerStatus (pd_initStatuses p) initContainerName = None" "0 < pd_initContainers p"
    "names t = ServePhases"
  shows "fst (download pf p t) = True \<and> sg_state (snd (download pf p t) ! stepWeights) = StepDone"
proof -
  have "length t = 7" using arg_cong [OF assms(3), of length] by (simp add: names_def ServePhases_def)
  then show ?thesis using assms by (simp add: download_def done_step_def on_step_def Let_def)
qed

end
