(* ===== verification/Spec2Isabelle.thy ===== *)
theory Spec2Isabelle
  imports Jobs_Correct Naming_Correct Service_Witnesses KVCache_Correct KServe_Witnesses Compute_Correct Registry_Witnesses GitCommit_Correct Launch_Correct Phases_Correct
begin

text \<open>
  \<^bold>\<open>model-manager\<close>. The program manages the models of one or more backends (Ollama,
  Lemonade, LM Studio, KServe): it pulls, loads, unloads and deletes them, and wires each into
  the agent platform as a kagent \<open>ModelConfig\<close> of a Kubernetes cluster. One
  \<open>Service\<close> (\<open>internal/service\<close>) holds the backends and a \<open>Wirer\<close>
  (\<open>internal/wiring\<close>); long operations run as jobs (\<open>internal/jobs\<close>); objects
  another tool applies from git are recognised by \<open>internal/gitops\<close>, left alone by live writes and
  changed by a pull request in mode commit. Backends may be registered at runtime by documents
  (\<open>internal/registry\<close>). The KServe driver (\<open>internal/backend/kserve\<close>) judges before a serve
  whether a model fits a node, a pool or a group of nodes, and tells afterwards how far the serve is.

  \<^bold>\<open>Shared.\<close> \<open>Prelude\<close> holds strings, numbers in text and association lists; \<open>Backend\<close>
  is \<open>internal/backend/backend.go\<close> (names, error sentinels, models, the agent endpoint); \<open>GoUrl\<close>,
  \<open>GoNum\<close> and \<open>GoText\<close> are what the code uses of Go's standard library (URLs; wrapping integers and
  floats; regular expressions, runes and times).

  \<^bold>\<open>Jobs.\<close> \<open>Jobs\<close> is \<open>internal/jobs/manager.go\<close> as steps on the table; \<open>Jobs_Correct\<close> proves the
  invariant of every reachable table, that a finished job stays as it is, that equal work is joined, and
  that a job can end.

  \<^bold>\<open>Wiring.\<close> \<open>Cluster\<close> is the Kubernetes API server the code calls: object stores per API group, the
  calls it makes, and a failure each may answer. \<open>GitOps\<close> is who applies an object from git
  (\<open>gitops/applying.go\<close>, \<open>owner.go\<close>), with its properties. \<open>Naming\<close> and \<open>Wiring\<close> are
  \<open>wiring/kagent.go\<close> and \<open>schema.go\<close>, with \<open>Naming_Correct\<close>, \<open>Wiring_Correct\<close> (what Ensure and
  Remove change and what reads back), \<open>Wiring_Contracts\<close> (readiness, references, versions and the retry)
  and \<open>Wiring_Examples\<close>.

  \<^bold>\<open>Service.\<close> \<open>Service\<close>, \<open>Service_Ops\<close> and \<open>Service_Plan\<close> are \<open>internal/service\<close>
  (\<open>service.go\<close>, \<open>plan.go\<close>, \<open>write.go\<close>). \<open>Service_Registry\<close> refines the backend set to a map.
  What the service asks of a wirer is stated as locales in \<open>Wirer_Contract\<close> (\<open>wirer_frame\<close>,
  \<open>wirer_writes\<close>, \<open>wirer_answers\<close>), which prove the service's operations within them; \<open>Wirer_Kagent\<close> interprets all
  three on the kagent wirer's own model (\<open>kr\<close>, \<open>kw\<close>, \<open>ka\<close>), and \<open>Service_Correct\<close> draws the
  properties from these: whose ModelConfigs an operation changes, what a dry run tells, what is found wired.
  \<open>Service_Examples\<close> and \<open>Service_Witnesses\<close> are concrete services.

  \<^bold>\<open>Documents and commits.\<close> \<open>Documents\<close> and \<open>Registry\<close> are \<open>backend/document.go\<close>,
  \<open>internal/registry/registry.go\<close> and \<open>backend/registry.go\<close>, with \<open>Registry_Correct\<close> (the schema, the fast links,
  the registry as a refinement of the documents present, the round trip of a document) and
  \<open>Registry_Witnesses\<close>. \<open>GitCommit\<close> is \<open>gitops/commit.go\<close> and \<open>remote.go\<close>; \<open>GitCommit_Correct\<close> proves
  that GitHub changes last and once, that a dry run foretells the call, and where a remote cluster's
  files go.

  \<^bold>\<open>KServe: does it fit.\<close> \<open>Presets\<close> and \<open>VllmArgs\<close> are the presets and the vLLM command
  line they carry; \<open>Nodes\<close> the nodes, their budgets and the cache; \<open>Hub\<close> the sizes of a model;
  \<open>KVCache\<close> (\<open>kvcache.go\<close>), \<open>Compute\<close> (\<open>compute.go\<close>) and \<open>Shape\<close> (\<open>shape.go\<close>, \<open>requests.go\<close>) the
  single checks, which \<open>Answer\<close> writes into the result; \<open>PoolFit\<close> (\<open>poolfit.go\<close>) a pool without a node;
  \<open>Fit\<close> (\<open>fit.go\<close>) the whole check; \<open>Placement\<close> (\<open>placement.go\<close>, \<open>copies.go\<close>) splits and copies.
  \<open>VllmArgs_Correct\<close> and \<open>Args_Correct\<close> read the composed arguments back; \<open>KVCache_Correct\<close>,
  \<open>Compute_Correct\<close>, \<open>Shape_Correct\<close>, \<open>Unified_Correct\<close>, \<open>Fit_Correct\<close> and \<open>Placement_Correct\<close> say
  what each verdict means; \<open>KServe_Witnesses\<close> holds concrete nodes and plans.

  \<^bold>\<open>KServe: how far is it.\<close> \<open>Launch\<close> (\<open>launch.go\<close>) is what Karpenter says of the node a pod waits
  for, \<open>Phases\<close> (\<open>phases.go\<close>, the pod's part of \<open>served.go\<close>) the timeline of a serve. \<open>Launch_Correct\<close>
  traces reported refusals and partitions what was refused; \<open>Phases_Correct\<close> relates phase and timeline, says when
  scheduling fails, which pod is read, and bounds what is quoted.

  \<^bold>\<open>Conventions.\<close> A call answers \<open>err + 'a\<close>. An error is its message and the
  sentinels \<open>errors.Is\<close> finds in it. State is passed explicitly: the wirer with its caches
  and the cluster for \<open>Wiring\<close>, a world type \<open>'w\<close> for the service, whose backends
  and wirer are records of functions over it (they are interfaces in the code). A panic the code
  can reach is a value (\<open>None\<close>, or the sentinel \<open>GoPanic\<close>). Go maps are association
  lists in the order a range visits, or HOL maps where the order cannot show. An \<open>int64\<close> of the KServe
  driver is an integer kept in range by wrapping operations.

  \<^bold>\<open>Parameters.\<close> Decoding HTTP, JSON and YAML; Kubernetes quantities; image references; the scan of
  the cache; the DNS label check; the builder of a backend; the gitops-commit library; how a clock is
  written and read (RFC 3339); the answers of the API server the KServe driver reads.

  \<^bold>\<open>Bounds.\<close> The loop that doubles devices (\<open>Shape.doubled\<close>) is a partial function into
  an option, since it may not end; it is proved to end for shares up to \<open>2^62\<close> bytes. The regular
  expression matcher of \<open>GoText\<close> counts its iterations down from the length of the text, which is enough because
  an iteration that takes no character stops. Every other loop recurses on a list, a string, a JSON value or a
  decreasing measure. The retry of \<open>Wiring.retried\<close> is at most one. The search of the KV cache check
  is exact below \<open>2^62\<close> tokens, and its properties hold for configurations of modest size
  (\<open>KVCache_Correct\<close>); the claim on unified memory is bounded for at most \<open>2^50\<close> bytes. Conversions of a float out of range to
  an integer follow amd64. Case and white space are ASCII's, where Go's are Unicode's.

  \<^bold>\<open>Not modelled.\<close> Logging, tracing and contexts; the HTTP drivers of Ollama, Lemonade and
  LM Studio; the composition of the LLMInferenceService, its download jobs and inventory scans and the
  API calls of the KServe driver; the informer's machinery; the REST and MCP handlers; identity, the cache agent and process set-up.
  Percentages of a job's progress are rationals.
\<close>

end
